(* ===== verification/Prelude.thy ===== *)
theory Prelude
  imports Main "HOL-Library.Word"
begin

text \<open>
  Shared vocabulary of the development: the machine integers of the program as words of
  their width, Rust's checked and saturating arithmetic on them, the outcome of a Rust
  function (a value, an error or a panic), and little-endian byte codecs.

  Every width keeps its own wrap-around: \<open>u64\<close> is a 64-bit word, \<open>u128\<close> (and the
  \<open>construct_uint!\<close> type \<open>U128\<close>) a 128-bit word, \<open>U256\<close> a 256-bit word. The lemmas in
  \<open>checked_arith\<close> turn each checked operation into an equation between the unsigned
  readings \<open>uint\<close>, so that the component theories reason about integers.
\<close>

named_theorems checked_arith
named_theorems outcome_elims
named_theorems handler_defs

type_synonym u8 = "8 word"
type_synonym u16 = "16 word"
type_synonym u32 = "32 word"
type_synonym u64 = "64 word"
type_synonym u128 = "128 word"
type_synonym u256 = "256 word"
type_synonym byte = "8 word"
type_synonym bytes = "8 word list"

section \<open>Checked arithmetic\<close>

definition checked_add :: "'a::len word \<Rightarrow> 'a word \<Rightarrow> 'a word option" where
  "checked_add a b = (if uint a + uint b < 2 ^ LENGTH('a) then Some (a + b) else None)"

definition checked_sub :: "'a::len word \<Rightarrow> 'a word \<Rightarrow> 'a word option" where
  "checked_sub a b = (if b \<le> a then Some (a - b) else None)"

definition checked_mul :: "'a::len word \<Rightarrow> 'a word \<Rightarrow> 'a word option" where
  "checked_mul a b = (if uint a * uint b < 2 ^ LENGTH('a) then Some (a * b) else None)"

definition checked_div :: "'a::len word \<Rightarrow> 'a word \<Rightarrow> 'a word option" where
  "checked_div a b = (if b = 0 then None else Some (a div b))"

definition checked_rem :: "'a::len word \<Rightarrow> 'a word \<Rightarrow> 'a word option" where
  "checked_rem a b = (if b = 0 then None else Some (a mod b))"

definition checked_pow :: "'a::len word \<Rightarrow> nat \<Rightarrow> 'a word option" where
  "checked_pow a n = (if uint a ^ n < 2 ^ LENGTH('a) then Some (a ^ n) else None)"

definition saturating_sub :: "'a::len word \<Rightarrow> 'a word \<Rightarrow> 'a word" where
  "saturating_sub a b = (if b \<le> a then a - b else 0)"

text \<open>
  Conversions: \<open>widen\<close> is \<open>From\<close>/\<open>as\<close> into a type at least as wide, \<open>narrow\<close> is
  \<open>try_into\<close> (and, unwrapped, the \<open>as_u64\<close>/\<open>as_u128\<close> of the \<open>uint\<close> crate, which panic
  when the value does not fit).
\<close>

definition widen :: "'a::len word \<Rightarrow> 'b::len word" where
  "widen a = ucast a"

definition narrow :: "'a::len word \<Rightarrow> 'b::len word option" where
  "narrow a = (if uint a < 2 ^ LENGTH('b) then Some (ucast a) else None)"

lemma uint_lt_pow [simp]: "uint (a :: 'a::len word) < 2 ^ LENGTH('a)"
  using uint_lt2p by blast

lemma uint_eqI: "uint (a :: 'a::len word) = uint b \<Longrightarrow> a = b"
  by (simp add: word_uint_eq_iff)

lemma uint_pos: "a \<noteq> 0 \<Longrightarrow> 0 < uint a"
  using uint_ge_0 [of a] by (simp add: order.strict_iff_order uint_0_iff)

lemma uint_plus_exact:
  "uint (a :: 'a::len word) + uint b < 2 ^ LENGTH('a) \<Longrightarrow> uint (a + b) = uint a + uint b"
  by (simp add: uint_word_ariths take_bit_eq_mod)

lemma uint_mult_exact:
  "uint (a :: 'a::len word) * uint b < 2 ^ LENGTH('a) \<Longrightarrow> uint (a * b) = uint a * uint b"
  by (simp add: uint_word_ariths take_bit_eq_mod)

lemma uint_minus_exact: "b \<le> (a :: 'a::len word) \<Longrightarrow> uint (a - b) = uint a - uint b"
  by (simp add: word_le_def uint_sub_lem)

lemma uint_power_mod: "uint (a ^ n :: 'a::len word) = uint a ^ n mod 2 ^ LENGTH('a)"
  by (induction n) (auto simp: uint_word_ariths take_bit_eq_mod mod_simps)

lemma uint_power_exact:
  "uint (a :: 'a::len word) ^ n < 2 ^ LENGTH('a) \<Longrightarrow> uint (a ^ n) = uint a ^ n"
  by (simp add: uint_power_mod)

lemma checked_add_Some [checked_arith]:
  "checked_add a b = Some c \<longleftrightarrow> uint c = uint a + uint b"
  unfolding checked_add_def
  by (metis option.distinct(1) option.inject uint_eqI uint_lt_pow uint_plus_exact)

lemma checked_sub_Some [checked_arith]:
  "checked_sub a b = Some c \<longleftrightarrow> uint c = uint a - uint b"
  unfolding checked_sub_def
  by (smt (verit) option.distinct(1) option.inject uint_eqI uint_ge_0 uint_minus_exact word_le_def)

lemma checked_mul_Some [checked_arith]:
  "checked_mul a b = Some c \<longleftrightarrow> uint c = uint a * uint b"
  unfolding checked_mul_def
  by (metis option.distinct(1) option.inject uint_eqI uint_lt_pow uint_mult_exact)

lemma checked_div_Some [checked_arith]:
  "checked_div a b = Some c \<longleftrightarrow> uint b \<noteq> 0 \<and> uint c = uint a div uint b"
  unfolding checked_div_def by (auto simp: uint_div word_uint_eq_iff)

lemma checked_rem_Some [checked_arith]:
  "checked_rem a b = Some c \<longleftrightarrow> uint b \<noteq> 0 \<and> uint c = uint a mod uint b"
  unfolding checked_rem_def by (auto simp: uint_mod word_uint_eq_iff)

lemma checked_pow_Some [checked_arith]:
  "checked_pow a n = Some c \<longleftrightarrow> uint c = uint a ^ n"
  unfolding checked_pow_def
  by (metis option.distinct(1) option.inject uint_eqI uint_lt_pow uint_power_exact)

lemma uint_saturating_sub: "uint (saturating_sub a b) = max 0 (uint a - uint b)"
  unfolding saturating_sub_def by (auto simp: uint_minus_exact word_le_def)

lemma uint_widen: "LENGTH('a) \<le> LENGTH('b) \<Longrightarrow> uint (widen (a :: 'a::len word) :: 'b::len word) = uint a"
  by (simp add: widen_def uint_up_ucast is_up)

lemma uint_widen_64_128 [simp]: "uint (widen (a :: u64) :: u128) = uint a"
  by (rule uint_widen) simp

lemma uint_widen_8_64 [simp]: "uint (widen (a :: u8) :: u64) = uint a"
  by (rule uint_widen) simp

lemma uint_widen_16_64 [simp]: "uint (widen (a :: u16) :: u64) = uint a"
  by (rule uint_widen) simp

lemma uint_widen_128_256 [simp]: "uint (widen (a :: u128) :: u256) = uint a"
  by (rule uint_widen) simp

lemma narrow_Some [checked_arith]:
  "(narrow (a :: 'a::len word) :: 'b::len word option) = Some c \<longleftrightarrow> uint c = uint a"
proof -
  have "uint (ucast a :: 'b word) = uint a" if "uint a < 2 ^ LENGTH('b)"
    using that by (simp add: unsigned_ucast_eq take_bit_eq_mod)
  then show ?thesis
    unfolding narrow_def by (metis option.distinct(1) option.inject uint_eqI uint_lt_pow)
qed

text \<open>When each operation is defined, for the lemmas that rule panics out.\<close>

lemma checked_add_defined:
  "uint a + uint b < 2 ^ LENGTH('a) \<Longrightarrow> \<exists>c. checked_add (a :: 'a::len word) b = Some c"
  by (simp add: checked_add_def)

lemma checked_mul_defined:
  "uint a * uint b < 2 ^ LENGTH('a) \<Longrightarrow> \<exists>c. checked_mul (a :: 'a::len word) b = Some c"
  by (simp add: checked_mul_def)

lemma checked_sub_None: "checked_sub a b = None \<longleftrightarrow> uint a < uint b"
  by (simp add: checked_sub_def word_le_def not_le)

lemma checked_add_None:
  "checked_add (a :: 'a::len word) b = None \<longleftrightarrow> 2 ^ LENGTH('a) \<le> uint a + uint b"
  by (auto simp: checked_add_def)

lemma checked_mul_None:
  "checked_mul (a :: 'a::len word) b = None \<longleftrightarrow> 2 ^ LENGTH('a) \<le> uint a * uint b"
  by (auto simp: checked_mul_def)

lemma checked_div_None: "checked_div a b = None \<longleftrightarrow> uint b = 0"
  by (simp add: checked_div_def word_uint_eq_iff)

lemma mult_u64_lt: "uint (a :: u64) * uint (b :: u64) < 2 ^ 128"
proof -
  have "uint a * uint b \<le> (2 ^ 64 - 1) * (2 ^ 64 - 1)"
    using uint_lt_pow [of a] uint_lt_pow [of b] by (intro mult_mono) auto
  then show ?thesis by simp
qed

lemma checked_mul_widen_u64:
  "\<exists>c. checked_mul (widen (a :: u64) :: u128) (widen (b :: u64)) = Some c"
  by (rule checked_mul_defined) (use mult_u64_lt [of a b] in simp)

text \<open>Quotient and remainder as variables, for the nonlinear proofs.\<close>

lemma int_divmodE:
  fixes a b :: int
  assumes "0 < b"
  obtains d m where "a div b = d" and "a mod b = m" and "a = b * d + m" and "0 \<le> m" and "m < b"
  using assms by (metis mult_div_mod_eq pos_mod_bound pos_mod_sign)

section \<open>Outcomes\<close>

text \<open>
  A Rust function of the program returns a value (\<open>Done\<close>), returns \<open>Err\<close> (\<open>Fail\<close>), or
  panics (\<open>Panic\<close>: an \<open>unwrap\<close> of \<open>None\<close> or \<open>Err\<close>, an overflow under
  \<open>overflow-checks = true\<close>, \<open>unreachable!\<close>). The runtime discards every account change
  of an instruction that fails or panics, so new states are carried by \<open>Done\<close> only.

  \<open>ProgramError\<close> is the runtime's error type; \<open>Custom n\<close> carries the program's own error
  number, \<open>OtherError n\<close> stands for the errors other programs return.
\<close>

datatype program_error =
    Custom u32
  | InvalidInstructionData
  | NotEnoughAccountKeys
  | OtherError nat

datatype 'a outcome = Done 'a | Fail program_error | Panic

fun and_then :: "'a outcome \<Rightarrow> ('a \<Rightarrow> 'b outcome) \<Rightarrow> 'b outcome" where
  "and_then (Done x) f = f x"
| "and_then (Fail e) f = Fail e"
| "and_then Panic f = Panic"

fun unwrap :: "'a option \<Rightarrow> 'a outcome" where
  "unwrap None = Panic"
| "unwrap (Some x) = Done x"

fun unwrap_result :: "'a outcome \<Rightarrow> 'a outcome" where
  "unwrap_result (Done x) = Done x"
| "unwrap_result (Fail e) = Panic"
| "unwrap_result Panic = Panic"

fun ok_or_else :: "program_error \<Rightarrow> 'a option \<Rightarrow> 'a outcome" where
  "ok_or_else e None = Fail e"
| "ok_or_else e (Some x) = Done x"

fun map_err :: "program_error \<Rightarrow> 'a outcome \<Rightarrow> 'a outcome" where
  "map_err e (Fail _) = Fail e"
| "map_err e r = r"

fun map_outcome_list :: "('a \<Rightarrow> 's \<Rightarrow> 's outcome) \<Rightarrow> 'a list \<Rightarrow> 's \<Rightarrow> 's outcome" where
  "map_outcome_list f [] s = Done s"
| "map_outcome_list f (x # xs) s = and_then (f x s) (\<lambda>s'. map_outcome_list f xs s')"

lemma and_then_Done: "and_then m f = Done y \<longleftrightarrow> (\<exists>x. m = Done x \<and> f x = Done y)"
  by (cases m) auto

lemma and_then_assoc: "and_then (and_then m f) g = and_then m (\<lambda>x. and_then (f x) g)"
  by (cases m) auto

lemma unwrap_Done [simp]: "unwrap m = Done x \<longleftrightarrow> m = Some x"
  by (cases m) auto

lemma unwrap_not_Fail [simp]: "unwrap m \<noteq> Fail e"
  by (cases m) auto

lemma unwrap_Panic: "unwrap m = Panic \<longleftrightarrow> m = None"
  by (cases m) auto

lemma unwrap_result_Done [simp]: "unwrap_result m = Done x \<longleftrightarrow> m = Done x"
  by (cases m) auto

lemma unwrap_result_not_Fail [simp]: "unwrap_result m \<noteq> Fail e"
  by (cases m) auto

lemma ok_or_else_Done [simp]: "ok_or_else e m = Done x \<longleftrightarrow> m = Some x"
  by (cases m) auto

lemma map_err_Done [simp]: "map_err e m = Done x \<longleftrightarrow> m = Done x"
  by (cases m) auto

lemma and_then_DoneE [outcome_elims]:
  assumes "and_then m f = Done y"
  obtains x where "m = Done x" and "f x = Done y"
  using assms by (auto simp: and_then_Done)

lemma if_Fail_Done [simp]:
  "(if c then Fail e else m) = Done y \<longleftrightarrow> \<not> c \<and> m = Done y"
  by auto

lemma if_Panic_Done [simp]:
  "(if c then Panic else m) = Done y \<longleftrightarrow> \<not> c \<and> m = Done y"
  by auto

lemma map_outcome_list_append:
  "map_outcome_list f (xs @ ys) s =
     and_then (map_outcome_list f xs s) (\<lambda>s'. map_outcome_list f ys s')"
  by (induction xs arbitrary: s) (auto simp: and_then_assoc fun_eq_iff intro: arg_cong2 [of _ _ _ _ and_then])

text \<open>An invariant of every step of a loop with early exit is an invariant of the loop.\<close>

lemma map_outcome_list_invariant:
  assumes "\<And>x s s'. x \<in> set xs \<Longrightarrow> P s \<Longrightarrow> f x s = Done s' \<Longrightarrow> P s'"
    and "P s" and "map_outcome_list f xs s = Done s'"
  shows "P s'"
  using assms by (induction xs arbitrary: s) (auto simp: and_then_Done)

section \<open>Little-endian bytes\<close>

text \<open>
  \<open>to_le_bytes\<close> and \<open>from_le_bytes\<close> of the integer types: \<open>le_enc n v\<close> is the \<open>n\<close> low
  bytes of \<open>v\<close>, least significant first, and \<open>le_val\<close> reads them back.
\<close>

fun le_enc :: "nat \<Rightarrow> int \<Rightarrow> bytes" where
  "le_enc 0 v = []"
| "le_enc (Suc n) v = word_of_int v # le_enc n (v div 256)"

fun le_val :: "bytes \<Rightarrow> int" where
  "le_val [] = 0"
| "le_val (b # bs) = uint b + 256 * le_val bs"

definition to_le_bytes :: "'a::len word \<Rightarrow> bytes" where
  "to_le_bytes w = le_enc (LENGTH('a) div 8) (uint w)"

definition from_le_bytes :: "bytes \<Rightarrow> 'a::len word" where
  "from_le_bytes bs = word_of_int (le_val bs)"

lemma length_le_enc [simp]: "length (le_enc n v) = n"
  by (induction n arbitrary: v) auto

lemma length_to_le_bytes: "length (to_le_bytes (w :: 'a::len word)) = LENGTH('a) div 8"
  by (simp add: to_le_bytes_def)

lemma le_val_nonneg [simp]: "0 \<le> le_val bs"
  by (induction bs) auto

lemma le_val_bound: "le_val bs < 256 ^ length bs"
proof (induction bs)
  case (Cons b bs)
  have "uint b \<le> 255" using uint_lt_pow [of b] by simp
  moreover have "256 * le_val bs \<le> 256 * (256 ^ length bs - 1)"
    using Cons.IH by simp
  ultimately have "uint b + 256 * le_val bs \<le> 255 + 256 * (256 ^ length bs - 1)"
    by linarith
  then show ?case by (simp add: algebra_simps)
qed simp

lemma le_val_le_enc: "0 \<le> v \<Longrightarrow> v < 256 ^ n \<Longrightarrow> le_val (le_enc n v) = v"
proof (induction n arbitrary: v)
  case (Suc n)
  have "v div 256 < 256 ^ n"
    using Suc.prems(2) by simp
  then have "le_val (le_enc n (v div 256)) = v div 256"
    using Suc by simp
  then show ?case
    by (simp add: uint_word_of_int take_bit_eq_mod)
qed simp

lemma le_enc_le_val: "le_enc (length bs) (le_val bs) = bs"
proof (induction bs)
  case (Cons b bs)
  have b: "0 \<le> uint b" "uint b < 256" using uint_lt_pow [of b] by simp_all
  have "(uint b + 256 * le_val bs) div 256 = le_val bs"
    using b by (simp add: div_add1_eq)
  moreover have "(word_of_int (uint b + 256 * le_val bs) :: byte) = b"
  proof -
    have "take_bit LENGTH(8) (uint b + 256 * le_val bs) = uint b"
      using b by (simp add: take_bit_eq_mod)
    then show ?thesis
      by (intro uint_eqI) (simp only: uint_word_of_int_eq)
  qed
  ultimately show ?case using Cons.IH by simp
qed simp

lemma from_to_le_bytes:
  assumes "8 dvd LENGTH('a::len)"
  shows "from_le_bytes (to_le_bytes (w :: 'a word)) = w"
proof -
  have "(256 :: int) ^ (LENGTH('a) div 8) = 2 ^ (8 * (LENGTH('a) div 8))"
    by (simp add: power_mult)
  also have "8 * (LENGTH('a) div 8) = LENGTH('a)"
    using assms by simp
  finally have "uint w < 256 ^ (LENGTH('a) div 8)"
    by simp
  then show ?thesis
    by (simp add: from_le_bytes_def to_le_bytes_def le_val_le_enc)
qed

end
