(* ===== verification/Amm_Error.thy ===== *)
theory Amm_Error
  imports Prelude
begin

text \<open>
  \<open>program/src/error.rs\<close>: the program's error enumeration, its conversion into the
  runtime's \<open>ProgramError::Custom\<close> (the constructor's index as a \<open>u32\<close>), the derived
  \<open>FromPrimitive\<close> decoding, and the message \<open>PrintProgramError\<close> logs.
\<close>

datatype amm_error =
    AlreadyInUse
  | InvalidProgramAddress
  | ExpectedMint
  | ExpectedAccount
  | InvalidCoinVault
  | InvalidPCVault
  | InvalidTokenLP
  | InvalidDestTokenCoin
  | InvalidDestTokenPC
  | InvalidPoolMint
  | InvalidOpenOrders
  | InvalidMarket
  | InvalidMarketProgram
  | InvalidTargetOrders
  | AccountNeedWriteable
  | AccountNeedReadOnly
  | InvalidCoinMint
  | InvalidPCMint
  | InvalidOwner
  | InvalidSupply
  | InvalidDelegate
  | InvalidSignAccount
  | InvalidStatus
  | InvalidInstruction
  | WrongAccountsNumber
  | InvalidTargetAccountOwner
  | InvalidTargetOwner
  | InvalidAmmAccountOwner
  | InvalidParamsSet
  | InvalidInput
  | ExceededSlippage
  | CalculationExRateFailure
  | CheckedSubOverflow
  | CheckedAddOverflow
  | CheckedMulOverflow
  | CheckedDivOverflow
  | CheckedEmptyFunds
  | CalcPnlError
  | InvalidSplTokenProgram
  | TakePnlError
  | InsufficientFunds
  | ConversionFailure
  | InvalidUserToken
  | InvalidSrmMint
  | InvalidSrmToken
  | TooManyOpenOrders
  | OrderAtSlotIsPlaced
  | InvalidSysProgramAddress
  | InvalidFee
  | RepeatCreateAmm
  | NotAllowZeroLP
  | InvalidCloseAuthority
  | InvalidFreezeAuthority
  | InvalidReferPCMint
  | InvalidConfigAccount
  | RepeatCreateConfigAccount
  | MarketLotSizeIsTooLarge
  | InitLpAmountTooLess
  | UnknownAmmError

primrec err_code :: "amm_error \<Rightarrow> u32" where
  "err_code AlreadyInUse = 0"
| "err_code InvalidProgramAddress = 1"
| "err_code ExpectedMint = 2"
| "err_code ExpectedAccount = 3"
| "err_code InvalidCoinVault = 4"
| "err_code InvalidPCVault = 5"
| "err_code InvalidTokenLP = 6"
| "err_code InvalidDestTokenCoin = 7"
| "err_code InvalidDestTokenPC = 8"
| "err_code InvalidPoolMint = 9"
| "err_code InvalidOpenOrders = 10"
| "err_code InvalidMarket = 11"
| "err_code InvalidMarketProgram = 12"
| "err_code InvalidTargetOrders = 13"
| "err_code AccountNeedWriteable = 14"
| "err_code AccountNeedReadOnly = 15"
| "err_code InvalidCoinMint = 16"
| "err_code InvalidPCMint = 17"
| "err_code InvalidOwner = 18"
| "err_code InvalidSupply = 19"
| "err_code InvalidDelegate = 20"
| "err_code InvalidSignAccount = 21"
| "err_code InvalidStatus = 22"
| "err_code InvalidInstruction = 23"
| "err_code WrongAccountsNumber = 24"
| "err_code InvalidTargetAccountOwner = 25"
| "err_code InvalidTargetOwner = 26"
| "err_code InvalidAmmAccountOwner = 27"
| "err_code InvalidParamsSet = 28"
| "err_code InvalidInput = 29"
| "err_code ExceededSlippage = 30"
| "err_code CalculationExRateFailure = 31"
| "err_code CheckedSubOverflow = 32"
| "err_code CheckedAddOverflow = 33"
| "err_code CheckedMulOverflow = 34"
| "err_code CheckedDivOverflow = 35"
| "err_code CheckedEmptyFunds = 36"
| "err_code CalcPnlError = 37"
| "err_code InvalidSplTokenProgram = 38"
| "err_code TakePnlError = 39"
| "err_code InsufficientFunds = 40"
| "err_code ConversionFailure = 41"
| "err_code InvalidUserToken = 42"
| "err_code InvalidSrmMint = 43"
| "err_code InvalidSrmToken = 44"
| "err_code TooManyOpenOrders = 45"
| "err_code OrderAtSlotIsPlaced = 46"
| "err_code InvalidSysProgramAddress = 47"
| "err_code InvalidFee = 48"
| "err_code RepeatCreateAmm = 49"
| "err_code NotAllowZeroLP = 50"
| "err_code InvalidCloseAuthority = 51"
| "err_code InvalidFreezeAuthority = 52"
| "err_code InvalidReferPCMint = 53"
| "err_code InvalidConfigAccount = 54"
| "err_code RepeatCreateConfigAccount = 55"
| "err_code MarketLotSizeIsTooLarge = 56"
| "err_code InitLpAmountTooLess = 57"
| "err_code UnknownAmmError = 58"

definition amm_errors :: "amm_error list" where
  "amm_errors =
    [AlreadyInUse, InvalidProgramAddress, ExpectedMint, ExpectedAccount,
     InvalidCoinVault, InvalidPCVault, InvalidTokenLP, InvalidDestTokenCoin,
     InvalidDestTokenPC, InvalidPoolMint, InvalidOpenOrders, InvalidMarket,
     InvalidMarketProgram, InvalidTargetOrders, AccountNeedWriteable, AccountNeedReadOnly,
     InvalidCoinMint, InvalidPCMint, InvalidOwner, InvalidSupply,
     InvalidDelegate, InvalidSignAccount, InvalidStatus, InvalidInstruction,
     WrongAccountsNumber, InvalidTargetAccountOwner, InvalidTargetOwner, InvalidAmmAccountOwner,
     InvalidParamsSet, InvalidInput, ExceededSlippage, CalculationExRateFailure,
     CheckedSubOverflow, CheckedAddOverflow, CheckedMulOverflow, CheckedDivOverflow,
     CheckedEmptyFunds, CalcPnlError, InvalidSplTokenProgram, TakePnlError,
     InsufficientFunds, ConversionFailure, InvalidUserToken, InvalidSrmMint,
     InvalidSrmToken, TooManyOpenOrders, OrderAtSlotIsPlaced, InvalidSysProgramAddress,
     InvalidFee, RepeatCreateAmm, NotAllowZeroLP, InvalidCloseAuthority,
     InvalidFreezeAuthority, InvalidReferPCMint, InvalidConfigAccount, RepeatCreateConfigAccount,
     MarketLotSizeIsTooLarge, InitLpAmountTooLess, UnknownAmmError]"

definition err_from_u32 :: "u32 \<Rightarrow> amm_error option" where
  "err_from_u32 n = (if unat n < length amm_errors then Some (amm_errors ! unat n) else None)"

definition program_error_of :: "amm_error \<Rightarrow> program_error" where
  "program_error_of e = Custom (err_code e)"

definition err :: "amm_error \<Rightarrow> 'a outcome" where
  "err e = Fail (program_error_of e)"

definition ok_or :: "amm_error \<Rightarrow> 'a option \<Rightarrow> 'a outcome" where
  "ok_or e m = ok_or_else (program_error_of e) m"

primrec print_msg :: "amm_error \<Rightarrow> string" where
  "print_msg AlreadyInUse = ''Error: AlreadyInUse''"
| "print_msg InvalidProgramAddress = ''Error: InvalidProgramAddress''"
| "print_msg ExpectedMint = ''Error: ExpectedMint''"
| "print_msg ExpectedAccount = ''Error: ExpectedAccount''"
| "print_msg InvalidCoinVault = ''Error: InvalidCoinVault''"
| "print_msg InvalidPCVault = ''Error: InvalidPCVault''"
| "print_msg InvalidTokenLP = ''Error: InvalidTokenLP''"
| "print_msg InvalidDestTokenCoin = ''Error: InvalidDestTokenCoin''"
| "print_msg InvalidDestTokenPC = ''Error: InvalidDestTokenPC''"
| "print_msg InvalidPoolMint = ''Error: InvalidPoolMint''"
| "print_msg InvalidOpenOrders = ''Error: InvalidOpenOrders''"
| "print_msg InvalidMarket = ''Error: InvalidMarket''"
| "print_msg InvalidMarketProgram = ''Error: InvalidMarketProgram''"
| "print_msg InvalidTargetOrders = ''Error: InvalidTargetOrders''"
| "print_msg AccountNeedWriteable = ''Error: AccountNeedWriteable''"
| "print_msg AccountNeedReadOnly = ''Error: AccountNeedReadOnly''"
| "print_msg InvalidCoinMint = ''Error: InvalidCoinMint''"
| "print_msg InvalidPCMint = ''Error: InvalidPCMint''"
| "print_msg InvalidOwner = ''Error: InvalidOwner''"
| "print_msg InvalidSupply = ''Error: InvalidSupply''"
| "print_msg InvalidDelegate = ''Error: InvalidDelegate''"
| "print_msg InvalidSignAccount = ''Error: Invalid Sign Account''"
| "print_msg InvalidStatus = ''Error: InvalidStatus''"
| "print_msg InvalidInstruction = ''Error: InvalidInstruction''"
| "print_msg WrongAccountsNumber = ''Error: WrongAccountsNumber''"
| "print_msg InvalidTargetAccountOwner = ''Error: The target account owner is not match with this program''"
| "print_msg InvalidTargetOwner = ''Error: The owner saved in target is not match with this amm pool''"
| "print_msg InvalidAmmAccountOwner = ''Error: The amm account owner is not match with this program''"
| "print_msg InvalidParamsSet = ''Error: Params Set is Invalid''"
| "print_msg InvalidInput = ''Error: InvalidInput''"
| "print_msg ExceededSlippage = ''Error: exceeds desired slippage limit''"
| "print_msg CalculationExRateFailure = ''Error: CalculationExRateFailure''"
| "print_msg CheckedSubOverflow = ''Error: Checked_Sub Overflow''"
| "print_msg CheckedAddOverflow = ''Error: Checked_Add Overflow''"
| "print_msg CheckedMulOverflow = ''Error: Checked_Mul Overflow''"
| "print_msg CheckedDivOverflow = ''Error: Checked_Div Overflow''"
| "print_msg CheckedEmptyFunds = ''Error: CheckedEmptyFunds''"
| "print_msg CalcPnlError = ''Error: CalcPnlError''"
| "print_msg InvalidSplTokenProgram = ''Error: InvalidSplTokenProgram''"
| "print_msg TakePnlError = ''Error: TakePnlError''"
| "print_msg InsufficientFunds = ''Error: insufficient funds''"
| "print_msg ConversionFailure = ''Error: Conversion to or from u64 failed.''"
| "print_msg InvalidUserToken = ''Error: User token input does not match amm''"
| "print_msg InvalidSrmMint = ''Error: InvalidSrmMint''"
| "print_msg InvalidSrmToken = ''Error: InvalidSrmToken''"
| "print_msg TooManyOpenOrders = ''Error: TooManyOpenOrders''"
| "print_msg OrderAtSlotIsPlaced = ''Error: OrderAtSlotIsPlaced''"
| "print_msg InvalidSysProgramAddress = ''Error: InvalidSysProgramAddress''"
| "print_msg InvalidFee = ''Error: InvalidFee''"
| "print_msg RepeatCreateAmm = ''Error: RepeatCreateAmm''"
| "print_msg NotAllowZeroLP = ''Error: NotAllowZeroLP''"
| "print_msg InvalidCloseAuthority = ''Error: Token account has a close authority''"
| "print_msg InvalidFreezeAuthority = ''Error: Pool token mint has a freeze authority''"
| "print_msg InvalidReferPCMint = ''Error: InvalidReferPCMint''"
| "print_msg InvalidConfigAccount = ''Error: InvalidConfigAccount''"
| "print_msg RepeatCreateConfigAccount = ''Error: RepeatCreateConfigAccount''"
| "print_msg MarketLotSizeIsTooLarge = ''Error: Market lotSize is too large''"
| "print_msg InitLpAmountTooLess = ''Error: Init lp amount is too less(Because 10**lp_decimals amount lp will be locked)''"
| "print_msg UnknownAmmError = ''Error: UnknownAmmError''"

lemma length_amm_errors [simp]: "length amm_errors = 59"
  by (simp add: amm_errors_def)

lemma unat_err_code: "amm_errors ! unat (err_code e) = e \<and> unat (err_code e) < 59"
  by (cases e) (simp_all add: amm_errors_def)

lemma err_from_u32_code: "err_from_u32 (err_code e) = Some e"
  using unat_err_code [of e] by (simp add: err_from_u32_def)

lemma err_code_inject [simp]: "err_code a = err_code b \<longleftrightarrow> a = b"
  by (metis err_from_u32_code option.inject)

lemma program_error_of_inject [simp]: "program_error_of a = program_error_of b \<longleftrightarrow> a = b"
  by (simp add: program_error_of_def)

lemma err_simps [simp]:
  "err e \<noteq> Done x" "err e \<noteq> Panic" "err a = err b \<longleftrightarrow> a = b"
  "and_then (err e) f = err e" "err e = Fail p \<longleftrightarrow> p = program_error_of e"
  by (auto simp: err_def)

lemma if_err_Done [simp]: "(if c then err e else m) = Done y \<longleftrightarrow> \<not> c \<and> m = Done y"
  by auto

lemma ok_or_simps [simp]:
  "ok_or e (Some x) = Done x" "ok_or e None = err e" "ok_or e m = Done y \<longleftrightarrow> m = Some y"
  "ok_or e m \<noteq> Panic"
  by (cases m; simp add: ok_or_def err_def)+

end
