(* ===== verification/Amm_Types.thy ===== *)
theory Amm_Types
  imports Amm_Error
begin

text \<open>
  \<open>program/src/state.rs\<close>, data: the status, state and parameter enumerations with their
  \<open>u64\<close> encodings and permissions, and the structs of the program's accounts as records.
  A field keeps the source's name, prefixed with the record's initials where the name
  occurs in several structs. A \<open>Pubkey\<close> is its 32 bytes read as a 256-bit word; a Rust
  array is a list, whose length the well-formedness predicates fix.
\<close>

type_synonym pubkey = "256 word"

definition TEN_THOUSAND :: u64 where
  "TEN_THOUSAND = 10000"

definition MAX_ORDER_LIMIT :: nat where
  "MAX_ORDER_LIMIT = 10"

definition u128_MAX :: u128 where
  "u128_MAX = - 1"

section \<open>Enumerations\<close>

datatype amm_status =
    Uninitialized
  | Initialized
  | Disabled
  | WithdrawOnly
  | LiquidityOnly
  | OrderBookOnly
  | SwapOnly
  | WaitingTrade

definition status_from_u64 :: "u64 \<Rightarrow> amm_status outcome" where
  "status_from_u64 n =
     (if n = 0 then Done Uninitialized
      else if n = 1 then Done Initialized
      else if n = 2 then Done Disabled
      else if n = 3 then Done WithdrawOnly
      else if n = 4 then Done LiquidityOnly
      else if n = 5 then Done OrderBookOnly
      else if n = 6 then Done SwapOnly
      else if n = 7 then Done WaitingTrade
      else Panic)"

primrec status_into_u64 :: "amm_status \<Rightarrow> u64" where
  "status_into_u64 Uninitialized = 0"
| "status_into_u64 Initialized = 1"
| "status_into_u64 Disabled = 2"
| "status_into_u64 WithdrawOnly = 3"
| "status_into_u64 LiquidityOnly = 4"
| "status_into_u64 OrderBookOnly = 5"
| "status_into_u64 SwapOnly = 6"
| "status_into_u64 WaitingTrade = 7"

definition valid_status :: "u64 \<Rightarrow> bool" where
  "valid_status n \<longleftrightarrow> n = 1 \<or> n = 2 \<or> n = 3 \<or> n = 4 \<or> n = 5 \<or> n = 6 \<or> n = 7"

primrec deposit_permission :: "amm_status \<Rightarrow> bool" where
  "deposit_permission Uninitialized = False"
| "deposit_permission Initialized = True"
| "deposit_permission Disabled = False"
| "deposit_permission WithdrawOnly = False"
| "deposit_permission LiquidityOnly = True"
| "deposit_permission OrderBookOnly = True"
| "deposit_permission SwapOnly = True"
| "deposit_permission WaitingTrade = True"

primrec withdraw_permission :: "amm_status \<Rightarrow> bool" where
  "withdraw_permission Uninitialized = False"
| "withdraw_permission Initialized = True"
| "withdraw_permission Disabled = False"
| "withdraw_permission WithdrawOnly = True"
| "withdraw_permission LiquidityOnly = True"
| "withdraw_permission OrderBookOnly = True"
| "withdraw_permission SwapOnly = True"
| "withdraw_permission WaitingTrade = True"

primrec swap_permission :: "amm_status \<Rightarrow> bool" where
  "swap_permission Uninitialized = False"
| "swap_permission Initialized = True"
| "swap_permission Disabled = False"
| "swap_permission WithdrawOnly = False"
| "swap_permission LiquidityOnly = False"
| "swap_permission OrderBookOnly = False"
| "swap_permission SwapOnly = True"
| "swap_permission WaitingTrade = True"

primrec orderbook_permission :: "amm_status \<Rightarrow> bool" where
  "orderbook_permission Uninitialized = False"
| "orderbook_permission Initialized = True"
| "orderbook_permission Disabled = False"
| "orderbook_permission WithdrawOnly = False"
| "orderbook_permission LiquidityOnly = False"
| "orderbook_permission OrderBookOnly = True"
| "orderbook_permission SwapOnly = False"
| "orderbook_permission WaitingTrade = False"

datatype amm_state =
    InvlidState
  | IdleState
  | CancelAllOrdersState
  | PlanOrdersState
  | CancelOrderState
  | PlaceOrdersState
  | PurgeOrderState

definition state_from_u64 :: "u64 \<Rightarrow> amm_state outcome" where
  "state_from_u64 n =
     (if n = 0 then Done InvlidState
      else if n = 1 then Done IdleState
      else if n = 2 then Done CancelAllOrdersState
      else if n = 3 then Done PlanOrdersState
      else if n = 4 then Done CancelOrderState
      else if n = 5 then Done PlaceOrdersState
      else if n = 6 then Done PurgeOrderState
      else Panic)"

primrec state_into_u64 :: "amm_state \<Rightarrow> u64" where
  "state_into_u64 InvlidState = 0"
| "state_into_u64 IdleState = 1"
| "state_into_u64 CancelAllOrdersState = 2"
| "state_into_u64 PlanOrdersState = 3"
| "state_into_u64 CancelOrderState = 4"
| "state_into_u64 PlaceOrdersState = 5"
| "state_into_u64 PurgeOrderState = 6"

definition valid_state :: "u64 \<Rightarrow> bool" where
  "valid_state n \<longleftrightarrow> n = 0 \<or> n = 1 \<or> n = 2 \<or> n = 3 \<or> n = 4 \<or> n = 5 \<or> n = 6"

datatype amm_params =
    ParamStatus | ParamState | OrderNum | Depth | AmountWave | MinPriceMultiplier
  | MaxPriceMultiplier | MinSize | VolMaxCutRatio | ParamFees | AmmOwner | SetOpenTime
  | LastOrderDistance | InitOrderDepth | SetSwitchTime | ClearOpenTime | Seperate
  | UpdateOpenOrder

definition params_from_u64 :: "u64 \<Rightarrow> amm_params outcome" where
  "params_from_u64 n =
     (if n = 0 then Done ParamStatus
      else if n = 1 then Done ParamState
      else if n = 2 then Done OrderNum
      else if n = 3 then Done Depth
      else if n = 4 then Done AmountWave
      else if n = 5 then Done MinPriceMultiplier
      else if n = 6 then Done MaxPriceMultiplier
      else if n = 7 then Done MinSize
      else if n = 8 then Done VolMaxCutRatio
      else if n = 9 then Done ParamFees
      else if n = 10 then Done AmmOwner
      else if n = 11 then Done SetOpenTime
      else if n = 12 then Done LastOrderDistance
      else if n = 13 then Done InitOrderDepth
      else if n = 14 then Done SetSwitchTime
      else if n = 15 then Done ClearOpenTime
      else if n = 16 then Done Seperate
      else if n = 17 then Done UpdateOpenOrder
      else Panic)"

primrec params_into_u64 :: "amm_params \<Rightarrow> u64" where
  "params_into_u64 ParamStatus = 0"
| "params_into_u64 ParamState = 1"
| "params_into_u64 OrderNum = 2"
| "params_into_u64 Depth = 3"
| "params_into_u64 AmountWave = 4"
| "params_into_u64 MinPriceMultiplier = 5"
| "params_into_u64 MaxPriceMultiplier = 6"
| "params_into_u64 MinSize = 7"
| "params_into_u64 VolMaxCutRatio = 8"
| "params_into_u64 ParamFees = 9"
| "params_into_u64 AmmOwner = 10"
| "params_into_u64 SetOpenTime = 11"
| "params_into_u64 LastOrderDistance = 12"
| "params_into_u64 InitOrderDepth = 13"
| "params_into_u64 SetSwitchTime = 14"
| "params_into_u64 ClearOpenTime = 15"
| "params_into_u64 Seperate = 16"
| "params_into_u64 UpdateOpenOrder = 17"

datatype amm_reset_flag = ResetYes | ResetNo

definition reset_flag_from_u64 :: "u64 \<Rightarrow> amm_reset_flag outcome" where
  "reset_flag_from_u64 n =
     (if n = 0 then Done ResetYes else if n = 1 then Done ResetNo else Panic)"

primrec reset_flag_into_u64 :: "amm_reset_flag \<Rightarrow> u64" where
  "reset_flag_into_u64 ResetYes = 0"
| "reset_flag_into_u64 ResetNo = 1"

datatype simulate_params = PoolInfo | SwapBaseInInfo | SwapBaseOutInfo | RunCrankInfo

definition simulate_from_u64 :: "u64 \<Rightarrow> simulate_params outcome" where
  "simulate_from_u64 n =
     (if n = 0 then Done PoolInfo
      else if n = 1 then Done SwapBaseInInfo
      else if n = 2 then Done SwapBaseOutInfo
      else if n = 3 then Done RunCrankInfo
      else Panic)"

primrec simulate_into_u64 :: "simulate_params \<Rightarrow> u64" where
  "simulate_into_u64 PoolInfo = 0"
| "simulate_into_u64 SwapBaseInInfo = 1"
| "simulate_into_u64 SwapBaseOutInfo = 2"
| "simulate_into_u64 RunCrankInfo = 3"

section \<open>Structs\<close>

record target_order =
  price :: u64
  vol :: u64

record target_orders =
  to_owner :: "u64 list"
  buy_orders :: "target_order list"
  to_padding1 :: "u64 list"
  target_x :: u128
  target_y :: u128
  plan_x_buy :: u128
  plan_y_buy :: u128
  plan_x_sell :: u128
  plan_y_sell :: u128
  placed_x :: u128
  placed_y :: u128
  calc_pnl_x :: u128
  calc_pnl_y :: u128
  sell_orders :: "target_order list"
  to_padding2 :: "u64 list"
  replace_buy_client_id :: "u64 list"
  replace_sell_client_id :: "u64 list"
  last_order_numerator :: u64
  last_order_denominator :: u64
  plan_orders_cur :: u64
  place_orders_cur :: u64
  valid_buy_order_num :: u64
  valid_sell_order_num :: u64
  to_padding3 :: "u64 list"
  to_free_slot_bits :: u128

record fees =
  min_separate_numerator :: u64
  min_separate_denominator :: u64
  trade_fee_numerator :: u64
  trade_fee_denominator :: u64
  pnl_numerator :: u64
  pnl_denominator :: u64
  swap_fee_numerator :: u64
  swap_fee_denominator :: u64

record state_data =
  need_take_pnl_coin :: u64
  need_take_pnl_pc :: u64
  total_pnl_pc :: u64
  total_pnl_coin :: u64
  pool_open_time :: u64
  sd_padding :: "u64 list"
  orderbook_to_init_time :: u64
  swap_coin_in_amount :: u128
  swap_pc_out_amount :: u128
  swap_acc_pc_fee :: u64
  swap_pc_in_amount :: u128
  swap_coin_out_amount :: u128
  swap_acc_coin_fee :: u64

record amm_info =
  amm_status :: u64
  amm_nonce :: u64
  amm_order_num :: u64
  amm_depth :: u64
  coin_decimals :: u64
  pc_decimals :: u64
  amm_state :: u64
  amm_reset_flag :: u64
  min_size :: u64
  vol_max_cut_ratio :: u64
  amount_wave :: u64
  amm_coin_lot_size :: u64
  amm_pc_lot_size :: u64
  min_price_multiplier :: u64
  max_price_multiplier :: u64
  sys_decimal_value :: u64
  amm_fees :: fees
  amm_state_data :: state_data
  amm_coin_vault :: pubkey
  amm_pc_vault :: pubkey
  coin_vault_mint :: pubkey
  pc_vault_mint :: pubkey
  amm_lp_mint :: pubkey
  amm_open_orders :: pubkey
  amm_market :: pubkey
  amm_market_program :: pubkey
  amm_target_orders :: pubkey
  amm_padding1 :: "u64 list"
  amm_owner :: pubkey
  lp_amount :: u64
  amm_client_order_id :: u64
  recent_epoch :: u64
  amm_padding2 :: u64

record amm_config =
  pnl_owner :: pubkey
  cancel_owner :: pubkey
  pending_1 :: "u64 list"
  pending_2 :: "u64 list"
  create_pool_fee :: u64

record last_order_distance =
  lod_numerator :: u64
  lod_denominator :: u64

text \<open>The array lengths the struct types fix.\<close>

definition wf_target_orders :: "target_orders \<Rightarrow> bool" where
  "wf_target_orders t \<longleftrightarrow>
     length (to_owner t) = 4 \<and> length (buy_orders t) = 50 \<and> length (to_padding1 t) = 8 \<and>
     length (sell_orders t) = 50 \<and> length (to_padding2 t) = 6 \<and>
     length (replace_buy_client_id t) = MAX_ORDER_LIMIT \<and>
     length (replace_sell_client_id t) = MAX_ORDER_LIMIT \<and> length (to_padding3 t) = 10"

section \<open>Encodings round-trip\<close>

lemma status_from_into: "status_from_u64 (status_into_u64 s) = Done s"
  by (cases s) (simp_all add: status_from_u64_def)

lemma status_from_Done: "status_from_u64 n = Done s \<longleftrightarrow> n = status_into_u64 s"
proof
  assume "status_from_u64 n = Done s"
  then show "n = status_into_u64 s"
    by (auto simp: status_from_u64_def split: if_splits)
qed (simp add: status_from_into)

lemma status_into_u64_inject [simp]: "status_into_u64 a = status_into_u64 b \<longleftrightarrow> a = b"
  by (metis outcome.inject(1) status_from_into)

lemma valid_status_iff:
  "valid_status n \<longleftrightarrow> (\<exists>s. s \<noteq> Uninitialized \<and> status_from_u64 n = Done s)"
proof -
  have "valid_status (status_into_u64 s) \<longleftrightarrow> s \<noteq> Uninitialized" for s
    by (cases s) (simp_all add: valid_status_def)
  moreover have "\<exists>s. n = status_into_u64 s" if "valid_status n"
    using that unfolding valid_status_def by (metis status_into_u64.simps(2-8))
  ultimately show ?thesis
    by (auto simp: status_from_Done)
qed

lemma state_from_into: "state_from_u64 (state_into_u64 s) = Done s"
  by (cases s) (simp_all add: state_from_u64_def)

lemma state_from_Done: "state_from_u64 n = Done s \<longleftrightarrow> n = state_into_u64 s"
proof
  assume "state_from_u64 n = Done s"
  then show "n = state_into_u64 s"
    by (auto simp: state_from_u64_def split: if_splits)
qed (simp add: state_from_into)

lemma state_into_u64_inject [simp]: "state_into_u64 a = state_into_u64 b \<longleftrightarrow> a = b"
  by (metis outcome.inject(1) state_from_into)

lemma valid_state_iff: "valid_state n \<longleftrightarrow> (\<exists>s. state_from_u64 n = Done s)"
proof -
  have "valid_state (state_into_u64 s)" for s
    by (cases s) (simp_all add: valid_state_def)
  moreover have "\<exists>s. n = state_into_u64 s" if "valid_state n"
    using that unfolding valid_state_def by (metis state_into_u64.simps)
  ultimately show ?thesis
    by (auto simp: state_from_Done)
qed

lemma params_from_into: "params_from_u64 (params_into_u64 p) = Done p"
  by (cases p) (simp_all add: params_from_u64_def)

lemma params_from_Done: "params_from_u64 n = Done p \<longleftrightarrow> n = params_into_u64 p"
proof
  assume "params_from_u64 n = Done p"
  then show "n = params_into_u64 p"
    by (auto simp: params_from_u64_def split: if_splits)
qed (simp add: params_from_into)

lemma simulate_from_into: "simulate_from_u64 (simulate_into_u64 p) = Done p"
  by (cases p) (simp_all add: simulate_from_u64_def)

lemma simulate_from_Done: "simulate_from_u64 n = Done p \<longleftrightarrow> n = simulate_into_u64 p"
proof
  assume "simulate_from_u64 n = Done p"
  then show "n = simulate_into_u64 p"
    by (auto simp: simulate_from_u64_def split: if_splits)
qed (simp add: simulate_from_into)

lemma reset_flag_from_Done: "reset_flag_from_u64 n = Done f \<longleftrightarrow> n = reset_flag_into_u64 f"
  by (cases f) (auto simp: reset_flag_from_u64_def split: if_splits)

end
