(* ===== verification/Calc.thy ===== *)
theory Calc
  imports Amm_Types "HOL-Library.Monad_Syntax"
begin

text \<open>
  \<open>program/src/math.rs\<close>: the \<open>Calculator\<close>, the trait \<open>CheckedCeilDiv\<close> with its two
  implementations, and the exchange-rate calculators. A function that can only panic is
  modelled with \<open>option\<close>, where \<open>None\<close> is the panic (an \<open>unwrap\<close> of \<open>None\<close> or an
  overflow); one that returns \<open>Result\<close> is an \<open>outcome\<close>.
\<close>

datatype swap_direction = PC2Coin | Coin2PC

datatype round_direction = Floor | Ceiling

text \<open>\<open>unwrap\<close> of a \<open>Result\<close> inside a function that can only panic.\<close>

fun ok :: "'a outcome \<Rightarrow> 'a option" where
  "ok (Done x) = Some x"
| "ok (Fail e) = None"
| "ok Panic = None"

text \<open>Rust's indexing: out of range is a panic.\<close>

definition idx :: "'a list \<Rightarrow> nat \<Rightarrow> 'a option" where
  "idx xs i = (if i < length xs then Some (xs ! i) else None)"

lemma ok_Some [simp]: "ok m = Some x \<longleftrightarrow> m = Done x"
  by (cases m) auto

lemma idx_Some: "idx xs i = Some x \<longleftrightarrow> i < length xs \<and> x = xs ! i"
  by (auto simp: idx_def)

lemma bind_option_SomeE [outcome_elims]:
  assumes "Option.bind m f = Some y"
  obtains x where "m = Some x" and "f x = Some y"
  using assms by (auto simp: bind_eq_Some_conv)

section \<open>CheckedCeilDiv\<close>

definition checked_ceil_div_u128 :: "u128 \<Rightarrow> u128 \<Rightarrow> (u128 \<times> u128) option" where
  "checked_ceil_div_u128 self rhs =
     do {
       quotient \<leftarrow> checked_div self rhs;
       if quotient = 0 then do {
         twice \<leftarrow> checked_mul self 2;
         if twice \<ge> rhs then Some (1, 0) else Some (0, 0)
       }
       else do {
         remainder \<leftarrow> checked_rem self rhs;
         if remainder > 0 then do {
           quotient' \<leftarrow> checked_add quotient 1;
           rhs' \<leftarrow> checked_div self quotient';
           remainder' \<leftarrow> checked_rem self quotient';
           rhs'' \<leftarrow> (if remainder' > 0 then checked_add rhs' 1 else Some rhs');
           Some (quotient', rhs'')
         }
         else Some (quotient, rhs)
       }
     }"

definition checked_ceil_div :: "u128 \<Rightarrow> u128 \<Rightarrow> (u128 \<times> u128) option" where
  "checked_ceil_div self rhs =
     do {
       quotient \<leftarrow> checked_div self rhs;
       let zero = 0; one = 1 in
       if quotient = 0 then do {
         twice \<leftarrow> checked_mul self 2;
         if twice \<ge> rhs then Some (one, zero) else Some (zero, zero)
       }
       else do {
         remainder \<leftarrow> checked_rem self rhs;
         if remainder > zero then do {
           quotient' \<leftarrow> checked_add quotient one;
           rhs' \<leftarrow> checked_div self quotient';
           remainder' \<leftarrow> checked_rem self quotient';
           rhs'' \<leftarrow> (if remainder' > zero then checked_add rhs' one else Some rhs');
           Some (quotient', rhs'')
         }
         else Some (quotient, rhs)
       }
     }"

section \<open>Calculator: conversions, decimals and lots\<close>

definition to_u128 :: "u64 \<Rightarrow> u128 outcome" where
  "to_u128 val = Done (widen val)"

definition to_u64 :: "u128 \<Rightarrow> u64 outcome" where
  "to_u64 val = ok_or ConversionFailure (narrow val)"

definition calc_x_power :: "u256 \<Rightarrow> u256 \<Rightarrow> u256 \<Rightarrow> u256 \<Rightarrow> u256 option" where
  "calc_x_power last_x last_y current_x current_y =
     do {
       k \<leftarrow> checked_mul last_x last_y;
       kx \<leftarrow> checked_mul k current_x;
       checked_div kx current_y
     }"

fun fibonacci_loop :: "nat \<Rightarrow> nat \<Rightarrow> u64 list \<Rightarrow> u64 list option" where
  "fibonacci_loop 0 i fb = Some fb"
| "fibonacci_loop (Suc todo) i fb =
     do {
       next_fb \<leftarrow>
         (if i = 0 then Some (fb @ [0])
          else if i = 1 then Some (fb @ [1])
          else if i = 2 then Some (fb @ [2])
          else do {
            a \<leftarrow> idx fb (i - 1);
            b \<leftarrow> idx fb (i - 2);
            ret \<leftarrow> checked_add a b;
            Some (fb @ [ret])
          });
       fibonacci_loop todo (Suc i) next_fb
     }"

definition fibonacci :: "u64 \<Rightarrow> u64 list option" where
  "fibonacci order_num = fibonacci_loop (unat order_num) 0 []"

definition pow10 :: "u64 \<Rightarrow> u128 option" where
  "pow10 decimal = checked_pow 10 (unat decimal)"

definition normalize_decimal :: "u64 \<Rightarrow> u64 \<Rightarrow> u64 \<Rightarrow> u64 option" where
  "normalize_decimal val native_decimal sys_decimal =
     do {
       ret_mut \<leftarrow> checked_mul (widen val) (widen sys_decimal);
       p \<leftarrow> pow10 native_decimal;
       q \<leftarrow> checked_div ret_mut p;
       ok (to_u64 q)
     }"

definition restore_decimal :: "u128 \<Rightarrow> u64 \<Rightarrow> u64 \<Rightarrow> u128 option" where
  "restore_decimal val native_decimal sys_decimal =
     do {
       p \<leftarrow> pow10 native_decimal;
       ret_mut \<leftarrow> checked_mul val p;
       checked_div ret_mut (widen sys_decimal)
     }"

definition normalize_decimal_v2 :: "u64 \<Rightarrow> u64 \<Rightarrow> u64 \<Rightarrow> u128 option" where
  "normalize_decimal_v2 val native_decimal sys_decimal =
     do {
       ret_mut \<leftarrow> checked_mul (widen val) (widen sys_decimal);
       p \<leftarrow> pow10 native_decimal;
       checked_div ret_mut p
     }"

definition floor_lot :: "u64 \<Rightarrow> u64 \<Rightarrow> u64 option" where
  "floor_lot val lot_size =
     do {
       unit \<leftarrow> checked_div val lot_size;
       checked_mul unit lot_size
     }"

definition ceil_lot :: "u64 \<Rightarrow> u64 \<Rightarrow> u64 option" where
  "ceil_lot val lot_size =
     do {
       (unit, _) \<leftarrow> checked_ceil_div_u128 (widen val) (widen lot_size);
       unit64 \<leftarrow> ok (to_u64 unit);
       checked_mul unit64 lot_size
     }"

definition convert_out_pc_lot_size :: "u8 \<Rightarrow> u8 \<Rightarrow> u64 \<Rightarrow> u64 \<Rightarrow> u64 \<Rightarrow> u64 option" where
  "convert_out_pc_lot_size pc_dec coin_dec pc_lot coin_lot sys_decimal =
     do {
       ppc \<leftarrow> pow10 (widen pc_dec);
       pcoin \<leftarrow> pow10 (widen coin_dec);
       a \<leftarrow> checked_mul (widen pc_lot) (widen coin_lot);
       num \<leftarrow> checked_mul a ppc;
       den \<leftarrow> checked_mul (widen sys_decimal) pcoin;
       q \<leftarrow> checked_div num den;
       ok (to_u64 q)
     }"

definition convert_in_pc_lot_size :: "u8 \<Rightarrow> u8 \<Rightarrow> u64 \<Rightarrow> u64 \<Rightarrow> u64 \<Rightarrow> u64 option" where
  "convert_in_pc_lot_size pc_dec coin_dec pc_lot coin_lot sys_decimal =
     do {
       a \<leftarrow> checked_mul (widen pc_lot) (widen sys_decimal);
       pcoin \<leftarrow> pow10 (widen coin_dec);
       num \<leftarrow> checked_mul a pcoin;
       ppc \<leftarrow> pow10 (widen pc_dec);
       den \<leftarrow> checked_mul (widen coin_lot) ppc;
       q \<leftarrow> checked_div num den;
       ok (to_u64 q)
     }"

definition convert_in_price :: "u64 \<Rightarrow> u64 \<Rightarrow> u64 option" where
  "convert_in_price val pc_lot = checked_mul val pc_lot"

definition convert_price_out :: "u64 \<Rightarrow> u64 \<Rightarrow> u64 option" where
  "convert_price_out val pc_lot = checked_div val pc_lot"

definition convert_in_vol :: "u64 \<Rightarrow> u64 \<Rightarrow> u64 \<Rightarrow> u64 \<Rightarrow> u64 option" where
  "convert_in_vol val coin_decimal coin_lot sys_decimal =
     do {
       a \<leftarrow> checked_mul (widen val) (widen coin_lot);
       b \<leftarrow> checked_mul a (widen sys_decimal);
       p \<leftarrow> pow10 coin_decimal;
       volume \<leftarrow> checked_div b p;
       ok (to_u64 volume)
     }"

definition convert_vol_out :: "u64 \<Rightarrow> u64 \<Rightarrow> u64 \<Rightarrow> u64 \<Rightarrow> u64 option" where
  "convert_vol_out val coin_decimal coin_lot sys_decimal =
     do {
       p \<leftarrow> pow10 coin_decimal;
       a \<leftarrow> checked_mul (widen val) p;
       den \<leftarrow> checked_mul (widen coin_lot) (widen sys_decimal);
       volume \<leftarrow> checked_div a den;
       ok (to_u64 volume)
     }"

section \<open>Order sizes\<close>

definition get_max_buy_size_at_price :: "u64 \<Rightarrow> u128 \<Rightarrow> u128 \<Rightarrow> amm_info \<Rightarrow> u64 option" where
  "get_max_buy_size_at_price p x y amm =
     do {
       fee_sum \<leftarrow> checked_add (trade_fee_denominator (amm_fees amm)) (trade_fee_numerator (amm_fees amm));
       a \<leftarrow> checked_mul (widen p) (widen fee_sum);
       price_with_fee \<leftarrow> checked_div a (widen (trade_fee_denominator (amm_fees amm)));
       b \<leftarrow> checked_mul x (widen (sys_decimal_value amm));
       max_size \<leftarrow> checked_div b price_with_fee;
       ok (to_u64 (saturating_sub max_size y))
     }"

definition get_max_sell_size_at_price :: "u64 \<Rightarrow> u128 \<Rightarrow> u128 \<Rightarrow> amm_info \<Rightarrow> u64 option" where
  "get_max_sell_size_at_price p x y amm =
     do {
       a \<leftarrow> checked_mul (widen p) (widen (trade_fee_denominator (amm_fees amm)));
       fee_sum \<leftarrow> checked_add (trade_fee_denominator (amm_fees amm)) (trade_fee_numerator (amm_fees amm));
       price_with_fee \<leftarrow> checked_div a (widen fee_sum);
       b \<leftarrow> checked_mul x (widen (sys_decimal_value amm));
       second_part \<leftarrow> checked_div b price_with_fee;
       ok (to_u64 (saturating_sub y second_part))
     }"

section \<open>Swap quotes\<close>

definition swap_token_amount_base_in :: "u128 \<Rightarrow> u128 \<Rightarrow> u128 \<Rightarrow> swap_direction \<Rightarrow> u128 option" where
  "swap_token_amount_base_in amount_in total_pc total_coin direction =
     (case direction of
        Coin2PC \<Rightarrow>
          do {
            denominator \<leftarrow> checked_add total_coin amount_in;
            a \<leftarrow> checked_mul total_pc amount_in;
            checked_div a denominator
          }
      | PC2Coin \<Rightarrow>
          do {
            denominator \<leftarrow> checked_add total_pc amount_in;
            a \<leftarrow> checked_mul total_coin amount_in;
            checked_div a denominator
          })"

definition swap_token_amount_base_out :: "u128 \<Rightarrow> u128 \<Rightarrow> u128 \<Rightarrow> swap_direction \<Rightarrow> u128 option" where
  "swap_token_amount_base_out amount_out total_pc total_coin direction =
     (case direction of
        Coin2PC \<Rightarrow>
          do {
            denominator \<leftarrow> checked_sub total_pc amount_out;
            a \<leftarrow> checked_mul total_coin amount_out;
            (amount_in, _) \<leftarrow> checked_ceil_div a denominator;
            Some amount_in
          }
      | PC2Coin \<Rightarrow>
          do {
            denominator \<leftarrow> checked_sub total_coin amount_out;
            a \<leftarrow> checked_mul total_pc amount_out;
            (amount_in, _) \<leftarrow> checked_ceil_div a denominator;
            Some amount_in
          })"

section \<open>Exchange-rate calculators\<close>

record invariant_token =
  it_token_coin :: u64
  it_token_pc :: u64

record invariant_pool =
  ip_token_input :: u64
  ip_token_total :: u64

definition mul_div_floor :: "u64 \<Rightarrow> u64 \<Rightarrow> u64 \<Rightarrow> u64 option" where
  "mul_div_floor a b c =
     do {
       m \<leftarrow> checked_mul (widen a :: u128) (widen b);
       q \<leftarrow> checked_div m (widen c);
       narrow q
     }"

definition mul_div_ceil :: "u64 \<Rightarrow> u64 \<Rightarrow> u64 \<Rightarrow> u64 option" where
  "mul_div_ceil a b c =
     do {
       m \<leftarrow> checked_mul (widen a :: u128) (widen b);
       (q, _) \<leftarrow> checked_ceil_div m (widen c);
       narrow q
     }"

definition exchange_coin_to_pc :: "invariant_token \<Rightarrow> u64 \<Rightarrow> round_direction \<Rightarrow> u64 option outcome" where
  "exchange_coin_to_pc self token_coin direction =
     and_then
       (unwrap (if direction = Floor
                then mul_div_floor token_coin (it_token_pc self) (it_token_coin self)
                else mul_div_ceil token_coin (it_token_pc self) (it_token_coin self)))
       (\<lambda>v. Done (Some v))"

definition exchange_pc_to_coin :: "invariant_token \<Rightarrow> u64 \<Rightarrow> round_direction \<Rightarrow> u64 option outcome" where
  "exchange_pc_to_coin self token_pc direction =
     and_then
       (unwrap (if direction = Floor
                then mul_div_floor token_pc (it_token_coin self) (it_token_pc self)
                else mul_div_ceil token_pc (it_token_coin self) (it_token_pc self)))
       (\<lambda>v. Done (Some v))"

definition exchange_pool_to_token :: "invariant_pool \<Rightarrow> u64 \<Rightarrow> round_direction \<Rightarrow> u64 option outcome" where
  "exchange_pool_to_token self token_total_amount direction =
     and_then
       (unwrap (if direction = Floor
                then mul_div_floor token_total_amount (ip_token_input self) (ip_token_total self)
                else mul_div_ceil token_total_amount (ip_token_input self) (ip_token_total self)))
       (\<lambda>v. Done (Some v))"

definition exchange_token_to_pool :: "invariant_pool \<Rightarrow> u64 \<Rightarrow> round_direction \<Rightarrow> u64 option outcome" where
  "exchange_token_to_pool self pool_total_amount direction =
     and_then
       (unwrap (if direction = Floor
                then mul_div_floor pool_total_amount (ip_token_input self) (ip_token_total self)
                else mul_div_ceil pool_total_amount (ip_token_input self) (ip_token_total self)))
       (\<lambda>v. Done (Some v))"

section \<open>The contract of CheckedCeilDiv\<close>

text \<open>
  The trait both implementations realise. The quotient is \<open>0\<close> exactly when the dividend is
  less than half of the divisor; otherwise it is the ceiling of the exact quotient. The
  second component is the least divisor that still yields that quotient.
\<close>

locale ceil_division =
  fixes ceil_div :: "u128 \<Rightarrow> u128 \<Rightarrow> (u128 \<times> u128) option"
  assumes ceil_nonzero: "ceil_div a b = Some (q, r) \<Longrightarrow> 0 < uint b"
    and ceil_zero: "ceil_div a b = Some (q, r) \<Longrightarrow> uint q = 0 \<longleftrightarrow> 2 * uint a < uint b"
    and ceil_lower: "ceil_div a b = Some (q, r) \<Longrightarrow> uint q \<noteq> 0 \<Longrightarrow> uint a \<le> uint q * uint b"
    and ceil_upper: "ceil_div a b = Some (q, r) \<Longrightarrow> uint q * uint b < uint a + uint b"
    and ceil_divisor: "ceil_div a b = Some (q, r) \<Longrightarrow> uint r \<noteq> 0 \<Longrightarrow>
      uint a \<le> uint q * uint r \<and> uint r \<le> uint b"
    and ceil_defined: "0 < uint b \<Longrightarrow> 2 * uint a < 2 ^ 128 \<or> uint b \<le> uint a \<Longrightarrow>
      \<exists>q r. ceil_div a b = Some (q, r)"
begin

text \<open>Where the quotient is not \<open>0\<close> it is the exact ceiling.\<close>

lemma ceil_exact:
  assumes "ceil_div a b = Some (q, r)" and "uint q \<noteq> 0"
  shows "uint q = (uint a + uint b - 1) div uint b"
proof -
  have b: "0 < uint b" and lo: "uint a \<le> uint q * uint b"
    and up: "uint q * uint b < uint a + uint b"
    using assms ceil_nonzero ceil_lower ceil_upper by blast+
  have "(uint a + uint b - 1) div uint b = uint q"
  proof (rule int_div_pos_eq)
    show "uint a + uint b - 1 = uint b * uint q + (uint a + uint b - 1 - uint q * uint b)"
      by (simp add: algebra_simps)
    show "0 \<le> uint a + uint b - 1 - uint q * uint b" using up by simp
    show "uint a + uint b - 1 - uint q * uint b < uint b" using lo by simp
  qed
  then show ?thesis by simp
qed

text \<open>A fraction \<open>num / den \<le> 1\<close> of an amount, rounded up, is at most the amount.\<close>

lemma ceil_fraction_le:
  assumes "ceil_div m d = Some (q, r)" and "uint m = amount * num"
    and "0 \<le> amount" and "num \<le> uint d"
  shows "uint q \<le> amount"
proof -
  have d: "0 < uint d" and up: "uint q * uint d < uint m + uint d"
    using assms(1) ceil_nonzero ceil_upper by blast+
  have "amount * num \<le> amount * uint d"
    using assms by (intro mult_left_mono) auto
  then have "uint q * uint d < (amount + 1) * uint d"
    using up assms(2) by (simp add: algebra_simps)
  then show ?thesis
    using d by (simp add: mult_less_cancel_right)
qed

end

lemma checked_ceil_div_eq: "checked_ceil_div = checked_ceil_div_u128"
  by (simp add: fun_eq_iff checked_ceil_div_def checked_ceil_div_u128_def Let_def)

lemma ceil_div_cases:
  assumes run: "checked_ceil_div_u128 a b = Some (q, r)"
  obtains
    (small) "0 < uint b" "uint a < uint b" "uint r = 0"
      "uint q = (if uint b \<le> 2 * uint a then 1 else 0)"
  | (exact) "0 < uint b" "uint b \<le> uint a" "uint a mod uint b = 0" "uint q = uint a div uint b" "r = b"
  | (round) "0 < uint b" "uint b \<le> uint a" "uint a mod uint b \<noteq> 0"
      "uint q = uint a div uint b + 1"
      "uint r = uint a div uint q + (if uint a mod uint q > 0 then 1 else 0)"
proof -
  obtain qt where qt: "checked_div a b = Some qt"
    using run by (auto simp: checked_ceil_div_u128_def bind_eq_Some_conv)
  then have b: "0 < uint b" and qt': "uint qt = uint a div uint b"
    by (auto simp: checked_div_Some order_less_le)
  show thesis
  proof (cases "qt = 0")
    case True
    then obtain t where t: "checked_mul a 2 = Some t"
      and res: "(if t \<ge> b then Some (1, 0) else Some (0, 0)) = Some (q, r)"
      using run qt by (auto simp: checked_ceil_div_u128_def bind_eq_Some_conv)
    have "uint t = 2 * uint a" using t by (simp add: checked_mul_Some)
    moreover have "uint a < uint b"
      using True qt' b by (auto simp: zdiv_eq_0_iff)
    ultimately show thesis
      using res b by (intro small) (auto simp: word_le_def split: if_splits)
  next
    case False
    then obtain m where m: "checked_rem a b = Some m"
      using run qt by (auto simp: checked_ceil_div_u128_def bind_eq_Some_conv)
    then have m': "uint m = uint a mod uint b" by (simp add: checked_rem_Some)
    have le: "uint b \<le> uint a"
      using False qt' b by (metis div_pos_pos_trivial linorder_not_le uint_0_iff uint_ge_0)
    show thesis
    proof (cases "m > 0")
      case True
      then obtain q' r' m2 r'' where steps: "checked_add qt 1 = Some q'" "checked_div a q' = Some r'"
          "checked_rem a q' = Some m2"
          "(if m2 > 0 then checked_add r' 1 else Some r') = Some r''" "q = q'" "r = r''"
        using run qt m False by (auto simp: checked_ceil_div_u128_def bind_eq_Some_conv)
      then have "uint q = uint a div uint b + 1" and "uint m2 = uint a mod uint q"
        and "uint r' = uint a div uint q"
        by (simp_all add: checked_arith qt')
      moreover have "uint r = uint r' + (if uint m2 > 0 then 1 else 0)"
        using steps(4,6) by (auto simp: checked_add_Some word_less_def split: if_splits)
      ultimately show thesis
        using True m' b le by (intro round) (auto simp: word_less_def)
    next
      case nz: False
      then have "q = qt \<and> r = b"
        using run qt m False by (auto simp: checked_ceil_div_u128_def)
      then show thesis
        using nz m' qt' b le by (intro exact) (auto simp: word_less_def not_less intro: order_antisym)
    qed
  qed
qed


lemma ceil_div_law:
  assumes "checked_ceil_div_u128 a b = Some (q, r)"
  shows "0 < uint b" and "uint q = 0 \<longleftrightarrow> 2 * uint a < uint b"
    and "uint q \<noteq> 0 \<Longrightarrow> uint a \<le> uint q * uint b"
    and "uint q * uint b < uint a + uint b"
    and "uint r \<noteq> 0 \<Longrightarrow> uint a \<le> uint q * uint r \<and> uint r \<le> uint b"
proof -
  define A B Q R where "A = uint a" and "B = uint b" and "Q = uint q" and "R = uint r"
  have A: "0 \<le> A" by (simp add: A_def)
  have "0 < B \<and> (Q = 0 \<longleftrightarrow> 2 * A < B) \<and> (Q \<noteq> 0 \<longrightarrow> A \<le> Q * B) \<and> Q * B < A + B \<and>
    (R \<noteq> 0 \<longrightarrow> A \<le> Q * R \<and> R \<le> B)"
    using assms
  proof (cases rule: ceil_div_cases)
    case small
    then have "0 < B" "A < B" "R = 0" "Q = (if B \<le> 2 * A then 1 else 0)"
      by (simp_all add: A_def B_def Q_def R_def)
    then show ?thesis using A by auto
  next
    case exact
    then have "A = Q * B" and "B \<le> A" and "0 < B"
      by (auto simp: A_def B_def Q_def)
    then show ?thesis using exact(5) by (auto simp: B_def R_def)
  next
    case round
    then have Q: "Q = A div B + 1" and B: "0 < B" "B \<le> A" and nz: "A mod B \<noteq> 0"
      and R: "R = A div Q + (if A mod Q > 0 then 1 else 0)"
      by (simp_all add: A_def B_def Q_def R_def)
    have Qpos: "1 < Q" using Q B by (simp add: pos_imp_zdiv_pos_iff)
    obtain d m where dm: "A div B = d" "A mod B = m" "A = B * d + m" "0 \<le> m" "m < B"
      using int_divmodE [OF B(1)] by blast
    obtain e n where en: "A div Q = e" "A mod Q = n" "A = Q * e + n" "0 \<le> n" "n < Q"
      using int_divmodE [of Q A] Qpos by auto
    have up: "A \<le> Q * B" and low: "(Q - 1) * B < A"
      using dm Q nz by (simp_all add: algebra_simps)
    have "A \<le> Q * R" using R en by (auto simp: algebra_simps split: if_splits)
    moreover have "R \<le> B"
    proof (rule ccontr)
      assume "\<not> R \<le> B"
      then have "Q * B \<le> Q * (R - 1)" using Qpos by (intro mult_left_mono) auto
      moreover have "Q * (R - 1) < A"
        using R en Qpos by (auto simp: algebra_simps split: if_splits)
      ultimately show False using up by simp
    qed
    ultimately show ?thesis using B up low Qpos by (auto simp: algebra_simps)
  qed
  then show "0 < uint b" and "uint q = 0 \<longleftrightarrow> 2 * uint a < uint b"
    and "uint q \<noteq> 0 \<Longrightarrow> uint a \<le> uint q * uint b"
    and "uint q * uint b < uint a + uint b"
    and "uint r \<noteq> 0 \<Longrightarrow> uint a \<le> uint q * uint r \<and> uint r \<le> uint b"
    by (auto simp: A_def B_def Q_def R_def)
qed

lemma ceil_div_defined:
  assumes "0 < uint b" and "2 * uint a < 2 ^ 128 \<or> uint b \<le> uint a"
  shows "\<exists>q r. checked_ceil_div_u128 a b = Some (q, r)"
proof -
  have qt: "checked_div a b = Some (a div b)" and qt': "uint (a div b) = uint a div uint b"
    using assms(1) by (auto simp: checked_div_def uint_div)
  define qt where "qt = a div b"
  note qt = qt [folded qt_def] and qt' = qt' [folded qt_def]
  show ?thesis
  proof (cases "uint a < uint b")
    case True
    then have "qt = 0" using qt' assms(1) by (simp add: word_uint_eq_iff)
    moreover obtain t where "checked_mul a 2 = Some t"
      using True assms(2) checked_mul_defined [of a 2] by auto
    ultimately show ?thesis using qt by (auto simp: checked_ceil_div_u128_def)
  next
    case False
    then have "0 < uint a div uint b" using assms(1) by (simp add: pos_imp_zdiv_pos_iff)
    then have nz: "qt \<noteq> 0" using qt' by auto
    obtain m where m: "checked_rem a b = Some m"
      using assms(1) unfolding checked_rem_def by fastforce
    then have m': "uint m = uint a mod uint b" by (simp add: checked_rem_Some)
    show ?thesis
    proof (cases "m > 0")
      case True
      have "uint b \<noteq> 1" using True m' by (auto simp: word_less_def)
      then have "2 \<le> uint b" using assms(1) by simp
      then have "uint a div uint b \<le> uint a div 2" by (simp add: zdiv_mono2)
      then have "uint qt + uint (1 :: u128) < 2 ^ 128"
        using qt' uint_lt_pow [of a] by simp
      then obtain q' where q': "checked_add qt 1 = Some q'" and q'v: "uint q' = uint qt + 1"
        using checked_add_defined [of qt 1] by (auto simp: checked_add_Some)
      have qpos: "1 < uint q'" using q'v qt' \<open>0 < uint a div uint b\<close> by simp
      obtain r' where r': "checked_div a q' = Some r'"
        using qpos unfolding checked_div_def by fastforce
      then have r'v: "uint r' = uint a div uint q'" by (simp add: checked_div_Some)
      obtain m2 where m2: "checked_rem a q' = Some m2"
        using qpos unfolding checked_rem_def by fastforce
      have "uint r' \<le> uint a div 2" using qpos r'v by (simp add: zdiv_mono2)
      then have "uint r' + uint (1 :: u128) < 2 ^ 128" using uint_lt_pow [of a] by simp
      then obtain r'' where "checked_add r' 1 = Some r''"
        using checked_add_defined [of r' 1] by auto
      then show ?thesis
        using qt nz m True q' r' m2 by (simp add: checked_ceil_div_u128_def)
    next
      case False
      then show ?thesis using qt nz m by (simp add: checked_ceil_div_u128_def)
    qed
  qed
qed

interpretation u128_ceil: ceil_division checked_ceil_div_u128
proof
  fix a b q r
  assume run: "checked_ceil_div_u128 a b = Some (q, r)"
  show "0 < uint b" by (rule ceil_div_law(1) [OF run])
  show "uint q = 0 \<longleftrightarrow> 2 * uint a < uint b" by (rule ceil_div_law(2) [OF run])
  show "uint q \<noteq> 0 \<Longrightarrow> uint a \<le> uint q * uint b" by (rule ceil_div_law(3) [OF run])
  show "uint q * uint b < uint a + uint b" by (rule ceil_div_law(4) [OF run])
  show "uint r \<noteq> 0 \<Longrightarrow> uint a \<le> uint q * uint r \<and> uint r \<le> uint b"
    by (rule ceil_div_law(5) [OF run])
next
  fix a b :: u128
  assume "0 < uint b" and "2 * uint a < 2 ^ 128 \<or> uint b \<le> uint a"
  then show "\<exists>q r. checked_ceil_div_u128 a b = Some (q, r)" by (rule ceil_div_defined)
qed

interpretation U128_ceil: ceil_division checked_ceil_div
  unfolding checked_ceil_div_eq by (rule u128_ceil.ceil_division_axioms)

end
