(* ===== verification/Instruction.thy ===== *)
theory Instruction
  imports Amm_Types
begin

text \<open>
  \<open>program/src/instruction.rs\<close>: the instruction data of the program, its wire format
  (\<open>pack\<close>) and parser (\<open>unpack\<close>), and the \<open>Pack\<close> implementation of \<open>Fees\<close> from
  \<open>program/src/state.rs\<close>. The parsers of the integer types are instances of one locale,
  whose laws give the round trip of every instruction.
\<close>

section \<open>Instruction data\<close>

record initialize_instruction =
  init_nonce :: u8
  init_open_time :: u64

record initialize_instruction2 =
  init2_nonce :: u8
  init2_open_time :: u64
  init_pc_amount :: u64
  init_coin_amount :: u64

record pre_initialize_instruction =
  pre_nonce :: u8

record monitor_step_instruction =
  plan_order_limit :: u16
  place_order_limit :: u16
  cancel_order_limit :: u16

record deposit_instruction =
  max_coin_amount :: u64
  max_pc_amount :: u64
  base_side :: u64
  other_amount_min :: "u64 option"

record withdraw_instruction =
  withdraw_amount :: u64
  min_coin_amount :: "u64 option"
  min_pc_amount :: "u64 option"

record set_params_instruction =
  sp_param :: u8
  sp_value :: "u64 option"
  sp_new_pubkey :: "pubkey option"
  sp_fees :: "fees option"
  sp_last_order_distance :: "last_order_distance option"

record withdraw_srm_instruction =
  srm_amount :: u64

record swap_instruction_base_in =
  amount_in :: u64
  minimum_amount_out :: u64

record swap_instruction_base_out =
  max_amount_in :: u64
  amount_out :: u64

record simulate_instruction =
  sim_param :: u8
  swap_base_in_value :: "swap_instruction_base_in option"
  swap_base_out_value :: "swap_instruction_base_out option"

record admin_cancel_orders_instruction =
  cancel_limit :: u16

record config_args =
  ca_param :: u8
  ca_owner :: "pubkey option"
  ca_create_pool_fee :: "u64 option"

datatype amm_instruction =
    Initialize initialize_instruction
  | Initialize2 initialize_instruction2
  | MonitorStep monitor_step_instruction
  | Deposit deposit_instruction
  | Withdraw withdraw_instruction
  | MigrateToOpenBook
  | SetParams set_params_instruction
  | WithdrawPnl
  | WithdrawSrm withdraw_srm_instruction
  | SwapBaseIn swap_instruction_base_in
  | PreInitialize pre_initialize_instruction
  | SwapBaseOut swap_instruction_base_out
  | SimulateInfo simulate_instruction
  | AdminCancelOrders admin_cancel_orders_instruction
  | CreateConfigAccount
  | UpdateConfigAccount config_args

section \<open>Parsers of the integer types\<close>

definition unpack_u8 :: "bytes \<Rightarrow> (u8 \<times> bytes) outcome" where
  "unpack_u8 input =
     (if length input \<ge> 1 then Done (from_le_bytes (take 1 input), drop 1 input)
      else Fail InvalidInstructionData)"

definition unpack_u16 :: "bytes \<Rightarrow> (u16 \<times> bytes) outcome" where
  "unpack_u16 input =
     (if length input \<ge> 2 then Done (from_le_bytes (take 2 input), drop 2 input)
      else Fail InvalidInstructionData)"

definition unpack_u64 :: "bytes \<Rightarrow> (u64 \<times> bytes) outcome" where
  "unpack_u64 input =
     (if length input \<ge> 8 then Done (from_le_bytes (take 8 input), drop 8 input)
      else Fail InvalidInstructionData)"

text \<open>
  \<open>array_ref![rest, 0, 32]\<close> with \<open>Pubkey::new_from_array\<close>: the first 32 bytes as a key,
  a panic when there are fewer.
\<close>

definition array_ref_pubkey :: "bytes \<Rightarrow> pubkey outcome" where
  "array_ref_pubkey rest =
     (if length rest \<ge> 32 then Done (from_le_bytes (take 32 rest)) else Panic)"

definition default_pubkey :: pubkey where
  "default_pubkey = 0"

section \<open>Fees on the wire\<close>

definition fees_LEN :: nat where
  "fees_LEN = 64"

definition fees_pack_into_slice :: "fees \<Rightarrow> bytes" where
  "fees_pack_into_slice self =
     to_le_bytes (min_separate_numerator self) @ to_le_bytes (min_separate_denominator self) @
     to_le_bytes (trade_fee_numerator self) @ to_le_bytes (trade_fee_denominator self) @
     to_le_bytes (pnl_numerator self) @ to_le_bytes (pnl_denominator self) @
     to_le_bytes (swap_fee_numerator self) @ to_le_bytes (swap_fee_denominator self)"

definition fees_unpack_from_slice :: "bytes \<Rightarrow> fees outcome" where
  "fees_unpack_from_slice input =
     (if length input < 64 then Panic
      else Done
        \<lparr>min_separate_numerator = from_le_bytes (take 8 input),
         min_separate_denominator = from_le_bytes (take 8 (drop 8 input)),
         trade_fee_numerator = from_le_bytes (take 8 (drop 16 input)),
         trade_fee_denominator = from_le_bytes (take 8 (drop 24 input)),
         pnl_numerator = from_le_bytes (take 8 (drop 32 input)),
         pnl_denominator = from_le_bytes (take 8 (drop 40 input)),
         swap_fee_numerator = from_le_bytes (take 8 (drop 48 input)),
         swap_fee_denominator = from_le_bytes (take 8 (drop 56 input))\<rparr>)"

section \<open>Unpacking an instruction\<close>

definition unpack_set_params :: "bytes \<Rightarrow> amm_instruction outcome" where
  "unpack_set_params rest0 =
     and_then (unpack_u8 rest0) (\<lambda>(param, rest).
     and_then (params_from_u64 (widen param)) (\<lambda>p.
       case p of
         AmmOwner \<Rightarrow>
           if length rest \<ge> 32 then
             and_then (array_ref_pubkey rest) (\<lambda>new_pubkey.
               Done (SetParams \<lparr>sp_param = param, sp_value = None, sp_new_pubkey = Some new_pubkey,
                 sp_fees = None, sp_last_order_distance = None\<rparr>))
           else Fail InvalidInstructionData
       | ParamFees \<Rightarrow>
           if length rest \<ge> fees_LEN then
             and_then (fees_unpack_from_slice (take fees_LEN rest)) (\<lambda>f.
               Done (SetParams \<lparr>sp_param = param, sp_value = None, sp_new_pubkey = None,
                 sp_fees = Some f, sp_last_order_distance = None\<rparr>))
           else Fail InvalidInstructionData
       | LastOrderDistance \<Rightarrow>
           if length rest \<ge> 16 then
             and_then (unpack_u64 rest) (\<lambda>(numerator, rest).
             and_then (unpack_u64 rest) (\<lambda>(denominator, _).
               Done (SetParams \<lparr>sp_param = param, sp_value = None, sp_new_pubkey = None,
                 sp_fees = None, sp_last_order_distance =
                   Some \<lparr>lod_numerator = numerator, lod_denominator = denominator\<rparr>\<rparr>)))
           else Fail InvalidInstructionData
       | _ \<Rightarrow>
           if length rest \<ge> 8 then
             and_then (unpack_u64 rest) (\<lambda>(value, _).
               Done (SetParams \<lparr>sp_param = param, sp_value = Some value, sp_new_pubkey = None,
                 sp_fees = None, sp_last_order_distance = None\<rparr>))
           else Fail InvalidInstructionData))"

definition unpack_simulate :: "bytes \<Rightarrow> amm_instruction outcome" where
  "unpack_simulate rest0 =
     and_then (unpack_u8 rest0) (\<lambda>(param, rest).
     and_then (simulate_from_u64 (widen param)) (\<lambda>p.
       case p of
         PoolInfo \<Rightarrow> Done (SimulateInfo
           \<lparr>sim_param = param, swap_base_in_value = None, swap_base_out_value = None\<rparr>)
       | RunCrankInfo \<Rightarrow> Done (SimulateInfo
           \<lparr>sim_param = param, swap_base_in_value = None, swap_base_out_value = None\<rparr>)
       | SwapBaseInInfo \<Rightarrow>
           and_then (unpack_u64 rest) (\<lambda>(a_in, rest).
           and_then (unpack_u64 rest) (\<lambda>(min_out, _).
             Done (SimulateInfo \<lparr>sim_param = param,
               swap_base_in_value = Some \<lparr>amount_in = a_in, minimum_amount_out = min_out\<rparr>,
               swap_base_out_value = None\<rparr>)))
       | SwapBaseOutInfo \<Rightarrow>
           and_then (unpack_u64 rest) (\<lambda>(max_in, rest).
           and_then (unpack_u64 rest) (\<lambda>(a_out, _).
             Done (SimulateInfo \<lparr>sim_param = param, swap_base_in_value = None,
               swap_base_out_value = Some \<lparr>max_amount_in = max_in, amount_out = a_out\<rparr>\<rparr>)))))"

definition unpack_config :: "bytes \<Rightarrow> amm_instruction outcome" where
  "unpack_config rest0 =
     and_then (unpack_u8 rest0) (\<lambda>(param, rest).
       if param = 0 \<or> param = 1 then
         and_then (array_ref_pubkey rest) (\<lambda>pubkey.
           Done (UpdateConfigAccount
             \<lparr>ca_param = param, ca_owner = Some pubkey, ca_create_pool_fee = None\<rparr>))
       else if param = 2 then
         and_then (unpack_u64 rest) (\<lambda>(fee, _).
           Done (UpdateConfigAccount
             \<lparr>ca_param = param, ca_owner = None, ca_create_pool_fee = Some fee\<rparr>))
       else Fail InvalidInstructionData)"

definition unpack_deposit :: "bytes \<Rightarrow> amm_instruction outcome" where
  "unpack_deposit rest0 =
     and_then (unpack_u64 rest0) (\<lambda>(max_coin, rest).
     and_then (unpack_u64 rest) (\<lambda>(max_pc, rest).
     and_then (unpack_u64 rest) (\<lambda>(side, rest).
     and_then (if length rest \<ge> 8
               then and_then (unpack_u64 rest) (\<lambda>(other_min, _). Done (Some other_min))
               else Done None) (\<lambda>other_min.
       Done (Deposit \<lparr>max_coin_amount = max_coin, max_pc_amount = max_pc, base_side = side,
         other_amount_min = other_min\<rparr>)))))"

definition unpack_withdraw :: "bytes \<Rightarrow> amm_instruction outcome" where
  "unpack_withdraw rest0 =
     and_then (unpack_u64 rest0) (\<lambda>(amount, rest).
     and_then (if length rest \<ge> 16
               then and_then (unpack_u64 rest) (\<lambda>(min_coin, rest).
                    and_then (unpack_u64 rest) (\<lambda>(min_pc, _). Done (Some min_coin, Some min_pc)))
               else Done (None, None)) (\<lambda>(min_coin, min_pc).
       Done (Withdraw \<lparr>withdraw_amount = amount, min_coin_amount = min_coin,
         min_pc_amount = min_pc\<rparr>)))"

definition unpack_tag :: "u8 \<Rightarrow> bytes \<Rightarrow> amm_instruction outcome" where
  "unpack_tag tag rest0 =
     (if tag = 0 then
        and_then (unpack_u8 rest0) (\<lambda>(nonce, rest).
        and_then (unpack_u64 rest) (\<lambda>(open_time, _).
          Done (Initialize \<lparr>init_nonce = nonce, init_open_time = open_time\<rparr>)))
      else if tag = 1 then
        and_then (unpack_u8 rest0) (\<lambda>(nonce, rest).
        and_then (unpack_u64 rest) (\<lambda>(open_time, rest).
        and_then (unpack_u64 rest) (\<lambda>(pc_amount, rest).
        and_then (unpack_u64 rest) (\<lambda>(coin_amount, _).
          Done (Initialize2 \<lparr>init2_nonce = nonce, init2_open_time = open_time,
            init_pc_amount = pc_amount, init_coin_amount = coin_amount\<rparr>)))))
      else if tag = 2 then
        and_then (unpack_u16 rest0) (\<lambda>(plan, rest).
        and_then (unpack_u16 rest) (\<lambda>(place, rest).
        and_then (unpack_u16 rest) (\<lambda>(cancel, _).
          Done (MonitorStep \<lparr>plan_order_limit = plan, place_order_limit = place,
            cancel_order_limit = cancel\<rparr>))))
      else if tag = 3 then unpack_deposit rest0
      else if tag = 4 then unpack_withdraw rest0
      else if tag = 5 then Done MigrateToOpenBook
      else if tag = 6 then unpack_set_params rest0
      else if tag = 7 then Done WithdrawPnl
      else if tag = 8 then
        and_then (unpack_u64 rest0) (\<lambda>(amount, _).
          Done (WithdrawSrm \<lparr>srm_amount = amount\<rparr>))
      else if tag = 9 then
        and_then (unpack_u64 rest0) (\<lambda>(a_in, rest).
        and_then (unpack_u64 rest) (\<lambda>(min_out, _).
          Done (SwapBaseIn \<lparr>amount_in = a_in, minimum_amount_out = min_out\<rparr>)))
      else if tag = 10 then
        and_then (unpack_u8 rest0) (\<lambda>(nonce, _). Done (PreInitialize \<lparr>pre_nonce = nonce\<rparr>))
      else if tag = 11 then
        and_then (unpack_u64 rest0) (\<lambda>(max_in, rest).
        and_then (unpack_u64 rest) (\<lambda>(a_out, _).
          Done (SwapBaseOut \<lparr>max_amount_in = max_in, amount_out = a_out\<rparr>)))
      else if tag = 12 then unpack_simulate rest0
      else if tag = 13 then
        and_then (unpack_u16 rest0) (\<lambda>(limit, _).
          Done (AdminCancelOrders \<lparr>cancel_limit = limit\<rparr>))
      else if tag = 14 then Done CreateConfigAccount
      else if tag = 15 then unpack_config rest0
      else Fail InvalidInstructionData)"

definition unpack :: "bytes \<Rightarrow> amm_instruction outcome" where
  "unpack input =
     (case input of [] \<Rightarrow> Fail InvalidInstructionData | tag # rest \<Rightarrow> unpack_tag tag rest)"

section \<open>Packing an instruction\<close>

definition pack_set_params :: "set_params_instruction \<Rightarrow> bytes outcome" where
  "pack_set_params sp =
     and_then (params_from_u64 (widen (sp_param sp))) (\<lambda>p.
       case p of
         AmmOwner \<Rightarrow>
           (case sp_new_pubkey sp of
              Some a \<Rightarrow> Done (6 # sp_param sp # to_le_bytes a)
            | None \<Rightarrow> Fail InvalidInstructionData)
       | ParamFees \<Rightarrow>
           (case sp_fees sp of
              Some a \<Rightarrow> Done (6 # sp_param sp # fees_pack_into_slice a)
            | None \<Rightarrow> Fail InvalidInstructionData)
       | LastOrderDistance \<Rightarrow>
           (case sp_last_order_distance sp of
              Some a \<Rightarrow> Done (6 # sp_param sp #
                to_le_bytes (lod_numerator a) @ to_le_bytes (lod_denominator a))
            | None \<Rightarrow> Fail InvalidInstructionData)
       | _ \<Rightarrow>
           (case sp_value sp of
              Some a \<Rightarrow> Done (6 # sp_param sp # to_le_bytes a)
            | None \<Rightarrow> Fail InvalidInstructionData))"

definition pack_simulate :: "simulate_instruction \<Rightarrow> bytes outcome" where
  "pack_simulate sim =
     and_then (simulate_from_u64 (widen (sim_param sim))) (\<lambda>p.
       case p of
         PoolInfo \<Rightarrow> Done [12, sim_param sim]
       | RunCrankInfo \<Rightarrow> Done [12, sim_param sim]
       | SwapBaseInInfo \<Rightarrow>
           (case swap_base_in_value sim of
              Some a \<Rightarrow> Done (12 # sim_param sim #
                to_le_bytes (amount_in a) @ to_le_bytes (minimum_amount_out a))
            | None \<Rightarrow> Fail InvalidInstructionData)
       | SwapBaseOutInfo \<Rightarrow>
           (case swap_base_out_value sim of
              Some a \<Rightarrow> Done (12 # sim_param sim #
                to_le_bytes (max_amount_in a) @ to_le_bytes (amount_out a))
            | None \<Rightarrow> Fail InvalidInstructionData))"

definition pack_config :: "config_args \<Rightarrow> bytes outcome" where
  "pack_config ca =
     (if ca_param ca = 0 \<or> ca_param ca = 1 then
        (case ca_owner ca of
           Some own \<Rightarrow>
             (if own = default_pubkey then Fail InvalidInstructionData
              else Done (15 # ca_param ca # to_le_bytes own))
         | None \<Rightarrow> Fail InvalidInstructionData)
      else if ca_param ca = 2 then
        (case ca_create_pool_fee ca of
           Some fee \<Rightarrow> Done (15 # ca_param ca # to_le_bytes fee)
         | None \<Rightarrow> Fail InvalidInstructionData)
      else Fail InvalidInstructionData)"

primrec pack :: "amm_instruction \<Rightarrow> bytes outcome" where
  "pack (Initialize i) = Done (0 # init_nonce i # to_le_bytes (init_open_time i))"
| "pack (Initialize2 i) =
     Done (1 # init2_nonce i # to_le_bytes (init2_open_time i) @
       to_le_bytes (init_pc_amount i) @ to_le_bytes (init_coin_amount i))"
| "pack (MonitorStep m) =
     Done (2 # to_le_bytes (plan_order_limit m) @ to_le_bytes (place_order_limit m) @
       to_le_bytes (cancel_order_limit m))"
| "pack (Deposit d) =
     Done (3 # to_le_bytes (max_coin_amount d) @ to_le_bytes (max_pc_amount d) @
       to_le_bytes (base_side d) @
       (case other_amount_min d of Some v \<Rightarrow> to_le_bytes v | None \<Rightarrow> []))"
| "pack (Withdraw w) =
     Done (4 # to_le_bytes (withdraw_amount w) @
       (case (min_coin_amount w, min_pc_amount w) of
          (Some a, Some b) \<Rightarrow> to_le_bytes a @ to_le_bytes b
        | _ \<Rightarrow> []))"
| "pack MigrateToOpenBook = Done [5]"
| "pack (SetParams sp) = pack_set_params sp"
| "pack WithdrawPnl = Done [7]"
| "pack (WithdrawSrm w) = Done (8 # to_le_bytes (srm_amount w))"
| "pack (SwapBaseIn s) =
     Done (9 # to_le_bytes (amount_in s) @ to_le_bytes (minimum_amount_out s))"
| "pack (PreInitialize p) = Done [10, pre_nonce p]"
| "pack (SwapBaseOut s) =
     Done (11 # to_le_bytes (max_amount_in s) @ to_le_bytes (amount_out s))"
| "pack (SimulateInfo sim) = pack_simulate sim"
| "pack (AdminCancelOrders c) = Done (13 # to_le_bytes (cancel_limit c))"
| "pack CreateConfigAccount = Done [14]"
| "pack (UpdateConfigAccount ca) = pack_config ca"

section \<open>The codec interface\<close>

text \<open>
  A parser that takes a value off the front of a byte string, with the encoder it
  inverts. Two codecs in sequence are a codec.
\<close>

locale codec =
  fixes enc :: "'a \<Rightarrow> bytes" and dec :: "bytes \<Rightarrow> ('a \<times> bytes) outcome"
  assumes dec_enc: "dec (enc x @ rest) = Done (x, rest)"
    and enc_dec: "dec bs = Done (x, rest) \<Longrightarrow> bs = enc x @ rest"
begin

lemma dec_enc_end: "dec (enc x) = Done (x, [])"
  using dec_enc [of x "[]"] by simp

lemma enc_prefix_free: "enc x @ r = enc y @ s \<Longrightarrow> x = y \<and> r = s"
  by (metis dec_enc outcome.inject(1) prod.inject)

end

locale codec_seq = fst: codec enc1 dec1 + snd: codec enc2 dec2
  for enc1 :: "'a \<Rightarrow> bytes" and dec1 and enc2 :: "'b \<Rightarrow> bytes" and dec2

sublocale codec_seq \<subseteq> pair: codec
  "\<lambda>(x, y). enc1 x @ enc2 y"
  "\<lambda>bs. and_then (dec1 bs) (\<lambda>(x, r). and_then (dec2 r) (\<lambda>(y, r'). Done ((x, y), r')))"
proof
  show "and_then (dec1 ((case x of (x, y) \<Rightarrow> enc1 x @ enc2 y) @ rest))
    (\<lambda>(x, r). and_then (dec2 r) (\<lambda>(y, r'). Done ((x, y), r'))) = Done (x, rest)" for x rest
    by (simp add: fst.dec_enc snd.dec_enc split: prod.split)
next
  fix bs x rest
  assume "and_then (dec1 bs) (\<lambda>(x, r). and_then (dec2 r) (\<lambda>(y, r'). Done ((x, y), r'))) = Done (x, rest)"
  then obtain a r b where "dec1 bs = Done (a, r)" "dec2 r = Done (b, rest)" "x = (a, b)"
    by (auto simp: and_then_Done)
  then show "bs = (case x of (x, y) \<Rightarrow> enc1 x @ enc2 y) @ rest"
    using fst.enc_dec [of bs a r] snd.enc_dec [of r b rest] by simp
qed

lemma from_le_bytes_take:
  assumes "n = LENGTH('a::len) div 8" and "8 dvd LENGTH('a)"
  shows "(if n \<le> length (to_le_bytes (w :: 'a word) @ rest)
      then Done (from_le_bytes (take n (to_le_bytes w @ rest)) :: 'a word, drop n (to_le_bytes w @ rest))
      else Fail e) = Done (w, rest)"
  using assms by (simp add: length_to_le_bytes from_to_le_bytes)

lemma to_from_le_bytes:
  assumes "length bs = LENGTH('a::len) div 8" and "8 dvd LENGTH('a)"
  shows "to_le_bytes (from_le_bytes bs :: 'a word) = bs"
proof -
  have "(256 :: int) ^ length bs = 2 ^ (8 * length bs)"
    by (simp add: power_mult)
  also have "8 * length bs = LENGTH('a)"
    using assms by simp
  finally have "take_bit LENGTH('a) (le_val bs) = le_val bs"
    using le_val_bound [of bs] by (simp add: take_bit_int_eq_self)
  then show ?thesis
    using le_enc_le_val [of bs] assms(1)
    by (simp add: to_le_bytes_def from_le_bytes_def uint_word_of_int_eq)
qed

lemma take_from_le_bytes:
  assumes "(if n \<le> length bs then Done (from_le_bytes (take n bs) :: 'a::len word, drop n bs) else Fail e)
      = Done (x, rest)"
    and "n = LENGTH('a) div 8" and "8 dvd LENGTH('a)"
  shows "bs = to_le_bytes x @ rest"
proof -
  have n: "n \<le> length bs" and x: "x = from_le_bytes (take n bs)" and r: "rest = drop n bs"
    using assms(1) by (auto split: if_splits)
  have "to_le_bytes x = take n bs"
    unfolding x by (rule to_from_le_bytes) (use n assms in simp_all)
  then show ?thesis
    unfolding r by simp
qed

interpretation u8c: codec "to_le_bytes :: u8 \<Rightarrow> bytes" unpack_u8
proof
  show "unpack_u8 (to_le_bytes x @ rest) = Done (x, rest)" for x rest
    unfolding unpack_u8_def by (rule from_le_bytes_take) simp_all
  show "unpack_u8 bs = Done (x, rest) \<Longrightarrow> bs = to_le_bytes x @ rest" for bs x rest
    unfolding unpack_u8_def by (erule take_from_le_bytes) simp_all
qed

interpretation u16c: codec "to_le_bytes :: u16 \<Rightarrow> bytes" unpack_u16
proof
  show "unpack_u16 (to_le_bytes x @ rest) = Done (x, rest)" for x rest
    unfolding unpack_u16_def by (rule from_le_bytes_take) simp_all
  show "unpack_u16 bs = Done (x, rest) \<Longrightarrow> bs = to_le_bytes x @ rest" for bs x rest
    unfolding unpack_u16_def by (erule take_from_le_bytes) simp_all
qed

interpretation u64c: codec "to_le_bytes :: u64 \<Rightarrow> bytes" unpack_u64
proof
  show "unpack_u64 (to_le_bytes x @ rest) = Done (x, rest)" for x rest
    unfolding unpack_u64_def by (rule from_le_bytes_take) simp_all
  show "unpack_u64 bs = Done (x, rest) \<Longrightarrow> bs = to_le_bytes x @ rest" for bs x rest
    unfolding unpack_u64_def by (erule take_from_le_bytes) simp_all
qed

interpretation u64_pair: codec_seq "to_le_bytes :: u64 \<Rightarrow> bytes" unpack_u64
  "to_le_bytes :: u64 \<Rightarrow> bytes" unpack_u64
  by unfold_locales

lemmas word_codecs = u8c.dec_enc u16c.dec_enc u64c.dec_enc u8c.dec_enc_end u16c.dec_enc_end
  u64c.dec_enc_end

lemma to_le_bytes_u8: "to_le_bytes (w :: u8) = [w]"
  by (simp add: to_le_bytes_def)

lemma unpack_u8_Cons [simp]: "unpack_u8 (b # rest) = Done (b, rest)"
  using u8c.dec_enc [of b rest] by (simp add: to_le_bytes_u8)

lemma length_u64_bytes [simp]: "length (to_le_bytes (w :: u64)) = 8"
  by (simp add: length_to_le_bytes)

lemma length_pubkey_bytes [simp]: "length (to_le_bytes (w :: pubkey)) = 32"
  by (simp add: length_to_le_bytes)

lemma array_ref_pubkey_bytes [simp]: "array_ref_pubkey (to_le_bytes k @ rest) = Done k"
  by (simp add: array_ref_pubkey_def from_to_le_bytes)

lemma array_ref_pubkey_Done: "array_ref_pubkey bs = Done k \<Longrightarrow> \<exists>rest. bs = to_le_bytes k @ rest"
  by (auto simp: array_ref_pubkey_def to_from_le_bytes split: if_splits
      intro!: exI [of _ "drop 32 bs"])

lemma length_fees_pack [simp]: "length (fees_pack_into_slice f) = fees_LEN"
  by (simp add: fees_pack_into_slice_def fees_LEN_def)

lemma fees_unpack_pack: "fees_unpack_from_slice (fees_pack_into_slice f @ rest) = Done f"
  by (simp add: fees_unpack_from_slice_def fees_pack_into_slice_def from_to_le_bytes)

lemma take_8_8_split:
  "n + 8 \<le> length bs \<Longrightarrow> drop n bs = take 8 (drop n bs) @ drop (n + 8) bs"
  by (metis add.commute append_take_drop_id drop_drop)

lemma fees_pack_unpack:
  assumes "fees_unpack_from_slice bs = Done f" and "length bs = 64"
  shows "fees_pack_into_slice f = bs"
proof -
  have "f = \<lparr>min_separate_numerator = from_le_bytes (take 8 bs),
         min_separate_denominator = from_le_bytes (take 8 (drop 8 bs)),
         trade_fee_numerator = from_le_bytes (take 8 (drop 16 bs)),
         trade_fee_denominator = from_le_bytes (take 8 (drop 24 bs)),
         pnl_numerator = from_le_bytes (take 8 (drop 32 bs)),
         pnl_denominator = from_le_bytes (take 8 (drop 40 bs)),
         swap_fee_numerator = from_le_bytes (take 8 (drop 48 bs)),
         swap_fee_denominator = from_le_bytes (take 8 (drop 56 bs))\<rparr>"
    using assms by (simp add: fees_unpack_from_slice_def)
  moreover have "bs = take 8 bs @ take 8 (drop 8 bs) @ take 8 (drop 16 bs) @ take 8 (drop 24 bs) @
     take 8 (drop 32 bs) @ take 8 (drop 40 bs) @ take 8 (drop 48 bs) @ take 8 (drop 56 bs)"
    using take_8_8_split [of 0 bs] take_8_8_split [of 8 bs] take_8_8_split [of 16 bs]
      take_8_8_split [of 24 bs] take_8_8_split [of 32 bs] take_8_8_split [of 40 bs]
      take_8_8_split [of 48 bs] take_8_8_split [of 56 bs] assms(2) by simp
  ultimately show ?thesis
    using assms(2) by (simp add: fees_pack_into_slice_def to_from_le_bytes)
qed

section \<open>Round trips of the wire format\<close>

text \<open>
  The instructions the wire format can express: the optional fields that are present are
  the ones the parameter or the tag selects.
\<close>

definition canonical_set_params :: "set_params_instruction \<Rightarrow> bool" where
  "canonical_set_params sp \<longleftrightarrow>
     (case params_from_u64 (widen (sp_param sp)) of
        Done p \<Rightarrow>
          (sp_new_pubkey sp \<noteq> None \<longleftrightarrow> p = AmmOwner) \<and>
          (sp_fees sp \<noteq> None \<longleftrightarrow> p = ParamFees) \<and>
          (sp_last_order_distance sp \<noteq> None \<longleftrightarrow> p = LastOrderDistance) \<and>
          (sp_value sp \<noteq> None \<longleftrightarrow> p \<notin> {AmmOwner, ParamFees, LastOrderDistance})
      | _ \<Rightarrow> False)"

definition canonical_simulate :: "simulate_instruction \<Rightarrow> bool" where
  "canonical_simulate sim \<longleftrightarrow>
     (case simulate_from_u64 (widen (sim_param sim)) of
        Done p \<Rightarrow>
          (swap_base_in_value sim \<noteq> None \<longleftrightarrow> p = SwapBaseInInfo) \<and>
          (swap_base_out_value sim \<noteq> None \<longleftrightarrow> p = SwapBaseOutInfo)
      | _ \<Rightarrow> False)"

definition canonical_config :: "config_args \<Rightarrow> bool" where
  "canonical_config ca \<longleftrightarrow>
     (if ca_param ca = 0 \<or> ca_param ca = 1
      then ca_owner ca \<notin> {None, Some default_pubkey} \<and> ca_create_pool_fee ca = None
      else ca_param ca = 2 \<and> ca_owner ca = None \<and> ca_create_pool_fee ca \<noteq> None)"

fun canonical :: "amm_instruction \<Rightarrow> bool" where
  "canonical (Withdraw w) \<longleftrightarrow> (min_coin_amount w = None \<longleftrightarrow> min_pc_amount w = None)"
| "canonical (SetParams sp) \<longleftrightarrow> canonical_set_params sp"
| "canonical (SimulateInfo sim) \<longleftrightarrow> canonical_simulate sim"
| "canonical (UpdateConfigAccount ca) \<longleftrightarrow> canonical_config ca"
| "canonical _ \<longleftrightarrow> True"

lemma unpack_pack_set_params:
  assumes "canonical_set_params sp"
  shows "\<exists>bs. pack_set_params sp = Done (6 # bs) \<and> unpack_set_params bs = Done (SetParams sp)"
proof -
  obtain p where p: "params_from_u64 (widen (sp_param sp)) = Done p"
    using assms by (auto simp: canonical_set_params_def split: outcome.splits)
  obtain param v k f d where sp: "sp = \<lparr>sp_param = param, sp_value = v, sp_new_pubkey = k,
      sp_fees = f, sp_last_order_distance = d\<rparr>"
    by (cases sp) auto
  show ?thesis
    using assms p unfolding sp canonical_set_params_def
    by (cases p; cases v; cases k; cases f; cases d)
       (auto simp: pack_set_params_def unpack_set_params_def word_codecs fees_LEN_def
          from_to_le_bytes array_ref_pubkey_bytes [where rest = "[]", simplified]
          fees_unpack_pack [where rest = "[]", simplified])
qed

lemma unpack_pack_simulate:
  assumes "canonical_simulate sim"
  shows "\<exists>bs. pack_simulate sim = Done (12 # bs) \<and> unpack_simulate bs = Done (SimulateInfo sim)"
proof -
  obtain p where p: "simulate_from_u64 (widen (sim_param sim)) = Done p"
    using assms by (auto simp: canonical_simulate_def split: outcome.splits)
  obtain param a b where sim: "sim = \<lparr>sim_param = param, swap_base_in_value = a,
      swap_base_out_value = b\<rparr>"
    by (cases sim) auto
  show ?thesis
    using assms p unfolding sim canonical_simulate_def
    by (cases p; cases a; cases b)
       (auto simp: pack_simulate_def unpack_simulate_def word_codecs)
qed

lemma unpack_pack_config:
  assumes "canonical_config ca"
  shows "\<exists>bs. pack_config ca = Done (15 # bs) \<and> unpack_config bs = Done (UpdateConfigAccount ca)"
proof -
  obtain param a b where ca: "ca = \<lparr>ca_param = param, ca_owner = a, ca_create_pool_fee = b\<rparr>"
    by (cases ca) auto
  show ?thesis
    using assms unfolding ca canonical_config_def
    by (auto simp: pack_config_def unpack_config_def word_codecs
        array_ref_pubkey_bytes [where rest = "[]", simplified] split: if_splits option.splits)
qed

lemma unpack_canonical:
  assumes "canonical i"
  shows "\<exists>bs. pack i = Done bs \<and> unpack bs = Done i"
proof (cases i)
  case (SetParams sp)
  then show ?thesis
    using unpack_pack_set_params assms by (fastforce simp: unpack_def unpack_tag_def)
next
  case (SimulateInfo sim)
  then show ?thesis
    using unpack_pack_simulate assms by (fastforce simp: unpack_def unpack_tag_def)
next
  case (UpdateConfigAccount ca)
  then show ?thesis
    using unpack_pack_config assms by (fastforce simp: unpack_def unpack_tag_def)
qed (use assms in \<open>auto simp: unpack_def unpack_tag_def unpack_deposit_def unpack_withdraw_def
      word_codecs split: option.split\<close>)

text \<open>
  C23: packing an instruction that the wire format can express succeeds, and unpacking the
  bytes gives the instruction back.
\<close>

theorem unpack_pack:
  assumes "canonical i"
  shows "\<exists>bs. pack i = Done bs \<and> unpack bs = Done i"
  by (rule unpack_canonical [OF assms])

theorem unpack_pack_witness:
  "canonical (UpdateConfigAccount \<lparr>ca_param = 0, ca_owner = Some 7, ca_create_pool_fee = None\<rparr>) \<and>
   (\<exists>bs. pack (UpdateConfigAccount \<lparr>ca_param = 0, ca_owner = Some 7, ca_create_pool_fee = None\<rparr>) = Done bs \<and>
     unpack bs = Done (UpdateConfigAccount \<lparr>ca_param = 0, ca_owner = Some 7, ca_create_pool_fee = None\<rparr>))"
proof -
  have "canonical (UpdateConfigAccount \<lparr>ca_param = 0, ca_owner = Some 7, ca_create_pool_fee = None\<rparr>)"
    by (simp add: canonical_config_def default_pubkey_def)
  then show ?thesis using unpack_pack by blast
qed

text \<open>The converse: what \<open>unpack\<close> accepts is an encoding, possibly with bytes after it.\<close>

lemma unpack_u8_iff: "unpack_u8 bs = Done (x, r) \<longleftrightarrow> bs = x # r"
  using u8c.enc_dec [of bs x r] by (auto simp: to_le_bytes_u8)

lemma unpack_u16_iff: "unpack_u16 bs = Done (x, r) \<longleftrightarrow> bs = to_le_bytes x @ r"
  using u16c.enc_dec u16c.dec_enc by blast

lemma unpack_u64_iff: "unpack_u64 bs = Done (x, r) \<longleftrightarrow> bs = to_le_bytes x @ r"
  using u64c.enc_dec u64c.dec_enc by blast

lemma array_ref_pubkey_iff: "array_ref_pubkey bs = Done k \<longleftrightarrow> (\<exists>r. bs = to_le_bytes k @ r)"
  using array_ref_pubkey_Done by auto

lemma fees_unpack_take_iff:
  "fees_LEN \<le> length bs \<Longrightarrow> fees_unpack_from_slice (take fees_LEN bs) = Done f \<longleftrightarrow>
     (\<exists>r. bs = fees_pack_into_slice f @ r)"
proof
  assume "fees_LEN \<le> length bs" and "fees_unpack_from_slice (take fees_LEN bs) = Done f"
  then have "fees_pack_into_slice f = take fees_LEN bs"
    by (intro fees_pack_unpack) (simp_all add: fees_LEN_def)
  then show "\<exists>r. bs = fees_pack_into_slice f @ r"
    by (metis append_take_drop_id)
next
  assume "\<exists>r. bs = fees_pack_into_slice f @ r"
  then show "fees_unpack_from_slice (take fees_LEN bs) = Done f"
    using fees_unpack_pack [of f "[]"] by auto
qed

lemmas parse_iffs = and_then_Done unpack_u8_iff unpack_u16_iff unpack_u64_iff array_ref_pubkey_iff

lemma unpack_set_params_inv:
  assumes "unpack_set_params bs = Done i"
  shows "canonical i \<and> (\<exists>p rest. pack i = Done (6 # p) \<and> bs = p @ rest)"
proof -
  obtain param rest p where bs: "bs = param # rest" and p: "params_from_u64 (widen param) = Done p"
    using assms by (auto simp: unpack_set_params_def and_then_Done unpack_u8_iff)
  show ?thesis
    using assms p unfolding bs
    by (cases p)
       (auto simp: unpack_set_params_def canonical_set_params_def pack_set_params_def parse_iffs
          fees_unpack_take_iff split: if_splits)
qed

lemma unpack_simulate_inv:
  assumes "unpack_simulate bs = Done i"
  shows "canonical i \<and> (\<exists>p rest. pack i = Done (12 # p) \<and> bs = p @ rest)"
proof -
  obtain param rest p where bs: "bs = param # rest" and p: "simulate_from_u64 (widen param) = Done p"
    using assms by (auto simp: unpack_simulate_def and_then_Done unpack_u8_iff)
  show ?thesis
    using assms p unfolding bs
    by (cases p)
       (auto simp: unpack_simulate_def canonical_simulate_def pack_simulate_def parse_iffs)
qed

lemma unpack_config_inv:
  assumes "unpack_config bs = Done i"
    and "\<And>ca. i = UpdateConfigAccount ca \<Longrightarrow> ca_owner ca \<noteq> Some default_pubkey"
  shows "canonical i \<and> (\<exists>p rest. pack i = Done (15 # p) \<and> bs = p @ rest)"
  using assms
  by (auto simp: unpack_config_def canonical_config_def pack_config_def parse_iffs
      split: if_splits prod.splits)

lemma unpack_deposit_inv:
  assumes "unpack_deposit bs = Done i"
  shows "canonical i \<and> (\<exists>p rest. pack i = Done (3 # p) \<and> bs = p @ rest)"
  using assms
  by (auto simp: unpack_deposit_def parse_iffs split: if_splits prod.splits)

lemma unpack_withdraw_inv:
  assumes "unpack_withdraw bs = Done i"
  shows "canonical i \<and> (\<exists>p rest. pack i = Done (4 # p) \<and> bs = p @ rest)"
  using assms
  by (auto simp: unpack_withdraw_def parse_iffs split: if_splits prod.splits)

lemma unpack_tag_inv:
  assumes "unpack_tag tag bs = Done i"
    and "\<And>ca. i = UpdateConfigAccount ca \<Longrightarrow> ca_owner ca \<noteq> Some default_pubkey"
  shows "canonical i \<and> (\<exists>p rest. pack i = Done (tag # p) \<and> bs = p @ rest)"
  using assms unfolding unpack_tag_def
  by (auto simp: parse_iffs split: if_splits
      dest!: unpack_set_params_inv unpack_simulate_inv unpack_deposit_inv unpack_withdraw_inv
        unpack_config_inv)

text \<open>
  C24: every byte string the parser accepts is the encoding of the instruction it returns,
  followed by ignored bytes; the one exception is a config update to the all-zero key,
  which is parsed and which \<open>pack\<close> refuses to write.
\<close>

theorem pack_unpack:
  assumes "unpack bs = Done i"
    and "\<And>ca. i = UpdateConfigAccount ca \<Longrightarrow> ca_owner ca \<noteq> Some default_pubkey"
  shows "canonical i \<and> (\<exists>p rest. pack i = Done p \<and> bs = p @ rest)"
proof -
  obtain tag rest where bs: "bs = tag # rest" and "unpack_tag tag rest = Done i"
    using assms(1) by (auto simp: unpack_def split: list.splits)
  then obtain p r where "canonical i" "pack i = Done (tag # p)" "rest = p @ r"
    using unpack_tag_inv assms(2) by metis
  then show ?thesis
    unfolding bs by fastforce
qed

theorem pack_unpack_witness:
  "unpack [13, 5, 0, 9] = Done (AdminCancelOrders \<lparr>cancel_limit = 5\<rparr>) \<and>
   canonical (AdminCancelOrders \<lparr>cancel_limit = 5\<rparr>) \<and>
   (\<exists>p rest. pack (AdminCancelOrders \<lparr>cancel_limit = 5\<rparr>) = Done p \<and> [13, 5, 0, 9] = p @ rest)"
proof -
  have "unpack [13, 5, 0, 9] = Done (AdminCancelOrders \<lparr>cancel_limit = 5\<rparr>)"
    by code_simp
  moreover from pack_unpack [OF this]
  have "canonical (AdminCancelOrders \<lparr>cancel_limit = 5\<rparr>) \<and>
    (\<exists>p rest. pack (AdminCancelOrders \<lparr>cancel_limit = 5\<rparr>) = Done p \<and> [13, 5, 0, 9] = p @ rest)"
    by simp
  ultimately show ?thesis by blast
qed

end
