(* ===== verification/Amm_State.thy ===== *)
theory Amm_State
  imports Calc Instruction
begin

text \<open>
  \<open>program/src/state.rs\<close>, operations: validation and defaults of the fees, initialisation of
  the pool and of the target orders, the client order id, and the packed little-endian
  layout (\<open>repr(C, packed)\<close>) through which \<open>Loadable\<close> reads and writes the structs in an
  account's data. The layouts are laws of a round trip, \<open>amm_of_bytes (amm_bytes a) = a\<close>.
\<close>

section \<open>Fees\<close>

definition validate_fraction :: "u64 \<Rightarrow> u64 \<Rightarrow> unit outcome" where
  "validate_fraction numerator denominator =
     (if numerator \<ge> denominator \<or> denominator = 0 then err InvalidFee else Done ())"

definition fees_validate :: "fees \<Rightarrow> unit outcome" where
  "fees_validate self =
     and_then (validate_fraction (min_separate_numerator self) (min_separate_denominator self)) (\<lambda>_.
     and_then (validate_fraction (trade_fee_numerator self) (trade_fee_denominator self)) (\<lambda>_.
     and_then (validate_fraction (pnl_numerator self) (pnl_denominator self)) (\<lambda>_.
     and_then (validate_fraction (swap_fee_numerator self) (swap_fee_denominator self)) (\<lambda>_.
       Done ()))))"

definition fees_initialize :: "fees \<Rightarrow> fees outcome" where
  "fees_initialize self = Done (self\<lparr>
     min_separate_numerator := 5,
     min_separate_denominator := TEN_THOUSAND,
     trade_fee_numerator := 25,
     trade_fee_denominator := TEN_THOUSAND,
     pnl_numerator := 12,
     pnl_denominator := 100,
     swap_fee_numerator := 25,
     swap_fee_denominator := TEN_THOUSAND\<rparr>)"

lemma validate_fraction_Done: "validate_fraction n d = Done u \<longleftrightarrow> uint n < uint d"
  by (auto simp: validate_fraction_def word_le_def word_uint_eq_iff)

lemma fees_validate_Done:
  "fees_validate f = Done u \<longleftrightarrow>
     uint (min_separate_numerator f) < uint (min_separate_denominator f) \<and>
     uint (trade_fee_numerator f) < uint (trade_fee_denominator f) \<and>
     uint (pnl_numerator f) < uint (pnl_denominator f) \<and>
     uint (swap_fee_numerator f) < uint (swap_fee_denominator f)"
  by (auto simp: fees_validate_def and_then_Done validate_fraction_Done)

section \<open>Initialisation of the pool\<close>

definition state_data_initialize :: "state_data \<Rightarrow> u64 \<Rightarrow> state_data outcome" where
  "state_data_initialize self open_time = Done (self\<lparr>
     need_take_pnl_coin := 0,
     need_take_pnl_pc := 0,
     total_pnl_pc := 0,
     total_pnl_coin := 0,
     pool_open_time := open_time,
     sd_padding := replicate 2 0,
     orderbook_to_init_time := 0,
     swap_coin_in_amount := 0,
     swap_pc_out_amount := 0,
     swap_acc_pc_fee := 0,
     swap_pc_in_amount := 0,
     swap_coin_out_amount := 0,
     swap_acc_coin_fee := 0\<rparr>)"

text \<open>
  The system decimal value: ten to the larger number of decimals, raised to the price unit
  of the market when that is at least as large.
\<close>

definition init_sys_decimal_value :: "u8 \<Rightarrow> u8 \<Rightarrow> u64 \<Rightarrow> u64 \<Rightarrow> u64 option" where
  "init_sys_decimal_value coin_dec pc_dec coin_lot_size pc_lot_size =
     do {
       sys0 \<leftarrow> (if pc_dec > coin_dec then checked_pow 10 (unat pc_dec)
                else checked_pow 10 (unat coin_dec));
       pc_unit \<leftarrow> checked_pow (10 :: u128) (unat pc_dec);
       temp_value_numerator \<leftarrow> checked_mul (widen coin_lot_size) pc_unit;
       coin_unit \<leftarrow> checked_pow (10 :: u128) (unat coin_dec);
       temp_value_denominator \<leftarrow> checked_mul (widen pc_lot_size) coin_unit;
       q \<leftarrow> checked_div temp_value_numerator temp_value_denominator;
       if widen sys0 \<le> q then ok (to_u64 q) else Some sys0
     }"

definition init_min_size :: "u8 \<Rightarrow> u64 \<Rightarrow> u64 \<Rightarrow> u64 outcome" where
  "init_min_size coin_dec coin_lot_size sys_decimal =
     and_then (unwrap (do {
       m \<leftarrow> checked_mul (widen coin_lot_size :: u128) (widen sys_decimal);
       p \<leftarrow> checked_pow (10 :: u128) (unat coin_dec);
       checked_div m p
     })) (\<lambda>size.
       if size < widen (- 1 :: u64) then to_u64 size else Done 0)"

definition amm_initialize ::
  "u64 outcome \<Rightarrow> amm_info \<Rightarrow> u8 \<Rightarrow> u64 \<Rightarrow> u8 \<Rightarrow> u8 \<Rightarrow> u64 \<Rightarrow> u64 \<Rightarrow> amm_info outcome" where
  "amm_initialize get_recent_epoch self nonce open_time coin_dec pc_dec coin_lot_size pc_lot_size =
     and_then (fees_initialize (amm_fees self)) (\<lambda>f.
     and_then (state_data_initialize (amm_state_data self) open_time) (\<lambda>sd.
     and_then (unwrap (init_sys_decimal_value coin_dec pc_dec coin_lot_size pc_lot_size)) (\<lambda>sys.
     and_then (init_min_size coin_dec coin_lot_size sys) (\<lambda>size.
     and_then (unwrap (do { m \<leftarrow> checked_mul sys 5; checked_div m 1000 })) (\<lambda>wave.
     and_then (unwrap (convert_in_pc_lot_size pc_dec coin_dec pc_lot_size coin_lot_size sys)) (\<lambda>lot.
     and_then (unwrap_result get_recent_epoch) (\<lambda>epoch.
       Done (self\<lparr>
         amm_fees := f,
         amm_state_data := sd,
         amm_status := status_into_u64 Uninitialized,
         amm_nonce := widen nonce,
         amm_order_num := 7,
         amm_depth := 3,
         coin_decimals := widen coin_dec,
         pc_decimals := widen pc_dec,
         amm_state := state_into_u64 IdleState,
         amm_reset_flag := reset_flag_into_u64 ResetNo,
         sys_decimal_value := sys,
         min_size := size,
         vol_max_cut_ratio := 500,
         amount_wave := wave,
         amm_coin_lot_size := coin_lot_size,
         amm_pc_lot_size := lot,
         min_price_multiplier := 1,
         max_price_multiplier := 1000000000,
         amm_client_order_id := 0,
         amm_padding1 := replicate 8 0,
         recent_epoch := epoch,
         amm_padding2 := 0\<rparr>))))))))"

text \<open>
  The parameters every pool of the program has: few enough orders for the arrays, a depth in
  percent, fractions below one. The separation of the fees is not among them:
  \<open>process_set_params\<close> does not relate it to its denominator.
\<close>

definition params_ok :: "amm_info \<Rightarrow> bool" where
  "params_ok a \<longleftrightarrow>
     amm_order_num a \<le> of_nat MAX_ORDER_LIMIT \<and> 0 < amm_depth a \<and> amm_depth a < 100 \<and>
     vol_max_cut_ratio a \<le> TEN_THOUSAND \<and>
     min_price_multiplier a < max_price_multiplier a \<and>
     trade_fee_numerator (amm_fees a) < trade_fee_denominator (amm_fees a) \<and>
     pnl_numerator (amm_fees a) < pnl_denominator (amm_fees a) \<and>
     swap_fee_numerator (amm_fees a) < swap_fee_denominator (amm_fees a)"

lemma amm_initialize_ok:
  assumes "amm_initialize e self nonce t cd pd cl pl = Done a"
  shows "params_ok a"
  using assms
  by (auto simp: amm_initialize_def and_then_Done fees_initialize_def params_ok_def
      MAX_ORDER_LIMIT_def TEN_THOUSAND_def)

definition incr_client_order_id :: "amm_info \<Rightarrow> u64 \<times> amm_info" where
  "incr_client_order_id self =
     (let id1 = amm_client_order_id self + 1;
          id2 = (if id1 = 0 then id1 + 1 else id1)
      in (id2, self\<lparr>amm_client_order_id := id2\<rparr>))"

text \<open>
  \<open>Pubkey::to_aligned_bytes\<close> belongs to the market's crate; the functions that use it take
  it as the parameter \<open>aligned\<close>.
\<close>

definition target_check_init ::
  "(pubkey \<Rightarrow> u64 list) \<Rightarrow> target_orders \<Rightarrow> u128 \<Rightarrow> u128 \<Rightarrow> pubkey \<Rightarrow> target_orders outcome" where
  "target_check_init aligned self x y own =
     (if to_owner self \<noteq> aligned default_pubkey then err AlreadyInUse
      else Done (self\<lparr>
        to_owner := aligned own,
        last_order_numerator := 0,
        last_order_denominator := 0,
        plan_orders_cur := 0,
        place_orders_cur := 0,
        valid_buy_order_num := 0,
        valid_sell_order_num := 0,
        target_x := 0,
        target_y := 0,
        plan_x_buy := 0,
        plan_y_buy := 0,
        plan_x_sell := 0,
        plan_y_sell := 0,
        placed_x := 0,
        placed_y := 0,
        calc_pnl_x := x,
        calc_pnl_y := y,
        to_free_slot_bits := u128_MAX\<rparr>))"

section \<open>Packed layout of the account structs\<close>

text \<open>
  A packed struct is the concatenation of its fields; reading takes each field from the
  front of what the previous ones left. The readers are total: \<open>Loadable\<close> checks the size
  of the data before it casts.
\<close>

definition get_le :: "bytes \<Rightarrow> 'a::len word \<times> bytes" where
  "get_le bs = (from_le_bytes (take (LENGTH('a) div 8) bs), drop (LENGTH('a) div 8) bs)"

fun get_list :: "(bytes \<Rightarrow> 'a \<times> bytes) \<Rightarrow> nat \<Rightarrow> bytes \<Rightarrow> 'a list \<times> bytes" where
  "get_list g 0 bs = ([], bs)"
| "get_list g (Suc n) bs =
     (let (x, bs1) = g bs; (xs, bs2) = get_list g n bs1 in (x # xs, bs2))"

definition put_list :: "('a \<Rightarrow> bytes) \<Rightarrow> 'a list \<Rightarrow> bytes" where
  "put_list p xs = concat (map p xs)"

definition target_order_bytes :: "target_order \<Rightarrow> bytes" where
  "target_order_bytes x =
     to_le_bytes (price x) @
     to_le_bytes (vol x)"

definition get_target_order :: "bytes \<Rightarrow> target_order \<times> bytes" where
  "get_target_order b0 =
     (let
        (v1, b1) = get_le b0;
        (v2, b2) = get_le b1
      in (\<lparr>price = v1,
          vol = v2\<rparr>, b2))"

definition fees_bytes :: "fees \<Rightarrow> bytes" where
  "fees_bytes x =
     to_le_bytes (min_separate_numerator x) @
     to_le_bytes (min_separate_denominator x) @
     to_le_bytes (trade_fee_numerator x) @
     to_le_bytes (trade_fee_denominator x) @
     to_le_bytes (pnl_numerator x) @
     to_le_bytes (pnl_denominator x) @
     to_le_bytes (swap_fee_numerator x) @
     to_le_bytes (swap_fee_denominator x)"

definition get_fees :: "bytes \<Rightarrow> fees \<times> bytes" where
  "get_fees b0 =
     (let
        (v1, b1) = get_le b0;
        (v2, b2) = get_le b1;
        (v3, b3) = get_le b2;
        (v4, b4) = get_le b3;
        (v5, b5) = get_le b4;
        (v6, b6) = get_le b5;
        (v7, b7) = get_le b6;
        (v8, b8) = get_le b7
      in (\<lparr>min_separate_numerator = v1,
          min_separate_denominator = v2,
          trade_fee_numerator = v3,
          trade_fee_denominator = v4,
          pnl_numerator = v5,
          pnl_denominator = v6,
          swap_fee_numerator = v7,
          swap_fee_denominator = v8\<rparr>, b8))"

definition state_data_bytes :: "state_data \<Rightarrow> bytes" where
  "state_data_bytes x =
     to_le_bytes (need_take_pnl_coin x) @
     to_le_bytes (need_take_pnl_pc x) @
     to_le_bytes (total_pnl_pc x) @
     to_le_bytes (total_pnl_coin x) @
     to_le_bytes (pool_open_time x) @
     put_list to_le_bytes (sd_padding x) @
     to_le_bytes (orderbook_to_init_time x) @
     to_le_bytes (swap_coin_in_amount x) @
     to_le_bytes (swap_pc_out_amount x) @
     to_le_bytes (swap_acc_pc_fee x) @
     to_le_bytes (swap_pc_in_amount x) @
     to_le_bytes (swap_coin_out_amount x) @
     to_le_bytes (swap_acc_coin_fee x)"

definition get_state_data :: "bytes \<Rightarrow> state_data \<times> bytes" where
  "get_state_data b0 =
     (let
        (v1, b1) = get_le b0;
        (v2, b2) = get_le b1;
        (v3, b3) = get_le b2;
        (v4, b4) = get_le b3;
        (v5, b5) = get_le b4;
        (v6, b6) = get_list get_le 2 b5;
        (v7, b7) = get_le b6;
        (v8, b8) = get_le b7;
        (v9, b9) = get_le b8;
        (v10, b10) = get_le b9;
        (v11, b11) = get_le b10;
        (v12, b12) = get_le b11;
        (v13, b13) = get_le b12
      in (\<lparr>need_take_pnl_coin = v1,
          need_take_pnl_pc = v2,
          total_pnl_pc = v3,
          total_pnl_coin = v4,
          pool_open_time = v5,
          sd_padding = v6,
          orderbook_to_init_time = v7,
          swap_coin_in_amount = v8,
          swap_pc_out_amount = v9,
          swap_acc_pc_fee = v10,
          swap_pc_in_amount = v11,
          swap_coin_out_amount = v12,
          swap_acc_coin_fee = v13\<rparr>, b13))"

definition amm_bytes :: "amm_info \<Rightarrow> bytes" where
  "amm_bytes x =
     to_le_bytes (amm_status x) @
     to_le_bytes (amm_nonce x) @
     to_le_bytes (amm_order_num x) @
     to_le_bytes (amm_depth x) @
     to_le_bytes (coin_decimals x) @
     to_le_bytes (pc_decimals x) @
     to_le_bytes (amm_state x) @
     to_le_bytes (amm_reset_flag x) @
     to_le_bytes (min_size x) @
     to_le_bytes (vol_max_cut_ratio x) @
     to_le_bytes (amount_wave x) @
     to_le_bytes (amm_coin_lot_size x) @
     to_le_bytes (amm_pc_lot_size x) @
     to_le_bytes (min_price_multiplier x) @
     to_le_bytes (max_price_multiplier x) @
     to_le_bytes (sys_decimal_value x) @
     fees_bytes (amm_fees x) @
     state_data_bytes (amm_state_data x) @
     to_le_bytes (amm_coin_vault x) @
     to_le_bytes (amm_pc_vault x) @
     to_le_bytes (coin_vault_mint x) @
     to_le_bytes (pc_vault_mint x) @
     to_le_bytes (amm_lp_mint x) @
     to_le_bytes (amm_open_orders x) @
     to_le_bytes (amm_market x) @
     to_le_bytes (amm_market_program x) @
     to_le_bytes (amm_target_orders x) @
     put_list to_le_bytes (amm_padding1 x) @
     to_le_bytes (amm_owner x) @
     to_le_bytes (lp_amount x) @
     to_le_bytes (amm_client_order_id x) @
     to_le_bytes (recent_epoch x) @
     to_le_bytes (amm_padding2 x)"

definition get_amm :: "bytes \<Rightarrow> amm_info \<times> bytes" where
  "get_amm b0 =
     (let
        (v1, b1) = get_le b0;
        (v2, b2) = get_le b1;
        (v3, b3) = get_le b2;
        (v4, b4) = get_le b3;
        (v5, b5) = get_le b4;
        (v6, b6) = get_le b5;
        (v7, b7) = get_le b6;
        (v8, b8) = get_le b7;
        (v9, b9) = get_le b8;
        (v10, b10) = get_le b9;
        (v11, b11) = get_le b10;
        (v12, b12) = get_le b11;
        (v13, b13) = get_le b12;
        (v14, b14) = get_le b13;
        (v15, b15) = get_le b14;
        (v16, b16) = get_le b15;
        (v17, b17) = get_fees b16;
        (v18, b18) = get_state_data b17;
        (v19, b19) = get_le b18;
        (v20, b20) = get_le b19;
        (v21, b21) = get_le b20;
        (v22, b22) = get_le b21;
        (v23, b23) = get_le b22;
        (v24, b24) = get_le b23;
        (v25, b25) = get_le b24;
        (v26, b26) = get_le b25;
        (v27, b27) = get_le b26;
        (v28, b28) = get_list get_le 8 b27;
        (v29, b29) = get_le b28;
        (v30, b30) = get_le b29;
        (v31, b31) = get_le b30;
        (v32, b32) = get_le b31;
        (v33, b33) = get_le b32
      in (\<lparr>amm_status = v1,
          amm_nonce = v2,
          amm_order_num = v3,
          amm_depth = v4,
          coin_decimals = v5,
          pc_decimals = v6,
          amm_state = v7,
          amm_reset_flag = v8,
          min_size = v9,
          vol_max_cut_ratio = v10,
          amount_wave = v11,
          amm_coin_lot_size = v12,
          amm_pc_lot_size = v13,
          min_price_multiplier = v14,
          max_price_multiplier = v15,
          sys_decimal_value = v16,
          amm_fees = v17,
          amm_state_data = v18,
          amm_coin_vault = v19,
          amm_pc_vault = v20,
          coin_vault_mint = v21,
          pc_vault_mint = v22,
          amm_lp_mint = v23,
          amm_open_orders = v24,
          amm_market = v25,
          amm_market_program = v26,
          amm_target_orders = v27,
          amm_padding1 = v28,
          amm_owner = v29,
          lp_amount = v30,
          amm_client_order_id = v31,
          recent_epoch = v32,
          amm_padding2 = v33\<rparr>, b33))"

definition target_orders_bytes :: "target_orders \<Rightarrow> bytes" where
  "target_orders_bytes x =
     put_list to_le_bytes (to_owner x) @
     put_list target_order_bytes (buy_orders x) @
     put_list to_le_bytes (to_padding1 x) @
     to_le_bytes (target_x x) @
     to_le_bytes (target_y x) @
     to_le_bytes (plan_x_buy x) @
     to_le_bytes (plan_y_buy x) @
     to_le_bytes (plan_x_sell x) @
     to_le_bytes (plan_y_sell x) @
     to_le_bytes (placed_x x) @
     to_le_bytes (placed_y x) @
     to_le_bytes (calc_pnl_x x) @
     to_le_bytes (calc_pnl_y x) @
     put_list target_order_bytes (sell_orders x) @
     put_list to_le_bytes (to_padding2 x) @
     put_list to_le_bytes (replace_buy_client_id x) @
     put_list to_le_bytes (replace_sell_client_id x) @
     to_le_bytes (last_order_numerator x) @
     to_le_bytes (last_order_denominator x) @
     to_le_bytes (plan_orders_cur x) @
     to_le_bytes (place_orders_cur x) @
     to_le_bytes (valid_buy_order_num x) @
     to_le_bytes (valid_sell_order_num x) @
     put_list to_le_bytes (to_padding3 x) @
     to_le_bytes (to_free_slot_bits x)"

definition get_target_orders :: "bytes \<Rightarrow> target_orders \<times> bytes" where
  "get_target_orders b0 =
     (let
        (v1, b1) = get_list get_le 4 b0;
        (v2, b2) = get_list get_target_order 50 b1;
        (v3, b3) = get_list get_le 8 b2;
        (v4, b4) = get_le b3;
        (v5, b5) = get_le b4;
        (v6, b6) = get_le b5;
        (v7, b7) = get_le b6;
        (v8, b8) = get_le b7;
        (v9, b9) = get_le b8;
        (v10, b10) = get_le b9;
        (v11, b11) = get_le b10;
        (v12, b12) = get_le b11;
        (v13, b13) = get_le b12;
        (v14, b14) = get_list get_target_order 50 b13;
        (v15, b15) = get_list get_le 6 b14;
        (v16, b16) = get_list get_le 10 b15;
        (v17, b17) = get_list get_le 10 b16;
        (v18, b18) = get_le b17;
        (v19, b19) = get_le b18;
        (v20, b20) = get_le b19;
        (v21, b21) = get_le b20;
        (v22, b22) = get_le b21;
        (v23, b23) = get_le b22;
        (v24, b24) = get_list get_le 10 b23;
        (v25, b25) = get_le b24
      in (\<lparr>to_owner = v1,
          buy_orders = v2,
          to_padding1 = v3,
          target_x = v4,
          target_y = v5,
          plan_x_buy = v6,
          plan_y_buy = v7,
          plan_x_sell = v8,
          plan_y_sell = v9,
          placed_x = v10,
          placed_y = v11,
          calc_pnl_x = v12,
          calc_pnl_y = v13,
          sell_orders = v14,
          to_padding2 = v15,
          replace_buy_client_id = v16,
          replace_sell_client_id = v17,
          last_order_numerator = v18,
          last_order_denominator = v19,
          plan_orders_cur = v20,
          place_orders_cur = v21,
          valid_buy_order_num = v22,
          valid_sell_order_num = v23,
          to_padding3 = v24,
          to_free_slot_bits = v25\<rparr>, b25))"

definition config_bytes :: "amm_config \<Rightarrow> bytes" where
  "config_bytes x =
     to_le_bytes (pnl_owner x) @
     to_le_bytes (cancel_owner x) @
     put_list to_le_bytes (pending_1 x) @
     put_list to_le_bytes (pending_2 x) @
     to_le_bytes (create_pool_fee x)"

definition get_config :: "bytes \<Rightarrow> amm_config \<times> bytes" where
  "get_config b0 =
     (let
        (v1, b1) = get_le b0;
        (v2, b2) = get_le b1;
        (v3, b3) = get_list get_le 28 b2;
        (v4, b4) = get_list get_le 31 b3;
        (v5, b5) = get_le b4
      in (\<lparr>pnl_owner = v1,
          cancel_owner = v2,
          pending_1 = v3,
          pending_2 = v4,
          create_pool_fee = v5\<rparr>, b5))"

definition amm_SIZE :: nat where
  "amm_SIZE = 752"

definition target_orders_SIZE :: nat where
  "target_orders_SIZE = 2208"

definition config_SIZE :: nat where
  "config_SIZE = 544"

text \<open>The array lengths the struct types fix.\<close>

definition wf_amm :: "amm_info \<Rightarrow> bool" where
  "wf_amm a \<longleftrightarrow> length (sd_padding (amm_state_data a)) = 2 \<and> length (amm_padding1 a) = 8"

definition wf_config :: "amm_config \<Rightarrow> bool" where
  "wf_config c \<longleftrightarrow> length (pending_1 c) = 28 \<and> length (pending_2 c) = 31"

lemma get_le_word [simp]: "8 dvd LENGTH('a::len) \<Longrightarrow> get_le (to_le_bytes (w :: 'a word) @ r) = (w, r)"
  by (simp add: get_le_def length_to_le_bytes from_to_le_bytes)

lemma get_list_put_list:
  assumes "\<And>x r. get (put x @ r) = (x, r)"
  shows "get_list get (length xs) (put_list put xs @ r) = (xs, r)"
  by (induction xs) (auto simp: put_list_def assms)

lemma get_list_put_list_n:
  assumes "\<And>x r. get (put x @ r) = (x, r)" and "length xs = n"
  shows "get_list get n (put_list put xs @ r) = (xs, r)"
  using get_list_put_list [OF assms(1)] assms(2) by blast

lemma length_put_list: "(\<And>x. length (put x) = k) \<Longrightarrow> length (put_list put xs) = k * length xs"
  by (induction xs) (simp_all add: put_list_def)

lemma get_target_order_bytes [simp]: "get_target_order (target_order_bytes x @ r) = (x, r)"
  by (simp add: get_target_order_def target_order_bytes_def)

lemma get_fees_bytes [simp]: "get_fees (fees_bytes x @ r) = (x, r)"
  by (simp add: get_fees_def fees_bytes_def)

lemma get_state_data_bytes [simp]:
  "length (sd_padding x) = 2 \<Longrightarrow> get_state_data (state_data_bytes x @ r) = (x, r)"
  by (simp add: get_state_data_def state_data_bytes_def get_list_put_list_n)

lemma get_amm_bytes: "wf_amm x \<Longrightarrow> get_amm (amm_bytes x @ r) = (x, r)"
  by (simp add: get_amm_def amm_bytes_def wf_amm_def get_list_put_list_n)

lemma get_target_orders_bytes:
  "wf_target_orders x \<Longrightarrow> get_target_orders (target_orders_bytes x @ r) = (x, r)"
  by (simp add: get_target_orders_def target_orders_bytes_def wf_target_orders_def
      MAX_ORDER_LIMIT_def get_list_put_list_n)

lemma get_config_bytes: "wf_config x \<Longrightarrow> get_config (config_bytes x @ r) = (x, r)"
  by (simp add: get_config_def config_bytes_def wf_config_def get_list_put_list_n)

lemmas layout_lengths = length_to_le_bytes length_put_list [where k = 8]
  length_put_list [where k = 16]

lemma length_target_order_bytes [simp]: "length (target_order_bytes x) = 16"
  by (simp add: target_order_bytes_def length_to_le_bytes)

lemma length_fees_bytes [simp]: "length (fees_bytes x) = 64"
  by (simp add: fees_bytes_def length_to_le_bytes)

lemma length_state_data_bytes [simp]:
  "length (sd_padding x) = 2 \<Longrightarrow> length (state_data_bytes x) = 144"
  by (simp add: state_data_bytes_def layout_lengths)

lemma length_amm_bytes [simp]: "wf_amm x \<Longrightarrow> length (amm_bytes x) = amm_SIZE"
  by (simp add: amm_bytes_def wf_amm_def amm_SIZE_def layout_lengths)

lemma length_target_orders_bytes [simp]:
  "wf_target_orders x \<Longrightarrow> length (target_orders_bytes x) = target_orders_SIZE"
  by (simp add: target_orders_bytes_def wf_target_orders_def target_orders_SIZE_def
      MAX_ORDER_LIMIT_def layout_lengths)

lemma length_config_bytes [simp]: "wf_config x \<Longrightarrow> length (config_bytes x) = config_SIZE"
  by (simp add: config_bytes_def wf_config_def config_SIZE_def layout_lengths)

lemma length_get_list [simp]: "length (fst (get_list g n bs)) = n"
proof (induction n arbitrary: bs)
  case (Suc n)
  then show ?case by (simp add: Let_def case_prod_unfold)
qed simp

lemma length_get_list_D: "get_list g n bs = (xs, r) \<Longrightarrow> length xs = n"
  using length_get_list [of g n bs] by simp

lemma wf_get_amm: "wf_amm (fst (get_amm bs))"
  by (auto simp: get_amm_def get_state_data_def wf_amm_def Let_def dest: length_get_list_D
      split: prod.split)

lemma wf_get_target_orders: "wf_target_orders (fst (get_target_orders bs))"
  by (auto simp: get_target_orders_def wf_target_orders_def MAX_ORDER_LIMIT_def Let_def
      dest: length_get_list_D split: prod.split)

lemma wf_get_config: "wf_config (fst (get_config bs))"
  by (auto simp: get_config_def wf_config_def Let_def dest: length_get_list_D split: prod.split)

section \<open>Client order ids\<close>

lemma uint_minus_1_u64: "uint (- 1 :: u64) = 2 ^ 64 - 1"
  by (simp add: unsigned_minus_1_eq_mask mask_eq_exp_minus_1)

lemma incr_client_order_id_eq:
  "uint (fst (incr_client_order_id a)) = uint (amm_client_order_id a) mod (2 ^ 64 - 1) + 1 \<and>
   snd (incr_client_order_id a) = a\<lparr>amm_client_order_id := fst (incr_client_order_id a)\<rparr>"
proof (cases "amm_client_order_id a = - 1")
  case True
  then show ?thesis
    by (simp add: incr_client_order_id_def uint_minus_1_u64)
next
  case False
  then have "uint (amm_client_order_id a) \<noteq> 2 ^ 64 - 1"
    by (metis uint_eqI uint_minus_1_u64)
  with uint_lt_pow [of "amm_client_order_id a"]
  have lt: "uint (amm_client_order_id a) < 2 ^ 64 - 1" by simp
  then have "uint (amm_client_order_id a + 1) = uint (amm_client_order_id a) + 1"
    by (subst uint_plus_exact) simp_all
  moreover from this have "amm_client_order_id a + 1 \<noteq> 0"
    using uint_ge_0 [of "amm_client_order_id a"] by (intro notI) simp
  ultimately show ?thesis
    using lt by (simp add: incr_client_order_id_def Let_def)
qed

text \<open>The ids a pool hands out for its next \<open>n\<close> orders.\<close>

fun next_client_order_ids :: "nat \<Rightarrow> amm_info \<Rightarrow> u64 list" where
  "next_client_order_ids 0 a = []"
| "next_client_order_ids (Suc n) a =
     (let (i, a') = incr_client_order_id a in i # next_client_order_ids n a')"

lemma next_client_order_ids_nth:
  "k < n \<Longrightarrow> uint (next_client_order_ids n a ! k) =
     (uint (amm_client_order_id a) + int k) mod (2 ^ 64 - 1) + 1"
proof (induction n arbitrary: a k)
  case (Suc n)
  obtain i a' where ia: "incr_client_order_id a = (i, a')" by fastforce
  then have i: "uint i = uint (amm_client_order_id a) mod (2 ^ 64 - 1) + 1"
    and a': "amm_client_order_id a' = i"
    using incr_client_order_id_eq [of a] by auto
  show ?case
  proof (cases k)
    case 0
    then show ?thesis by (simp add: ia i)
  next
    case (Suc j)
    then have "uint (next_client_order_ids n a' ! j) = (uint i + int j) mod (2 ^ 64 - 1) + 1"
      using Suc.IH Suc.prems a' by simp
    also have "(uint i + int j) mod (2 ^ 64 - 1) =
        (uint (amm_client_order_id a) + int k) mod (2 ^ 64 - 1)"
      unfolding i Suc by (simp only: of_nat_Suc add.assoc mod_add_left_eq)
    finally show ?thesis by (simp add: ia Suc)
  qed
qed simp

lemma length_client_order_ids [simp]: "length (next_client_order_ids n a) = n"
  by (induction n arbitrary: a) (auto split: prod.split)

text \<open>
  C27: the client order ids of any \<open>2 ^ 64 - 1\<close> consecutive orders of a pool are pairwise
  distinct and none of them is zero, whatever the counter holds, its wrap-around included.
\<close>

theorem next_client_order_ids_distinct:
  assumes "int n \<le> 2 ^ 64 - 1"
  shows "distinct (next_client_order_ids n a) \<and> 0 \<notin> set (next_client_order_ids n a)"
proof
  let ?f = "\<lambda>k. (uint (amm_client_order_id a) + int k) mod (2 ^ 64 - 1)"
  have nth: "uint (next_client_order_ids n a ! k) = ?f k + 1" if "k < n" for k
    using next_client_order_ids_nth that by blast
  have inj: "i = j" if "i < n" "j < n" "?f i = ?f j" for i j
  proof -
    have "int i mod (2 ^ 64 - 1) = int j mod (2 ^ 64 - 1)"
      using that(3) by (simp only: mod_eq_dvd_iff add_diff_cancel_left)
    moreover have "int i < 2 ^ 64 - 1" "int j < 2 ^ 64 - 1"
      using that assms by linarith+
    ultimately show "i = j" by simp
  qed
  show "distinct (next_client_order_ids n a)"
    unfolding distinct_conv_nth using nth inj by (metis add_right_cancel length_client_order_ids)
  have "uint x \<noteq> 0" if "x \<in> set (next_client_order_ids n a)" for x
    using that nth by (force simp: in_set_conv_nth intro: add_nonneg_pos [THEN less_imp_neq, symmetric])
  then show "0 \<notin> set (next_client_order_ids n a)" by force
qed

text \<open>A pool whose counter is about to wrap around; its other fields are read from no bytes.\<close>

definition sample_counter :: amm_info where
  "sample_counter = (fst (get_amm []))\<lparr>amm_client_order_id := - 1\<rparr>"

theorem next_client_order_ids_distinct_witness:
  "distinct (next_client_order_ids 3 sample_counter) \<and> 0 \<notin> set (next_client_order_ids 3 sample_counter) \<and>
   hd (next_client_order_ids 3 sample_counter) = 1"
proof -
  have "hd (next_client_order_ids 3 sample_counter) = 1"
    by (simp add: numeral_3_eq_3 sample_counter_def incr_client_order_id_def Let_def split_beta)
  then show ?thesis
    using next_client_order_ids_distinct [of 3 sample_counter] by simp
qed

end
