(* ===== verification/Runtime.thy ===== *)
theory Runtime
  imports Amm_State "HOL-Library.Char_ord"
begin

text \<open>
  The setting the handlers run in. An account of the ledger has an owner, a balance and its
  data; an \<open>AccountInfo\<close> is the key with the signer and writable flags of the
  transaction. What is not code of the repository is a field of the record \<open>runtime\<close>, a
  parameter of every handler: address derivation, the token and market crates, the
  sysvars, the \<open>integer_sqrt\<close> of the big-integer crate, and the execution of calls to other
  programs. A \<open>world\<close> is the ledger with the list of the calls made so far.

  The second half is \<open>program/src/invokers.rs\<close>: each invoker builds one call, with its
  accounts and signer seeds, and hands it to the runtime.
\<close>

section \<open>Accounts\<close>

record account =
  acc_owner :: pubkey
  acc_lamports :: u64
  acc_data :: bytes

type_synonym ledger = "pubkey \<Rightarrow> account"

record account_info =
  ai_key :: pubkey
  is_signer :: bool
  is_writable :: bool

section \<open>Data of the token and market programs\<close>

text \<open>The fields the program reads of the types of its dependencies.\<close>

record token_account =
  ta_mint :: pubkey
  ta_owner :: pubkey
  ta_amount :: u64
  ta_delegate :: "pubkey option"
  ta_close_authority :: "pubkey option"

record mint =
  mint_authority :: "pubkey option"
  mint_supply :: u64
  mint_decimals :: u8
  mint_freeze_authority :: "pubkey option"

record clock =
  clk_epoch :: u64
  clk_unix_timestamp :: u64

datatype side = Bid | Ask

datatype order_type = Limit | ImmediateOrCancel | PostOnly

record leaf_node =
  leaf_price :: u64
  leaf_quantity :: u64
  leaf_client_order_id :: u64
  leaf_order_id :: u128

text \<open>A slab (one side of the order book) is known by the lookups the program makes.\<close>

record slab =
  slab_is_empty :: bool
  slab_find_min :: "leaf_node option"
  slab_find_max :: "leaf_node option"
  slab_find_by_key :: "u128 \<Rightarrow> leaf_node option"

record market_state =
  coin_mint :: "u64 list"
  pc_mint :: "u64 list"
  ms_coin_lot_size :: u64
  ms_pc_lot_size :: u64

record open_orders =
  oo_market :: "u64 list"
  oo_owner :: "u64 list"
  native_coin_free :: u64
  native_coin_total :: u64
  native_pc_free :: u64
  native_pc_total :: u64
  oo_free_slot_bits :: u128
  is_bid_bits :: u128
  oo_orders :: "u128 list"

datatype event_view = Fill side bool u64 u64 | OutEvent

record event =
  ev_owner :: "u64 list"
  ev_as_view :: "event_view outcome"

section \<open>Calls to other programs\<close>

datatype cpi_data =
    AtaCreate pubkey pubkey pubkey pubkey
  | SplBurn pubkey pubkey pubkey pubkey u64
  | SplCloseAccount pubkey pubkey pubkey pubkey
  | SplMintTo pubkey pubkey pubkey pubkey u64
  | SplTransfer pubkey pubkey pubkey pubkey u64
  | SplSetAuthority pubkey pubkey pubkey nat pubkey
  | SplSyncNative pubkey pubkey
  | SplInitializeAccount pubkey pubkey pubkey pubkey
  | SplInitializeMint pubkey pubkey pubkey "pubkey option" u8
  | SysTransfer pubkey pubkey u64
  | SysAllocate pubkey u64
  | SysAssign pubkey pubkey
  | DexInitOpenOrders pubkey pubkey pubkey pubkey
  | DexCloseOpenOrders pubkey pubkey pubkey pubkey pubkey
  | DexReplaceOrderByClientId "pubkey list" side u64 u64 order_type u64 u16 u64
  | DexNewOrderV3 "pubkey list" side u64 u64 order_type u64 u16 u64
  | DexCancelOrderV2 pubkey pubkey pubkey pubkey pubkey pubkey pubkey side u128
  | DexCancelOrdersByClientIds pubkey pubkey pubkey pubkey pubkey pubkey pubkey "u64 list"
  | DexSettleFunds pubkey pubkey pubkey pubkey pubkey pubkey pubkey pubkey pubkey
      "pubkey option" pubkey

record cpi =
  cpi_ix :: cpi_data
  cpi_accounts :: "account_info list"
  cpi_seeds :: "bytes list list"

record world =
  ledger :: ledger
  cpis :: "cpi list"

record runtime =
  rt_create_program_address :: "bytes list \<Rightarrow> pubkey \<Rightarrow> pubkey option"
  rt_find_program_address :: "bytes list \<Rightarrow> pubkey \<Rightarrow> pubkey \<times> u8"
  rt_spl_token_id :: pubkey
  rt_ata_program_id :: pubkey
  rt_system_program_id :: pubkey
  rt_clock_id :: pubkey
  rt_rent_id :: pubkey
  rt_token_account_len :: nat
  rt_mint_len :: nat
  rt_open_orders_size :: nat
  rt_token_unpack :: "bytes \<Rightarrow> token_account option"
  rt_mint_unpack :: "bytes \<Rightarrow> mint option"
  rt_clock :: "clock outcome"
  rt_rent_minimum_balance :: "pubkey \<Rightarrow> account \<Rightarrow> nat \<Rightarrow> u64 outcome"
  rt_aligned :: "pubkey \<Rightarrow> u64 list"
  rt_market_load :: "pubkey \<Rightarrow> account \<Rightarrow> pubkey \<Rightarrow> bool \<Rightarrow> market_state outcome"
  rt_open_orders_load :: "pubkey \<Rightarrow> account \<Rightarrow> pubkey \<Rightarrow> pubkey \<Rightarrow> pubkey \<Rightarrow> open_orders outcome"
  rt_load_bids :: "market_state \<Rightarrow> pubkey \<Rightarrow> account \<Rightarrow> slab outcome"
  rt_load_asks :: "market_state \<Rightarrow> pubkey \<Rightarrow> account \<Rightarrow> slab outcome"
  rt_event_queue :: "market_state \<Rightarrow> pubkey \<Rightarrow> account \<Rightarrow> event list outcome"
  rt_integer_sqrt_U128 :: "u128 \<Rightarrow> u128"
  rt_integer_sqrt_U256 :: "u256 \<Rightarrow> u256"
  rt_key_string :: "pubkey \<Rightarrow> string"
  rt_invoke :: "cpi \<Rightarrow> ledger \<Rightarrow> ledger outcome"

text \<open>
  \<open>invoke_signed\<close> (and \<open>invoke\<close>, with no seeds) of an instruction; a failing builder or callee
  is a failure of the call.
\<close>

definition invoke_signed ::
  "runtime \<Rightarrow> cpi_data \<Rightarrow> account_info list \<Rightarrow> bytes list list \<Rightarrow> world \<Rightarrow> world outcome" where
  "invoke_signed R ix accts seeds w =
     (let c = \<lparr>cpi_ix = ix, cpi_accounts = accts, cpi_seeds = seeds\<rparr>
      in and_then (rt_invoke R c (ledger w)) (\<lambda>l.
           Done (w\<lparr>ledger := l, cpis := cpis w @ [c]\<rparr>)))"

lemma invoke_signed_cpis:
  "invoke_signed R ix accts seeds w = Done w' \<Longrightarrow>
     cpis w' = cpis w @ [\<lparr>cpi_ix = ix, cpi_accounts = accts, cpi_seeds = seeds\<rparr>]"
  by (auto simp: invoke_signed_def Let_def and_then_Done)

section \<open>Addresses and seeds of the program\<close>

definition srm_token_id :: pubkey where
  "srm_token_id = 61162412943203236637054258964678404793611825426054826206657161051540661764870"

definition msrm_token_id :: pubkey where
  "msrm_token_id = 37650451447990642593286270624013593457159050945467568454060895173284720229381"

definition amm_owner_id :: pubkey where
  "amm_owner_id = 73067284147519526558740807223026779464008677136784376455861304904417431762661"

definition openbook_program_id :: pubkey where
  "openbook_program_id = 108085175840840934649285426733261002661514262951838229669611042586598562662157"

definition referrer_pc_wallet_id :: pubkey where
  "referrer_pc_wallet_id = 26807218770986811479356490075015569568671991278525678683654573906677089571795"

definition create_pool_fee_address_id :: pubkey where
  "create_pool_fee_address_id = 6715074946445070983610840595290551555354831503775011174748409599837006942561"

definition seed_bytes :: "string \<Rightarrow> bytes" where
  "seed_bytes s = map of_char s"

definition AUTHORITY_AMM :: bytes where
  "AUTHORITY_AMM = seed_bytes ''amm authority''"

definition AMM_ASSOCIATED_SEED :: bytes where
  "AMM_ASSOCIATED_SEED = seed_bytes ''amm_associated_seed''"

definition TARGET_ASSOCIATED_SEED :: bytes where
  "TARGET_ASSOCIATED_SEED = seed_bytes ''target_associated_seed''"

definition OPEN_ORDER_ASSOCIATED_SEED :: bytes where
  "OPEN_ORDER_ASSOCIATED_SEED = seed_bytes ''open_order_associated_seed''"

definition COIN_VAULT_ASSOCIATED_SEED :: bytes where
  "COIN_VAULT_ASSOCIATED_SEED = seed_bytes ''coin_vault_associated_seed''"

definition PC_VAULT_ASSOCIATED_SEED :: bytes where
  "PC_VAULT_ASSOCIATED_SEED = seed_bytes ''pc_vault_associated_seed''"

definition LP_MINT_ASSOCIATED_SEED :: bytes where
  "LP_MINT_ASSOCIATED_SEED = seed_bytes ''lp_mint_associated_seed''"

definition AMM_CONFIG_SEED :: bytes where
  "AMM_CONFIG_SEED = seed_bytes ''amm_config_account_seed''"

definition get_associated_address_and_bump_seed ::
  "runtime \<Rightarrow> pubkey \<Rightarrow> pubkey \<Rightarrow> bytes \<Rightarrow> pubkey \<Rightarrow> pubkey \<times> u8" where
  "get_associated_address_and_bump_seed R info_id market_address associated_seed program_id =
     rt_find_program_address R
       [to_le_bytes info_id, to_le_bytes market_address, associated_seed] program_id"

definition authority_id :: "runtime \<Rightarrow> pubkey \<Rightarrow> bytes \<Rightarrow> u8 \<Rightarrow> pubkey outcome" where
  "authority_id R program_id amm_seed nonce =
     ok_or InvalidProgramAddress (rt_create_program_address R [amm_seed, [nonce]] program_id)"

text \<open>\<open>x as u8\<close>.\<close>

definition as_u8 :: "u64 \<Rightarrow> u8" where
  "as_u8 x = ucast x"

section \<open>Loading accounts\<close>

definition acc_of :: "world \<Rightarrow> account_info \<Rightarrow> account" where
  "acc_of w info = ledger w (ai_key info)"

text \<open>The first \<open>n\<close> calls of \<open>next_account_info\<close> in a row.\<close>

definition need_accounts :: "nat \<Rightarrow> account_info list \<Rightarrow> unit outcome" where
  "need_accounts n accounts =
     (if length accounts < n then Fail NotEnoughAccountKeys else Done ())"

definition check_account_readonly :: "account_info \<Rightarrow> unit outcome" where
  "check_account_readonly info = (if is_writable info then err AccountNeedReadOnly else Done ())"

definition unpack_token_account ::
  "runtime \<Rightarrow> world \<Rightarrow> account_info \<Rightarrow> pubkey \<Rightarrow> token_account outcome" where
  "unpack_token_account R w info token_program_id =
     (if acc_owner (acc_of w info) \<noteq> token_program_id then err InvalidSplTokenProgram
      else ok_or ExpectedAccount (rt_token_unpack R (acc_data (acc_of w info))))"

definition unpack_mint :: "runtime \<Rightarrow> world \<Rightarrow> account_info \<Rightarrow> pubkey \<Rightarrow> mint outcome" where
  "unpack_mint R w info token_program_id =
     (if acc_owner (acc_of w info) \<noteq> token_program_id then err InvalidSplTokenProgram
      else ok_or ExpectedMint (rt_mint_unpack R (acc_data (acc_of w info))))"

text \<open>
  \<open>Loadable::load\<close> and \<open>load_mut\<close>: the cast of \<open>bytemuck\<close> panics on data of another size.
\<close>

definition amm_load :: "world \<Rightarrow> account_info \<Rightarrow> amm_info outcome" where
  "amm_load w info =
     (if length (acc_data (acc_of w info)) = amm_SIZE
      then Done (fst (get_amm (acc_data (acc_of w info)))) else Panic)"

definition target_orders_load :: "world \<Rightarrow> account_info \<Rightarrow> target_orders outcome" where
  "target_orders_load w info =
     (if length (acc_data (acc_of w info)) = target_orders_SIZE
      then Done (fst (get_target_orders (acc_data (acc_of w info)))) else Panic)"

definition config_load :: "world \<Rightarrow> account_info \<Rightarrow> amm_config outcome" where
  "config_load w info =
     (if length (acc_data (acc_of w info)) = config_SIZE
      then Done (fst (get_config (acc_data (acc_of w info)))) else Panic)"

definition amm_load_mut_checked :: "world \<Rightarrow> account_info \<Rightarrow> pubkey \<Rightarrow> amm_info outcome" where
  "amm_load_mut_checked w info program_id =
     (if acc_owner (acc_of w info) \<noteq> program_id then err InvalidAmmAccountOwner
      else if length (acc_data (acc_of w info)) \<noteq> amm_SIZE then err ExpectedAccount
      else and_then (amm_load w info) (\<lambda>a.
        if amm_status a = status_into_u64 Uninitialized then err InvalidStatus else Done a))"

definition amm_load_checked :: "world \<Rightarrow> account_info \<Rightarrow> pubkey \<Rightarrow> amm_info outcome" where
  "amm_load_checked w info program_id =
     (if acc_owner (acc_of w info) \<noteq> program_id then err InvalidAmmAccountOwner
      else if length (acc_data (acc_of w info)) \<noteq> amm_SIZE then err ExpectedAccount
      else and_then (amm_load w info) (\<lambda>a.
        if amm_status a = status_into_u64 Uninitialized then err InvalidStatus else Done a))"

definition target_orders_load_mut_checked ::
  "runtime \<Rightarrow> world \<Rightarrow> account_info \<Rightarrow> pubkey \<Rightarrow> pubkey \<Rightarrow> target_orders outcome" where
  "target_orders_load_mut_checked R w info program_id own =
     (if acc_owner (acc_of w info) \<noteq> program_id then err InvalidTargetAccountOwner
      else if length (acc_data (acc_of w info)) \<noteq> target_orders_SIZE then err ExpectedAccount
      else and_then (target_orders_load w info) (\<lambda>t.
        if to_owner t \<noteq> rt_aligned R own then err InvalidTargetOwner else Done t))"

definition target_orders_load_checked ::
  "runtime \<Rightarrow> world \<Rightarrow> account_info \<Rightarrow> pubkey \<Rightarrow> pubkey \<Rightarrow> target_orders outcome" where
  "target_orders_load_checked R w info program_id own =
     (if acc_owner (acc_of w info) \<noteq> program_id then err InvalidTargetAccountOwner
      else if length (acc_data (acc_of w info)) \<noteq> target_orders_SIZE then err ExpectedAccount
      else and_then (target_orders_load w info) (\<lambda>t.
        if to_owner t \<noteq> rt_aligned R own then err InvalidTargetOwner else Done t))"

definition config_load_mut_checked :: "world \<Rightarrow> account_info \<Rightarrow> pubkey \<Rightarrow> amm_config outcome" where
  "config_load_mut_checked w info program_id =
     (if acc_owner (acc_of w info) \<noteq> program_id then err InvalidOwner
      else if length (acc_data (acc_of w info)) \<noteq> config_SIZE then err ExpectedAccount
      else config_load w info)"

definition config_load_checked :: "world \<Rightarrow> account_info \<Rightarrow> pubkey \<Rightarrow> amm_config outcome" where
  "config_load_checked w info program_id =
     (if acc_owner (acc_of w info) \<noteq> program_id then err InvalidOwner
      else if length (acc_data (acc_of w info)) \<noteq> config_SIZE then err ExpectedAccount
      else config_load w info)"

text \<open>
  A handler changes its pool through a mutable borrow of the account's data; the model reads
  the struct, passes it on and writes it back at the end.
\<close>

definition store :: "account_info \<Rightarrow> bytes \<Rightarrow> world \<Rightarrow> world" where
  "store info bs w =
     w\<lparr>ledger := (ledger w)(ai_key info := (acc_of w info)\<lparr>acc_data := bs\<rparr>)\<rparr>"

definition amm_store :: "account_info \<Rightarrow> amm_info \<Rightarrow> world \<Rightarrow> world" where
  "amm_store info a w = store info (amm_bytes a) w"

definition target_orders_store :: "account_info \<Rightarrow> target_orders \<Rightarrow> world \<Rightarrow> world" where
  "target_orders_store info t w = store info (target_orders_bytes t) w"

definition config_store :: "account_info \<Rightarrow> amm_config \<Rightarrow> world \<Rightarrow> world" where
  "config_store info c w = store info (config_bytes c) w"

section \<open>Invokers\<close>

definition create_ata_spl_token ::
  "runtime \<Rightarrow> account_info \<Rightarrow> account_info \<Rightarrow>
   account_info \<Rightarrow> account_info \<Rightarrow> account_info \<Rightarrow>
   account_info \<Rightarrow> account_info \<Rightarrow> world \<Rightarrow> world outcome" where
  "create_ata_spl_token R associated_account funding_account wallet_account
     token_mint_account token_program_account ata_program_account system_program_account w
     =
     invoke_signed R
       (AtaCreate (ai_key funding_account) (ai_key wallet_account) (ai_key token_mint_account) (ai_key token_program_account))
       ([associated_account, funding_account, wallet_account, token_mint_account,
        token_program_account, ata_program_account, system_program_account])
       [] w"

definition token_burn ::
  "runtime \<Rightarrow> account_info \<Rightarrow> account_info \<Rightarrow>
   account_info \<Rightarrow> account_info \<Rightarrow> u64 \<Rightarrow> world \<Rightarrow>
   world outcome" where
  "token_burn R token_program burn_account mint own burn_amount w =
     invoke_signed R
       (SplBurn (ai_key token_program) (ai_key burn_account) (ai_key mint) (ai_key own) burn_amount)
       ([burn_account, mint, own, token_program])
       [] w"

definition token_close_with_authority ::
  "runtime \<Rightarrow> account_info \<Rightarrow> account_info \<Rightarrow>
   account_info \<Rightarrow> account_info \<Rightarrow> bytes \<Rightarrow> u8 \<Rightarrow>
   world \<Rightarrow> world outcome" where
  "token_close_with_authority R token_program close_account destination_account authority
     amm_seed nonce w =
     invoke_signed R
       (SplCloseAccount (ai_key token_program) (ai_key close_account) (ai_key destination_account) (ai_key authority))
       ([close_account, destination_account, authority, token_program])
       [[amm_seed, [nonce]]] w"

definition token_burn_with_authority ::
  "runtime \<Rightarrow> account_info \<Rightarrow> account_info \<Rightarrow>
   account_info \<Rightarrow> account_info \<Rightarrow> bytes \<Rightarrow> u8 \<Rightarrow>
   u64 \<Rightarrow> world \<Rightarrow> world outcome" where
  "token_burn_with_authority R token_program burn_account mint authority amm_seed nonce
     burn_amount w =
     invoke_signed R
       (SplBurn (ai_key token_program) (ai_key burn_account) (ai_key mint) (ai_key authority) burn_amount)
       ([burn_account, mint, authority, token_program])
       [[amm_seed, [nonce]]] w"

definition token_mint_to ::
  "runtime \<Rightarrow> account_info \<Rightarrow> account_info \<Rightarrow>
   account_info \<Rightarrow> account_info \<Rightarrow> bytes \<Rightarrow> u8 \<Rightarrow>
   u64 \<Rightarrow> world \<Rightarrow> world outcome" where
  "token_mint_to R token_program mint destination authority amm_seed nonce amount w =
     invoke_signed R
       (SplMintTo (ai_key token_program) (ai_key mint) (ai_key destination) (ai_key authority) amount)
       ([mint, destination, authority, token_program])
       [[amm_seed, [nonce]]] w"

definition token_transfer ::
  "runtime \<Rightarrow> account_info \<Rightarrow> account_info \<Rightarrow>
   account_info \<Rightarrow> account_info \<Rightarrow> u64 \<Rightarrow> world \<Rightarrow>
   world outcome" where
  "token_transfer R token_program source destination own deposit_amount w =
     invoke_signed R
       (SplTransfer (ai_key token_program) (ai_key source) (ai_key destination) (ai_key own) deposit_amount)
       ([source, destination, own, token_program])
       [] w"

definition token_transfer_with_authority ::
  "runtime \<Rightarrow> account_info \<Rightarrow> account_info \<Rightarrow>
   account_info \<Rightarrow> account_info \<Rightarrow> bytes \<Rightarrow> u8 \<Rightarrow>
   u64 \<Rightarrow> world \<Rightarrow> world outcome" where
  "token_transfer_with_authority R token_program source destination authority amm_seed
     nonce amount w =
     invoke_signed R
       (SplTransfer (ai_key token_program) (ai_key source) (ai_key destination) (ai_key authority) amount)
       ([source, destination, authority, token_program])
       [[amm_seed, [nonce]]] w"

definition token_set_authority ::
  "runtime \<Rightarrow> account_info \<Rightarrow> account_info \<Rightarrow>
   account_info \<Rightarrow> account_info \<Rightarrow> bytes \<Rightarrow> u8 \<Rightarrow>
   nat \<Rightarrow> world \<Rightarrow> world outcome" where
  "token_set_authority R token_program account authority new_authority amm_seed nonce
     authority_type w =
     invoke_signed R
       (SplSetAuthority (ai_key token_program) (ai_key account) (ai_key new_authority) authority_type (ai_key authority))
       ([account, authority, token_program])
       [[amm_seed, [nonce]]] w"

definition invoke_dex_init_open_orders ::
  "runtime \<Rightarrow> account_info \<Rightarrow> account_info \<Rightarrow>
   account_info \<Rightarrow> account_info \<Rightarrow> account_info \<Rightarrow>
   bytes \<Rightarrow> u8 \<Rightarrow> world \<Rightarrow> world outcome" where
  "invoke_dex_init_open_orders R dex_program open_orders open_orders_owner market
     rent_sysvar amm_seed nonce w =
     invoke_signed R
       (DexInitOpenOrders (ai_key dex_program) (ai_key open_orders) (ai_key open_orders_owner) (ai_key market))
       ([dex_program, open_orders, open_orders_owner, market, rent_sysvar])
       [[amm_seed, [nonce]]] w"

definition invoke_dex_close_open_orders ::
  "runtime \<Rightarrow> account_info \<Rightarrow> account_info \<Rightarrow>
   account_info \<Rightarrow> account_info \<Rightarrow> account_info \<Rightarrow>
   bytes \<Rightarrow> u8 \<Rightarrow> world \<Rightarrow> world outcome" where
  "invoke_dex_close_open_orders R dex_program open_orders open_orders_owner destination
     market amm_seed nonce w =
     invoke_signed R
       (DexCloseOpenOrders (ai_key dex_program) (ai_key open_orders) (ai_key open_orders_owner) (ai_key destination) (ai_key market))
       ([dex_program, open_orders, open_orders_owner, destination, market])
       [[amm_seed, [nonce]]] w"

text \<open>The optional account at the end of a call's account list.\<close>

fun option_list :: "'a option \<Rightarrow> 'a list" where
  "option_list None = []"
| "option_list (Some x) = [x]"

text \<open>
  The order calls: the keys are those of \<open>replace_order_by_client_id\<close> (and \<open>new_order\<close> of the
  market's crate) in that order, the optional referral account after them, the market
  program last; the self-trade behaviour is always \<open>CancelProvide\<close> and the time limit
  \<open>i64::MAX\<close>, so neither is a component of the call.
\<close>

definition replace_order_by_client_id ::
  "pubkey \<Rightarrow> pubkey \<Rightarrow> pubkey \<Rightarrow> pubkey \<Rightarrow> pubkey \<Rightarrow> pubkey \<Rightarrow> pubkey \<Rightarrow> pubkey \<Rightarrow>
   pubkey \<Rightarrow> pubkey \<Rightarrow> pubkey \<Rightarrow> pubkey \<Rightarrow> pubkey option \<Rightarrow> pubkey \<Rightarrow> side \<Rightarrow> u64 \<Rightarrow>
   u64 \<Rightarrow> order_type \<Rightarrow> u64 \<Rightarrow> u16 \<Rightarrow> u64 \<Rightarrow> cpi_data" where
  "replace_order_by_client_id market open_orders_account request_queue event_queue market_bids
     market_asks order_payer open_orders_account_owner coin_vault pc_vault spl_token_program_id
     rent_sysvar_id srm_account_referral program_id sd limit_price max_coin_qty order_ty
     client_order_id limit max_native_pc_qty_including_fees =
     DexReplaceOrderByClientId
       ([market, open_orders_account, request_queue, event_queue, market_bids, market_asks, order_payer,
         open_orders_account_owner, coin_vault, pc_vault, spl_token_program_id, rent_sysvar_id] @
        option_list srm_account_referral @ [program_id])
       sd limit_price max_coin_qty order_ty client_order_id limit max_native_pc_qty_including_fees"

lemma option_list_map [simp]: "option_list (map_option f x) = map f (option_list x)"
  by (cases x) simp_all

declare replace_order_by_client_id_def [simp]

definition invoke_dex_replace_order_by_client_id ::
  "runtime \<Rightarrow> account_info \<Rightarrow> account_info \<Rightarrow>
   account_info \<Rightarrow> account_info \<Rightarrow> account_info \<Rightarrow>
   account_info \<Rightarrow> account_info \<Rightarrow> account_info \<Rightarrow>
   account_info \<Rightarrow> account_info \<Rightarrow> account_info \<Rightarrow>
   account_info \<Rightarrow> account_info \<Rightarrow> account_info option \<Rightarrow>
   bytes \<Rightarrow> u8 \<Rightarrow> side \<Rightarrow> u64 \<Rightarrow> u64 \<Rightarrow>
   u64 \<Rightarrow> order_type \<Rightarrow> u64 \<Rightarrow> u16 \<Rightarrow> world \<Rightarrow>
   world outcome" where
  "invoke_dex_replace_order_by_client_id R dex_program market open_orders req_q event_q
     bids asks payer open_orders_owner coin_vault pc_vault token_program rent_account
     srm_account_referral amm_seed nonce sd limit_price max_coin_qty
     max_native_pc_qty_including_fees order_ty client_order_id limit w =
     invoke_signed R
       (replace_order_by_client_id (ai_key market) (ai_key open_orders) (ai_key req_q) (ai_key event_q)
         (ai_key bids) (ai_key asks) (ai_key payer) (ai_key open_orders_owner) (ai_key coin_vault)
         (ai_key pc_vault) (ai_key token_program) (ai_key rent_account)
         (map_option ai_key srm_account_referral) (ai_key dex_program) sd limit_price max_coin_qty
         order_ty client_order_id limit max_native_pc_qty_including_fees)
       ([dex_program, market, open_orders, req_q, event_q, bids, asks, payer, open_orders_owner,
         coin_vault, pc_vault, token_program, rent_account] @ option_list srm_account_referral)
       [[amm_seed, [nonce]]] w"

definition invoke_dex_new_order_v3 ::
  "runtime \<Rightarrow> account_info \<Rightarrow> account_info \<Rightarrow>
   account_info \<Rightarrow> account_info \<Rightarrow> account_info \<Rightarrow>
   account_info \<Rightarrow> account_info \<Rightarrow> account_info \<Rightarrow>
   account_info \<Rightarrow> account_info \<Rightarrow> account_info \<Rightarrow>
   account_info \<Rightarrow> account_info \<Rightarrow> account_info option \<Rightarrow>
   bytes \<Rightarrow> u8 \<Rightarrow> side \<Rightarrow> u64 \<Rightarrow> u64 \<Rightarrow>
   u64 \<Rightarrow> order_type \<Rightarrow> u64 \<Rightarrow> u16 \<Rightarrow> world \<Rightarrow>
   world outcome" where
  "invoke_dex_new_order_v3 R dex_program market open_orders req_q event_q bids asks payer
     open_orders_owner coin_vault pc_vault token_program rent_account srm_account_referral
     amm_seed nonce sd limit_price max_coin_qty max_native_pc_qty_including_fees order_ty
     client_order_id limit w =
     invoke_signed R
       (DexNewOrderV3
         (map ai_key [market, open_orders, req_q, event_q, bids, asks, payer, open_orders_owner,
            coin_vault, pc_vault, token_program, rent_account] @
          map ai_key (option_list srm_account_referral) @ [ai_key dex_program])
         sd limit_price max_coin_qty order_ty client_order_id limit
         max_native_pc_qty_including_fees)
       ([dex_program, market, open_orders, req_q, event_q, bids, asks, payer, open_orders_owner,
         coin_vault, pc_vault, token_program, rent_account] @ option_list srm_account_referral)
       [[amm_seed, [nonce]]] w"

definition invoke_dex_cancel_order_v2 ::
  "runtime \<Rightarrow> account_info \<Rightarrow> account_info \<Rightarrow>
   account_info \<Rightarrow> account_info \<Rightarrow> account_info \<Rightarrow>
   account_info \<Rightarrow> account_info \<Rightarrow> bytes \<Rightarrow> u8 \<Rightarrow>
   side \<Rightarrow> u128 \<Rightarrow> world \<Rightarrow> world outcome" where
  "invoke_dex_cancel_order_v2 R dex_program market bids asks open_orders open_orders_owner
     event_q amm_seed nonce sd order_id w =
     invoke_signed R
       (DexCancelOrderV2 (ai_key dex_program) (ai_key market) (ai_key bids) (ai_key asks)
         (ai_key open_orders) (ai_key open_orders_owner) (ai_key event_q) sd order_id)
       ([dex_program, market, bids, asks, open_orders, open_orders_owner, event_q])
       [[amm_seed, [nonce]]] w"

definition invoke_dex_cancel_orders_by_client_order_ids ::
  "runtime \<Rightarrow> account_info \<Rightarrow> account_info \<Rightarrow>
   account_info \<Rightarrow> account_info \<Rightarrow> account_info \<Rightarrow>
   account_info \<Rightarrow> account_info \<Rightarrow> bytes \<Rightarrow> u8 \<Rightarrow>
   u64 list \<Rightarrow> world \<Rightarrow> world outcome" where
  "invoke_dex_cancel_orders_by_client_order_ids R dex_program market bids asks open_orders
     open_orders_owner event_q amm_seed nonce client_order_ids w =
     invoke_signed R
       (DexCancelOrdersByClientIds (ai_key dex_program) (ai_key market) (ai_key bids) (ai_key asks)
         (ai_key open_orders) (ai_key open_orders_owner) (ai_key event_q) client_order_ids)
       ([dex_program, market, bids, asks, open_orders, open_orders_owner, event_q])
       [[amm_seed, [nonce]]] w"

definition invoke_dex_settle_funds ::
  "runtime \<Rightarrow> account_info \<Rightarrow> account_info \<Rightarrow>
   account_info \<Rightarrow> account_info \<Rightarrow> account_info \<Rightarrow>
   account_info \<Rightarrow> account_info \<Rightarrow> account_info \<Rightarrow>
   account_info \<Rightarrow> account_info \<Rightarrow> account_info option \<Rightarrow>
   bytes \<Rightarrow> u8 \<Rightarrow> world \<Rightarrow> world outcome" where
  "invoke_dex_settle_funds R dex_program market open_orders own coin_vault pc_vault
     coin_wallet pc_wallet vault_signer spl_token_program referrer_pc_wallet amm_seed nonce
     w =
     invoke_signed R
       (DexSettleFunds (ai_key dex_program) (ai_key market) (ai_key spl_token_program)
         (ai_key open_orders) (ai_key own) (ai_key coin_vault) (ai_key coin_wallet)
         (ai_key pc_vault) (ai_key pc_wallet) (map_option ai_key referrer_pc_wallet) (ai_key vault_signer))
       ([dex_program, market, open_orders, own, coin_vault, pc_vault, coin_wallet, pc_wallet,
         vault_signer, spl_token_program] @ option_list referrer_pc_wallet)
       [[amm_seed, [nonce]]] w"

lemmas invoker_defs =
  create_ata_spl_token_def token_burn_def token_close_with_authority_def token_burn_with_authority_def
  token_mint_to_def token_transfer_def token_transfer_with_authority_def token_set_authority_def
  invoke_dex_init_open_orders_def invoke_dex_close_open_orders_def invoke_dex_replace_order_by_client_id_def
  invoke_dex_new_order_v3_def invoke_dex_cancel_order_v2_def
  invoke_dex_cancel_orders_by_client_order_ids_def invoke_dex_settle_funds_def

text \<open>The token calls of the handlers: a transfer and a burn signed by the user, a transfer and a
  mint signed by the seeds of the pool's authority.\<close>

definition user_transfer ::
  "account_info \<Rightarrow> account_info \<Rightarrow> account_info \<Rightarrow> account_info \<Rightarrow> u64 \<Rightarrow> cpi" where
  "user_transfer tp src dst own amount =
     \<lparr>cpi_ix = SplTransfer (ai_key tp) (ai_key src) (ai_key dst) (ai_key own) amount,
      cpi_accounts = [src, dst, own, tp], cpi_seeds = []\<rparr>"

definition pool_transfer ::
  "account_info \<Rightarrow> account_info \<Rightarrow> account_info \<Rightarrow> account_info \<Rightarrow> u8 \<Rightarrow> u64 \<Rightarrow> cpi" where
  "pool_transfer tp src dst auth nonce amount =
     \<lparr>cpi_ix = SplTransfer (ai_key tp) (ai_key src) (ai_key dst) (ai_key auth) amount,
      cpi_accounts = [src, dst, auth, tp], cpi_seeds = [[AUTHORITY_AMM, [nonce]]]\<rparr>"

definition pool_mint ::
  "account_info \<Rightarrow> account_info \<Rightarrow> account_info \<Rightarrow> account_info \<Rightarrow> u8 \<Rightarrow> u64 \<Rightarrow> cpi" where
  "pool_mint tp m dst auth nonce amount =
     \<lparr>cpi_ix = SplMintTo (ai_key tp) (ai_key m) (ai_key dst) (ai_key auth) amount,
      cpi_accounts = [m, dst, auth, tp], cpi_seeds = [[AUTHORITY_AMM, [nonce]]]\<rparr>"

definition user_burn ::
  "account_info \<Rightarrow> account_info \<Rightarrow> account_info \<Rightarrow> account_info \<Rightarrow> u64 \<Rightarrow> cpi" where
  "user_burn tp acc m own amount =
     \<lparr>cpi_ix = SplBurn (ai_key tp) (ai_key acc) (ai_key m) (ai_key own) amount,
      cpi_accounts = [acc, m, own, tp], cpi_seeds = []\<rparr>"

lemma token_call_cpis:
  "token_transfer R tp src dst own amount w = Done w' \<Longrightarrow>
     cpis w' = cpis w @ [user_transfer tp src dst own amount]"
  "token_transfer_with_authority R tp src dst auth AUTHORITY_AMM nonce amount w = Done w' \<Longrightarrow>
     cpis w' = cpis w @ [pool_transfer tp src dst auth nonce amount]"
  "token_mint_to R tp m dst auth AUTHORITY_AMM nonce amount w = Done w' \<Longrightarrow>
     cpis w' = cpis w @ [pool_mint tp m dst auth nonce amount]"
  "token_burn R tp acc m own amount w = Done w' \<Longrightarrow>
     cpis w' = cpis w @ [user_burn tp acc m own amount]"
  by (auto simp: invoker_defs user_transfer_def pool_transfer_def pool_mint_def user_burn_def
      dest!: invoke_signed_cpis)

lemma cpis_grow_invoke: "invoke_signed R ix accts seeds w = Done w' \<Longrightarrow> \<exists>pre. cpis w' = cpis w @ pre"
  using invoke_signed_cpis by blast

section \<open>Account structs\<close>

text \<open>
  The interface of a \<open>Loadable\<close> struct: its packed layout, the size of the layout and the
  array lengths. What a handler writes back is what the next load returns.
\<close>

locale account_struct =
  fixes to_bytes :: "'a \<Rightarrow> bytes" and get :: "bytes \<Rightarrow> 'a \<times> bytes"
    and wf :: "'a \<Rightarrow> bool" and SIZE :: nat
  assumes get_to_bytes: "wf x \<Longrightarrow> get (to_bytes x @ r) = (x, r)"
    and length_to_bytes: "wf x \<Longrightarrow> length (to_bytes x) = SIZE"
    and wf_get: "wf (fst (get bs))"
begin

definition cast :: "bytes \<Rightarrow> 'a outcome" where
  "cast bs = (if length bs = SIZE then Done (fst (get bs)) else Panic)"

lemma cast_to_bytes: "wf x \<Longrightarrow> cast (to_bytes x) = Done x"
  using get_to_bytes [of x "[]"] by (simp add: cast_def length_to_bytes)

lemma cast_Done_wf: "cast bs = Done x \<Longrightarrow> wf x"
  using wf_get by (auto simp: cast_def split: if_splits)

lemma cast_store:
  "wf x \<Longrightarrow> cast (acc_data (acc_of (store info (to_bytes x) w) info)) = Done x"
  by (simp add: store_def acc_of_def cast_to_bytes)

lemma to_bytes_inject: "wf x \<Longrightarrow> wf y \<Longrightarrow> to_bytes x = to_bytes y \<Longrightarrow> x = y"
  by (metis cast_to_bytes outcome.inject(1))

end

interpretation amm_struct: account_struct amm_bytes get_amm wf_amm amm_SIZE
  by unfold_locales (auto simp: get_amm_bytes wf_get_amm)

interpretation target_struct:
  account_struct target_orders_bytes get_target_orders wf_target_orders target_orders_SIZE
  by unfold_locales (auto simp: get_target_orders_bytes wf_get_target_orders)

interpretation config_struct: account_struct config_bytes get_config wf_config config_SIZE
  by unfold_locales (auto simp: get_config_bytes wf_get_config)

lemma amm_load_cast: "amm_load w info = amm_struct.cast (acc_data (acc_of w info))"
  by (simp add: amm_load_def amm_struct.cast_def)

lemma target_orders_load_cast:
  "target_orders_load w info = target_struct.cast (acc_data (acc_of w info))"
  by (simp add: target_orders_load_def target_struct.cast_def)

lemma config_load_cast: "config_load w info = config_struct.cast (acc_data (acc_of w info))"
  by (simp add: config_load_def config_struct.cast_def)

text \<open>An account that holds a struct, as the loads find it.\<close>

lemma amm_load_bytes:
  "acc_data (acc_of w info) = amm_bytes a \<Longrightarrow> wf_amm a \<Longrightarrow> amm_load w info = Done a"
  by (simp add: amm_load_cast amm_struct.cast_to_bytes)

lemma target_orders_load_bytes:
  "acc_data (acc_of w info) = target_orders_bytes t \<Longrightarrow> wf_target_orders t \<Longrightarrow>
     target_orders_load w info = Done t"
  by (simp add: target_orders_load_cast target_struct.cast_to_bytes)

lemma config_load_bytes:
  "acc_data (acc_of w info) = config_bytes c \<Longrightarrow> wf_config c \<Longrightarrow> config_load w info = Done c"
  by (simp add: config_load_cast config_struct.cast_to_bytes)

lemma amm_load_mut_checked_Done:
  "amm_load_mut_checked w info pid = Done a \<longleftrightarrow>
     acc_owner (acc_of w info) = pid \<and> amm_load w info = Done a \<and> amm_status a \<noteq> 0"
  by (auto simp: amm_load_mut_checked_def and_then_Done amm_load_def split: if_splits)

lemma amm_load_wf: "amm_load w info = Done a \<Longrightarrow> wf_amm a"
  by (simp add: amm_load_cast amm_struct.cast_Done_wf)

lemma target_orders_load_wf: "target_orders_load w info = Done t \<Longrightarrow> wf_target_orders t"
  by (simp add: target_orders_load_cast target_struct.cast_Done_wf)

lemma target_orders_load_mut_checked_Done:
  "target_orders_load_mut_checked R w info pid own = Done t \<longleftrightarrow>
     acc_owner (acc_of w info) = pid \<and> target_orders_load w info = Done t \<and>
     to_owner t = rt_aligned R own"
  by (auto simp: target_orders_load_mut_checked_def and_then_Done target_orders_load_def
      split: if_splits)

lemma unpack_token_account_Done:
  "unpack_token_account R w info pid = Done t \<longleftrightarrow>
     acc_owner (acc_of w info) = pid \<and> rt_token_unpack R (acc_data (acc_of w info)) = Some t"
  by (cases "rt_token_unpack R (acc_data (acc_of w info))")
     (auto simp: unpack_token_account_def)

lemma cpis_store [simp]: "cpis (store info bs w) = cpis w"
  by (simp add: store_def)

lemma amm_load_store: "wf_amm a \<Longrightarrow> amm_load (amm_store info a w) info = Done a"
  by (simp add: amm_load_cast amm_store_def amm_struct.cast_store)

lemma target_orders_load_store:
  "wf_target_orders t \<Longrightarrow> target_orders_load (target_orders_store info t w) info = Done t"
  by (simp add: target_orders_load_cast target_orders_store_def target_struct.cast_store)

lemma config_load_store: "wf_config c \<Longrightarrow> config_load (config_store info c w) info = Done c"
  by (simp add: config_load_cast config_store_def config_struct.cast_store)

lemma acc_of_store_other:
  "ai_key info \<noteq> ai_key info' \<Longrightarrow> acc_of (store info bs w) info' = acc_of w info'"
  by (simp add: store_def acc_of_def)

lemma different_structs:
  assumes "amm_load w a = Done x" and "target_orders_load w t = Done y"
  shows "ai_key a \<noteq> ai_key t"
  using assms
  by (auto simp: amm_load_def target_orders_load_def acc_of_def amm_SIZE_def
      target_orders_SIZE_def split: if_splits)

text \<open>Storing both structs: each is read back, and the calls are as before.\<close>

lemma load_stores:
  assumes "wf_amm a" and "wf_target_orders t" and "ai_key ia \<noteq> ai_key it"
  shows "amm_load (amm_store ia a (target_orders_store it t w)) ia = Done a"
    and "target_orders_load (amm_store ia a (target_orders_store it t w)) it = Done t"
    and "cpis (amm_store ia a (target_orders_store it t w)) = cpis w"
proof -
  show "amm_load (amm_store ia a (target_orders_store it t w)) ia = Done a"
    using assms(1) by (rule amm_load_store)
  have "target_orders_load (amm_store ia a w0) it = target_orders_load w0 it" for w0
    using assms(3) by (simp add: target_orders_load_def amm_store_def acc_of_store_other)
  then show "target_orders_load (amm_store ia a (target_orders_store it t w)) it = Done t"
    using target_orders_load_store [OF assms(2)] by simp
  show "cpis (amm_store ia a (target_orders_store it t w)) = cpis w"
    by (simp add: amm_store_def target_orders_store_def)
qed

end
