(* ===== verification/Samples.thy ===== *)
theory Samples
  imports Runtime
begin

text \<open>
  A concrete runtime, pool and ledger on which the theorems are exercised: a pool of 1000
  coin and 4000 pc with 2000 shares, its vaults, a user with an account for either token, and
  calls to other programs that always succeed. Nothing here models code of the program; the
  runtime's functions are the simplest that fit their types, the square roots excepted,
  which are exact.
\<close>

section \<open>An integer square root\<close>

fun isqrt_loop :: "nat \<Rightarrow> int \<Rightarrow> int \<Rightarrow> int" where
  "isqrt_loop 0 n r = r"
| "isqrt_loop (Suc i) n r =
     isqrt_loop i n (if (r + 2 ^ i) * (r + 2 ^ i) \<le> n then r + 2 ^ i else r)"

definition isqrt :: "nat \<Rightarrow> int \<Rightarrow> int" where
  "isqrt bits n = isqrt_loop bits n 0"

lemma isqrt_loop_bounds:
  assumes "0 \<le> r" and "r * r \<le> n" and "n < (r + 2 ^ i) * (r + 2 ^ i)"
  shows "0 \<le> isqrt_loop i n r \<and> isqrt_loop i n r * isqrt_loop i n r \<le> n \<and>
    n < (isqrt_loop i n r + 1) * (isqrt_loop i n r + 1)"
  using assms
proof (induction i arbitrary: r)
  case (Suc i)
  have e: "r + 2 ^ i + 2 ^ i = r + 2 ^ Suc i" by simp
  have "0 \<le> r + 2 ^ i" using Suc.prems(1) by simp
  then show ?case
    using Suc.IH [of "r + 2 ^ i", unfolded e] Suc.IH [of r] Suc.prems
    by (cases "(r + 2 ^ i) * (r + 2 ^ i) \<le> n") simp_all
qed simp

lemma isqrt_bounds:
  assumes "0 \<le> n" and "n < 2 ^ bits * 2 ^ bits"
  shows "0 \<le> isqrt bits n \<and> isqrt bits n * isqrt bits n \<le> n \<and>
    n < (isqrt bits n + 1) * (isqrt bits n + 1)"
  unfolding isqrt_def using assms by (intro isqrt_loop_bounds) simp_all

text \<open>The documented behaviour of \<open>integer_sqrt\<close>: the largest integer whose square fits.\<close>

definition sqrt_spec :: "('a::len word \<Rightarrow> 'a word) \<Rightarrow> bool" where
  "sqrt_spec f \<longleftrightarrow> (\<forall>x. uint (f x) * uint (f x) \<le> uint x \<and> uint x < (uint (f x) + 1) * (uint (f x) + 1))"

lemma sqrt_spec_square:
  assumes "sqrt_spec f" and "uint x = n * n" and "0 \<le> n"
  shows "uint (f x) = n"
proof -
  have "uint (f x) * uint (f x) \<le> n * n" "n * n < (uint (f x) + 1) * (uint (f x) + 1)"
    using assms(1) unfolding sqrt_spec_def assms(2) [symmetric] by blast+
  then have "uint (f x) \<le> n" "n < uint (f x) + 1"
    using assms(3) uint_ge_0 [of "f x"]
    by (smt (verit) mult_strict_mono mult_mono)+
  then show ?thesis by simp
qed

definition sample_sqrt_U128 :: "u128 \<Rightarrow> u128" where
  "sample_sqrt_U128 x = word_of_int (isqrt 64 (uint x))"

definition sample_sqrt_U256 :: "u256 \<Rightarrow> u256" where
  "sample_sqrt_U256 x = word_of_int (isqrt 128 (uint x))"

lemma sqrt_spec_word:
  assumes "LENGTH('a::len) = 2 * bits"
  shows "sqrt_spec (\<lambda>x :: 'a word. word_of_int (isqrt bits (uint x)))"
proof -
  have "uint (word_of_int (isqrt bits (uint x)) :: 'a word) = isqrt bits (uint x)" for x :: "'a word"
  proof -
    have b: "0 \<le> isqrt bits (uint x)" "isqrt bits (uint x) * isqrt bits (uint x) \<le> uint x"
      using isqrt_bounds [of "uint x" bits] uint_lt_pow [of x] assms
      by (simp_all add: power_add mult_2)
    then have "isqrt bits (uint x) \<le> uint x"
      by (metis (no_types, opaque_lifting) int_one_le_iff_zero_less mult_le_cancel_left1
          order_le_less order_trans mult_zero_left not_le)
    then show ?thesis
      using b(1) uint_lt_pow [of x] unfolding uint_word_of_int_eq
      by (intro take_bit_int_eq_self) linarith+
  qed
  then show ?thesis
    using isqrt_bounds [of _ bits] uint_lt_pow assms
    unfolding sqrt_spec_def by (metis mult_2 power_add uint_ge_0)
qed

lemma sqrt_spec_samples: "sqrt_spec sample_sqrt_U128" "sqrt_spec sample_sqrt_U256"
  unfolding sample_sqrt_U128_def sample_sqrt_U256_def by (rule sqrt_spec_word; simp)+

section \<open>Accounts\<close>

definition sample_info :: "pubkey \<Rightarrow> account_info" where
  "sample_info k = \<lparr>ai_key = k, is_signer = True, is_writable = True\<rparr>"

definition sample_fees :: fees where
  "sample_fees = \<lparr>min_separate_numerator = 5, min_separate_denominator = 10000,
     trade_fee_numerator = 25, trade_fee_denominator = 10000, pnl_numerator = 12,
     pnl_denominator = 100, swap_fee_numerator = 25, swap_fee_denominator = 10000\<rparr>"

definition sample_state_data :: state_data where
  "sample_state_data = \<lparr>need_take_pnl_coin = 0, need_take_pnl_pc = 0, total_pnl_pc = 0,
     total_pnl_coin = 0, pool_open_time = 0, sd_padding = [0, 0], orderbook_to_init_time = 0,
     swap_coin_in_amount = 0, swap_pc_out_amount = 0, swap_acc_pc_fee = 0,
     swap_pc_in_amount = 0, swap_coin_out_amount = 0, swap_acc_coin_fee = 0\<rparr>"

definition sample_amm :: amm_info where
  "sample_amm = \<lparr>amm_status = 6, amm_nonce = 254, amm_order_num = 7, amm_depth = 3,
     coin_decimals = 0, pc_decimals = 0, amm_state = 1, amm_reset_flag = 1, min_size = 1,
     vol_max_cut_ratio = 500, amount_wave = 0, amm_coin_lot_size = 1, amm_pc_lot_size = 1,
     min_price_multiplier = 1, max_price_multiplier = 1000000000, sys_decimal_value = 1,
     amm_fees = sample_fees, amm_state_data = sample_state_data,
     amm_coin_vault = 104, amm_pc_vault = 105, coin_vault_mint = 201, pc_vault_mint = 202,
     amm_lp_mint = 103, amm_open_orders = 101, amm_market = 106, amm_market_program = 112,
     amm_target_orders = 102, amm_padding1 = replicate 8 0, amm_owner = 300, lp_amount = 2000,
     amm_client_order_id = 0, recent_epoch = 0, amm_padding2 = 0\<rparr>"

definition sample_target :: target_orders where
  "sample_target = \<lparr>to_owner = [100, 0, 0, 0],
     buy_orders = replicate 50 \<lparr>price = 0, vol = 0\<rparr>, to_padding1 = replicate 8 0,
     target_x = 0, target_y = 0, plan_x_buy = 0, plan_y_buy = 0, plan_x_sell = 0,
     plan_y_sell = 0, placed_x = 0, placed_y = 0, calc_pnl_x = 4000, calc_pnl_y = 1000,
     sell_orders = replicate 50 \<lparr>price = 0, vol = 0\<rparr>, to_padding2 = replicate 6 0,
     replace_buy_client_id = replicate 10 0, replace_sell_client_id = replicate 10 0,
     last_order_numerator = 0, last_order_denominator = 0, plan_orders_cur = 0,
     place_orders_cur = 0, valid_buy_order_num = 0, valid_sell_order_num = 0,
     to_padding3 = replicate 10 0, to_free_slot_bits = - 1\<rparr>"

text \<open>The program's config, with key 110 as the owner of the profit.\<close>

definition sample_config :: amm_config where
  "sample_config = \<lparr>pnl_owner = 110, cancel_owner = 110, pending_1 = replicate 28 0,
     pending_2 = replicate 31 0, create_pool_fee = 5\<rparr>"

definition sample_token :: "pubkey \<Rightarrow> pubkey \<Rightarrow> u64 \<Rightarrow> token_account" where
  "sample_token m own amount = \<lparr>ta_mint = m, ta_owner = own, ta_amount = amount,
     ta_delegate = None, ta_close_authority = None\<rparr>"

text \<open>The data of a token account is a single byte, read from this table.\<close>

definition sample_token_unpack :: "bytes \<Rightarrow> token_account option" where
  "sample_token_unpack bs =
     (if bs = [1] then Some (sample_token 201 50 1000)
      else if bs = [2] then Some (sample_token 202 50 4000)
      else if bs = [3] then Some (sample_token 201 110 500)
      else if bs = [4] then Some (sample_token 202 110 9000)
      else if bs = [5] then Some (sample_token 103 110 800)
      else None)"

definition sample_accounts :: "(pubkey \<times> account) list" where
  "sample_accounts =
    [(60, \<lparr>acc_owner = 7, acc_lamports = 1, acc_data = config_bytes sample_config\<rparr>),
     (100, \<lparr>acc_owner = 7, acc_lamports = 1, acc_data = amm_bytes sample_amm\<rparr>),
     (102, \<lparr>acc_owner = 7, acc_lamports = 1, acc_data = target_orders_bytes sample_target\<rparr>),
     (103, \<lparr>acc_owner = 1, acc_lamports = 1, acc_data = [6]\<rparr>),
     (104, \<lparr>acc_owner = 1, acc_lamports = 1, acc_data = [1]\<rparr>),
     (105, \<lparr>acc_owner = 1, acc_lamports = 1, acc_data = [2]\<rparr>),
     (107, \<lparr>acc_owner = 1, acc_lamports = 1, acc_data = [3]\<rparr>),
     (108, \<lparr>acc_owner = 1, acc_lamports = 1, acc_data = [4]\<rparr>),
     (109, \<lparr>acc_owner = 1, acc_lamports = 1, acc_data = [5]\<rparr>)]"

definition sample_ledger :: ledger where
  "sample_ledger k =
     (case map_of sample_accounts k of
        Some a \<Rightarrow> a
      | None \<Rightarrow> \<lparr>acc_owner = 3, acc_lamports = 0, acc_data = []\<rparr>)"

definition sample_world :: world where
  "sample_world = \<lparr>ledger = sample_ledger, cpis = []\<rparr>"

definition sample_runtime :: runtime where
  "sample_runtime = \<lparr>
     rt_create_program_address = (\<lambda>_ _. Some 50),
     rt_find_program_address = (\<lambda>_ _. (60, 254)),
     rt_spl_token_id = 1,
     rt_ata_program_id = 2,
     rt_system_program_id = 3,
     rt_clock_id = 4,
     rt_rent_id = 5,
     rt_token_account_len = 165,
     rt_mint_len = 82,
     rt_open_orders_size = 3216,
     rt_token_unpack = sample_token_unpack,
     rt_mint_unpack = (\<lambda>_. Some \<lparr>mint_authority = Some 50, mint_supply = 2000,
       mint_decimals = 0, mint_freeze_authority = None\<rparr>),
     rt_clock = Done \<lparr>clk_epoch = 700, clk_unix_timestamp = 1000\<rparr>,
     rt_rent_minimum_balance = (\<lambda>_ _ _. Done 1),
     rt_aligned = (\<lambda>k. [ucast k, 0, 0, 0]),
     rt_market_load = (\<lambda>_ _ _ _. Done \<lparr>coin_mint = [201, 0, 0, 0], pc_mint = [202, 0, 0, 0],
       ms_coin_lot_size = 1, ms_pc_lot_size = 1\<rparr>),
     rt_open_orders_load = (\<lambda>_ _ _ _ _. Done \<lparr>oo_market = [106, 0, 0, 0],
       oo_owner = [50, 0, 0, 0], native_coin_free = 0, native_coin_total = 40,
       native_pc_free = 0, native_pc_total = 70, oo_free_slot_bits = -1, is_bid_bits = 0,
       oo_orders = replicate 128 0\<rparr>),
     rt_load_bids = (\<lambda>_ _ _. Done \<lparr>slab_is_empty = True, slab_find_min = None,
       slab_find_max = None, slab_find_by_key = (\<lambda>_. None)\<rparr>),
     rt_load_asks = (\<lambda>_ _ _. Done \<lparr>slab_is_empty = True, slab_find_min = None,
       slab_find_max = None, slab_find_by_key = (\<lambda>_. None)\<rparr>),
     rt_event_queue = (\<lambda>_ _ _. Done [\<lparr>ev_owner = [101, 0, 0, 0],
       ev_as_view = Done (Fill Ask True 10 25)\<rparr>]),
     rt_integer_sqrt_U128 = sample_sqrt_U128,
     rt_integer_sqrt_U256 = sample_sqrt_U256,
     rt_key_string = (\<lambda>_. ''key''),
     rt_invoke = (\<lambda>_ l. Done l)\<rparr>"

lemma sample_amm_simps [simp]:
  "amm_status sample_amm = 6" "amm_nonce sample_amm = 254" "amm_fees sample_amm = sample_fees"
  "amm_state_data sample_amm = sample_state_data" "amm_coin_vault sample_amm = 104"
  "amm_pc_vault sample_amm = 105" "amm_lp_mint sample_amm = 103" "lp_amount sample_amm = 2000"
  "amm_target_orders sample_amm = 102" "coin_decimals sample_amm = 0" "pc_decimals sample_amm = 0"
  "sys_decimal_value sample_amm = 1" "coin_vault_mint sample_amm = 201"
  "pc_vault_mint sample_amm = 202" "amm_market sample_amm = 106"
  "amm_market_program sample_amm = 112" "amm_open_orders sample_amm = 101"
  by (simp_all add: sample_amm_def)

lemma sample_target_simps [simp]:
  "calc_pnl_x sample_target = 4000" "calc_pnl_y sample_target = 1000"
  by (simp_all add: sample_target_def)

lemma sample_runtime_simps [simp]:
  "rt_create_program_address sample_runtime s k = Some 50"
  "rt_find_program_address sample_runtime s k = (60, 254)"
  "rt_spl_token_id sample_runtime = 1"
  "rt_clock sample_runtime = Done \<lparr>clk_epoch = 700, clk_unix_timestamp = 1000\<rparr>"
  "rt_integer_sqrt_U128 sample_runtime = sample_sqrt_U128"
  "rt_integer_sqrt_U256 sample_runtime = sample_sqrt_U256"
  "rt_invoke sample_runtime c l = Done l"
  by (simp_all add: sample_runtime_def)

lemma sample_token_simps [simp]:
  "ta_mint (sample_token m own a) = m" "ta_owner (sample_token m own a) = own"
  "ta_amount (sample_token m own a) = a"
  by (simp_all add: sample_token_def)

text \<open>Every call of the sample runtime succeeds and is recorded.\<close>

lemma sample_invoke [simp]:
  "invoke_signed sample_runtime ix accts seeds w =
     Done (w\<lparr>cpis := cpis w @ [\<lparr>cpi_ix = ix, cpi_accounts = accts, cpi_seeds = seeds\<rparr>]\<rparr>)"
  by (simp add: invoke_signed_def)

lemma wf_sample_amm [simp]: "wf_amm sample_amm"
  by (simp add: wf_amm_def sample_amm_def sample_state_data_def)

lemma wf_sample_target [simp]: "wf_target_orders sample_target"
  by (simp add: wf_target_orders_def sample_target_def MAX_ORDER_LIMIT_def)

lemma wf_sample_config [simp]: "wf_config sample_config"
  by (simp add: wf_config_def sample_config_def)

lemma sample_ledger_simps [simp]:
  "sample_ledger 60 = \<lparr>acc_owner = 7, acc_lamports = 1, acc_data = config_bytes sample_config\<rparr>"
  "sample_ledger 100 = \<lparr>acc_owner = 7, acc_lamports = 1, acc_data = amm_bytes sample_amm\<rparr>"
  "sample_ledger 102 = \<lparr>acc_owner = 7, acc_lamports = 1, acc_data = target_orders_bytes sample_target\<rparr>"
  "sample_ledger 103 = \<lparr>acc_owner = 1, acc_lamports = 1, acc_data = [6]\<rparr>"
  "sample_ledger 104 = \<lparr>acc_owner = 1, acc_lamports = 1, acc_data = [1]\<rparr>"
  "sample_ledger 105 = \<lparr>acc_owner = 1, acc_lamports = 1, acc_data = [2]\<rparr>"
  "sample_ledger 107 = \<lparr>acc_owner = 1, acc_lamports = 1, acc_data = [3]\<rparr>"
  "sample_ledger 108 = \<lparr>acc_owner = 1, acc_lamports = 1, acc_data = [4]\<rparr>"
  "sample_ledger 109 = \<lparr>acc_owner = 1, acc_lamports = 1, acc_data = [5]\<rparr>"
  by (simp_all add: sample_ledger_def sample_accounts_def)

lemma sample_acc_of [simp]: "acc_of sample_world (sample_info k) = sample_ledger k"
  by (simp add: acc_of_def sample_world_def sample_info_def)

lemma sample_info_simps [simp]:
  "ai_key (sample_info k) = k" "is_signer (sample_info k)" "is_writable (sample_info k)"
  by (simp_all add: sample_info_def)

lemma sample_amm_load [simp]: "amm_load sample_world (sample_info 100) = Done sample_amm"
  by (rule amm_load_bytes) simp_all

lemma sample_target_load [simp]:
  "target_orders_load sample_world (sample_info 102) = Done sample_target"
  by (rule target_orders_load_bytes) simp_all

lemma sample_config_load [simp]:
  "config_load_checked sample_world (sample_info 60) 7 = Done sample_config"
  "config_load_mut_checked sample_world (sample_info 60) 7 = Done sample_config"
  by (simp_all add: config_load_checked_def config_load_mut_checked_def config_load_bytes)

lemma sample_load_checked [simp]:
  "amm_load_mut_checked sample_world (sample_info 100) 7 = Done sample_amm"
  "target_orders_load_mut_checked sample_runtime sample_world (sample_info 102) 7 100 =
     Done sample_target"
  by (simp_all add: amm_load_mut_checked_Done target_orders_load_mut_checked_Done)
     (simp_all add: sample_amm_def sample_target_def sample_runtime_def)

lemma sample_unpack [simp]:
  "unpack_token_account sample_runtime sample_world (sample_info 104) 1 =
     Done (sample_token 201 50 1000)"
  "unpack_token_account sample_runtime sample_world (sample_info 105) 1 =
     Done (sample_token 202 50 4000)"
  "unpack_token_account sample_runtime sample_world (sample_info 107) 1 =
     Done (sample_token 201 110 500)"
  "unpack_token_account sample_runtime sample_world (sample_info 108) 1 =
     Done (sample_token 202 110 9000)"
  "unpack_token_account sample_runtime sample_world (sample_info 109) 1 =
     Done (sample_token 103 110 800)"
  by (simp_all add: unpack_token_account_Done)
     (simp_all add: sample_runtime_def sample_token_unpack_def)

lemma sample_unpack_mint:
  "unpack_mint sample_runtime sample_world (sample_info 103) 1 =
     Done \<lparr>mint_authority = Some 50, mint_supply = 2000, mint_decimals = 0, mint_freeze_authority = None\<rparr>"
  by (simp add: unpack_mint_def) (simp add: sample_runtime_def)

end
