(* ===== verification/Market.thy ===== *)
theory Market
  imports Samples "HOL-Library.Multiset"
begin

text \<open>
  The pool's view of the order book: \<open>load_serum_market_order\<close>, \<open>get_amm_orders\<close> and the
  best and worst prices (\<open>program/src/processor.rs\<close>), the pool's balance on the market and the
  totals of the pool (\<open>program/src/math.rs\<close>), and the batches of eight client order ids in
  which the handlers cancel the pool's orders.
\<close>

section \<open>Market and open orders\<close>

definition load_serum_market_order ::
  "runtime \<Rightarrow> world \<Rightarrow> account_info \<Rightarrow> account_info \<Rightarrow> account_info \<Rightarrow> amm_info \<Rightarrow> bool \<Rightarrow>
   (market_state \<times> open_orders) outcome" where
  "load_serum_market_order R w market_acc open_orders_acc authority_acc amm allow_disabled =
     and_then (rt_market_load R (ai_key market_acc) (acc_of w market_acc) (amm_market_program amm)
        allow_disabled) (\<lambda>market_state.
     and_then (rt_open_orders_load R (ai_key open_orders_acc) (acc_of w open_orders_acc)
        (ai_key market_acc) (ai_key authority_acc) (amm_market_program amm)) (\<lambda>open_orders.
       if oo_market open_orders \<noteq> rt_aligned R (ai_key market_acc) then err InvalidMarket
       else if oo_owner open_orders \<noteq> rt_aligned R (ai_key authority_acc) then err InvalidOwner
       else if ai_key open_orders_acc \<noteq> amm_open_orders amm then err InvalidOpenOrders
       else Done (market_state, open_orders)))"

definition get_dex_best_price :: "slab \<Rightarrow> side \<Rightarrow> u64 option outcome" where
  "get_dex_best_price sl sd =
     (if slab_is_empty sl then Done None
      else case sd of
        Bid \<Rightarrow> and_then (unwrap (slab_find_max sl)) (\<lambda>l. Done (Some (leaf_price l)))
      | Ask \<Rightarrow> and_then (unwrap (slab_find_min sl)) (\<lambda>l. Done (Some (leaf_price l))))"

text \<open>\<open>count_zeros\<close> of an integer type.\<close>

definition count_zeros :: "'a::len word \<Rightarrow> nat" where
  "count_zeros x = length (filter (\<lambda>i. \<not> bit x i) [0..<LENGTH('a)])"

definition scan_slot ::
  "open_orders \<Rightarrow> slab \<Rightarrow> slab \<Rightarrow> nat \<Rightarrow> leaf_node list \<times> leaf_node list \<Rightarrow>
   (leaf_node list \<times> leaf_node list) outcome" where
  "scan_slot oo bids asks i s =
     (case s of (bids_orders, asks_orders) \<Rightarrow>
       if bit (oo_free_slot_bits oo) i then Done (bids_orders, asks_orders)
       else and_then (unwrap (idx (oo_orders oo) i)) (\<lambda>key.
         if bit (is_bid_bits oo) i then
           (case slab_find_by_key bids key of
              None \<Rightarrow> Done (bids_orders, asks_orders)
            | Some handle_bid_ref \<Rightarrow> Done (bids_orders @ [handle_bid_ref], asks_orders))
         else
           (case slab_find_by_key asks key of
              None \<Rightarrow> Done (bids_orders, asks_orders)
            | Some handle_ask_ref \<Rightarrow> Done (bids_orders, asks_orders @ [handle_ask_ref]))))"

definition get_amm_orders ::
  "open_orders \<Rightarrow> slab \<Rightarrow> slab \<Rightarrow> (leaf_node list \<times> leaf_node list) outcome" where
  "get_amm_orders oo bids asks =
     and_then (if count_zeros (oo_free_slot_bits oo) \<noteq> 0
               then map_outcome_list (scan_slot oo bids asks) [0..<128] ([], [])
               else Done ([], [])) (\<lambda>(bids_orders, asks_orders).
       Done (sort_key (\<lambda>l. - uint (leaf_price l)) bids_orders,
             sort_key (\<lambda>l. uint (leaf_price l)) asks_orders))"

definition load_amm_orders ::
  "runtime \<Rightarrow> world \<Rightarrow> market_state \<Rightarrow> open_orders \<Rightarrow> account_info \<Rightarrow> account_info \<Rightarrow>
   (leaf_node list \<times> leaf_node list) outcome" where
  "load_amm_orders R w ms oo bids_info asks_info =
     and_then (rt_load_bids R ms (ai_key bids_info) (acc_of w bids_info)) (\<lambda>bids.
     and_then (rt_load_asks R ms (ai_key asks_info) (acc_of w asks_info)) (\<lambda>asks.
       get_amm_orders oo bids asks))"

definition get_amm_best_price ::
  "runtime \<Rightarrow> world \<Rightarrow> market_state \<Rightarrow> open_orders \<Rightarrow> account_info \<Rightarrow> account_info \<Rightarrow>
   (u64 option \<times> u64 option) outcome" where
  "get_amm_best_price R w ms oo bids_account asks_account =
     and_then (load_amm_orders R w ms oo bids_account asks_account) (\<lambda>(bids_orders, asks_orders).
       Done (if length bids_orders \<noteq> 0 then Some (leaf_price (hd bids_orders)) else None,
             if length asks_orders \<noteq> 0 then Some (leaf_price (hd asks_orders)) else None))"

definition get_amm_worst_price ::
  "runtime \<Rightarrow> world \<Rightarrow> market_state \<Rightarrow> open_orders \<Rightarrow> account_info \<Rightarrow> account_info \<Rightarrow>
   (u64 option \<times> u64 option) outcome" where
  "get_amm_worst_price R w ms oo bids_account asks_account =
     and_then (load_amm_orders R w ms oo bids_account asks_account) (\<lambda>(bids_orders, asks_orders).
       Done (if length bids_orders \<noteq> 0 then Some (leaf_price (last bids_orders)) else None,
             if length asks_orders \<noteq> 0 then Some (leaf_price (last asks_orders)) else None))"

section \<open>Balance on the market and totals\<close>

definition apply_event ::
  "u64 list \<Rightarrow> event \<Rightarrow> u64 \<times> u64 \<Rightarrow> (u64 \<times> u64) outcome" where
  "apply_event own ev s =
     (case s of (native_pc, native_coin) \<Rightarrow>
       if ev_owner ev \<noteq> own then Done (native_pc, native_coin)
       else and_then (unwrap_result (ev_as_view ev)) (\<lambda>v.
         case v of
           Fill sd maker native_qty_paid native_qty_received \<Rightarrow>
             (case sd of
                Bid \<Rightarrow>
                  if maker then
                    and_then (unwrap (checked_sub native_pc native_qty_paid)) (\<lambda>pc'.
                    and_then (unwrap (checked_add native_coin native_qty_received)) (\<lambda>coin'.
                      Done (pc', coin')))
                  else Done (native_pc, native_coin)
              | Ask \<Rightarrow>
                  if maker then
                    and_then (unwrap (checked_sub native_coin native_qty_paid)) (\<lambda>coin'.
                    and_then (unwrap (checked_add native_pc native_qty_received)) (\<lambda>pc'.
                      Done (pc', coin')))
                  else Done (native_pc, native_coin))
         | OutEvent \<Rightarrow> Done (native_pc, native_coin)))"

definition calc_exact_vault_in_serum ::
  "runtime \<Rightarrow> world \<Rightarrow> open_orders \<Rightarrow> market_state \<Rightarrow> account_info \<Rightarrow> account_info \<Rightarrow>
   (u64 \<times> u64) outcome" where
  "calc_exact_vault_in_serum R w oo ms event_q_account amm_open_account =
     and_then (unwrap_result (rt_event_queue R ms (ai_key event_q_account) (acc_of w event_q_account)))
       (\<lambda>event_q.
         map_outcome_list (apply_event (rt_aligned R (ai_key amm_open_account))) event_q
           (native_pc_total oo, native_coin_total oo))"

definition calc_total_without_take_pnl ::
  "runtime \<Rightarrow> world \<Rightarrow> u64 \<Rightarrow> u64 \<Rightarrow> open_orders \<Rightarrow> amm_info \<Rightarrow> market_state \<Rightarrow> account_info \<Rightarrow>
   account_info \<Rightarrow> (u64 \<times> u64) outcome" where
  "calc_total_without_take_pnl R w pc_amount coin_amount oo amm ms event_q_account amm_open_account =
     and_then (calc_exact_vault_in_serum R w oo ms event_q_account amm_open_account)
       (\<lambda>(pc_total_in_serum, coin_total_in_serum).
     and_then (ok_or CheckedAddOverflow (checked_add pc_amount pc_total_in_serum)) (\<lambda>pc1.
     and_then (ok_or CheckedSubOverflow (checked_sub pc1 (need_take_pnl_pc (amm_state_data amm)))) (\<lambda>pc2.
     and_then (ok_or CheckedAddOverflow (checked_add coin_amount coin_total_in_serum)) (\<lambda>coin1.
     and_then (ok_or CheckedSubOverflow (checked_sub coin1 (need_take_pnl_coin (amm_state_data amm)))) (\<lambda>coin2.
       Done (pc2, coin2))))))"

definition calc_total_without_take_pnl_no_orderbook ::
  "u64 \<Rightarrow> u64 \<Rightarrow> amm_info \<Rightarrow> (u64 \<times> u64) outcome" where
  "calc_total_without_take_pnl_no_orderbook pc_amount coin_amount amm =
     and_then (ok_or CheckedSubOverflow (checked_sub pc_amount (need_take_pnl_pc (amm_state_data amm)))) (\<lambda>pc.
     and_then (ok_or CheckedSubOverflow (checked_sub coin_amount (need_take_pnl_coin (amm_state_data amm)))) (\<lambda>coin.
       Done (pc, coin)))"

section \<open>Batches of client order ids\<close>

text \<open>
  The cancel calls take an array of eight ids. The handlers fill it id by id; the array, the
  number of used places and the full arrays are the loop's state. Writing at place eight
  would be an index panic.
\<close>

type_synonym batch_state = "u64 list list \<times> u64 list \<times> nat"

definition put_order_id :: "u64 \<Rightarrow> batch_state \<Rightarrow> batch_state outcome" where
  "put_order_id i s =
     (case s of (vec, order_ids, cnt) \<Rightarrow>
       if cnt < length order_ids then Done (vec, order_ids[cnt := i], Suc cnt) else Panic)"

definition flush_order_ids :: "batch_state \<Rightarrow> batch_state" where
  "flush_order_ids s =
     (case s of (vec, order_ids, cnt) \<Rightarrow>
       if cnt = 8 then (vec @ [order_ids], replicate 8 0, 0) else (vec, order_ids, cnt))"

definition finish_order_ids :: "batch_state \<Rightarrow> u64 list list" where
  "finish_order_ids s =
     (case s of (vec, order_ids, cnt) \<Rightarrow> if cnt \<noteq> 0 then vec @ [order_ids] else vec)"

definition order_id_batches :: "leaf_node list \<Rightarrow> u64 list list outcome" where
  "order_id_batches orders =
     and_then (map_outcome_list
       (\<lambda>order s. and_then (put_order_id (leaf_client_order_id order) s) (\<lambda>s'. Done (flush_order_ids s')))
       orders ([], replicate 8 0, 0)) (\<lambda>s.
       Done (finish_order_ids s))"

definition both_side_step ::
  "leaf_node list \<Rightarrow> leaf_node list \<Rightarrow> nat \<Rightarrow> batch_state \<Rightarrow> batch_state outcome" where
  "both_side_step bids asks i s =
     and_then (if i < length bids then put_order_id (leaf_client_order_id (bids ! i)) s else Done s) (\<lambda>s1.
     and_then (if i < length asks then put_order_id (leaf_client_order_id (asks ! i)) s1 else Done s1) (\<lambda>s2.
       Done (flush_order_ids s2)))"

definition both_side_batches ::
  "leaf_node list \<Rightarrow> leaf_node list \<Rightarrow> u64 list list outcome" where
  "both_side_batches bids asks =
     and_then (map_outcome_list (both_side_step bids asks) [0..<max (length bids) (length asks)]
       ([], replicate 8 0, 0)) (\<lambda>s.
       Done (finish_order_ids s))"

text \<open>One cancel call per batch.\<close>

definition cancel_batches ::
  "runtime \<Rightarrow> account_info \<Rightarrow> account_info \<Rightarrow> account_info \<Rightarrow> account_info \<Rightarrow> account_info \<Rightarrow>
   account_info \<Rightarrow> account_info \<Rightarrow> u8 \<Rightarrow> u64 list list \<Rightarrow> world \<Rightarrow> world outcome" where
  "cancel_batches R dex_program market bids asks open_orders_info authority event_q nonce batches w =
     map_outcome_list (\<lambda>ids w'.
       invoke_dex_cancel_orders_by_client_order_ids R dex_program market bids asks open_orders_info
         authority event_q AUTHORITY_AMM nonce ids w') batches w"

lemma cancel_batches_cpis:
  "cancel_batches R dex m b a oo auth q nonce batches w = Done w' \<Longrightarrow>
     cpis w' = cpis w @ map (\<lambda>ids.
       \<lparr>cpi_ix = DexCancelOrdersByClientIds (ai_key dex) (ai_key m) (ai_key b) (ai_key a) (ai_key oo)
          (ai_key auth) (ai_key q) ids,
        cpi_accounts = [dex, m, b, a, oo, auth, q], cpi_seeds = [[AUTHORITY_AMM, [nonce]]]\<rparr>) batches"
proof (induction batches arbitrary: w)
  case (Cons ids batches)
  then obtain w1 where "invoke_dex_cancel_orders_by_client_order_ids R dex m b a oo auth q
      AUTHORITY_AMM nonce ids w = Done w1"
    and "cancel_batches R dex m b a oo auth q nonce batches w1 = Done w'"
    by (auto simp: cancel_batches_def and_then_Done)
  then show ?case
    using Cons.IH
    by (auto simp: invoke_dex_cancel_orders_by_client_order_ids_def dest!: invoke_signed_cpis)
qed (simp add: cancel_batches_def)

text \<open>The calls that take the pool's orders off the market and its proceeds home.\<close>

definition market_call :: "cpi \<Rightarrow> bool" where
  "market_call c =
     (case cpi_ix c of
        DexCancelOrdersByClientIds _ _ _ _ _ _ _ _ \<Rightarrow> True
      | DexSettleFunds _ _ _ _ _ _ _ _ _ _ _ \<Rightarrow> True
      | _ \<Rightarrow> False)"

lemma cancel_batches_market_calls:
  "cancel_batches R dex m b a oo auth q nonce batches w = Done w' \<Longrightarrow>
     \<exists>pre. cpis w' = cpis w @ pre \<and> list_all market_call pre"
  by (auto simp: list_all_iff market_call_def dest!: cancel_batches_cpis)

lemma settle_funds_market_call:
  "invoke_dex_settle_funds R dex m oo own cv pv cw pw vs tp ref seed nonce w = Done w' \<Longrightarrow>
     \<exists>pre. cpis w' = cpis w @ pre \<and> list_all market_call pre"
  by (auto simp: invoke_dex_settle_funds_def market_call_def dest!: invoke_signed_cpis)

section \<open>What the batches hold\<close>

text \<open>
  The interface the cancelling handlers use: a collector returns arrays of eight which, read
  one after the other, are the ids to cancel followed by fewer than eight zeros.
\<close>

locale order_batches =
  fixes collect :: "'a \<Rightarrow> u64 list list outcome" and ids_of :: "'a \<Rightarrow> u64 list"
  assumes collect_Done: "\<exists>bs k. collect x = Done bs \<and> concat bs = ids_of x @ replicate k 0 \<and>
    k < 8 \<and> (\<forall>b\<in>set bs. length b = 8)"
begin

lemma collect_no_panic: "collect x \<noteq> Panic \<and> collect x \<noteq> Fail e"
  using collect_Done [of x] by auto

lemma collect_complete: "collect x = Done bs \<Longrightarrow> i \<in> set (ids_of x) \<Longrightarrow> \<exists>b\<in>set bs. i \<in> set b"
  using collect_Done [of x] by (metis UN_E Un_iff outcome.inject(1) set_append set_concat)

lemma collect_only: "collect x = Done bs \<Longrightarrow> b \<in> set bs \<Longrightarrow> i \<in> set b \<Longrightarrow> i \<noteq> 0 \<Longrightarrow>
    i \<in> set (ids_of x)"
proof -
  assume bs: "collect x = Done bs" and b: "b \<in> set bs" "i \<in> set b" "i \<noteq> 0"
  obtain k where "concat bs = ids_of x @ replicate k 0"
    using collect_Done [of x] bs by auto
  then have "set (concat bs) \<subseteq> set (ids_of x) \<union> {0}"
    by (auto simp: set_replicate_conv_if)
  then show ?thesis using b by auto
qed

lemma collect_count:
  assumes "collect x = Done bs"
  shows "length (ids_of x) \<le> 8 * length bs \<and> 8 * length bs < length (ids_of x) + 8"
proof -
  obtain k where k: "concat bs = ids_of x @ replicate k 0" "k < 8" "\<forall>b\<in>set bs. length b = 8"
    using collect_Done [of x] assms by auto
  have "length (concat bs) = 8 * length bs"
    using k(3) by (induction bs) auto
  then show ?thesis using k by auto
qed

end

definition batch_repr :: "nat \<Rightarrow> batch_state \<Rightarrow> u64 list \<Rightarrow> bool" where
  "batch_repr m s xs \<longleftrightarrow>
     (case s of (vec, order_ids, cnt) \<Rightarrow>
       length order_ids = 8 \<and> cnt \<le> m \<and> (\<forall>b\<in>set vec. length b = 8) \<and>
       concat vec @ take cnt order_ids = xs \<and> drop cnt order_ids = replicate (8 - cnt) 0)"

lemma batch_repr_empty: "batch_repr 7 ([], replicate 8 0, 0) []"
  by (simp add: batch_repr_def)

lemma put_order_id_repr:
  assumes "batch_repr m s xs" and "m < 8"
  shows "\<exists>s'. put_order_id i s = Done s' \<and> batch_repr (Suc m) s' (xs @ [i]) \<and>
    snd (snd s') = Suc (snd (snd s))"
proof -
  obtain vec ids c where s: "s = (vec, ids, c)" by (cases s)
  have "take (Suc c) (ids[c := i]) = take c ids @ [i]"
    using assms by (simp add: s batch_repr_def take_Suc_conv_app_nth)
  moreover have "drop (Suc c) (ids[c := i]) = replicate (8 - Suc c) 0"
  proof -
    have "drop (Suc c) (ids[c := i]) = drop (Suc c) ids" by simp
    also have "\<dots> = tl (drop c ids)" by (simp add: drop_Suc tl_drop)
    also have "\<dots> = replicate (8 - Suc c) 0"
      using assms by (simp add: s batch_repr_def)
    finally show ?thesis .
  qed
  ultimately show ?thesis
    using assms by (auto simp: s batch_repr_def put_order_id_def)
qed

lemma flush_order_ids_repr:
  assumes "batch_repr 8 s xs"
  shows "batch_repr 7 (flush_order_ids s) xs"
  using assms by (auto simp: batch_repr_def flush_order_ids_def split: prod.splits)

lemma flush_count_even: "even (snd (snd s)) \<Longrightarrow> even (snd (snd (flush_order_ids s)))"
  by (cases s) (auto simp: flush_order_ids_def)

lemma finish_order_ids_repr:
  assumes "batch_repr 7 s xs"
  shows "\<exists>k. concat (finish_order_ids s) = xs @ replicate k 0 \<and> k < 8 \<and>
    (\<forall>b\<in>set (finish_order_ids s). length b = 8)"
proof -
  obtain vec ids c where s: "s = (vec, ids, c)" by (cases s)
  show ?thesis
  proof (cases "c = 0")
    case True
    then show ?thesis
      using assms by (intro exI [of _ 0]) (auto simp: s batch_repr_def finish_order_ids_def)
  next
    case False
    have "concat vec @ ids = xs @ replicate (8 - c) 0"
      using assms append_take_drop_id [of c ids]
      by (auto simp: s batch_repr_def simp del: append_take_drop_id)
    then show ?thesis
      using assms False
      by (intro exI [of _ "8 - c"]) (auto simp: s batch_repr_def finish_order_ids_def)
  qed
qed

lemma one_side_loop:
  assumes "batch_repr 7 s xs"
  shows "\<exists>s'. map_outcome_list
      (\<lambda>order s. and_then (put_order_id (leaf_client_order_id order) s) (\<lambda>s'. Done (flush_order_ids s')))
      orders s = Done s' \<and> batch_repr 7 s' (xs @ map leaf_client_order_id orders)"
  using assms
proof (induction orders arbitrary: s xs)
  case (Cons a orders)
  obtain s1 where "put_order_id (leaf_client_order_id a) s = Done s1"
    and "batch_repr 8 s1 (xs @ [leaf_client_order_id a])"
    using put_order_id_repr [OF Cons.prems, of "leaf_client_order_id a"] by auto
  then show ?case
    using Cons.IH [OF flush_order_ids_repr] by fastforce
qed simp

lemma order_id_batches_Done:
  "\<exists>bs k. order_id_batches orders = Done bs \<and>
     concat bs = map leaf_client_order_id orders @ replicate k 0 \<and> k < 8 \<and>
     (\<forall>b\<in>set bs. length b = 8)"
  using one_side_loop [OF batch_repr_empty, of orders] finish_order_ids_repr
  by (fastforce simp: order_id_batches_def)

interpretation one_side: order_batches order_id_batches "map leaf_client_order_id"
  by unfold_locales (rule order_id_batches_Done)

text \<open>The ids of both sides in the order the withdrawal visits them.\<close>

definition slot_pair :: "leaf_node list \<Rightarrow> leaf_node list \<Rightarrow> nat \<Rightarrow> leaf_node list" where
  "slot_pair bids asks i =
     (if i < length bids then [bids ! i] else []) @ (if i < length asks then [asks ! i] else [])"

definition interleave :: "leaf_node list \<Rightarrow> leaf_node list \<Rightarrow> leaf_node list" where
  "interleave bids asks =
     concat (map (slot_pair bids asks) [0..<max (length bids) (length asks)])"

lemma both_side_step_repr:
  assumes "batch_repr 7 s xs"
    and "i < min (length bids) (length asks) \<Longrightarrow> even (snd (snd s))"
  shows "\<exists>s'. both_side_step bids asks i s = Done s' \<and>
    batch_repr 7 s' (xs @ map leaf_client_order_id (slot_pair bids asks i)) \<and>
    (i < min (length bids) (length asks) \<longrightarrow> even (snd (snd s')))"
proof (cases "i < min (length bids) (length asks)")
  case True
  then have "batch_repr 6 s xs"
    using assms by (auto simp: batch_repr_def le_less_Suc_eq split: prod.splits)
  then obtain s1 s2 where "put_order_id (leaf_client_order_id (bids ! i)) s = Done s1"
    and "put_order_id (leaf_client_order_id (asks ! i)) s1 = Done s2"
    and "batch_repr 8 s2 ((xs @ [leaf_client_order_id (bids ! i)]) @ [leaf_client_order_id (asks ! i)])"
    and "snd (snd s2) = Suc (Suc (snd (snd s)))"
    using put_order_id_repr [of 6 s] put_order_id_repr [of 7] by fastforce
  then show ?thesis
    using True assms(2) flush_order_ids_repr flush_count_even [of s2]
    by (auto simp: both_side_step_def slot_pair_def)
next
  case False
  obtain s1 where "put_order_id (leaf_client_order_id (bids ! i)) s = Done s1"
    and "batch_repr 8 s1 (xs @ [leaf_client_order_id (bids ! i)])"
    using put_order_id_repr [OF assms(1)] by fastforce
  moreover obtain s2 where "put_order_id (leaf_client_order_id (asks ! i)) s = Done s2"
    and "batch_repr 8 s2 (xs @ [leaf_client_order_id (asks ! i)])"
    using put_order_id_repr [OF assms(1)] by fastforce
  moreover have "batch_repr 8 s xs"
    using assms(1) by (auto simp: batch_repr_def)
  ultimately show ?thesis
    using False flush_order_ids_repr
    by (auto simp: both_side_step_def slot_pair_def simp del: split_paired_Ex)
qed

lemma both_side_loop:
  "\<exists>s. map_outcome_list (both_side_step bids asks) [0..<n] ([], replicate 8 0, 0) = Done s \<and>
     batch_repr 7 s (map leaf_client_order_id (concat (map (slot_pair bids asks) [0..<n]))) \<and>
     (n \<le> min (length bids) (length asks) \<longrightarrow> even (snd (snd s)))"
proof (induction n)
  case 0
  then show ?case using batch_repr_empty by simp
next
  case (Suc n)
  then obtain s where s: "map_outcome_list (both_side_step bids asks) [0..<n] ([], replicate 8 0, 0) = Done s"
    "batch_repr 7 s (map leaf_client_order_id (concat (map (slot_pair bids asks) [0..<n])))"
    "n \<le> min (length bids) (length asks) \<longrightarrow> even (snd (snd s))"
    by blast
  then obtain s' where "both_side_step bids asks n s = Done s'"
    and "batch_repr 7 s' (map leaf_client_order_id (concat (map (slot_pair bids asks) [0..<n])) @
      map leaf_client_order_id (slot_pair bids asks n))"
    and "n < min (length bids) (length asks) \<longrightarrow> even (snd (snd s'))"
    using both_side_step_repr [OF s(2), of n bids asks] by fastforce
  then show ?case
    using s(1) by (auto simp: map_outcome_list_append)
qed

lemma both_side_batches_Done:
  "\<exists>bs k. both_side_batches bids asks = Done bs \<and>
     concat bs = map leaf_client_order_id (interleave bids asks) @ replicate k 0 \<and> k < 8 \<and>
     (\<forall>b\<in>set bs. length b = 8)"
  using both_side_loop [of bids asks "max (length bids) (length asks)"] finish_order_ids_repr
  unfolding both_side_batches_def interleave_def by fastforce

interpretation both_sides: order_batches
  "\<lambda>(bids, asks). both_side_batches bids asks"
  "\<lambda>(bids, asks). map leaf_client_order_id (interleave bids asks)"
  by unfold_locales (use both_side_batches_Done in auto)

lemma set_interleave: "set (interleave bids asks) = set bids \<union> set asks"
proof
  show "set (interleave bids asks) \<subseteq> set bids \<union> set asks"
    by (auto simp: interleave_def slot_pair_def)
  show "set bids \<union> set asks \<subseteq> set (interleave bids asks)"
    by (force simp: interleave_def slot_pair_def in_set_conv_nth)
qed

text \<open>
  C19: a withdrawal's batches never index past the array of eight although each round
  writes up to two ids and tests for a full array once, and they contain exactly the
  client ids of the pool's orders on both sides, zeros filling the last array.
\<close>

theorem both_side_batches_complete:
  "\<exists>bs. both_side_batches bids asks = Done bs \<and> (\<forall>b\<in>set bs. length b = 8) \<and>
     set (concat bs) - {0} = leaf_client_order_id ` (set bids \<union> set asks) - {0} \<and>
     leaf_client_order_id ` (set bids \<union> set asks) \<subseteq> set (concat bs) \<and>
     8 * length bs < length (interleave bids asks) + 8"
proof -
  obtain bs k where bs: "both_side_batches bids asks = Done bs" "\<forall>b\<in>set bs. length b = 8"
    "concat bs = map leaf_client_order_id (interleave bids asks) @ replicate k 0"
    using both_side_batches_Done by blast
  have S: "set (concat bs) = leaf_client_order_id ` (set bids \<union> set asks) \<union> (if k = 0 then {} else {0})"
    unfolding bs(3) set_append set_map set_map set_interleave by (simp add: set_replicate_conv_if)
  have "8 * length bs < length (interleave bids asks) + 8"
    using both_sides.collect_count [of "(bids, asks)" bs] bs(1) by simp
  then show ?thesis
    using bs(1,2) by (intro exI [of _ bs]) (simp only: S simp_thms, auto)
qed

definition sample_leaf :: "u64 \<Rightarrow> u64 \<Rightarrow> leaf_node" where
  "sample_leaf p c = \<lparr>leaf_price = p, leaf_quantity = 1, leaf_client_order_id = c, leaf_order_id = 0\<rparr>"

theorem both_side_batches_complete_witness:
  "\<exists>bs. both_side_batches [sample_leaf 5 11, sample_leaf 4 12] [sample_leaf 6 13] = Done bs \<and>
     {11, 12, 13} \<subseteq> set (concat bs) \<and> (\<forall>b\<in>set bs. length b = 8)"
  using both_side_batches_complete [of "[sample_leaf 5 11, sample_leaf 4 12]" "[sample_leaf 6 13]"]
  by (auto simp: sample_leaf_def)

section \<open>The pool's orders on the book\<close>

text \<open>
  The orders of one side the slots of an open-orders account refer to: the slots that are
  not free and belong to the side, as far as the book still holds their order.
\<close>

definition slot_order :: "open_orders \<Rightarrow> slab \<Rightarrow> bool \<Rightarrow> nat \<Rightarrow> leaf_node option" where
  "slot_order oo sl is_bid i =
     (if \<not> bit (oo_free_slot_bits oo) i \<and> bit (is_bid_bits oo) i = is_bid
      then slab_find_by_key sl (oo_orders oo ! i) else None)"

definition slot_orders :: "open_orders \<Rightarrow> slab \<Rightarrow> bool \<Rightarrow> leaf_node list" where
  "slot_orders oo sl is_bid = List.map_filter (slot_order oo sl is_bid) [0..<128]"

lemma map_filter_append:
  "List.map_filter f (xs @ ys) = List.map_filter f xs @ List.map_filter f ys"
  by (simp add: List.map_filter_def)

lemma scan_slots:
  assumes "n \<le> length (oo_orders oo)"
  shows "map_outcome_list (scan_slot oo bids asks) [0..<n] ([], []) =
    Done (List.map_filter (slot_order oo bids True) [0..<n],
          List.map_filter (slot_order oo asks False) [0..<n])"
  using assms
proof (induction n)
  case (Suc n)
  then have "idx (oo_orders oo) n = Some (oo_orders oo ! n)"
    by (simp add: idx_Some)
  then show ?case
    using Suc
    by (simp add: map_outcome_list_append map_filter_append scan_slot_def List.map_filter_simps
        slot_order_def split: option.split)
qed (simp add: List.map_filter_simps)

lemma count_zeros_0: "count_zeros (x :: 'a::len word) = 0 \<longleftrightarrow> (\<forall>i<LENGTH('a). bit x i)"
  by (auto simp: count_zeros_def filter_empty_conv)

lemma sorted_wrt_sort_key:
  "sorted_wrt (\<lambda>x y. f x \<le> f y) (sort_key (f :: 'b \<Rightarrow> 'a::linorder) xs)"
  using sorted_sort_key [of f xs] by (simp add: sorted_map)

text \<open>
  C20: with the 128 slots of an open-orders account, \<open>get_amm_orders\<close> always returns; its two
  lists are exactly the pool's orders that are still on each side of the book, the bids from
  the highest price down and the asks from the lowest price up.
\<close>

theorem get_amm_orders_correct:
  assumes "length (oo_orders oo) = 128"
  shows "\<exists>b a. get_amm_orders oo bids asks = Done (b, a) \<and>
    mset b = mset (slot_orders oo bids True) \<and> mset a = mset (slot_orders oo asks False) \<and>
    sorted_wrt (\<lambda>l m. leaf_price m \<le> leaf_price l) b \<and>
    sorted_wrt (\<lambda>l m. leaf_price l \<le> leaf_price m) a"
proof -
  have "List.map_filter (slot_order oo sl side) [0..<128] = []"
    if "count_zeros (oo_free_slot_bits oo) = 0" for sl side
    using that by (auto simp: count_zeros_0 slot_order_def List.map_filter_def filter_empty_conv)
  then have "get_amm_orders oo bids asks = Done
      (sort_key (\<lambda>l. - uint (leaf_price l)) (slot_orders oo bids True),
       sort_key (\<lambda>l. uint (leaf_price l)) (slot_orders oo asks False))"
    using scan_slots [of 128 oo bids asks] assms
    by (simp add: get_amm_orders_def slot_orders_def)
  then show ?thesis
    using sorted_wrt_sort_key [of "\<lambda>l. - uint (leaf_price l)" "slot_orders oo bids True"]
      sorted_wrt_sort_key [of "\<lambda>l. uint (leaf_price l)" "slot_orders oo asks False"]
    by (simp add: word_le_def)
qed

definition sample_open_orders :: open_orders where
  "sample_open_orders = \<lparr>oo_market = [1, 0, 0, 0], oo_owner = [2, 0, 0, 0], native_coin_free = 0,
     native_coin_total = 40, native_pc_free = 0, native_pc_total = 70, oo_free_slot_bits = -4,
     is_bid_bits = 1, oo_orders = 5 # 6 # replicate 126 0\<rparr>"

definition sample_slab :: slab where
  "sample_slab = \<lparr>slab_is_empty = False, slab_find_min = None, slab_find_max = None,
     slab_find_by_key = (\<lambda>k. Some \<lparr>leaf_price = 3, leaf_quantity = 1, leaf_client_order_id = 9,
       leaf_order_id = k\<rparr>)\<rparr>"

theorem get_amm_orders_correct_witness:
  "\<exists>b a. get_amm_orders sample_open_orders sample_slab sample_slab = Done (b, a) \<and>
    mset b = mset (slot_orders sample_open_orders sample_slab True) \<and>
    mset a = mset (slot_orders sample_open_orders sample_slab False) \<and>
    sorted_wrt (\<lambda>l m. leaf_price m \<le> leaf_price l) b \<and>
    sorted_wrt (\<lambda>l m. leaf_price l \<le> leaf_price m) a"
  by (rule get_amm_orders_correct) (simp add: sample_open_orders_def)

section \<open>Balances\<close>

text \<open>What an event of the queue adds to the pool's two balances on the market.\<close>

definition pc_delta :: "u64 list \<Rightarrow> event \<Rightarrow> int" where
  "pc_delta own ev =
     (if ev_owner ev = own then
        (case ev_as_view ev of
           Done (Fill Bid True paid received) \<Rightarrow> - uint paid
         | Done (Fill Ask True paid received) \<Rightarrow> uint received
         | _ \<Rightarrow> 0)
      else 0)"

definition coin_delta :: "u64 list \<Rightarrow> event \<Rightarrow> int" where
  "coin_delta own ev =
     (if ev_owner ev = own then
        (case ev_as_view ev of
           Done (Fill Bid True paid received) \<Rightarrow> uint received
         | Done (Fill Ask True paid received) \<Rightarrow> - uint paid
         | _ \<Rightarrow> 0)
      else 0)"

lemma apply_event_delta:
  assumes "apply_event own ev (pc, coin) = Done (pc', coin')"
  shows "uint pc' = uint pc + pc_delta own ev \<and> uint coin' = uint coin + coin_delta own ev"
proof (cases "ev_owner ev = own")
  case True
  then obtain v where v: "ev_as_view ev = Done v"
    using assms by (auto simp: apply_event_def and_then_Done)
  show ?thesis
    using assms True
    by (cases v) (auto simp: apply_event_def v pc_delta_def coin_delta_def and_then_Done
        checked_add_Some checked_sub_Some split: side.splits if_splits)
qed (use assms in \<open>auto simp: apply_event_def pc_delta_def coin_delta_def\<close>)

lemma apply_events_delta:
  assumes "map_outcome_list (apply_event own) evs (pc, coin) = Done (pc', coin')"
  shows "uint pc' = uint pc + sum_list (map (pc_delta own) evs) \<and>
    uint coin' = uint coin + sum_list (map (coin_delta own) evs)"
  using assms
proof (induction evs arbitrary: pc coin)
  case (Cons e evs)
  then obtain pc1 coin1 where "apply_event own e (pc, coin) = Done (pc1, coin1)"
    and "map_outcome_list (apply_event own) evs (pc1, coin1) = Done (pc', coin')"
    by (auto simp: and_then_Done)
  then show ?case
    using Cons.IH apply_event_delta by fastforce
qed simp

lemma calc_total_without_take_pnl_facts:
  assumes "calc_total_without_take_pnl R w pc_amount coin_amount oo amm ms q acc = Done (pc, coin)"
  shows "\<exists>evs. rt_event_queue R ms (ai_key q) (acc_of w q) = Done evs \<and>
    uint pc = uint pc_amount + uint (native_pc_total oo) +
      sum_list (map (pc_delta (rt_aligned R (ai_key acc))) evs) -
      uint (need_take_pnl_pc (amm_state_data amm)) \<and>
    uint coin = uint coin_amount + uint (native_coin_total oo) +
      sum_list (map (coin_delta (rt_aligned R (ai_key acc))) evs) -
      uint (need_take_pnl_coin (amm_state_data amm))"
  using assms apply_events_delta
  by (fastforce simp: calc_total_without_take_pnl_def calc_exact_vault_in_serum_def and_then_Done
      checked_add_Some checked_sub_Some)

text \<open>
  C21: the totals of a pool with orders on the market are the vault, plus what the market
  holds for it, corrected by the fills of its own orders still in the event queue, minus
  the profit set aside; no step wraps around.
\<close>

theorem calc_total_without_take_pnl_exact:
  assumes "calc_total_without_take_pnl R w pc_amount coin_amount oo amm ms q acc = Done (pc, coin)"
    and "rt_event_queue R ms (ai_key q) (acc_of w q) = Done evs"
  shows "uint pc = uint pc_amount + uint (native_pc_total oo) +
      sum_list (map (pc_delta (rt_aligned R (ai_key acc))) evs) -
      uint (need_take_pnl_pc (amm_state_data amm)) \<and>
    uint coin = uint coin_amount + uint (native_coin_total oo) +
      sum_list (map (coin_delta (rt_aligned R (ai_key acc))) evs) -
      uint (need_take_pnl_coin (amm_state_data amm))"
  using calc_total_without_take_pnl_facts [OF assms(1)] assms(2) by auto

definition sample_market :: market_state where
  "sample_market = \<lparr>coin_mint = [201, 0, 0, 0], pc_mint = [202, 0, 0, 0],
     ms_coin_lot_size = 1, ms_pc_lot_size = 1\<rparr>"

theorem calc_total_without_take_pnl_exact_witness:
  "calc_total_without_take_pnl sample_runtime sample_world 4000 1000 sample_open_orders sample_amm
     sample_market (sample_info 111) (sample_info 101) = Done (4095, 1030) \<and>
   uint (4095 :: u64) = uint (4000 :: u64) + uint (native_pc_total sample_open_orders) +
     sum_list (map (pc_delta (rt_aligned sample_runtime (ai_key (sample_info 101))))
       [\<lparr>ev_owner = [101, 0, 0, 0], ev_as_view = Done (Fill Ask True 10 25)\<rparr>]) -
     uint (need_take_pnl_pc (amm_state_data sample_amm))"
proof -
  have t: "calc_total_without_take_pnl sample_runtime sample_world 4000 1000 sample_open_orders
      sample_amm sample_market (sample_info 111) (sample_info 101) = Done (4095, 1030)"
    by (simp add: calc_total_without_take_pnl_def calc_exact_vault_in_serum_def sample_runtime_def
        apply_event_def checked_add_def checked_sub_def sample_open_orders_def sample_amm_def
        sample_state_data_def)
  show ?thesis
    using t calc_total_without_take_pnl_exact [OF t, of
        "[\<lparr>ev_owner = [101, 0, 0, 0], ev_as_view = Done (Fill Ask True 10 25)\<rparr>]"]
    by (simp add: sample_runtime_def)
qed

lemma calc_total_no_orderbook_Done:
  "calc_total_without_take_pnl_no_orderbook pc_amount coin_amount amm = Done (pc, coin) \<longleftrightarrow>
     uint pc = uint pc_amount - uint (need_take_pnl_pc (amm_state_data amm)) \<and>
     uint coin = uint coin_amount - uint (need_take_pnl_coin (amm_state_data amm))"
  by (auto simp: calc_total_without_take_pnl_no_orderbook_def and_then_Done checked_sub_Some)

end
