(* ===== verification/Quotes.thy ===== *)
theory Quotes
  imports Amm_State
begin

text \<open>
  What the quotes of \<open>program/src/math.rs\<close> promise. The two directions of a swap satisfy one
  contract, the locale \<open>constant_product\<close> over the reserve that takes the input and the
  reserve that pays the output; the product law, the bounds and the adjunction between
  \<open>base_in\<close> and \<open>base_out\<close> are proved once and read off for either direction. The last
  sections bound the decimal conversions and the lots.
\<close>

section \<open>Constant product\<close>

locale constant_product =
  fixes base_in base_out :: "u128 \<Rightarrow> u128 \<Rightarrow> u128 \<Rightarrow> u128 option"
  assumes base_in_value: "base_in a x y = Some b \<Longrightarrow>
      0 < uint x + uint a \<and> uint b = uint y * uint a div (uint x + uint a)"
    and base_out_reserve: "base_out b x y = Some a \<Longrightarrow> uint b < uint y"
    and base_out_zero: "base_out b x y = Some a \<Longrightarrow>
      uint a = 0 \<longleftrightarrow> 2 * (uint x * uint b) < uint y - uint b"
    and base_out_lower: "base_out b x y = Some a \<Longrightarrow> uint a \<noteq> 0 \<Longrightarrow>
      uint x * uint b \<le> uint a * (uint y - uint b)"
    and base_out_upper: "base_out b x y = Some a \<Longrightarrow>
      uint a * (uint y - uint b) < uint x * uint b + (uint y - uint b)"
begin

lemma base_in_le: "base_in a x y = Some b \<Longrightarrow> uint b * (uint x + uint a) \<le> uint y * uint a"
  using base_in_value by (metis div_times_less_eq_dividend int_ops(1) mult.commute
      minus_mod_eq_mult_div diff_ge_0_iff_ge div_mult_mod_eq pos_mod_sign le_add_same_cancel1)

lemma base_in_gt:
  assumes "base_in a x y = Some b"
  shows "uint y * uint a < (uint b + 1) * (uint x + uint a)"
proof -
  obtain d m where "uint y * uint a div (uint x + uint a) = d"
    and "uint y * uint a = (uint x + uint a) * d + m" and "m < uint x + uint a"
    using base_in_value [OF assms] by (metis int_divmodE)
  then show ?thesis
    using base_in_value [OF assms] by (simp add: algebra_simps)
qed

lemma base_in_product:
  assumes "base_in a x y = Some b"
  shows "uint b \<le> uint y \<and> uint x * uint y \<le> (uint x + uint a) * (uint y - uint b)"
proof
  have "uint b * (uint x + uint a) \<le> uint y * (uint x + uint a)"
    using base_in_le [OF assms] by (rule order_trans) (intro mult_left_mono, auto)
  then show "uint b \<le> uint y"
    using base_in_value [OF assms] by (simp add: mult_le_cancel_right)
  show "uint x * uint y \<le> (uint x + uint a) * (uint y - uint b)"
    using base_in_le [OF assms] by (simp add: algebra_simps)
qed

lemma base_in_lt_reserve:
  assumes "base_in a x y = Some b" and "0 < uint x" and "0 < uint y"
  shows "uint b < uint y"
proof -
  have "0 < uint x * uint y" using assms by simp
  then have "0 < (uint x + uint a) * (uint y - uint b)"
    using base_in_product [OF assms(1)] by linarith
  then show ?thesis
    using base_in_value [OF assms(1)] by (simp add: zero_less_mult_iff)
qed

lemma base_in_maximal:
  assumes "base_in a x y = Some b" and "uint x * uint y \<le> (uint x + uint a) * (uint y - b')"
  shows "b' \<le> uint b"
proof -
  have "b' * (uint x + uint a) \<le> uint y * uint a"
    using assms(2) by (simp add: algebra_simps)
  also have "\<dots> < (uint b + 1) * (uint x + uint a)"
    by (rule base_in_gt [OF assms(1)])
  finally show ?thesis
    using base_in_value [OF assms(1)] by (simp add: mult_less_cancel_right)
qed

lemma base_in_mono:
  assumes "base_in a x y = Some b" and "base_in a' x y = Some b'" and "uint a \<le> uint a'"
  shows "uint b \<le> uint b'"
proof (rule base_in_maximal [OF assms(2)])
  have "uint x * uint y \<le> (uint x + uint a) * (uint y - uint b)"
    using base_in_product [OF assms(1)] by simp
  also have "\<dots> \<le> (uint x + uint a') * (uint y - uint b)"
    using assms(3) base_in_product [OF assms(1)] by (intro mult_right_mono) auto
  finally show "uint x * uint y \<le> (uint x + uint a') * (uint y - uint b)" .
qed

lemma base_out_product:
  assumes "base_out b x y = Some a" and "uint a \<noteq> 0"
  shows "uint x * uint y \<le> (uint x + uint a) * (uint y - uint b)"
  using base_out_lower [OF assms] by (simp add: algebra_simps)

lemma base_out_least:
  assumes "base_out b x y = Some a" and "uint x * uint y \<le> (uint x + a') * (uint y - uint b)"
  shows "uint a \<le> a'"
proof -
  have "uint x * uint b \<le> a' * (uint y - uint b)"
    using assms(2) by (simp add: algebra_simps)
  with base_out_upper [OF assms(1)]
  have "uint a * (uint y - uint b) < (a' + 1) * (uint y - uint b)"
    by (simp add: algebra_simps)
  then show ?thesis
    using base_out_reserve [OF assms(1)] by (simp add: mult_less_cancel_right)
qed

text \<open>Asking for what an input buys never costs more than that input.\<close>

lemma base_out_of_base_in:
  assumes "base_in a x y = Some b" and "base_out b x y = Some a'"
  shows "uint a' \<le> uint a"
  using base_out_least [OF assms(2)] base_in_product [OF assms(1)] by simp

text \<open>Paying what an output costs never buys less than that output.\<close>

lemma base_in_of_base_out:
  assumes "base_out b x y = Some a" and "uint a \<noteq> 0" and "base_in a x y = Some b'"
  shows "uint b \<le> uint b'"
  using base_in_maximal [OF assms(3)] base_out_product [OF assms(1,2)] by simp

end

interpretation coin_to_pc: constant_product
  "\<lambda>a x y. swap_token_amount_base_in a y x Coin2PC"
  "\<lambda>b x y. swap_token_amount_base_out b y x Coin2PC"
proof unfold_locales
  fix a x y b
  assume "swap_token_amount_base_in a y x Coin2PC = Some b"
  then show "0 < uint x + uint a \<and> uint b = uint y * uint a div (uint x + uint a)"
    by (auto simp: swap_token_amount_base_in_def bind_eq_Some_conv checked_arith
        order.strict_iff_order)
next
  fix a b x y
  assume "swap_token_amount_base_out b y x Coin2PC = Some a"
  then obtain d n r where d: "uint d = uint y - uint b" and n: "uint n = uint x * uint b"
    and c: "checked_ceil_div n d = Some (a, r)"
    by (auto simp: swap_token_amount_base_out_def bind_eq_Some_conv checked_arith)
  show "uint b < uint y"
    using U128_ceil.ceil_nonzero [OF c] d by simp
  show "uint a = 0 \<longleftrightarrow> 2 * (uint x * uint b) < uint y - uint b"
    using U128_ceil.ceil_zero [OF c] d n by simp
  show "uint x * uint b \<le> uint a * (uint y - uint b)" if "uint a \<noteq> 0"
    using U128_ceil.ceil_lower [OF c that] d n by simp
  show "uint a * (uint y - uint b) < uint x * uint b + (uint y - uint b)"
    using U128_ceil.ceil_upper [OF c] d n by simp
qed

interpretation pc_to_coin: constant_product
  "\<lambda>a x y. swap_token_amount_base_in a x y PC2Coin"
  "\<lambda>b x y. swap_token_amount_base_out b x y PC2Coin"
proof unfold_locales
  fix a x y b
  assume "swap_token_amount_base_in a x y PC2Coin = Some b"
  then show "0 < uint x + uint a \<and> uint b = uint y * uint a div (uint x + uint a)"
    by (auto simp: swap_token_amount_base_in_def bind_eq_Some_conv checked_arith
        order.strict_iff_order)
next
  fix a b x y
  assume "swap_token_amount_base_out b x y PC2Coin = Some a"
  then obtain d n r where d: "uint d = uint y - uint b" and n: "uint n = uint x * uint b"
    and c: "checked_ceil_div n d = Some (a, r)"
    by (auto simp: swap_token_amount_base_out_def bind_eq_Some_conv checked_arith)
  show "uint b < uint y"
    using U128_ceil.ceil_nonzero [OF c] d by simp
  show "uint a = 0 \<longleftrightarrow> 2 * (uint x * uint b) < uint y - uint b"
    using U128_ceil.ceil_zero [OF c] d n by simp
  show "uint x * uint b \<le> uint a * (uint y - uint b)" if "uint a \<noteq> 0"
    using U128_ceil.ceil_lower [OF c that] d n by simp
  show "uint a * (uint y - uint b) < uint x * uint b + (uint y - uint b)"
    using U128_ceil.ceil_upper [OF c] d n by simp
qed

text \<open>The reserves by the side of the swap they are on.\<close>

fun reserve_in :: "swap_direction \<Rightarrow> 'a \<Rightarrow> 'a \<Rightarrow> 'a" where
  "reserve_in Coin2PC pc coin = coin"
| "reserve_in PC2Coin pc coin = pc"

fun reserve_out :: "swap_direction \<Rightarrow> 'a \<Rightarrow> 'a \<Rightarrow> 'a" where
  "reserve_out Coin2PC pc coin = pc"
| "reserve_out PC2Coin pc coin = coin"

lemma swap_base_in_facts:
  assumes "swap_token_amount_base_in a pc coin d = Some b"
  shows "uint (reserve_in d pc coin) * uint (reserve_out d pc coin) \<le>
      (uint (reserve_in d pc coin) + uint a) * (uint (reserve_out d pc coin) - uint b)"
    and "uint b \<le> uint (reserve_out d pc coin)"
  using assms coin_to_pc.base_in_product pc_to_coin.base_in_product
  by (cases d; simp)+

lemma swap_base_out_facts:
  assumes "swap_token_amount_base_out b pc coin d = Some a"
  shows "uint b < uint (reserve_out d pc coin)"
    and "uint a \<noteq> 0 \<Longrightarrow> uint (reserve_in d pc coin) * uint (reserve_out d pc coin) \<le>
      (uint (reserve_in d pc coin) + uint a) * (uint (reserve_out d pc coin) - uint b)"
  using assms coin_to_pc.base_out_reserve pc_to_coin.base_out_reserve
    coin_to_pc.base_out_product pc_to_coin.base_out_product
  by (cases d; simp)+

text \<open>
  The quote for an exact input, in either direction, never lowers the product of the
  reserves, never exceeds the reserve it is paid from (and never drains it when both
  reserves are positive), and is the largest payment with that product.
\<close>

theorem swap_base_in_quote:
  assumes "swap_token_amount_base_in a pc coin d = Some b"
  shows "uint (reserve_in d pc coin) * uint (reserve_out d pc coin) \<le>
      (uint (reserve_in d pc coin) + uint a) * (uint (reserve_out d pc coin) - uint b) \<and>
    uint b \<le> uint (reserve_out d pc coin) \<and>
    (0 < uint pc \<and> 0 < uint coin \<longrightarrow> uint b < uint (reserve_out d pc coin)) \<and>
    (\<forall>b'. uint (reserve_in d pc coin) * uint (reserve_out d pc coin) \<le>
      (uint (reserve_in d pc coin) + uint a) * (uint (reserve_out d pc coin) - b') \<longrightarrow> b' \<le> uint b)"
proof (cases d)
  case PC2Coin
  with assms have q: "swap_token_amount_base_in a pc coin PC2Coin = Some b" by simp
  show ?thesis
    using pc_to_coin.base_in_product [OF q] pc_to_coin.base_in_maximal [OF q]
      pc_to_coin.base_in_lt_reserve [OF q] PC2Coin by auto
next
  case Coin2PC
  with assms have q: "swap_token_amount_base_in a pc coin Coin2PC = Some b" by simp
  show ?thesis
    using coin_to_pc.base_in_product [OF q] coin_to_pc.base_in_maximal [OF q]
      coin_to_pc.base_in_lt_reserve [OF q] Coin2PC by auto
qed

theorem swap_base_in_quote_witness:
  "swap_token_amount_base_in 100 4000 1000 Coin2PC = Some 363 \<and>
   (1000 :: int) * 4000 \<le> (1000 + 100) * (4000 - 363)"
proof -
  have q: "swap_token_amount_base_in 100 4000 1000 Coin2PC = Some 363" by code_simp
  show ?thesis using q swap_base_in_quote [OF q] by simp
qed

text \<open>
  The quote for an exact output is below the reserve, and unless it is \<open>0\<close> it is the
  least payment that keeps the product of the reserves; it is \<open>0\<close> exactly when twice the
  input-side product is below what remains of the reserve.
\<close>

theorem swap_base_out_quote:
  assumes "swap_token_amount_base_out b pc coin d = Some a"
  shows "uint b < uint (reserve_out d pc coin) \<and>
    (uint a \<noteq> 0 \<longrightarrow> uint (reserve_in d pc coin) * uint (reserve_out d pc coin) \<le>
      (uint (reserve_in d pc coin) + uint a) * (uint (reserve_out d pc coin) - uint b)) \<and>
    (\<forall>a'. uint (reserve_in d pc coin) * uint (reserve_out d pc coin) \<le>
      (uint (reserve_in d pc coin) + a') * (uint (reserve_out d pc coin) - uint b) \<longrightarrow> uint a \<le> a') \<and>
    (uint a = 0 \<longleftrightarrow> 2 * (uint (reserve_in d pc coin) * uint b) <
      uint (reserve_out d pc coin) - uint b)"
proof (cases d)
  case PC2Coin
  with assms have q: "swap_token_amount_base_out b pc coin PC2Coin = Some a" by simp
  show ?thesis
    using pc_to_coin.base_out_reserve [OF q] pc_to_coin.base_out_product [OF q]
      pc_to_coin.base_out_least [OF q] pc_to_coin.base_out_zero [OF q] PC2Coin by auto
next
  case Coin2PC
  with assms have q: "swap_token_amount_base_out b pc coin Coin2PC = Some a" by simp
  show ?thesis
    using coin_to_pc.base_out_reserve [OF q] coin_to_pc.base_out_product [OF q]
      coin_to_pc.base_out_least [OF q] coin_to_pc.base_out_zero [OF q] Coin2PC by auto
qed

theorem swap_base_out_quote_witness:
  "swap_token_amount_base_out 363 4000 1000 Coin2PC = Some 100 \<and>
   (1000 :: int) * 4000 \<le> (1000 + 100) * (4000 - 363)"
proof -
  have q: "swap_token_amount_base_out 363 4000 1000 Coin2PC = Some 100" by code_simp
  show ?thesis using q swap_base_out_quote [OF q] by simp
qed

text \<open>
  C17: the two quotes form an adjunction: pricing what an input buys costs at most that
  input, so splitting a trade into a quote by input and one by output gains nothing.
\<close>

theorem swap_quotes_adjoint:
  assumes "swap_token_amount_base_in a pc coin d = Some b"
    and "swap_token_amount_base_out b pc coin d = Some a'"
  shows "uint a' \<le> uint a \<and>
    (uint a' \<noteq> 0 \<longrightarrow> swap_token_amount_base_in a' pc coin d = Some b' \<longrightarrow> b' = b)"
proof (cases d)
  case PC2Coin
  with assms have q: "swap_token_amount_base_in a pc coin PC2Coin = Some b"
    "swap_token_amount_base_out b pc coin PC2Coin = Some a'" by simp_all
  have le: "uint a' \<le> uint a"
    by (rule pc_to_coin.base_out_of_base_in [OF q])
  moreover have "b' = b" if "uint a' \<noteq> 0" "swap_token_amount_base_in a' pc coin PC2Coin = Some b'"
    using pc_to_coin.base_in_of_base_out [OF q(2) that] pc_to_coin.base_in_mono [OF that(2) q(1) le]
    by (simp add: uint_eqI)
  ultimately show ?thesis using PC2Coin by blast
next
  case Coin2PC
  with assms have q: "swap_token_amount_base_in a pc coin Coin2PC = Some b"
    "swap_token_amount_base_out b pc coin Coin2PC = Some a'" by simp_all
  have le: "uint a' \<le> uint a"
    by (rule coin_to_pc.base_out_of_base_in [OF q])
  moreover have "b' = b" if "uint a' \<noteq> 0" "swap_token_amount_base_in a' pc coin Coin2PC = Some b'"
    using coin_to_pc.base_in_of_base_out [OF q(2) that] coin_to_pc.base_in_mono [OF that(2) q(1) le]
    by (simp add: uint_eqI)
  ultimately show ?thesis using Coin2PC by blast
qed

theorem swap_quotes_adjoint_witness:
  "swap_token_amount_base_in 105 4000 1000 PC2Coin = Some 25 \<and>
   swap_token_amount_base_out 25 4000 1000 PC2Coin = Some 103 \<and> uint (103 :: u128) \<le> uint (105 :: u128)"
proof -
  have q: "swap_token_amount_base_in 105 4000 1000 PC2Coin = Some 25"
    "swap_token_amount_base_out 25 4000 1000 PC2Coin = Some 103" by code_simp+
  show ?thesis using q swap_quotes_adjoint [OF q] by simp
qed

text \<open>On amounts that fit \<open>u64\<close> no step of either quote overflows its 128 bits.\<close>

lemma add_u64_lt: "uint (a :: u128) < 2 ^ 64 \<Longrightarrow> uint (b :: u128) < 2 ^ 64 \<Longrightarrow> uint a + uint b < 2 ^ 128"
  by simp

lemma mult_lt_128:
  assumes "uint (a :: u128) < 2 ^ 64" and "uint (b :: u128) < 2 ^ 64"
  shows "uint a * uint b < 2 ^ 128"
proof -
  have "uint a * uint b \<le> (2 ^ 64 - 1) * (2 ^ 64 - 1)"
    using assms by (intro mult_mono) auto
  then show ?thesis by simp
qed

lemma base_in_steps_defined:
  assumes "uint (a :: u128) < 2 ^ 64" "uint (x :: u128) < 2 ^ 64" "uint (y :: u128) < 2 ^ 64"
    and "0 < uint x + uint a"
  shows "\<exists>b. (do { den \<leftarrow> checked_add x a; m \<leftarrow> checked_mul y a; checked_div m den }) = Some b"
proof -
  obtain den where den: "checked_add x a = Some den"
    using checked_add_defined [of x a] add_u64_lt [of x a] assms by auto
  obtain m where "checked_mul y a = Some m"
    using checked_mul_defined [of y a] mult_lt_128 [of y a] assms by auto
  moreover have "uint den \<noteq> 0"
    using den assms(4) by (simp add: checked_add_Some)
  ultimately show ?thesis
    using den by (cases "checked_div m den") (auto simp: checked_div_None)
qed

lemma base_out_steps_defined:
  assumes "uint (b :: u128) < 2 ^ 64" "uint (x :: u128) < 2 ^ 64" "uint (y :: u128) < 2 ^ 64"
    and "uint b < uint y"
  shows "\<exists>a. (do { den \<leftarrow> checked_sub y b; m \<leftarrow> checked_mul x b;
    (q, _) \<leftarrow> checked_ceil_div m den; Some q }) = Some a"
proof -
  obtain den where den: "checked_sub y b = Some den"
    using assms(4) by (cases "checked_sub y b") (auto simp: checked_sub_None)
  obtain m where m: "checked_mul x b = Some m"
    using checked_mul_defined [of x b] mult_lt_128 [of x b] assms by auto
  have d: "0 < uint den" "uint den < 2 ^ 64"
    using den assms uint_ge_0 [of b] unfolding checked_sub_Some by linarith+
  have "2 * uint m < 2 ^ 128 \<or> uint den \<le> uint m"
    using d(2) by auto
  then obtain q r where "checked_ceil_div m den = Some (q, r)"
    using U128_ceil.ceil_defined [OF d(1)] by blast
  then show ?thesis using den m by simp
qed

lemma base_in_defined:
  "swap_token_amount_base_in (widen a) (widen pc) (widen coin) d = None \<longleftrightarrow>
     uint (reserve_in d pc coin) + uint a = 0" for a pc coin :: u64
proof
  have w: "uint (widen v :: u128) < 2 ^ 64" for v :: u64
    using uint_lt_pow [of v] by simp
  have pos: "0 < uint v + uint a" if "uint v + uint a \<noteq> 0" for v :: u64
    using that add_nonneg_nonneg [of "uint v" "uint a"] by (simp add: order.strict_iff_order)
  assume none: "swap_token_amount_base_in (widen a) (widen pc) (widen coin) d = None"
  show "uint (reserve_in d pc coin) + uint a = 0"
  proof (rule ccontr)
    assume "uint (reserve_in d pc coin) + uint a \<noteq> 0"
    then show False
      using none base_in_steps_defined [OF w [of a] w [of coin] w [of pc]]
        base_in_steps_defined [OF w [of a] w [of pc] w [of coin]] pos [of coin] pos [of pc]
      by (cases d) (auto simp: swap_token_amount_base_in_def)
  qed
next
  assume zero: "uint (reserve_in d pc coin) + uint a = 0"
  show "swap_token_amount_base_in (widen a) (widen pc) (widen coin) d = None"
  proof (rule ccontr)
    assume "swap_token_amount_base_in (widen a) (widen pc) (widen coin) d \<noteq> None"
    then show False
      using zero by (cases d)
        (auto dest!: coin_to_pc.base_in_value pc_to_coin.base_in_value)
  qed
qed

lemma base_out_defined:
  "swap_token_amount_base_out (widen a) (widen pc) (widen coin) d = None \<longleftrightarrow>
     uint (reserve_out d pc coin) \<le> uint a" for a pc coin :: u64
proof
  have w: "uint (widen v :: u128) < 2 ^ 64" for v :: u64
    using uint_lt_pow [of v] by simp
  assume none: "swap_token_amount_base_out (widen a) (widen pc) (widen coin) d = None"
  show "uint (reserve_out d pc coin) \<le> uint a"
  proof (rule ccontr)
    assume "\<not> uint (reserve_out d pc coin) \<le> uint a"
    then show False
      using none base_out_steps_defined [OF w [of a] w [of coin] w [of pc]]
        base_out_steps_defined [OF w [of a] w [of pc] w [of coin]]
      by (cases d) (auto simp: swap_token_amount_base_out_def)
  qed
next
  assume ge: "uint (reserve_out d pc coin) \<le> uint a"
  show "swap_token_amount_base_out (widen a) (widen pc) (widen coin) d = None"
  proof (rule ccontr)
    assume "swap_token_amount_base_out (widen a) (widen pc) (widen coin) d \<noteq> None"
    then show False
      using ge by (cases d)
        (auto dest!: coin_to_pc.base_out_reserve pc_to_coin.base_out_reserve)
  qed
qed

text \<open>
  C18: for \<open>u64\<close> amounts the quote for an exact input panics only when input and input reserve
  are both zero, and the quote for an exact output only when it is not below the reserve.
\<close>

theorem swap_quotes_defined:
  fixes a pc coin :: u64
  shows "(swap_token_amount_base_in (widen a) (widen pc) (widen coin) d = None \<longleftrightarrow>
      uint (reserve_in d pc coin) + uint a = 0) \<and>
    (swap_token_amount_base_out (widen a) (widen pc) (widen coin) d = None \<longleftrightarrow>
      uint (reserve_out d pc coin) \<le> uint a)"
  using base_in_defined base_out_defined by blast

section \<open>Decimals and lots\<close>

lemma pow10_Some: "pow10 d = Some p \<Longrightarrow> uint p = 10 ^ unat d"
  by (simp add: pow10_def checked_pow_Some)

text \<open>
  An amount normalised to the system's decimals and restored again is the amount or one
  less, when the system value is at least ten to the token's decimals; it is the amount
  itself when the system value is a multiple of that power. It never grows.
\<close>

theorem restore_normalize:
  assumes "normalize_decimal_v2 v dec sys = Some n" and "restore_decimal n dec sys = Some r"
    and "10 ^ unat dec \<le> uint sys"
  shows "uint v - 1 \<le> uint r \<and> uint r \<le> uint v \<and> (10 ^ unat dec dvd uint sys \<longrightarrow> uint r = uint v)"
proof -
  define p :: int where "p = 10 ^ unat dec"
  have p: "0 < p" "p \<le> uint sys" using assms(3) by (simp_all add: p_def)
  have n: "uint n = uint v * uint sys div p"
    using assms(1) by (auto simp: normalize_decimal_v2_def bind_eq_Some_conv checked_arith
        p_def dest!: pow10_Some)
  have r: "uint r = uint n * p div uint sys"
    using assms(2) by (auto simp: restore_decimal_def bind_eq_Some_conv checked_arith
        p_def dest!: pow10_Some)
  obtain m where m: "uint v * uint sys = p * uint n + m" "0 \<le> m" "m < p"
    using n p(1) by (metis int_divmodE)
  obtain k where k: "uint n * p = uint sys * uint r + k" "0 \<le> k" "k < uint sys"
    using r p by (metis int_divmodE order_less_le_trans)
  have "uint sys * uint r \<le> uint sys * uint v"
    using m k by (simp add: algebra_simps)
  then have le: "uint r \<le> uint v"
    using p by (simp add: mult_le_cancel_left)
  have "uint sys * uint v < uint sys * (uint r + 2)"
    using m k p(2) by (simp add: algebra_simps)
  then have ge: "uint v - 1 \<le> uint r"
    using p by (simp add: mult_less_cancel_left)
  have "uint r = uint v" if "p dvd uint sys"
  proof -
    have "p dvd uint v * uint sys" using that by simp
    then have "uint n * p = uint v * uint sys" using n by simp
    then show ?thesis using r p by simp
  qed
  with le ge show ?thesis unfolding p_def by simp
qed

theorem restore_normalize_witness:
  "normalize_decimal_v2 1234 3 2000 = Some 2468 \<and> restore_decimal 2468 3 2000 = Some 1234 \<and>
   uint (1234 :: u64) - 1 \<le> uint (1234 :: u128)"
proof -
  have q: "normalize_decimal_v2 1234 3 2000 = Some 2468" "restore_decimal 2468 3 2000 = Some 1234"
    by code_simp+
  have "(10 :: int) ^ unat (3 :: u64) \<le> uint (2000 :: u64)" by code_simp
  from restore_normalize [OF q this] show ?thesis using q by simp
qed

text \<open>
  \<open>floor_lot\<close> is the largest multiple of the lot size that does not exceed the value; it
  fails for a lot size of zero only.
\<close>

theorem floor_lot_correct:
  assumes "lot \<noteq> 0"
  shows "\<exists>r. floor_lot v lot = Some r \<and> uint lot dvd uint r \<and> uint r \<le> uint v \<and>
    uint v < uint r + uint lot"
proof -
  have lot: "0 < uint lot"
    using assms uint_ge_0 [of lot] by (simp add: word_uint_eq_iff order.strict_iff_order)
  obtain q m where q: "uint v div uint lot = q" "uint v = uint lot * q + m" "0 \<le> m" "m < uint lot"
    using int_divmodE [OF lot] by metis
  obtain u where u: "checked_div v lot = Some u" "uint u = q"
    using assms q(1) by (simp add: checked_div_def uint_div)
  have "uint u * uint lot < 2 ^ 64"
    using q u uint_lt_pow [of v] by (simp add: algebra_simps)
  then obtain r where r: "checked_mul u lot = Some r" "uint r = q * uint lot"
    using checked_mul_defined [of u lot] u by (auto simp: checked_mul_Some)
  then show ?thesis
    using u q by (auto simp: floor_lot_def algebra_simps)
qed

theorem floor_lot_correct_witness:
  "\<exists>r. floor_lot 1234 100 = Some r \<and> uint (100 :: u64) dvd uint r \<and> uint r \<le> uint (1234 :: u64) \<and>
    uint (1234 :: u64) < uint r + uint (100 :: u64)"
  by (rule floor_lot_correct) simp

lemma ceil_lot_bounds:
  assumes "ceil_lot v lot = Some r"
  shows "uint lot dvd uint r \<and> uint r < uint v + uint lot \<and>
    (uint r = 0 \<longleftrightarrow> 2 * uint v < uint lot) \<and> (uint r \<noteq> 0 \<longrightarrow> uint v \<le> uint r)"
proof -
  obtain q s where c: "checked_ceil_div_u128 (widen v) (widen lot) = Some (q, s)"
    using assms by (auto simp: ceil_lot_def bind_eq_Some_conv)
  then obtain q64 :: u64 where q64: "uint q64 = uint q" and r: "uint r = uint q64 * uint lot"
    using assms by (auto simp: ceil_lot_def to_u64_def bind_eq_Some_conv checked_arith)
  have lot: "0 < uint lot" using u128_ceil.ceil_nonzero [OF c] by simp
  have "uint r = 0 \<longleftrightarrow> uint q = 0" using r q64 lot by simp
  then show ?thesis
    using u128_ceil.ceil_zero [OF c] u128_ceil.ceil_lower [OF c] u128_ceil.ceil_upper [OF c] r q64
    by auto
qed

text \<open>The sequence of the order grid, \<open>0, 1, 2, 3, 5, 8, \<dots>\<close>, over the integers.\<close>

fun grid_pair :: "nat \<Rightarrow> int \<times> int" where
  "grid_pair 0 = (1, 1)"
| "grid_pair (Suc n) = (case grid_pair n of (a, b) \<Rightarrow> (b, a + b))"

definition grid :: "nat \<Rightarrow> int" where
  "grid n = (if n = 0 then 0 else fst (grid_pair n))"

lemma grid_step: "grid (Suc (Suc (Suc n))) = grid (Suc (Suc n)) + grid (Suc n)"
  by (simp add: grid_def split: prod.split)

lemma grid_pair_pos: "0 < fst (grid_pair n) \<and> fst (grid_pair n) \<le> snd (grid_pair n)"
  by (induction n) (auto split: prod.splits)

lemma grid_mono: "grid n \<le> grid (n + k)"
proof (induction k)
  case (Suc k)
  have "grid m \<le> grid (Suc m)" for m
    using grid_pair_pos [of m] grid_pair_pos [of 1] by (auto simp: grid_def split: prod.split)
  then show ?case using Suc order_trans by fastforce
qed simp

lemma grid_nonneg: "0 \<le> grid n"
  using grid_mono [of 0 n] by (simp add: grid_def)

lemma grid_limits: "grid 92 < 2 ^ 64" "2 ^ 64 \<le> grid 93"
  by code_simp+

definition grid_words :: "nat \<Rightarrow> u64 list" where
  "grid_words n = map (\<lambda>i. word_of_int (grid i)) [0..<n]"

lemma uint_grid: "n \<le> 92 \<Longrightarrow> uint (word_of_int (grid n) :: u64) = grid n"
  using grid_mono [of n "92 - n"] grid_limits(1) grid_nonneg [of n]
  by (simp add: uint_word_of_int_eq take_bit_int_eq_self)

lemma fibonacci_loop_grid:
  assumes "i \<le> 93"
  shows "fibonacci_loop todo i (grid_words i) =
    (if i + todo \<le> 93 then Some (grid_words (i + todo)) else None)"
  using assms
proof (induction todo arbitrary: i)
  case (Suc todo)
  have snoc: "grid_words (Suc i) = grid_words i @ [word_of_int (grid i)]"
    by (simp add: grid_words_def)
  show ?case
  proof (cases "i < 3")
    case True
    then consider "i = 0" | "i = 1" | "i = 2" by linarith
    then have "fibonacci_loop (Suc todo) i (grid_words i) =
        fibonacci_loop todo (Suc i) (grid_words i @ [word_of_int (grid i)])"
      by cases (simp_all add: grid_def numeral_2_eq_2)
    then show ?thesis using Suc.IH [of "Suc i"] True by (simp add: snoc)
  next
    case False
    then obtain n where i: "i = Suc (Suc (Suc n))"
      by (metis not_less_eq less_Suc_eq_0_disj numeral_3_eq_3 not0_implies_Suc)
    have "idx (grid_words i) (i - 1) = Some (word_of_int (grid (Suc (Suc n))))"
      "idx (grid_words i) (i - 2) = Some (word_of_int (grid (Suc n)))"
      by (simp_all add: idx_def grid_words_def i del: upt_Suc)
    moreover have "checked_add (word_of_int (grid (Suc (Suc n))) :: u64) (word_of_int (grid (Suc n))) =
        (if i \<le> 92 then Some (word_of_int (grid i)) else None)"
    proof (cases "i \<le> 92")
      case True
      then show ?thesis
        using uint_grid [of i] uint_grid [of "Suc (Suc n)"] uint_grid [of "Suc n"]
        by (simp add: checked_add_Some i grid_step)
    next
      case False
      then have "i = 93" using Suc.prems by simp
      then have "2 ^ 64 \<le> grid (Suc (Suc n)) + grid (Suc n)" "Suc (Suc n) \<le> 92"
        using grid_limits(2) grid_step [of n] i by auto
      then show ?thesis
        using False uint_grid [of "Suc (Suc n)"] uint_grid [of "Suc n"]
        by (simp add: checked_add_None)
    qed
    ultimately have "fibonacci_loop (Suc todo) i (grid_words i) =
        (if i \<le> 92 then fibonacci_loop todo (Suc i) (grid_words (Suc i)) else None)"
      using False by (simp add: snoc)
    then show ?thesis using Suc.IH [of "Suc i"] Suc.prems by auto
  qed
qed simp

text \<open>
  \<open>fibonacci n\<close> returns the announced sequence \<open>0, 1, 2, 3, 5, 8, \<dots>\<close> for every order
  number up to 93 and panics on overflow for every larger one.
\<close>

theorem fibonacci_correct:
  "fibonacci n = (if unat n \<le> 93 then Some (grid_words (unat n)) else None) \<and>
   grid_words 10 = [0, 1, 2, 3, 5, 8, 13, 21, 34, 55]"
proof
  show "fibonacci n = (if unat n \<le> 93 then Some (grid_words (unat n)) else None)"
    using fibonacci_loop_grid [of 0 "unat n"] by (simp add: fibonacci_def grid_words_def)
  show "grid_words 10 = [0, 1, 2, 3, 5, 8, 13, 21, 34, 55]"
    by code_simp
qed

section \<open>Exchange rates\<close>

lemma mul_div_floor_Some:
  assumes "mul_div_floor a b c = Some r"
  shows "0 < uint c" and "uint r = uint a * uint b div uint c" and "uint r * uint c \<le> uint a * uint b"
proof -
  show c: "0 < uint c" and r: "uint r = uint a * uint b div uint c"
    using assms by (auto simp: mul_div_floor_def bind_eq_Some_conv checked_arith
        order.strict_iff_order)
  obtain m where "uint a * uint b = uint c * uint r + m" "0 \<le> m"
    using int_divmodE [OF c] r by metis
  then show "uint r * uint c \<le> uint a * uint b" by (simp add: mult.commute)
qed

lemma mul_div_ceil_Some:
  assumes "mul_div_ceil a b c = Some r"
  shows "0 < uint c" and "r \<noteq> 0 \<Longrightarrow> uint a * uint b \<le> uint r * uint c"
    and "uint r * uint c < uint a * uint b + uint c"
proof -
  obtain m q s where m: "uint m = uint a * uint b"
    and q: "checked_ceil_div m (widen c) = Some (q, s)" and r: "uint r = uint q"
    using assms by (auto simp: mul_div_ceil_def bind_eq_Some_conv checked_arith)
  show "0 < uint c" using U128_ceil.ceil_nonzero [OF q] by simp
  show "uint a * uint b \<le> uint r * uint c" if "r \<noteq> 0"
    using U128_ceil.ceil_lower [OF q] uint_pos [OF that] r m by simp
  show "uint r * uint c < uint a * uint b + uint c"
    using U128_ceil.ceil_upper [OF q] r m by simp
qed

lemma exchange_Done:
  "exchange_coin_to_pc tok a Ceiling = Done o1 \<longleftrightarrow>
     (\<exists>v. o1 = Some v \<and> mul_div_ceil a (it_token_pc tok) (it_token_coin tok) = Some v)"
  "exchange_pc_to_coin tok a Ceiling = Done o1 \<longleftrightarrow>
     (\<exists>v. o1 = Some v \<and> mul_div_ceil a (it_token_coin tok) (it_token_pc tok) = Some v)"
  "exchange_token_to_pool p a Floor = Done o1 \<longleftrightarrow>
     (\<exists>v. o1 = Some v \<and> mul_div_floor a (ip_token_input p) (ip_token_total p) = Some v)"
  "exchange_pool_to_token p a Floor = Done o1 \<longleftrightarrow>
     (\<exists>v. o1 = Some v \<and> mul_div_floor a (ip_token_input p) (ip_token_total p) = Some v)"
  by (auto simp: exchange_coin_to_pc_def exchange_pc_to_coin_def exchange_token_to_pool_def
      exchange_pool_to_token_def and_then_Done)

end
