(* ===== verification/Swap.thy ===== *)
theory Swap
  imports Market Quotes
begin

text \<open>
  \<open>process_swap_base_in\<close> and \<open>process_swap_base_out\<close> of \<open>program/src/processor.rs\<close>. The two
  handlers share their accounts, checks, status transition and totals; they differ in the
  quote, in the order of the guards after it, and in one account of the settlement. The
  model has the shared parts once and the differing parts twice.
\<close>

section \<open>Accounts\<close>

record swap_accounts =
  sw_token_program :: account_info
  sw_amm :: account_info
  sw_authority :: account_info
  sw_open_orders :: account_info
  sw_coin_vault :: account_info
  sw_pc_vault :: account_info
  sw_market_program :: account_info
  sw_market :: account_info
  sw_bids :: account_info
  sw_asks :: account_info
  sw_event_queue :: account_info
  sw_market_coin_vault :: account_info
  sw_market_pc_vault :: account_info
  sw_vault_signer :: account_info
  sw_user_source :: account_info
  sw_user_destination :: account_info
  sw_user_owner :: account_info

definition swap_parse_accounts :: "account_info list \<Rightarrow> swap_accounts outcome" where
  "swap_parse_accounts accounts =
     (if length accounts \<noteq> 17 \<and> length accounts \<noteq> 17 + 1 then err WrongAccountsNumber
      else let k = (if length accounts = 17 + 1 then 5 else 4) in
        Done \<lparr>sw_token_program = accounts ! 0,
          sw_amm = accounts ! 1,
          sw_authority = accounts ! 2,
          sw_open_orders = accounts ! 3,
          sw_coin_vault = accounts ! k,
          sw_pc_vault = accounts ! (k + 1),
          sw_market_program = accounts ! (k + 2),
          sw_market = accounts ! (k + 3),
          sw_bids = accounts ! (k + 4),
          sw_asks = accounts ! (k + 5),
          sw_event_queue = accounts ! (k + 6),
          sw_market_coin_vault = accounts ! (k + 7),
          sw_market_pc_vault = accounts ! (k + 8),
          sw_vault_signer = accounts ! (k + 9),
          sw_user_source = accounts ! (k + 10),
          sw_user_destination = accounts ! (k + 11),
          sw_user_owner = accounts ! (k + 12)\<rparr>)"

section \<open>Checks, status and totals\<close>

record swap_tokens =
  tk_coin_vault :: token_account
  tk_pc_vault :: token_account
  tk_user_source :: token_account
  tk_user_destination :: token_account

definition swap_check ::
  "runtime \<Rightarrow> pubkey \<Rightarrow> swap_accounts \<Rightarrow> amm_info \<Rightarrow> world \<Rightarrow> swap_tokens outcome" where
  "swap_check R program_id A amm w =
     (if \<not> is_signer (sw_user_owner A) then err InvalidSignAccount
      else if ai_key (sw_token_program A) \<noteq> rt_spl_token_id R then err InvalidSplTokenProgram
      else and_then (authority_id R program_id AUTHORITY_AMM (as_u8 (amm_nonce amm))) (\<lambda>authority.
        if ai_key (sw_authority A) \<noteq> authority then err InvalidProgramAddress
        else if ai_key (sw_coin_vault A) \<noteq> amm_coin_vault amm then err InvalidCoinVault
        else if ai_key (sw_pc_vault A) \<noteq> amm_pc_vault amm then err InvalidPCVault
        else if ai_key (sw_user_source A) = amm_pc_vault amm \<or>
                ai_key (sw_user_source A) = amm_coin_vault amm then err InvalidUserToken
        else if ai_key (sw_user_destination A) = amm_pc_vault amm \<or>
                ai_key (sw_user_destination A) = amm_coin_vault amm then err InvalidUserToken
        else
          let token_id = ai_key (sw_token_program A) in
          and_then (unpack_token_account R w (sw_coin_vault A) token_id) (\<lambda>coin_vault.
          and_then (unpack_token_account R w (sw_pc_vault A) token_id) (\<lambda>pc_vault.
          and_then (unpack_token_account R w (sw_user_source A) token_id) (\<lambda>user_source.
          and_then (unpack_token_account R w (sw_user_destination A) token_id) (\<lambda>user_destination.
            Done \<lparr>tk_coin_vault = coin_vault, tk_pc_vault = pc_vault,
              tk_user_source = user_source, tk_user_destination = user_destination\<rparr>))))))"

definition swap_status :: "runtime \<Rightarrow> amm_info \<Rightarrow> amm_info outcome" where
  "swap_status R amm =
     and_then (status_from_u64 (amm_status amm)) (\<lambda>status.
       if \<not> swap_permission status then
         and_then (rt_clock R) (\<lambda>clock.
           if amm_status amm = status_into_u64 OrderBookOnly \<and>
              clk_unix_timestamp clock \<ge> orderbook_to_init_time (amm_state_data amm)
           then Done (amm\<lparr>amm_status := status_into_u64 Initialized\<rparr>)
           else err InvalidStatus)
       else if amm_status amm = status_into_u64 WaitingTrade then
         and_then (rt_clock R) (\<lambda>clock.
           if clk_unix_timestamp clock < pool_open_time (amm_state_data amm) then err InvalidStatus
           else Done (amm\<lparr>amm_status := status_into_u64 SwapOnly\<rparr>))
       else Done amm)"

record swap_totals =
  st_pc :: u64
  st_coin :: u64
  st_bids :: "leaf_node list"
  st_asks :: "leaf_node list"

definition swap_calc_totals ::
  "runtime \<Rightarrow> swap_accounts \<Rightarrow> amm_info \<Rightarrow> bool \<Rightarrow> swap_tokens \<Rightarrow> world \<Rightarrow> swap_totals outcome" where
  "swap_calc_totals R A amm enable_orderbook T w =
     (if enable_orderbook then
        (if ai_key (sw_open_orders A) \<noteq> amm_open_orders amm then err InvalidOpenOrders
         else if ai_key (sw_market_program A) \<noteq> amm_market_program amm then err InvalidMarketProgram
         else if ai_key (sw_market A) \<noteq> amm_market amm then err InvalidMarket
         else
           and_then (load_serum_market_order R w (sw_market A) (sw_open_orders A) (sw_authority A)
             amm False) (\<lambda>(ms, oo).
           and_then (load_amm_orders R w ms oo (sw_bids A) (sw_asks A)) (\<lambda>(bids, asks).
           and_then (calc_total_without_take_pnl R w (ta_amount (tk_pc_vault T))
             (ta_amount (tk_coin_vault T)) oo amm ms (sw_event_queue A) (sw_open_orders A))
             (\<lambda>(pc, coin).
             Done \<lparr>st_pc = pc, st_coin = coin, st_bids = bids, st_asks = asks\<rparr>))))
      else
        and_then (calc_total_without_take_pnl_no_orderbook (ta_amount (tk_pc_vault T))
          (ta_amount (tk_coin_vault T)) amm) (\<lambda>(pc, coin).
          Done \<lparr>st_pc = pc, st_coin = coin, st_bids = [], st_asks = []\<rparr>))"

definition swap_direction_of :: "swap_tokens \<Rightarrow> swap_direction outcome" where
  "swap_direction_of T =
     (if ta_mint (tk_user_source T) = ta_mint (tk_coin_vault T) \<and>
         ta_mint (tk_user_destination T) = ta_mint (tk_pc_vault T) then Done Coin2PC
      else if ta_mint (tk_user_source T) = ta_mint (tk_pc_vault T) \<and>
         ta_mint (tk_user_destination T) = ta_mint (tk_coin_vault T) then Done PC2Coin
      else err InvalidUserToken)"

section \<open>Quotes with the swap fee\<close>

definition swap_in_quote :: "fees \<Rightarrow> u64 \<Rightarrow> u64 \<Rightarrow> u64 \<Rightarrow> swap_direction \<Rightarrow> (u128 \<times> u64) outcome" where
  "swap_in_quote f amount total_pc total_coin direction =
     unwrap (do {
       m \<leftarrow> checked_mul (widen amount :: u128) (widen (swap_fee_numerator f));
       (swap_fee, _) \<leftarrow> checked_ceil_div m (widen (swap_fee_denominator f));
       swap_in_after_deduct_fee \<leftarrow> checked_sub (widen amount) swap_fee;
       out \<leftarrow> swap_token_amount_base_in swap_in_after_deduct_fee (widen total_pc)
         (widen total_coin) direction;
       out64 \<leftarrow> narrow out;
       Some (swap_fee, out64)
     })"

definition swap_out_quote :: "fees \<Rightarrow> u64 \<Rightarrow> u64 \<Rightarrow> u64 \<Rightarrow> swap_direction \<Rightarrow> (u64 \<times> u64) outcome" where
  "swap_out_quote f amount total_pc total_coin direction =
     unwrap (do {
       before \<leftarrow> swap_token_amount_base_out (widen amount) (widen total_pc) (widen total_coin) direction;
       m \<leftarrow> checked_mul before (widen (swap_fee_denominator f));
       d \<leftarrow> checked_sub (swap_fee_denominator f) (swap_fee_numerator f);
       (after_fee, _) \<leftarrow> checked_ceil_div m (widen d);
       swap_in_after_add_fee \<leftarrow> narrow after_fee;
       before64 \<leftarrow> narrow before;
       swap_fee \<leftarrow> checked_sub swap_in_after_add_fee before64;
       Some (swap_in_after_add_fee, swap_fee)
     })"

section \<open>Effects\<close>

text \<open>
  Cancel the pool's orders on the side the swap trades into, batch by batch, then settle the
  market's balance into the vaults when the paying vault alone does not suffice. The pc
  vault is passed as the referrer's account. \<open>market_coin_vault\<close> is a parameter because
  \<open>process_swap_base_out\<close> passes another account in one branch.
\<close>

definition swap_free_funds ::
  "runtime \<Rightarrow> swap_accounts \<Rightarrow> account_info \<Rightarrow> amm_info \<Rightarrow> leaf_node list \<Rightarrow> bool \<Rightarrow> world \<Rightarrow>
   world outcome" where
  "swap_free_funds R A market_coin_vault amm orders need_settle w =
     and_then
       (if orders \<noteq> [] then
          and_then (order_id_batches orders) (\<lambda>batches.
            cancel_batches R (sw_market_program A) (sw_market A) (sw_bids A) (sw_asks A)
              (sw_open_orders A) (sw_authority A) (sw_event_queue A) (as_u8 (amm_nonce amm)) batches w)
        else Done w) (\<lambda>w1.
       if need_settle then
         invoke_dex_settle_funds R (sw_market_program A) (sw_market A) (sw_open_orders A)
           (sw_authority A) market_coin_vault (sw_market_pc_vault A) (sw_coin_vault A)
           (sw_pc_vault A) (sw_vault_signer A) (sw_token_program A) (Some (sw_pc_vault A))
           AUTHORITY_AMM (as_u8 (amm_nonce amm)) w1
       else Done w1)"

definition swap_transfers ::
  "runtime \<Rightarrow> swap_accounts \<Rightarrow> account_info \<Rightarrow> account_info \<Rightarrow> amm_info \<Rightarrow> u64 \<Rightarrow> u64 \<Rightarrow> world \<Rightarrow>
   world outcome" where
  "swap_transfers R A vault_in vault_out amm in_amount out_amount w =
     and_then (token_transfer R (sw_token_program A) (sw_user_source A) vault_in (sw_user_owner A)
       in_amount w) (\<lambda>w1.
       token_transfer_with_authority R (sw_token_program A) vault_out (sw_user_destination A)
         (sw_authority A) AUTHORITY_AMM (as_u8 (amm_nonce amm)) out_amount w1)"

definition account_coin_to_pc :: "u64 \<Rightarrow> u64 \<Rightarrow> u64 \<Rightarrow> state_data \<Rightarrow> state_data outcome" where
  "account_coin_to_pc in_amount out_amount fee sd =
     and_then (unwrap (checked_add (swap_coin_in_amount sd) (widen in_amount))) (\<lambda>coin_in.
     and_then (unwrap (checked_add (swap_pc_out_amount sd) (widen out_amount))) (\<lambda>pc_out.
     and_then (unwrap (checked_add (swap_acc_coin_fee sd) fee)) (\<lambda>acc_fee.
       Done (sd\<lparr>swap_coin_in_amount := coin_in, swap_pc_out_amount := pc_out,
         swap_acc_coin_fee := acc_fee\<rparr>))))"

definition account_pc_to_coin :: "u64 \<Rightarrow> u64 \<Rightarrow> u64 \<Rightarrow> state_data \<Rightarrow> state_data outcome" where
  "account_pc_to_coin in_amount out_amount fee sd =
     and_then (unwrap (checked_add (swap_pc_in_amount sd) (widen in_amount))) (\<lambda>pc_in.
     and_then (unwrap (checked_add (swap_coin_out_amount sd) (widen out_amount))) (\<lambda>coin_out.
     and_then (unwrap (checked_add (swap_acc_pc_fee sd) fee)) (\<lambda>acc_fee.
       Done (sd\<lparr>swap_pc_in_amount := pc_in, swap_coin_out_amount := coin_out,
         swap_acc_pc_fee := acc_fee\<rparr>))))"

definition swap_finish :: "runtime \<Rightarrow> swap_accounts \<Rightarrow> amm_info \<Rightarrow> world \<Rightarrow> world outcome" where
  "swap_finish R A amm w =
     and_then (rt_clock R) (\<lambda>clock.
       Done (amm_store (sw_amm A) (amm\<lparr>recent_epoch := clk_epoch clock\<rparr>) w))"

section \<open>Swap by input\<close>

definition swap_in_coin_to_pc ::
  "runtime \<Rightarrow> swap_accounts \<Rightarrow> amm_info \<Rightarrow> bool \<Rightarrow> swap_tokens \<Rightarrow> swap_totals \<Rightarrow> u64 \<Rightarrow> u64 \<Rightarrow> u128 \<Rightarrow>
   world \<Rightarrow> (amm_info \<times> world) outcome" where
  "swap_in_coin_to_pc R A amm enable_orderbook T t in_amount out_amount swap_fee w =
     (if out_amount \<ge> st_pc t then err InsufficientFunds
      else
        and_then (if enable_orderbook
                  then swap_free_funds R A (sw_market_coin_vault A) amm (st_bids t)
                    (out_amount > ta_amount (tk_pc_vault T)) w
                  else Done w) (\<lambda>w1.
        and_then (swap_transfers R A (sw_coin_vault A) (sw_pc_vault A) amm in_amount out_amount w1) (\<lambda>w2.
        and_then (unwrap (narrow swap_fee)) (\<lambda>fee.
        and_then (account_coin_to_pc in_amount out_amount fee (amm_state_data amm)) (\<lambda>sd.
          Done (amm\<lparr>amm_state_data := sd\<rparr>, w2))))))"

definition swap_in_pc_to_coin ::
  "runtime \<Rightarrow> swap_accounts \<Rightarrow> amm_info \<Rightarrow> bool \<Rightarrow> swap_tokens \<Rightarrow> swap_totals \<Rightarrow> u64 \<Rightarrow> u64 \<Rightarrow> u128 \<Rightarrow>
   world \<Rightarrow> (amm_info \<times> world) outcome" where
  "swap_in_pc_to_coin R A amm enable_orderbook T t in_amount out_amount swap_fee w =
     (if out_amount \<ge> st_coin t then err InsufficientFunds
      else
        and_then (if enable_orderbook
                  then swap_free_funds R A (sw_market_coin_vault A) amm (st_asks t)
                    (out_amount > ta_amount (tk_coin_vault T)) w
                  else Done w) (\<lambda>w1.
        and_then (swap_transfers R A (sw_pc_vault A) (sw_coin_vault A) amm in_amount out_amount w1) (\<lambda>w2.
        and_then (unwrap (narrow swap_fee)) (\<lambda>fee.
        and_then (account_pc_to_coin in_amount out_amount fee (amm_state_data amm)) (\<lambda>sd.
          Done (amm\<lparr>amm_state_data := sd\<rparr>, w2))))))"

definition process_swap_base_in ::
  "runtime \<Rightarrow> pubkey \<Rightarrow> account_info list \<Rightarrow> swap_instruction_base_in \<Rightarrow> world \<Rightarrow> world outcome" where
  "process_swap_base_in R program_id accounts swap w =
     and_then (swap_parse_accounts accounts) (\<lambda>A.
     and_then (amm_load_mut_checked w (sw_amm A) program_id) (\<lambda>amm0.
     and_then (status_from_u64 (amm_status amm0)) (\<lambda>status0.
     let enable_orderbook = orderbook_permission status0 in
     and_then (swap_check R program_id A amm0 w) (\<lambda>T.
     and_then (swap_status R amm0) (\<lambda>amm.
     and_then (swap_calc_totals R A amm enable_orderbook T w) (\<lambda>t.
     and_then (swap_direction_of T) (\<lambda>direction.
     if ta_amount (tk_user_source T) < amount_in swap then err InsufficientFunds
     else
       and_then (swap_in_quote (amm_fees amm) (amount_in swap) (st_pc t) (st_coin t) direction)
         (\<lambda>(swap_fee, swap_amount_out).
       if swap_amount_out < minimum_amount_out swap then err ExceededSlippage
       else if swap_amount_out = 0 \<or> amount_in swap = 0 then err InvalidInput
       else
         and_then
           (case direction of
              Coin2PC \<Rightarrow> swap_in_coin_to_pc R A amm enable_orderbook T t (amount_in swap)
                swap_amount_out swap_fee w
            | PC2Coin \<Rightarrow> swap_in_pc_to_coin R A amm enable_orderbook T t (amount_in swap)
                swap_amount_out swap_fee w) (\<lambda>(amm', w').
           swap_finish R A amm' w')))))))))"

section \<open>Swap by output\<close>

definition swap_out_coin_to_pc ::
  "runtime \<Rightarrow> swap_accounts \<Rightarrow> amm_info \<Rightarrow> bool \<Rightarrow> swap_tokens \<Rightarrow> swap_totals \<Rightarrow> u64 \<Rightarrow> u64 \<Rightarrow> u64 \<Rightarrow>
   world \<Rightarrow> (amm_info \<times> world) outcome" where
  "swap_out_coin_to_pc R A amm enable_orderbook T t in_amount out_amount swap_fee w =
     (if out_amount \<ge> st_pc t then err InsufficientFunds
      else
        and_then (if enable_orderbook
                  then swap_free_funds R A (sw_market_coin_vault A) amm (st_bids t)
                    (out_amount > ta_amount (tk_pc_vault T)) w
                  else Done w) (\<lambda>w1.
        and_then (swap_transfers R A (sw_coin_vault A) (sw_pc_vault A) amm in_amount out_amount w1) (\<lambda>w2.
        and_then (account_coin_to_pc in_amount out_amount swap_fee (amm_state_data amm)) (\<lambda>sd.
          Done (amm\<lparr>amm_state_data := sd\<rparr>, w2)))))"

text \<open>The settlement of this branch is given the asks of the market as its coin vault.\<close>

definition swap_out_pc_to_coin ::
  "runtime \<Rightarrow> swap_accounts \<Rightarrow> amm_info \<Rightarrow> bool \<Rightarrow> swap_tokens \<Rightarrow> swap_totals \<Rightarrow> u64 \<Rightarrow> u64 \<Rightarrow> u64 \<Rightarrow>
   world \<Rightarrow> (amm_info \<times> world) outcome" where
  "swap_out_pc_to_coin R A amm enable_orderbook T t in_amount out_amount swap_fee w =
     (if out_amount \<ge> st_coin t then err InsufficientFunds
      else
        and_then (if enable_orderbook
                  then swap_free_funds R A (sw_asks A) amm (st_asks t)
                    (out_amount > ta_amount (tk_coin_vault T)) w
                  else Done w) (\<lambda>w1.
        and_then (swap_transfers R A (sw_pc_vault A) (sw_coin_vault A) amm in_amount out_amount w1) (\<lambda>w2.
        and_then (account_pc_to_coin in_amount out_amount swap_fee (amm_state_data amm)) (\<lambda>sd.
          Done (amm\<lparr>amm_state_data := sd\<rparr>, w2)))))"

definition process_swap_base_out ::
  "runtime \<Rightarrow> pubkey \<Rightarrow> account_info list \<Rightarrow> swap_instruction_base_out \<Rightarrow> world \<Rightarrow> world outcome" where
  "process_swap_base_out R program_id accounts swap w =
     and_then (swap_parse_accounts accounts) (\<lambda>A.
     and_then (amm_load_mut_checked w (sw_amm A) program_id) (\<lambda>amm0.
     and_then (status_from_u64 (amm_status amm0)) (\<lambda>status0.
     let enable_orderbook = orderbook_permission status0 in
     and_then (swap_check R program_id A amm0 w) (\<lambda>T.
     and_then (swap_status R amm0) (\<lambda>amm.
     and_then (swap_calc_totals R A amm enable_orderbook T w) (\<lambda>t.
     and_then (swap_direction_of T) (\<lambda>direction.
     and_then (swap_out_quote (amm_fees amm) (amount_out swap) (st_pc t) (st_coin t) direction)
       (\<lambda>(swap_in_after_add_fee, swap_fee).
     if ta_amount (tk_user_source T) < swap_in_after_add_fee then err InsufficientFunds
     else if max_amount_in swap < swap_in_after_add_fee then err ExceededSlippage
     else if swap_in_after_add_fee = 0 \<or> amount_out swap = 0 then err InvalidInput
     else
       and_then
         (case direction of
            Coin2PC \<Rightarrow> swap_out_coin_to_pc R A amm enable_orderbook T t swap_in_after_add_fee
              (amount_out swap) swap_fee w
          | PC2Coin \<Rightarrow> swap_out_pc_to_coin R A amm enable_orderbook T t swap_in_after_add_fee
              (amount_out swap) swap_fee w) (\<lambda>(amm', w').
         swap_finish R A amm' w')))))))))"

section \<open>The quotes keep the product\<close>

lemma swap_in_quote_Done:
  assumes "swap_in_quote f amount pc coin d = Done (fee, out)"
  obtains m r dedu out128 where
    "uint m = uint amount * uint (swap_fee_numerator f)"
    "checked_ceil_div m (widen (swap_fee_denominator f)) = Some (fee, r)"
    "uint dedu = uint amount - uint fee"
    "swap_token_amount_base_in dedu (widen pc) (widen coin) d = Some out128"
    "uint out = uint out128"
  using assms by (auto simp: swap_in_quote_def bind_eq_Some_conv checked_arith)

lemma swap_in_quote_facts:
  assumes "swap_in_quote f amount pc coin d = Done (fee, out)"
    and "swap_fee_numerator f \<le> swap_fee_denominator f"
  shows "uint fee \<le> uint amount \<and>
    uint fee * uint (swap_fee_denominator f) <
      uint amount * uint (swap_fee_numerator f) + uint (swap_fee_denominator f) \<and>
    uint out \<le> uint (reserve_out d pc coin) \<and>
    uint (reserve_in d pc coin) * uint (reserve_out d pc coin) \<le>
      (uint (reserve_in d pc coin) + uint amount - uint fee) *
      (uint (reserve_out d pc coin) - uint out) \<and>
    uint (reserve_in d pc coin) * uint (reserve_out d pc coin) \<le>
      (uint (reserve_in d pc coin) + uint amount) * (uint (reserve_out d pc coin) - uint out)"
proof -
  obtain m r dedu out128 where m: "uint m = uint amount * uint (swap_fee_numerator f)"
    and c: "checked_ceil_div m (widen (swap_fee_denominator f)) = Some (fee, r)"
    and dedu: "uint dedu = uint amount - uint fee"
    and q: "swap_token_amount_base_in dedu (widen pc) (widen coin) d = Some out128"
    and out: "uint out = uint out128"
    by (rule swap_in_quote_Done [OF assms(1)])
  have fee: "uint fee \<le> uint amount"
    using U128_ceil.ceil_fraction_le [OF c m] assms(2) by (simp add: word_le_def)
  have up: "uint fee * uint (swap_fee_denominator f) <
      uint amount * uint (swap_fee_numerator f) + uint (swap_fee_denominator f)"
    using U128_ceil.ceil_upper [OF c] m by simp
  have res: "uint (reserve_in d (widen pc :: u128) (widen coin)) = uint (reserve_in d pc coin)"
    "uint (reserve_out d (widen pc :: u128) (widen coin)) = uint (reserve_out d pc coin)"
    by (cases d; simp)+
  have le: "uint out \<le> uint (reserve_out d pc coin)"
    using swap_base_in_facts [OF q] by (simp add: res out)
  have prod: "uint (reserve_in d pc coin) * uint (reserve_out d pc coin) \<le>
      (uint (reserve_in d pc coin) + uint amount - uint fee) *
      (uint (reserve_out d pc coin) - uint out)"
    using swap_base_in_facts [OF q] by (simp add: res dedu out add_diff_eq)
  also have "\<dots> \<le> (uint (reserve_in d pc coin) + uint amount) * (uint (reserve_out d pc coin) - uint out)"
    using le by (intro mult_right_mono) auto
  finally show ?thesis
    using fee up le prod by blast
qed

text \<open>
  C15: a swap by input never takes a fee above the input, charges at most one unit more than
  the nominal rate, and pays out so little that the product of the reserves does not fall
  even when the fee is not counted as part of the pool.
\<close>

theorem swap_in_quote_correct:
  assumes "swap_in_quote f amount pc coin d = Done (fee, out)"
    and "swap_fee_numerator f \<le> swap_fee_denominator f"
  shows "uint fee \<le> uint amount \<and>
    uint fee * uint (swap_fee_denominator f) <
      uint amount * uint (swap_fee_numerator f) + uint (swap_fee_denominator f) \<and>
    uint out \<le> uint (reserve_out d pc coin) \<and>
    uint (reserve_in d pc coin) * uint (reserve_out d pc coin) \<le>
      (uint (reserve_in d pc coin) + uint amount - uint fee) *
      (uint (reserve_out d pc coin) - uint out) \<and>
    uint (reserve_in d pc coin) * uint (reserve_out d pc coin) \<le>
      (uint (reserve_in d pc coin) + uint amount) * (uint (reserve_out d pc coin) - uint out)"
  using assms by (rule swap_in_quote_facts)

theorem swap_in_quote_correct_witness:
  "swap_in_quote sample_fees 1000 4000 1000 Coin2PC = Done (3, 1996) \<and>
   uint (3 :: u128) \<le> uint (1000 :: u64) \<and> (1000 :: int) * 4000 \<le> (1000 + 1000 - 3) * (4000 - 1996)"
proof -
  have q: "swap_in_quote sample_fees 1000 4000 1000 Coin2PC = Done (3, 1996)" by code_simp
  have "swap_fee_numerator sample_fees \<le> swap_fee_denominator sample_fees" by code_simp
  from swap_in_quote_correct [OF q this] show ?thesis using q by simp
qed

lemma swap_out_quote_facts:
  assumes "swap_out_quote f amount pc coin d = Done (input, fee)" and "input \<noteq> 0"
  shows "uint amount < uint (reserve_out d pc coin) \<and>
    uint (reserve_in d pc coin) * uint (reserve_out d pc coin) \<le>
      (uint (reserve_in d pc coin) + uint input - uint fee) *
      (uint (reserve_out d pc coin) - uint amount) \<and>
    uint fee \<le> uint input \<and>
    uint input * uint (swap_fee_numerator f) \<le> uint fee * uint (swap_fee_denominator f)"
proof -
  obtain before m dn r after_fee before64 where
    q: "swap_token_amount_base_out (widen amount) (widen pc) (widen coin) d = Some before"
    and m: "uint m = uint before * uint (swap_fee_denominator f)"
    and dn: "uint dn = uint (swap_fee_denominator f) - uint (swap_fee_numerator f)"
    and c: "checked_ceil_div m (widen (dn :: u64)) = Some (after_fee, r)"
    and a: "uint input = uint after_fee" and b: "uint (before64 :: u64) = uint before"
    and fee: "uint fee = uint input - uint before64"
    using assms(1) by (auto simp: swap_out_quote_def bind_eq_Some_conv checked_arith)
  have res: "uint (reserve_in d (widen pc :: u128) (widen coin)) = uint (reserve_in d pc coin)"
    "uint (reserve_out d (widen pc :: u128) (widen coin)) = uint (reserve_out d pc coin)"
    by (cases d; simp)+
  have "uint after_fee \<noteq> 0"
    using assms(2) a by (metis uint_0_iff)
  then have lo: "uint before * uint (swap_fee_denominator f) \<le> uint input * uint dn"
    and "2 * uint m \<ge> uint dn" and "0 < uint dn"
    using U128_ceil.ceil_lower [OF c] U128_ceil.ceil_zero [OF c] U128_ceil.ceil_nonzero [OF c] m a
    by auto
  then have nz: "uint before \<noteq> 0" using m by auto
  have bf: "uint before = uint input - uint fee" using fee b by simp
  have "uint fee \<le> uint input"
    using bf uint_ge_0 [of before] by linarith
  moreover have "uint input * uint (swap_fee_numerator f) \<le> uint fee * uint (swap_fee_denominator f)"
    using lo unfolding bf dn by (simp add: algebra_simps)
  ultimately show ?thesis
    using swap_base_out_facts(1) [OF q] swap_base_out_facts(2) [OF q nz]
    by (simp add: res bf add_diff_eq)
qed

text \<open>
  C16: a swap by output asks for an input that keeps the product of the reserves and whose fee
  is at least the nominal rate of the whole input; the output stays below the reserve.
\<close>

theorem swap_out_quote_correct:
  assumes "swap_out_quote f amount pc coin d = Done (input, fee)" and "input \<noteq> 0"
  shows "uint amount < uint (reserve_out d pc coin) \<and>
    uint (reserve_in d pc coin) * uint (reserve_out d pc coin) \<le>
      (uint (reserve_in d pc coin) + uint input - uint fee) *
      (uint (reserve_out d pc coin) - uint amount) \<and>
    uint fee \<le> uint input \<and>
    uint input * uint (swap_fee_numerator f) \<le> uint fee * uint (swap_fee_denominator f)"
  using assms by (rule swap_out_quote_facts)

theorem swap_out_quote_correct_witness:
  "swap_out_quote sample_fees 1996 4000 1000 Coin2PC = Done (1000, 3) \<and>
   uint (1000 :: u64) * 25 \<le> uint (3 :: u64) * 10000"
proof -
  have q: "swap_out_quote sample_fees 1996 4000 1000 Coin2PC = Done (1000, 3)" by code_simp
  from swap_out_quote_correct [OF q] show ?thesis using q by (simp add: sample_fees_def)
qed

text \<open>
  C28: an exact output that is not below the reserve never reaches the handler's
  \<open>InsufficientFunds\<close> guard: the quote before it panics. A quote that returns is below the
  reserve, so the guard is unreachable.
\<close>

theorem swap_out_quote_reserve_panics:
  assumes "uint (reserve_out d pc coin) \<le> uint amount"
  shows "swap_out_quote f amount pc coin d = Panic"
  using base_out_defined [of amount pc coin d] assms by (simp add: swap_out_quote_def)

theorem swap_out_quote_reserve_panics_witness:
  "swap_out_quote sample_fees 4000 4000 1000 Coin2PC = Panic"
  by (rule swap_out_quote_reserve_panics) simp

section \<open>The calls a swap makes\<close>

definition swap_calls :: "swap_accounts \<Rightarrow> amm_info \<Rightarrow> swap_direction \<Rightarrow> u64 \<Rightarrow> u64 \<Rightarrow> cpi list" where
  "swap_calls A amm d in_amount out_amount =
     [user_transfer (sw_token_program A) (sw_user_source A)
        (reserve_in d (sw_pc_vault A) (sw_coin_vault A)) (sw_user_owner A) in_amount,
      pool_transfer (sw_token_program A) (reserve_out d (sw_pc_vault A) (sw_coin_vault A))
        (sw_user_destination A) (sw_authority A) (as_u8 (amm_nonce amm)) out_amount]"

fun account_swap :: "swap_direction \<Rightarrow> u64 \<Rightarrow> u64 \<Rightarrow> u64 \<Rightarrow> state_data \<Rightarrow> state_data outcome" where
  "account_swap Coin2PC i out fee sd = account_coin_to_pc i out fee sd"
| "account_swap PC2Coin i out fee sd = account_pc_to_coin i out fee sd"

text \<open>Input, output and fee totals of the direction, as the pool's statistics keep them.\<close>

fun swap_stats :: "swap_direction \<Rightarrow> state_data \<Rightarrow> int \<times> int \<times> int" where
  "swap_stats Coin2PC sd =
     (uint (swap_coin_in_amount sd), uint (swap_pc_out_amount sd), uint (swap_acc_coin_fee sd))"
| "swap_stats PC2Coin sd =
     (uint (swap_pc_in_amount sd), uint (swap_coin_out_amount sd), uint (swap_acc_pc_fee sd))"

fun opposite :: "swap_direction \<Rightarrow> swap_direction" where
  "opposite Coin2PC = PC2Coin"
| "opposite PC2Coin = Coin2PC"

lemma account_swap_stats:
  assumes "account_swap d i out fee sd = Done sd'"
  shows "swap_stats d sd' = (fst (swap_stats d sd) + uint i, fst (snd (swap_stats d sd)) + uint out,
      snd (snd (swap_stats d sd)) + uint fee) \<and>
    swap_stats (opposite d) sd' = swap_stats (opposite d) sd \<and>
    need_take_pnl_pc sd' = need_take_pnl_pc sd \<and> need_take_pnl_coin sd' = need_take_pnl_coin sd \<and>
    sd_padding sd' = sd_padding sd"
  using assms
  by (cases d) (auto simp: account_coin_to_pc_def account_pc_to_coin_def and_then_Done checked_arith)

lemma swap_transfers_cpis:
  "swap_transfers R A vi vo amm i out w = Done w' \<Longrightarrow>
     cpis w' = cpis w @
       [user_transfer (sw_token_program A) (sw_user_source A) vi (sw_user_owner A) i,
        pool_transfer (sw_token_program A) vo (sw_user_destination A) (sw_authority A)
          (as_u8 (amm_nonce amm)) out]"
  by (auto simp: swap_transfers_def and_then_Done dest!: token_call_cpis)

lemma swap_free_funds_cpis:
  "swap_free_funds R A mcv amm orders settle w = Done w' \<Longrightarrow>
     \<exists>pre. cpis w' = cpis w @ pre \<and> list_all market_call pre"
  by (auto simp: swap_free_funds_def and_then_Done split: if_splits
      dest!: cancel_batches_market_calls settle_funds_market_call)

text \<open>
  The contract of the four branches: input or output given, coin or pc sold. A branch that
  returns ends with the two transfers, keeps everything of the pool but its statistics, and
  leaves some of the reserve.
\<close>

locale swap_leg =
  fixes leg :: "runtime \<Rightarrow> swap_accounts \<Rightarrow> amm_info \<Rightarrow> bool \<Rightarrow> swap_tokens \<Rightarrow> swap_totals \<Rightarrow>
      u64 \<Rightarrow> u64 \<Rightarrow> 'fee \<Rightarrow> world \<Rightarrow> (amm_info \<times> world) outcome"
    and d :: swap_direction and fee_of :: "'fee \<Rightarrow> int"
  assumes leg_Done: "leg R A amm e T t i out fee w = Done (amm', w') \<Longrightarrow>
    \<exists>pre f sd. uint f = fee_of fee \<and> account_swap d i out f (amm_state_data amm) = Done sd \<and>
      amm' = amm\<lparr>amm_state_data := sd\<rparr> \<and> cpis w' = cpis w @ pre @ swap_calls A amm d i out \<and>
      (\<not> e \<longrightarrow> pre = []) \<and> list_all market_call pre \<and> out < reserve_out d (st_pc t) (st_coin t)"
begin

lemma leg_effects:
  assumes "leg R A amm e T t i out fee w = Done (amm', w')"
  shows "\<exists>pre. cpis w' = cpis w @ pre @ swap_calls A amm d i out \<and> (\<not> e \<longrightarrow> pre = []) \<and>
      list_all market_call pre"
    and "uint out < uint (reserve_out d (st_pc t) (st_coin t))"
    and "\<exists>sd. amm' = amm\<lparr>amm_state_data := sd\<rparr> \<and>
      swap_stats d sd = (fst (swap_stats d (amm_state_data amm)) + uint i,
        fst (snd (swap_stats d (amm_state_data amm))) + uint out,
        snd (snd (swap_stats d (amm_state_data amm))) + fee_of fee) \<and>
      swap_stats (opposite d) sd = swap_stats (opposite d) (amm_state_data amm) \<and>
      need_take_pnl_pc sd = need_take_pnl_pc (amm_state_data amm) \<and>
      need_take_pnl_coin sd = need_take_pnl_coin (amm_state_data amm) \<and>
      sd_padding sd = sd_padding (amm_state_data amm)"
proof -
  obtain pre f sd where l: "uint f = fee_of fee" "account_swap d i out f (amm_state_data amm) = Done sd"
    "amm' = amm\<lparr>amm_state_data := sd\<rparr>" "cpis w' = cpis w @ pre @ swap_calls A amm d i out"
    "\<not> e \<longrightarrow> pre = []" "list_all market_call pre" "out < reserve_out d (st_pc t) (st_coin t)"
    using leg_Done [OF assms] by blast
  from l(4-6) show "\<exists>pre. cpis w' = cpis w @ pre @ swap_calls A amm d i out \<and> (\<not> e \<longrightarrow> pre = []) \<and>
      list_all market_call pre" by blast
  from l(7) show "uint out < uint (reserve_out d (st_pc t) (st_coin t))"
    by (simp add: word_less_def)
  from account_swap_stats [OF l(2)] l(1,3) show "\<exists>sd. amm' = amm\<lparr>amm_state_data := sd\<rparr> \<and>
      swap_stats d sd = (fst (swap_stats d (amm_state_data amm)) + uint i,
        fst (snd (swap_stats d (amm_state_data amm))) + uint out,
        snd (snd (swap_stats d (amm_state_data amm))) + fee_of fee) \<and>
      swap_stats (opposite d) sd = swap_stats (opposite d) (amm_state_data amm) \<and>
      need_take_pnl_pc sd = need_take_pnl_pc (amm_state_data amm) \<and>
      need_take_pnl_coin sd = need_take_pnl_coin (amm_state_data amm) \<and>
      sd_padding sd = sd_padding (amm_state_data amm)" by metis
qed

end

lemmas leg_simps = and_then_Done swap_calls_def not_le

interpretation in_coin: swap_leg swap_in_coin_to_pc Coin2PC uint
  by unfold_locales
     (fastforce simp: swap_in_coin_to_pc_def leg_simps narrow_Some
      split: if_splits dest!: swap_transfers_cpis swap_free_funds_cpis)

interpretation in_pc: swap_leg swap_in_pc_to_coin PC2Coin uint
  by unfold_locales
     (fastforce simp: swap_in_pc_to_coin_def leg_simps narrow_Some
      split: if_splits dest!: swap_transfers_cpis swap_free_funds_cpis)

interpretation out_coin: swap_leg swap_out_coin_to_pc Coin2PC uint
  by unfold_locales
     (fastforce simp: swap_out_coin_to_pc_def leg_simps
      split: if_splits dest!: swap_transfers_cpis swap_free_funds_cpis)

interpretation out_pc: swap_leg swap_out_pc_to_coin PC2Coin uint
  by unfold_locales
     (fastforce simp: swap_out_pc_to_coin_def leg_simps
      split: if_splits dest!: swap_transfers_cpis swap_free_funds_cpis)

section \<open>The handlers\<close>

lemma swap_status_fields:
  "swap_status R amm0 = Done amm \<Longrightarrow> \<exists>s. amm = amm0\<lparr>amm_status := s\<rparr>"
  by (auto simp: swap_status_def and_then_Done split: if_splits)
     (metis amm_info.surjective amm_info.update_convs(1))

lemma swap_finish_Done:
  assumes "swap_finish R A amm w = Done w'" and "wf_amm amm"
  shows "cpis w' = cpis w \<and> (\<exists>clock. rt_clock R = Done clock \<and>
    amm_load w' (sw_amm A) = Done (amm\<lparr>recent_epoch := clk_epoch clock\<rparr>))"
proof -
  obtain clock where c: "rt_clock R = Done clock"
    and w': "w' = amm_store (sw_amm A) (amm\<lparr>recent_epoch := clk_epoch clock\<rparr>) w"
    using assms(1) by (auto simp: swap_finish_def and_then_Done)
  have "wf_amm (amm\<lparr>recent_epoch := clk_epoch clock\<rparr>)"
    using assms(2) by (simp add: wf_amm_def)
  then show ?thesis
    using c w' by (simp add: amm_load_store) (simp add: amm_store_def)
qed

lemma swap_parse_amm: "swap_parse_accounts accounts = Done A \<Longrightarrow> sw_amm A = accounts ! 1"
  by (auto simp: swap_parse_accounts_def Let_def split: if_splits)

text \<open>What both handlers leave behind, over the amounts that moved.\<close>

definition swap_result ::
  "swap_accounts \<Rightarrow> amm_info \<Rightarrow> bool \<Rightarrow> swap_totals \<Rightarrow> swap_direction \<Rightarrow> u64 \<Rightarrow> u64 \<Rightarrow> int \<Rightarrow> world \<Rightarrow> world \<Rightarrow> bool"
  where
  "swap_result A amm enable t d i out fee w w' \<longleftrightarrow>
     0 < uint i \<and> 0 < uint out \<and> uint out < uint (reserve_out d (st_pc t) (st_coin t)) \<and>
     uint (reserve_in d (st_pc t) (st_coin t)) * uint (reserve_out d (st_pc t) (st_coin t)) \<le>
       (uint (reserve_in d (st_pc t) (st_coin t)) + uint i - fee) *
       (uint (reserve_out d (st_pc t) (st_coin t)) - uint out) \<and>
     (\<exists>pre. cpis w' = cpis w @ pre @ swap_calls A amm d i out \<and> (\<not> enable \<longrightarrow> pre = []) \<and>
        list_all market_call pre) \<and>
     (\<exists>sd epoch. amm_load w' (sw_amm A) = Done (amm\<lparr>amm_state_data := sd, recent_epoch := epoch\<rparr>) \<and>
       swap_stats d sd = (fst (swap_stats d (amm_state_data amm)) + uint i,
         fst (snd (swap_stats d (amm_state_data amm))) + uint out,
         snd (snd (swap_stats d (amm_state_data amm))) + fee) \<and>
       swap_stats (opposite d) sd = swap_stats (opposite d) (amm_state_data amm) \<and>
       need_take_pnl_pc sd = need_take_pnl_pc (amm_state_data amm) \<and>
       need_take_pnl_coin sd = need_take_pnl_coin (amm_state_data amm))"

lemma swap_result_of_leg:
  assumes "swap_leg leg d fee_of" and "leg R A amm e T t i out f w = Done (amm1, w1)"
    and "swap_finish R A amm1 w1 = Done w'" and "wf_amm amm"
    and "0 < uint i" and "0 < uint out"
    and "uint (reserve_in d (st_pc t) (st_coin t)) * uint (reserve_out d (st_pc t) (st_coin t)) \<le>
       (uint (reserve_in d (st_pc t) (st_coin t)) + uint i - fee_of f) *
       (uint (reserve_out d (st_pc t) (st_coin t)) - uint out)"
  shows "swap_result A amm e t d i out (fee_of f) w w'"
proof -
  note eff = swap_leg.leg_effects [OF assms(1,2)]
  obtain pre where pre: "cpis w1 = cpis w @ pre @ swap_calls A amm d i out" "\<not> e \<longrightarrow> pre = []"
    "list_all market_call pre"
    using eff(1) by blast
  obtain sd where sd: "amm1 = amm\<lparr>amm_state_data := sd\<rparr>"
    "sd_padding sd = sd_padding (amm_state_data amm)"
    and stats: "swap_stats d sd = (fst (swap_stats d (amm_state_data amm)) + uint i,
        fst (snd (swap_stats d (amm_state_data amm))) + uint out,
        snd (snd (swap_stats d (amm_state_data amm))) + fee_of f)"
      "swap_stats (opposite d) sd = swap_stats (opposite d) (amm_state_data amm)"
      "need_take_pnl_pc sd = need_take_pnl_pc (amm_state_data amm)"
      "need_take_pnl_coin sd = need_take_pnl_coin (amm_state_data amm)"
    using eff(3) by blast
  have "wf_amm amm1"
    using assms(4) sd by (simp add: wf_amm_def)
  then obtain clock :: clock where "cpis w' = cpis w1"
    and "amm_load w' (sw_amm A) = Done (amm\<lparr>amm_state_data := sd, recent_epoch := clk_epoch clock\<rparr>)"
    using swap_finish_Done [OF assms(3)] unfolding sd(1) by blast
  then show ?thesis
    unfolding swap_result_def pre(1) [symmetric] append_assoc [symmetric]
    using assms(5-7) eff(2) pre stats by auto
qed

lemma process_swap_base_in_effects:
  assumes "process_swap_base_in R pid accounts swap w = Done w'"
    and "amm_load w (accounts ! 1) = Done amm0"
    and "swap_fee_numerator (amm_fees amm0) \<le> swap_fee_denominator (amm_fees amm0)"
  shows "\<exists>A T t d fee out amm enable.
    swap_parse_accounts accounts = Done A \<and> is_signer (sw_user_owner A) \<and>
    swap_check R pid A amm0 w = Done T \<and> swap_status R amm0 = Done amm \<and>
    swap_calc_totals R A amm enable T w = Done t \<and> swap_direction_of T = Done d \<and>
    swap_in_quote (amm_fees amm0) (amount_in swap) (st_pc t) (st_coin t) d = Done (fee, out) \<and>
    minimum_amount_out swap \<le> out \<and>
    (\<exists>status. status_from_u64 (amm_status amm0) = Done status \<and> enable = orderbook_permission status) \<and>
    swap_result A amm enable t d (amount_in swap) out (uint fee) w w'"
proof -
  obtain A T t d fee out amm status0 amm1 w1 where
    A: "swap_parse_accounts accounts = Done A" and
    l: "amm_load_mut_checked w (sw_amm A) pid = Done amm0" and
    st0: "status_from_u64 (amm_status amm0) = Done status0" and
    T: "swap_check R pid A amm0 w = Done T" and
    st: "swap_status R amm0 = Done amm" and
    t: "swap_calc_totals R A amm (orderbook_permission status0) T w = Done t" and
    d: "swap_direction_of T = Done d" and
    q: "swap_in_quote (amm_fees amm) (amount_in swap) (st_pc t) (st_coin t) d = Done (fee, out)" and
    min: "minimum_amount_out swap \<le> out" and pos: "out \<noteq> 0" "amount_in swap \<noteq> 0" and
    leg: "(case d of
        Coin2PC \<Rightarrow> swap_in_coin_to_pc R A amm (orderbook_permission status0) T t (amount_in swap) out fee w
      | PC2Coin \<Rightarrow> swap_in_pc_to_coin R A amm (orderbook_permission status0) T t (amount_in swap) out fee w)
      = Done (amm1, w1)" and
    fin: "swap_finish R A amm1 w1 = Done w'"
    using assms(1,2)
    by (auto simp: process_swap_base_in_def and_then_Done Let_def not_less amm_load_mut_checked_Done
        swap_parse_amm)
  have amm: "amm_fees amm = amm_fees amm0" "wf_amm amm"
    using swap_status_fields [OF st] amm_load_wf [OF assms(2)] by (auto simp: wf_amm_def)
  note facts = swap_in_quote_facts [OF q, unfolded amm(1), OF assms(3)]
  have p: "0 < uint (amount_in swap)" "0 < uint out"
    using pos by (simp_all add: word_neq_0_conv word_less_def)
  have "swap_result A amm (orderbook_permission status0) t d (amount_in swap) out (uint fee) w w'"
  proof (cases d)
    case Coin2PC
    show ?thesis
      using swap_result_of_leg [OF in_coin.swap_leg_axioms _ fin amm(2) p] leg facts Coin2PC by auto
  next
    case PC2Coin
    show ?thesis
      using swap_result_of_leg [OF in_pc.swap_leg_axioms _ fin amm(2) p] leg facts PC2Coin by auto
  qed
  moreover have "is_signer (sw_user_owner A)"
    using T by (auto simp: swap_check_def)
  ultimately show ?thesis
    using A T st0 st t d q min amm(1) by metis
qed

text \<open>
  C1: a swap by input that succeeds is signed by the owner of the source account, pays out at
  least the stated minimum, and makes exactly two token transfers after the optional
  cancel and settle calls to the market: the whole input from the user into the pool's vault, signed by no
  seed of the pool, and the output from the other vault to the user. The product of the
  reserves does not fall even without the fee, a part of the reserve stays, the statistics
  grow by input, output and fee, and the pool stored at the end differs from the one loaded
  in its status, statistics and epoch only.
\<close>

theorem process_swap_base_in_correct:
  assumes "process_swap_base_in R pid accounts swap w = Done w'"
    and "amm_load w (accounts ! 1) = Done amm0"
    and "swap_fee_numerator (amm_fees amm0) \<le> swap_fee_denominator (amm_fees amm0)"
  shows "\<exists>A T t d fee out amm enable.
    swap_parse_accounts accounts = Done A \<and> is_signer (sw_user_owner A) \<and>
    swap_check R pid A amm0 w = Done T \<and> swap_status R amm0 = Done amm \<and>
    swap_calc_totals R A amm enable T w = Done t \<and> swap_direction_of T = Done d \<and>
    swap_in_quote (amm_fees amm0) (amount_in swap) (st_pc t) (st_coin t) d = Done (fee, out) \<and>
    minimum_amount_out swap \<le> out \<and>
    (\<exists>status. status_from_u64 (amm_status amm0) = Done status \<and> enable = orderbook_permission status) \<and>
    swap_result A amm enable t d (amount_in swap) out (uint fee) w w'"
  by (rule process_swap_base_in_effects [OF assms])

definition sample_swap_accounts :: "account_info list" where
  "sample_swap_accounts = map sample_info
     [1, 100, 50, 101, 104, 105, 112, 106, 120, 121, 122, 123, 124, 125, 107, 108, 110]"

lemmas sample_swap_simps = and_then_Done swap_parse_accounts_def sample_swap_accounts_def
  swap_check_def authority_id_def swap_status_def status_from_u64_def swap_calc_totals_def
  calc_total_without_take_pnl_no_orderbook_def checked_sub_def swap_direction_of_def
  swap_transfers_def token_transfer_def token_transfer_with_authority_def swap_finish_def
  account_coin_to_pc_def checked_add_def sample_state_data_def narrow_def

lemma sample_swap_in_quote: "swap_in_quote sample_fees 400 4000 1000 Coin2PC = Done (1, 1140)"
  by code_simp

lemma sample_swap_in_run:
  "\<exists>w'. process_swap_base_in sample_runtime 7 sample_swap_accounts
     \<lparr>amount_in = 400, minimum_amount_out = 1000\<rparr> sample_world = Done w'"
  by (simp add: process_swap_base_in_def sample_swap_simps sample_swap_in_quote
      swap_in_coin_to_pc_def)

theorem process_swap_base_in_correct_witness:
  "\<exists>w' A amm enable t d out fee. process_swap_base_in sample_runtime 7 sample_swap_accounts
      \<lparr>amount_in = 400, minimum_amount_out = 1000\<rparr> sample_world = Done w' \<and> 1000 \<le> out \<and>
    swap_result A amm enable t d 400 out fee sample_world w'"
proof -
  obtain w' where run: "process_swap_base_in sample_runtime 7 sample_swap_accounts
      \<lparr>amount_in = 400, minimum_amount_out = 1000\<rparr> sample_world = Done w'"
    using sample_swap_in_run by blast
  moreover have "amm_load sample_world (sample_swap_accounts ! 1) = Done sample_amm"
    by (simp add: sample_swap_accounts_def)
  moreover have "swap_fee_numerator (amm_fees sample_amm) \<le> swap_fee_denominator (amm_fees sample_amm)"
    by (simp add: sample_fees_def)
  ultimately show ?thesis
    using process_swap_base_in_correct [of sample_runtime 7 sample_swap_accounts
      "\<lparr>amount_in = 400, minimum_amount_out = 1000\<rparr>" sample_world w' sample_amm] by fastforce
qed

lemma sample_swap_out_quote: "swap_out_quote sample_fees 1140 4000 1000 Coin2PC = Done (400, 1)"
  by code_simp

lemma sample_swap_out_run:
  "\<exists>w'. process_swap_base_out sample_runtime 7 sample_swap_accounts
     \<lparr>max_amount_in = 450, amount_out = 1140\<rparr> sample_world = Done w'"
  by (simp add: process_swap_base_out_def sample_swap_simps sample_swap_out_quote
      swap_out_coin_to_pc_def)

lemma process_swap_base_out_effects:
  assumes "process_swap_base_out R pid accounts swap w = Done w'"
    and "amm_load w (accounts ! 1) = Done amm0"
  shows "\<exists>A T t d input fee amm enable.
    swap_parse_accounts accounts = Done A \<and> is_signer (sw_user_owner A) \<and>
    swap_check R pid A amm0 w = Done T \<and> swap_status R amm0 = Done amm \<and>
    swap_calc_totals R A amm enable T w = Done t \<and> swap_direction_of T = Done d \<and>
    swap_out_quote (amm_fees amm0) (amount_out swap) (st_pc t) (st_coin t) d = Done (input, fee) \<and>
    input \<le> max_amount_in swap \<and>
    (\<exists>status. status_from_u64 (amm_status amm0) = Done status \<and> enable = orderbook_permission status) \<and>
    swap_result A amm enable t d input (amount_out swap) (uint fee) w w'"
proof -
  obtain A T t d fee input amm status0 amm1 w1 where
    A: "swap_parse_accounts accounts = Done A" and
    l: "amm_load_mut_checked w (sw_amm A) pid = Done amm0" and
    st0: "status_from_u64 (amm_status amm0) = Done status0" and
    T: "swap_check R pid A amm0 w = Done T" and
    st: "swap_status R amm0 = Done amm" and
    t: "swap_calc_totals R A amm (orderbook_permission status0) T w = Done t" and
    d: "swap_direction_of T = Done d" and
    q: "swap_out_quote (amm_fees amm) (amount_out swap) (st_pc t) (st_coin t) d = Done (input, fee)" and
    max: "input \<le> max_amount_in swap" and pos: "input \<noteq> 0" "amount_out swap \<noteq> 0" and
    leg: "(case d of
        Coin2PC \<Rightarrow> swap_out_coin_to_pc R A amm (orderbook_permission status0) T t input (amount_out swap) fee w
      | PC2Coin \<Rightarrow> swap_out_pc_to_coin R A amm (orderbook_permission status0) T t input (amount_out swap) fee w)
      = Done (amm1, w1)" and
    fin: "swap_finish R A amm1 w1 = Done w'"
    using assms(1,2)
    by (auto simp: process_swap_base_out_def and_then_Done Let_def not_less amm_load_mut_checked_Done
        swap_parse_amm)
  have amm: "amm_fees amm = amm_fees amm0" "wf_amm amm"
    using swap_status_fields [OF st] amm_load_wf [OF assms(2)] by (auto simp: wf_amm_def)
  note facts = swap_out_quote_facts [OF q pos(1)]
  have p: "0 < uint input" "0 < uint (amount_out swap)"
    using pos by (simp_all add: word_neq_0_conv word_less_def)
  have "swap_result A amm (orderbook_permission status0) t d input (amount_out swap) (uint fee) w w'"
  proof (cases d)
    case Coin2PC
    show ?thesis
      using swap_result_of_leg [OF out_coin.swap_leg_axioms _ fin amm(2) p] leg facts Coin2PC by auto
  next
    case PC2Coin
    show ?thesis
      using swap_result_of_leg [OF out_pc.swap_leg_axioms _ fin amm(2) p] leg facts PC2Coin by auto
  qed
  moreover have "is_signer (sw_user_owner A)"
    using T by (auto simp: swap_check_def)
  ultimately show ?thesis
    using A T st0 st t d q max amm(1) by metis
qed

text \<open>
  C2: a swap by output that succeeds is signed by the owner of the source account, takes at
  most the stated maximum, pays exactly the requested output, and has the same calls, product
  law and bookkeeping as a swap by input.
\<close>

theorem process_swap_base_out_correct:
  assumes "process_swap_base_out R pid accounts swap w = Done w'"
    and "amm_load w (accounts ! 1) = Done amm0"
  shows "\<exists>A T t d input fee amm enable.
    swap_parse_accounts accounts = Done A \<and> is_signer (sw_user_owner A) \<and>
    swap_check R pid A amm0 w = Done T \<and> swap_status R amm0 = Done amm \<and>
    swap_calc_totals R A amm enable T w = Done t \<and> swap_direction_of T = Done d \<and>
    swap_out_quote (amm_fees amm0) (amount_out swap) (st_pc t) (st_coin t) d = Done (input, fee) \<and>
    input \<le> max_amount_in swap \<and>
    (\<exists>status. status_from_u64 (amm_status amm0) = Done status \<and> enable = orderbook_permission status) \<and>
    swap_result A amm enable t d input (amount_out swap) (uint fee) w w'"
  by (rule process_swap_base_out_effects [OF assms])

theorem process_swap_base_out_correct_witness:
  "\<exists>w' A amm enable t d input fee. process_swap_base_out sample_runtime 7 sample_swap_accounts
      \<lparr>max_amount_in = 450, amount_out = 1140\<rparr> sample_world = Done w' \<and> input \<le> 450 \<and>
    swap_result A amm enable t d input 1140 fee sample_world w'"
proof -
  obtain w' where run: "process_swap_base_out sample_runtime 7 sample_swap_accounts
      \<lparr>max_amount_in = 450, amount_out = 1140\<rparr> sample_world = Done w'"
    using sample_swap_out_run by blast
  moreover have "amm_load sample_world (sample_swap_accounts ! 1) = Done sample_amm"
    by (simp add: sample_swap_accounts_def)
  ultimately show ?thesis
    using process_swap_base_out_correct [of sample_runtime 7 sample_swap_accounts
      "\<lparr>max_amount_in = 450, amount_out = 1140\<rparr>" sample_world w' sample_amm] by fastforce
qed

text \<open>
  When a swap is open. It goes ahead on a pool that is initialised or open for swaps, on a
  waiting pool from its opening time, which opens it for swaps, and on a pool with orders
  only from the switch time, which makes it initialised; every other valid status is
  refused, and an invalid one panics.
\<close>

theorem swap_status_correct:
  assumes "rt_clock R = Done clock"
  shows "swap_status R amm =
    (case status_from_u64 (amm_status amm) of
       Done Initialized \<Rightarrow> Done amm
     | Done SwapOnly \<Rightarrow> Done amm
     | Done WaitingTrade \<Rightarrow>
         if pool_open_time (amm_state_data amm) \<le> clk_unix_timestamp clock
         then Done (amm\<lparr>amm_status := status_into_u64 SwapOnly\<rparr>) else err InvalidStatus
     | Done OrderBookOnly \<Rightarrow>
         if orderbook_to_init_time (amm_state_data amm) \<le> clk_unix_timestamp clock
         then Done (amm\<lparr>amm_status := status_into_u64 Initialized\<rparr>) else err InvalidStatus
     | Done _ \<Rightarrow> err InvalidStatus
     | _ \<Rightarrow> Panic)"
proof (cases "status_from_u64 (amm_status amm)")
  case (Done s)
  moreover from this have "amm_status amm = status_into_u64 s"
    by (simp add: status_from_Done)
  ultimately show ?thesis
    using assms by (cases s) (simp_all add: swap_status_def not_less)
next
  case (Fail e)
  then show ?thesis by (simp add: status_from_u64_def split: if_splits)
next
  case Panic
  then show ?thesis by (simp add: swap_status_def)
qed

theorem swap_status_correct_witness:
  "swap_status sample_runtime (sample_amm\<lparr>amm_status := 7\<rparr>) = Done (sample_amm\<lparr>amm_status := 6\<rparr>)"
proof -
  have "swap_status sample_runtime (sample_amm\<lparr>amm_status := 7\<rparr>) =
      Done (sample_amm\<lparr>amm_status := status_into_u64 SwapOnly\<rparr>)"
    by (subst swap_status_correct [of _ "\<lparr>clk_epoch = 700, clk_unix_timestamp = 1000\<rparr>"])
       (simp_all add: status_from_u64_def sample_state_data_def)
  then show ?thesis by simp
qed

section \<open>The settlements of a swap\<close>

text \<open>The calls that settle the market, in order, and the one of a swap with a given coin vault.\<close>

definition settlements :: "cpi list \<Rightarrow> cpi_data list" where
  "settlements cs =
     filter (\<lambda>ix. case ix of DexSettleFunds _ _ _ _ _ _ _ _ _ _ _ \<Rightarrow> True | _ \<Rightarrow> False) (map cpi_ix cs)"

definition settlement_with :: "swap_accounts \<Rightarrow> account_info \<Rightarrow> cpi_data" where
  "settlement_with A market_coin_vault =
     DexSettleFunds (ai_key (sw_market_program A)) (ai_key (sw_market A)) (ai_key (sw_token_program A))
       (ai_key (sw_open_orders A)) (ai_key (sw_authority A)) (ai_key market_coin_vault)
       (ai_key (sw_coin_vault A)) (ai_key (sw_market_pc_vault A)) (ai_key (sw_pc_vault A))
       (Some (ai_key (sw_pc_vault A))) (ai_key (sw_vault_signer A))"

lemma settlements_append [simp]:
  "settlements [] = []" "settlements (cs @ ds) = settlements cs @ settlements ds"
  by (simp_all add: settlements_def)

lemma cancel_batches_settlements:
  "cancel_batches R dex m b a oo auth q nonce batches w = Done w' \<Longrightarrow>
     \<exists>pre. cpis w' = cpis w @ pre \<and> list_all market_call pre \<and> settlements pre = []"
  by (auto simp: list_all_iff market_call_def settlements_def filter_empty_conv dest!: cancel_batches_cpis)

lemma settle_funds_settlements:
  assumes "invoke_dex_settle_funds R (sw_market_program A) (sw_market A) (sw_open_orders A)
    (sw_authority A) mcv (sw_market_pc_vault A) (sw_coin_vault A) (sw_pc_vault A) (sw_vault_signer A)
    (sw_token_program A) (Some (sw_pc_vault A)) seed nonce w = Done w'"
  shows "\<exists>pre. cpis w' = cpis w @ pre \<and> list_all market_call pre \<and> settlements pre = [settlement_with A mcv]"
  using assms
  by (auto simp: invoke_dex_settle_funds_def market_call_def settlements_def settlement_with_def
      dest!: invoke_signed_cpis)

lemma swap_free_funds_settlements:
  assumes "swap_free_funds R A mcv amm orders b w = Done w'"
  shows "\<exists>pre. cpis w' = cpis w @ pre \<and> list_all market_call pre \<and>
    settlements pre = (if b then [settlement_with A mcv] else [])"
proof -
  obtain w1 where c: "(if orders \<noteq> [] then
        and_then (order_id_batches orders) (\<lambda>batches.
          cancel_batches R (sw_market_program A) (sw_market A) (sw_bids A) (sw_asks A)
            (sw_open_orders A) (sw_authority A) (sw_event_queue A) (as_u8 (amm_nonce amm)) batches w)
      else Done w) = Done w1"
    and f: "(if b then invoke_dex_settle_funds R (sw_market_program A) (sw_market A) (sw_open_orders A)
        (sw_authority A) mcv (sw_market_pc_vault A) (sw_coin_vault A) (sw_pc_vault A) (sw_vault_signer A)
        (sw_token_program A) (Some (sw_pc_vault A)) AUTHORITY_AMM (as_u8 (amm_nonce amm)) w1
      else Done w1) = Done w'"
    using assms unfolding swap_free_funds_def and_then_Done by blast
  have "\<exists>pre. cpis w1 = cpis w @ pre \<and> list_all market_call pre \<and> settlements pre = []"
    using c cancel_batches_settlements by (cases "orders = []") (fastforce simp: and_then_Done)+
  then show ?thesis
    using f settle_funds_settlements by (cases b) fastforce+
qed

text \<open>
  The new calls of a swap that moves \<open>n\<close> for \<open>out\<close>: market calls, which settle with the given coin
  vault exactly when orders are enabled and the paying vault holds too little, and the transfers.
\<close>

definition swap_settles ::
  "swap_accounts \<Rightarrow> amm_info \<Rightarrow> bool \<Rightarrow> swap_tokens \<Rightarrow> swap_direction \<Rightarrow> account_info \<Rightarrow> u64 \<Rightarrow> u64 \<Rightarrow>
   world \<Rightarrow> world \<Rightarrow> bool" where
  "swap_settles A amm enable T d market_coin_vault n out w w' \<longleftrightarrow>
     (\<exists>pre. cpis w' = cpis w @ pre @ swap_calls A amm d n out \<and> list_all market_call pre \<and>
        settlements pre =
          (if enable \<and> ta_amount (reserve_out d (tk_pc_vault T) (tk_coin_vault T)) < out
           then [settlement_with A market_coin_vault] else []))"

lemma swap_settlesI:
  assumes "(if e then swap_free_funds R A mcv amm os
      (ta_amount (reserve_out d (tk_pc_vault T) (tk_coin_vault T)) < out) w else Done w) = Done w1"
    and "swap_transfers R A (reserve_in d (sw_pc_vault A) (sw_coin_vault A))
      (reserve_out d (sw_pc_vault A) (sw_coin_vault A)) amm n out w1 = Done w'"
  shows "swap_settles A amm e T d mcv n out w w'"
proof -
  have "\<exists>pre. cpis w1 = cpis w @ pre \<and> list_all market_call pre \<and>
      settlements pre = (if e \<and> ta_amount (reserve_out d (tk_pc_vault T) (tk_coin_vault T)) < out
        then [settlement_with A mcv] else [])"
    using assms(1) swap_free_funds_settlements by (cases e) fastforce+
  then show ?thesis
    using swap_transfers_cpis [OF assms(2)] unfolding swap_settles_def swap_calls_def by force
qed

lemma leg_settles:
  "swap_in_coin_to_pc R A amm e T t n out fee w = Done (amm', w') \<Longrightarrow>
     swap_settles A amm e T Coin2PC (sw_market_coin_vault A) n out w w'"
  "swap_in_pc_to_coin R A amm e T t n out fee w = Done (amm', w') \<Longrightarrow>
     swap_settles A amm e T PC2Coin (sw_market_coin_vault A) n out w w'"
  "swap_out_coin_to_pc R A amm e T t n out fee' w = Done (amm', w') \<Longrightarrow>
     swap_settles A amm e T Coin2PC (sw_market_coin_vault A) n out w w'"
  "swap_out_pc_to_coin R A amm e T t n out fee' w = Done (amm', w') \<Longrightarrow>
     swap_settles A amm e T PC2Coin (sw_asks A) n out w w'"
  by (auto simp: swap_in_coin_to_pc_def swap_in_pc_to_coin_def swap_out_coin_to_pc_def
      swap_out_pc_to_coin_def and_then_Done split: if_splits intro!: swap_settlesI)

lemma swap_settles_finish:
  assumes "swap_settles A amm e T d v n out w w1" and "swap_finish R A amm' w1 = Done w'"
    and "amm_nonce amm = amm_nonce amm0"
  shows "swap_settles A amm0 e T d v n out w w'"
  using assms by (auto simp: swap_settles_def swap_calls_def swap_finish_def and_then_Done amm_store_def)

lemma swap_in_settles:
  assumes "process_swap_base_in R pid accounts swap w = Done w'"
    and "amm_load w (accounts ! 1) = Done amm0"
  shows "\<exists>A T d status out. swap_parse_accounts accounts = Done A \<and> swap_check R pid A amm0 w = Done T \<and>
    swap_direction_of T = Done d \<and> status_from_u64 (amm_status amm0) = Done status \<and>
    swap_settles A amm0 (orderbook_permission status) T d (sw_market_coin_vault A) (amount_in swap) out w w'"
proof -
  obtain A T t d fee out amm status amm1 w1 where
    f: "swap_parse_accounts accounts = Done A" "swap_check R pid A amm0 w = Done T"
      "swap_direction_of T = Done d" "status_from_u64 (amm_status amm0) = Done status" and
    st: "swap_status R amm0 = Done amm" and
    leg: "(case d of
        Coin2PC \<Rightarrow> swap_in_coin_to_pc R A amm (orderbook_permission status) T t (amount_in swap) out fee w
      | PC2Coin \<Rightarrow> swap_in_pc_to_coin R A amm (orderbook_permission status) T t (amount_in swap) out fee w)
      = Done (amm1, w1)" and
    fin: "swap_finish R A amm1 w1 = Done w'"
    using assms
    by (auto simp: process_swap_base_in_def and_then_Done Let_def amm_load_mut_checked_Done swap_parse_amm)
  have "amm_nonce amm = amm_nonce amm0"
    using swap_status_fields [OF st] by auto
  moreover have "swap_settles A amm (orderbook_permission status) T d (sw_market_coin_vault A) (amount_in swap) out w w1"
    using leg leg_settles(1,2) by (cases d) auto
  ultimately show ?thesis
    using f swap_settles_finish [OF _ fin] by blast
qed

lemma swap_out_settles:
  assumes "process_swap_base_out R pid accounts swap w = Done w'"
    and "amm_load w (accounts ! 1) = Done amm0"
  shows "\<exists>A T d status n. swap_parse_accounts accounts = Done A \<and> swap_check R pid A amm0 w = Done T \<and>
    swap_direction_of T = Done d \<and> status_from_u64 (amm_status amm0) = Done status \<and>
    swap_settles A amm0 (orderbook_permission status) T d
      (case d of Coin2PC \<Rightarrow> sw_market_coin_vault A | PC2Coin \<Rightarrow> sw_asks A) n (amount_out swap) w w'"
proof -
  obtain A T t d fee n amm status amm1 w1 where
    f: "swap_parse_accounts accounts = Done A" "swap_check R pid A amm0 w = Done T"
      "swap_direction_of T = Done d" "status_from_u64 (amm_status amm0) = Done status" and
    st: "swap_status R amm0 = Done amm" and
    leg: "(case d of
        Coin2PC \<Rightarrow> swap_out_coin_to_pc R A amm (orderbook_permission status) T t n (amount_out swap) fee w
      | PC2Coin \<Rightarrow> swap_out_pc_to_coin R A amm (orderbook_permission status) T t n (amount_out swap) fee w)
      = Done (amm1, w1)" and
    fin: "swap_finish R A amm1 w1 = Done w'"
    using assms
    by (auto simp: process_swap_base_out_def and_then_Done Let_def amm_load_mut_checked_Done swap_parse_amm)
  have "amm_nonce amm = amm_nonce amm0"
    using swap_status_fields [OF st] by auto
  moreover have "swap_settles A amm (orderbook_permission status) T d
      (case d of Coin2PC \<Rightarrow> sw_market_coin_vault A | PC2Coin \<Rightarrow> sw_asks A) n (amount_out swap) w w1"
    using leg leg_settles(3,4) by (cases d) auto
  ultimately show ?thesis
    using f swap_settles_finish [OF _ fin] by blast
qed

text \<open>A pool with more coin on the market than in its vault, and a swap for more than the vault has.\<close>

definition sample_deep_amm :: amm_info where
  "sample_deep_amm = sample_amm\<lparr>amm_status := 1\<rparr>"

definition sample_deep_runtime :: runtime where
  "sample_deep_runtime = sample_runtime\<lparr>rt_open_orders_load := (\<lambda>_ _ _ _ _. Done \<lparr>oo_market = [106, 0, 0, 0],
     oo_owner = [50, 0, 0, 0], native_coin_free = 9000, native_coin_total = 9010, native_pc_free = 0,
     native_pc_total = 70, oo_free_slot_bits = -1, is_bid_bits = 0, oo_orders = replicate 128 0\<rparr>)\<rparr>"

definition sample_deep_world :: world where
  "sample_deep_world = \<lparr>ledger = sample_ledger(100 :=
     \<lparr>acc_owner = 7, acc_lamports = 1, acc_data = amm_bytes sample_deep_amm\<rparr>), cpis = []\<rparr>"

definition sample_deep_accounts :: "account_info list" where
  "sample_deep_accounts = map sample_info
     [1, 100, 50, 101, 104, 105, 112, 106, 120, 121, 122, 123, 124, 125, 108, 107, 110]"

lemma sample_deep_quote: "swap_out_quote sample_fees 1100 4095 10000 PC2Coin = Done (509, 2)"
  by code_simp

lemma sample_deep_simps:
  "rt_spl_token_id sample_deep_runtime = 1" "rt_create_program_address sample_deep_runtime s k = Some 50"
  "rt_clock sample_deep_runtime = Done \<lparr>clk_epoch = 700, clk_unix_timestamp = 1000\<rparr>"
  "unpack_token_account sample_deep_runtime w i t = unpack_token_account sample_runtime w i t"
  "invoke_signed sample_deep_runtime ix a sd w = invoke_signed sample_runtime ix a sd w"
  "amm_status sample_deep_amm = 1" "amm_fees sample_deep_amm = sample_fees"
  "amm_nonce sample_deep_amm = 254" "amm_state_data sample_deep_amm = sample_state_data"
  "amm_coin_vault sample_deep_amm = 104" "amm_pc_vault sample_deep_amm = 105"
  "amm_open_orders sample_deep_amm = 101" "amm_market sample_deep_amm = 106"
  "amm_market_program sample_deep_amm = 112"
  by (simp_all add: sample_deep_runtime_def unpack_token_account_def invoke_signed_def sample_deep_amm_def)

lemma sample_deep_load:
  "amm_load sample_deep_world (sample_info 100) = Done sample_deep_amm"
  "amm_load_mut_checked sample_deep_world (sample_info 100) 7 = Done sample_deep_amm"
proof -
  have "wf_amm sample_deep_amm" by (simp add: sample_deep_amm_def wf_amm_def sample_amm_def sample_state_data_def)
  then show l: "amm_load sample_deep_world (sample_info 100) = Done sample_deep_amm"
    by (intro amm_load_bytes) (simp_all add: acc_of_def sample_deep_world_def)
  then have "length (acc_data (ledger sample_deep_world 100)) = amm_SIZE"
    by (auto simp: amm_load_def acc_of_def split: if_splits)
  then show "amm_load_mut_checked sample_deep_world (sample_info 100) 7 = Done sample_deep_amm"
    using l by (simp add: amm_load_mut_checked_def acc_of_def sample_deep_simps) (simp add: sample_deep_world_def)
qed

lemma sample_deep_unpack:
  assumes "k \<noteq> 100"
  shows "unpack_token_account sample_runtime sample_deep_world (sample_info k) t =
    unpack_token_account sample_runtime sample_world (sample_info k) t"
  using assms by (simp add: unpack_token_account_def acc_of_def sample_deep_world_def sample_world_def)

lemma sample_deep_totals:
  assumes "A = \<lparr>sw_token_program = sample_info 1, sw_amm = sample_info 100, sw_authority = sample_info 50,
      sw_open_orders = sample_info 101, sw_coin_vault = sample_info 104, sw_pc_vault = sample_info 105,
      sw_market_program = sample_info 112, sw_market = sample_info 106, sw_bids = sample_info 120,
      sw_asks = sample_info 121, sw_event_queue = sample_info 122, sw_market_coin_vault = sample_info 123,
      sw_market_pc_vault = sample_info 124, sw_vault_signer = sample_info 125,
      sw_user_source = sample_info 108, sw_user_destination = sample_info 107, sw_user_owner = sample_info 110\<rparr>"
    and "ta_amount (tk_pc_vault T) = 4000" and "ta_amount (tk_coin_vault T) = 1000"
  shows "swap_calc_totals sample_deep_runtime A sample_deep_amm True T w =
    Done \<lparr>st_pc = 4095, st_coin = 10000, st_bids = [], st_asks = []\<rparr>"
proof -
  let ?oo = "\<lparr>oo_market = [106, 0, 0, 0], oo_owner = [50, 0, 0, 0], native_coin_free = 9000,
    native_coin_total = 9010, native_pc_free = 0, native_pc_total = 70, oo_free_slot_bits = -1,
    is_bid_bits = 0, oo_orders = replicate 128 0\<rparr>"
  obtain ms where l: "load_serum_market_order sample_deep_runtime w (sample_info 106) (sample_info 101)
      (sample_info 50) sample_deep_amm False = Done (ms, ?oo)"
    by (simp add: load_serum_market_order_def sample_deep_runtime_def)
       (simp add: sample_runtime_def sample_deep_simps)
  have o: "load_amm_orders sample_deep_runtime w ms ?oo (sample_info 120) (sample_info 121) = Done ([], [])"
    by (simp add: load_amm_orders_def sample_deep_runtime_def)
       (simp add: sample_runtime_def get_amm_orders_def count_zeros_0)
  have "apply_event [101, 0, 0, 0] \<lparr>ev_owner = [101, 0, 0, 0], ev_as_view = Done (Fill Ask True 10 25)\<rparr>
      (70, 9010) = Done (95, 9000)"
    by code_simp
  then have "calc_exact_vault_in_serum sample_deep_runtime w ?oo ms (sample_info 122) (sample_info 101) = Done (95, 9000)"
    by (simp add: calc_exact_vault_in_serum_def sample_deep_runtime_def) (simp add: sample_runtime_def)
  then have "calc_total_without_take_pnl sample_deep_runtime w 4000 1000 ?oo sample_deep_amm ms (sample_info 122)
      (sample_info 101) = Done (4095, 10000)"
    by (simp add: calc_total_without_take_pnl_def checked_add_def checked_sub_def sample_deep_simps sample_state_data_def)
  then show ?thesis
    using l o assms by (simp add: swap_calc_totals_def sample_deep_simps)
qed

lemma sample_deep_run:
  "\<exists>w'. process_swap_base_out sample_deep_runtime 7 sample_deep_accounts
     \<lparr>max_amount_in = 600, amount_out = 1100\<rparr> sample_deep_world = Done w'"
  by (simp add: process_swap_base_out_def and_then_Done swap_parse_accounts_def sample_deep_accounts_def
      sample_deep_load sample_deep_simps status_from_u64_def swap_check_def authority_id_def sample_deep_unpack
      swap_status_def swap_direction_of_def sample_deep_totals sample_deep_quote swap_out_pc_to_coin_def
      swap_free_funds_def invoke_dex_settle_funds_def swap_transfers_def token_transfer_def
      token_transfer_with_authority_def account_pc_to_coin_def checked_add_def sample_state_data_def swap_finish_def)

end
