(* ===== verification/Admin.thy ===== *)
theory Admin
  imports Market
begin

text \<open>
  The administrator's instructions of \<open>program/src/processor.rs\<close>: \<open>process_set_params\<close>,
  \<open>process_admin_cancel_orders\<close>, \<open>process_create_config\<close>, \<open>process_update_config\<close> and
  \<open>process_withdraw_srm\<close>, with \<open>do_cancel_amm_orders\<close>, which they share with the migration.
\<close>

section \<open>Cancelling the pool's orders\<close>

text \<open>The signer seed is \<open>AUTHORITY_AMM\<close> in every call, so it is not a parameter.\<close>

definition do_cancel_amm_orders ::
  "runtime \<Rightarrow> amm_info \<Rightarrow> account_info \<Rightarrow> account_info \<Rightarrow> account_info \<Rightarrow> account_info \<Rightarrow>
   account_info \<Rightarrow> account_info \<Rightarrow> account_info \<Rightarrow> world \<Rightarrow> world outcome" where
  "do_cancel_amm_orders R amm authority open_orders_info market_program market bids_info asks_info
     event_queue w =
     and_then (load_serum_market_order R w market open_orders_info authority amm False) (\<lambda>(ms, oo).
     and_then (load_amm_orders R w ms oo bids_info asks_info) (\<lambda>(bids, asks).
     and_then (both_side_batches bids asks) (\<lambda>batches.
       cancel_batches R market_program market bids_info asks_info open_orders_info authority
         event_queue (as_u8 (amm_nonce amm)) batches w)))"

lemma do_cancel_amm_orders_calls:
  "do_cancel_amm_orders R amm auth oo mp m b a q w = Done w' \<Longrightarrow>
     \<exists>pre. cpis w' = cpis w @ pre \<and> list_all market_call pre"
  by (auto simp: do_cancel_amm_orders_def and_then_Done dest!: cancel_batches_market_calls)

text \<open>The sample pool has no order on the market.\<close>

lemma sample_no_orders: "get_amm_orders
    (oo\<lparr>oo_free_slot_bits := - 1\<rparr>) bids asks = Done ([], [])"
  by (simp add: get_amm_orders_def count_zeros_def filter_empty_conv)

lemma sample_market_order:
  "load_serum_market_order sample_runtime w (sample_info 106) (sample_info 101) (sample_info 50)
     sample_amm False =
   Done (\<lparr>coin_mint = [201, 0, 0, 0], pc_mint = [202, 0, 0, 0], ms_coin_lot_size = 1, ms_pc_lot_size = 1\<rparr>,
     \<lparr>oo_market = [106, 0, 0, 0], oo_owner = [50, 0, 0, 0], native_coin_free = 0, native_coin_total = 40,
       native_pc_free = 0, native_pc_total = 70, oo_free_slot_bits = - 1, is_bid_bits = 0,
       oo_orders = replicate 128 0\<rparr>)"
  by (simp add: load_serum_market_order_def) (simp add: sample_runtime_def)

lemma sample_do_cancel:
  "do_cancel_amm_orders sample_runtime sample_amm (sample_info 50) (sample_info 101) mp
     (sample_info 106) bids asks q w = Done w"
proof -
  have "load_amm_orders sample_runtime w ms
      \<lparr>oo_market = [106, 0, 0, 0], oo_owner = [50, 0, 0, 0], native_coin_free = 0, native_coin_total = 40,
       native_pc_free = 0, native_pc_total = 70, oo_free_slot_bits = - 1, is_bid_bits = 0,
       oo_orders = replicate 128 0\<rparr> bids asks = Done ([], [])" for ms
    using sample_no_orders [of "\<lparr>oo_market = [106, 0, 0, 0], oo_owner = [50, 0, 0, 0], native_coin_free = 0,
       native_coin_total = 40, native_pc_free = 0, native_pc_total = 70, oo_free_slot_bits = - 1,
       is_bid_bits = 0, oo_orders = replicate 128 0\<rparr>"]
    by (simp add: load_amm_orders_def) (simp add: sample_runtime_def)
  moreover have "both_side_batches [] [] = Done []" by code_simp
  ultimately show ?thesis
    by (simp add: do_cancel_amm_orders_def sample_market_order cancel_batches_def)
qed

section \<open>Parameters of a pool\<close>

record set_params_accounts =
  sp_token_program :: account_info
  sp_amm :: account_info
  sp_authority :: account_info
  sp_open_orders :: account_info
  sp_target_orders :: account_info
  sp_coin_vault :: account_info
  sp_pc_vault :: account_info
  sp_market_program :: account_info
  sp_market :: account_info
  sp_market_coin_vault :: account_info
  sp_market_pc_vault :: account_info
  sp_vault_signer :: account_info
  sp_event_queue :: account_info
  sp_bids :: account_info
  sp_asks :: account_info
  sp_owner :: account_info

definition set_params_parse_accounts :: "account_info list \<Rightarrow> set_params_accounts outcome" where
  "set_params_parse_accounts accounts =
     and_then (need_accounts 16 accounts) (\<lambda>_.
       Done \<lparr>sp_token_program = accounts ! 0,
         sp_amm = accounts ! 1,
         sp_authority = accounts ! 2,
         sp_open_orders = accounts ! 3,
         sp_target_orders = accounts ! 4,
         sp_coin_vault = accounts ! 5,
         sp_pc_vault = accounts ! 6,
         sp_market_program = accounts ! 7,
         sp_market = accounts ! 8,
         sp_market_coin_vault = accounts ! 9,
         sp_market_pc_vault = accounts ! 10,
         sp_vault_signer = accounts ! 11,
         sp_event_queue = accounts ! 12,
         sp_bids = accounts ! 13,
         sp_asks = accounts ! 14,
         sp_owner = accounts ! 15\<rparr>)"

definition set_params_check ::
  "runtime \<Rightarrow> pubkey \<Rightarrow> set_params_accounts \<Rightarrow> amm_info \<Rightarrow> world \<Rightarrow> unit outcome" where
  "set_params_check R program_id A amm w =
     and_then (authority_id R program_id AUTHORITY_AMM (as_u8 (amm_nonce amm))) (\<lambda>authority.
       if ai_key (sp_authority A) \<noteq> authority then err InvalidProgramAddress
       else if acc_owner (acc_of w (sp_amm A)) \<noteq> program_id then err InvalidOwner
       else if \<not> is_signer (sp_owner A) \<or> ai_key (sp_owner A) \<noteq> amm_owner_id
       then err InvalidSignAccount
       else if ai_key (sp_market_program A) \<noteq> amm_market_program amm then err InvalidMarketProgram
       else if ai_key (sp_market A) \<noteq> amm_market amm then err InvalidMarket
       else if ai_key (sp_open_orders A) \<noteq> amm_open_orders amm then err InvalidOpenOrders
       else if amm_coin_vault amm \<noteq> ai_key (sp_coin_vault A) then err InvalidCoinVault
       else if amm_pc_vault amm \<noteq> ai_key (sp_pc_vault A) then err InvalidPCVault
       else if amm_target_orders amm \<noteq> ai_key (sp_target_orders A) then err InvalidTargetOrders
       else Done ())"

text \<open>Cancel every order, then settle; no referrer.\<close>

definition set_params_clear_market ::
  "runtime \<Rightarrow> set_params_accounts \<Rightarrow> amm_info \<Rightarrow> world \<Rightarrow> world outcome" where
  "set_params_clear_market R A amm w =
     and_then (do_cancel_amm_orders R amm (sp_authority A) (sp_open_orders A) (sp_market_program A)
       (sp_market A) (sp_bids A) (sp_asks A) (sp_event_queue A) w) (\<lambda>w1.
       invoke_dex_settle_funds R (sp_market_program A) (sp_market A) (sp_open_orders A)
         (sp_authority A) (sp_market_coin_vault A) (sp_market_pc_vault A) (sp_coin_vault A)
         (sp_pc_vault A) (sp_vault_signer A) (sp_token_program A) None
         AUTHORITY_AMM (as_u8 (amm_nonce amm)) w1)"

text \<open>The guard of a status change: nothing of the pool may be left on the market.\<close>

definition market_is_clear ::
  "runtime \<Rightarrow> set_params_accounts \<Rightarrow> amm_info \<Rightarrow> world \<Rightarrow> unit outcome" where
  "market_is_clear R A amm w =
     and_then (load_serum_market_order R w (sp_market A) (sp_open_orders A) (sp_authority A) amm False)
       (\<lambda>(ms, oo).
     and_then (unwrap_result (calc_exact_vault_in_serum R w oo ms (sp_event_queue A) (sp_open_orders A)))
       (\<lambda>(shared_pc, shared_coin).
       if shared_pc \<noteq> 0 \<or> shared_coin \<noteq> 0 then err InvalidInput else Done ()))"

text \<open>
  The \<open>match\<close> on the parameter: the pool, \<open>set_valid\<close>, and the world, which changes only when
  the target orders are written. \<open>rest\<close> is what the account iterator still holds.
\<close>

definition with_value :: "set_params_instruction \<Rightarrow> (u64 \<Rightarrow> 'a outcome) \<Rightarrow> 'a outcome" where
  "with_value sp f = and_then (ok_or InvalidInput (sp_value sp)) f"

primrec set_param ::
  "amm_params \<Rightarrow> runtime \<Rightarrow> pubkey \<Rightarrow> set_params_accounts \<Rightarrow> account_info list \<Rightarrow> amm_info \<Rightarrow>
   set_params_instruction \<Rightarrow> world \<Rightarrow> (amm_info \<times> bool \<times> world) outcome" where
  "set_param ParamStatus R program_id A rest amm sp w =
     and_then (market_is_clear R A amm w) (\<lambda>_. with_value sp (\<lambda>v.
       if valid_status v then Done (amm\<lparr>amm_status := v\<rparr>, True, w) else Done (amm, False, w)))"
| "set_param ParamState R program_id A rest amm sp w =
     with_value sp (\<lambda>v.
       if valid_state v then Done (amm\<lparr>amm_state := v\<rparr>, True, w) else Done (amm, False, w))"
| "set_param OrderNum R program_id A rest amm sp w =
     with_value sp (\<lambda>v.
       if v > of_nat MAX_ORDER_LIMIT then err InvalidInput
       else Done (amm\<lparr>amm_order_num := v\<rparr>, True, w))"
| "set_param Depth R program_id A rest amm sp w =
     with_value sp (\<lambda>v.
       if v > 0 \<and> v < 100 then Done (amm\<lparr>amm_depth := v\<rparr>, True, w) else Done (amm, False, w))"
| "set_param AmountWave R program_id A rest amm sp w =
     with_value sp (\<lambda>v. Done (amm\<lparr>amount_wave := v\<rparr>, True, w))"
| "set_param MinPriceMultiplier R program_id A rest amm sp w =
     with_value sp (\<lambda>v.
       if v < max_price_multiplier amm then Done (amm\<lparr>min_price_multiplier := v\<rparr>, True, w)
       else Done (amm, False, w))"
| "set_param MaxPriceMultiplier R program_id A rest amm sp w =
     with_value sp (\<lambda>v.
       if v > max_price_multiplier amm then Done (amm\<lparr>max_price_multiplier := v\<rparr>, True, w)
       else Done (amm, False, w))"
| "set_param VolMaxCutRatio R program_id A rest amm sp w =
     with_value sp (\<lambda>v.
       if v \<le> TEN_THOUSAND then Done (amm\<lparr>vol_max_cut_ratio := v\<rparr>, True, w)
       else Done (amm, False, w))"
| "set_param Seperate R program_id A rest amm sp w =
     with_value sp (\<lambda>v.
       if v \<le> TEN_THOUSAND
       then Done (amm\<lparr>amm_fees := (amm_fees amm)\<lparr>min_separate_numerator := v\<rparr>\<rparr>, True, w)
       else Done (amm, False, w))"
| "set_param ParamFees R program_id A rest amm sp w =
     and_then (ok_or InvalidInput (sp_fees sp)) (\<lambda>f.
     and_then (fees_validate f) (\<lambda>_. Done (amm\<lparr>amm_fees := f\<rparr>, True, w)))"
| "set_param AmmOwner R program_id A rest amm sp w =
     and_then (ok_or InvalidInput (sp_new_pubkey sp)) (\<lambda>k. Done (amm\<lparr>amm_owner := k\<rparr>, True, w))"
| "set_param SetOpenTime R program_id A rest amm sp w =
     with_value sp (\<lambda>v.
       Done (amm\<lparr>amm_state_data := (amm_state_data amm)\<lparr>pool_open_time := v\<rparr>\<rparr>, True, w))"
| "set_param LastOrderDistance R program_id A rest amm sp w =
     and_then (target_orders_load_mut_checked R w (sp_target_orders A) program_id
       (ai_key (sp_amm A))) (\<lambda>target.
     and_then (ok_or InvalidInput (sp_last_order_distance sp)) (\<lambda>distance.
       Done (amm, True, target_orders_store (sp_target_orders A)
         (target\<lparr>last_order_numerator := lod_numerator distance,
            last_order_denominator := lod_denominator distance\<rparr>) w)))"
| "set_param InitOrderDepth R program_id A rest amm sp w =
     Done (amm\<lparr>amm_order_num := 7, amm_depth := 3\<rparr>, True, w)"
| "set_param SetSwitchTime R program_id A rest amm sp w =
     with_value sp (\<lambda>v.
       Done (amm\<lparr>amm_state_data := (amm_state_data amm)\<lparr>orderbook_to_init_time := v\<rparr>\<rparr>, True, w))"
| "set_param ClearOpenTime R program_id A rest amm sp w =
     Done (amm\<lparr>amm_state_data := (amm_state_data amm)\<lparr>pool_open_time := 0, orderbook_to_init_time := 0\<rparr>\<rparr>, True, w)"
| "set_param UpdateOpenOrder R program_id A rest amm sp w =
     and_then (need_accounts 1 rest) (\<lambda>_.
     let new_open_orders = rest ! 0;
         amm1 = amm\<lparr>amm_open_orders := ai_key new_open_orders\<rparr> in
     and_then (load_serum_market_order R w (sp_market A) new_open_orders (sp_authority A) amm1 False)
       (\<lambda>_. Done (amm1, True, w)))"
| "set_param MinSize R program_id A rest amm sp w =
     err InvalidInput"

definition apply_param ::
  "runtime \<Rightarrow> pubkey \<Rightarrow> set_params_accounts \<Rightarrow> account_info list \<Rightarrow> amm_info \<Rightarrow>
   set_params_instruction \<Rightarrow> world \<Rightarrow> (amm_info \<times> bool \<times> world) outcome" where
  "apply_param R program_id A rest amm sp w =
     and_then (params_from_u64 (widen (sp_param sp))) (\<lambda>param.
       set_param param R program_id A rest amm sp w)"

definition process_set_params ::
  "runtime \<Rightarrow> pubkey \<Rightarrow> account_info list \<Rightarrow> set_params_instruction \<Rightarrow> world \<Rightarrow> world outcome" where
  "process_set_params R program_id accounts sp w =
     and_then (set_params_parse_accounts accounts) (\<lambda>A.
     if ai_key (sp_token_program A) \<noteq> rt_spl_token_id R then err InvalidSplTokenProgram
     else
     and_then (amm_load_mut_checked w (sp_amm A) program_id) (\<lambda>amm0.
     and_then (set_params_check R program_id A amm0 w) (\<lambda>_.
     and_then (set_params_clear_market R A amm0 w) (\<lambda>w1.
     and_then (apply_param R program_id A (drop 16 accounts) amm0 sp w1) (\<lambda>(amm, set_valid, w2).
     if set_valid then
       and_then (rt_clock R) (\<lambda>clock.
         Done (amm_store (sp_amm A)
           (amm\<lparr>amm_state := state_into_u64 CancelAllOrdersState,
              amm_reset_flag := reset_flag_into_u64 ResetYes,
              recent_epoch := clk_epoch clock\<rparr>) w2))
     else err InvalidParamsSet)))))"

text \<open>What no parameter changes.\<close>

definition same_pool :: "amm_info \<Rightarrow> amm_info \<Rightarrow> bool" where
  "same_pool a b \<longleftrightarrow>
     amm_nonce b = amm_nonce a \<and> coin_decimals b = coin_decimals a \<and> pc_decimals b = pc_decimals a \<and>
     sys_decimal_value b = sys_decimal_value a \<and> min_size b = min_size a \<and>
     amm_coin_lot_size b = amm_coin_lot_size a \<and> amm_pc_lot_size b = amm_pc_lot_size a \<and>
     amm_coin_vault b = amm_coin_vault a \<and> amm_pc_vault b = amm_pc_vault a \<and>
     coin_vault_mint b = coin_vault_mint a \<and> pc_vault_mint b = pc_vault_mint a \<and>
     amm_lp_mint b = amm_lp_mint a \<and> amm_market b = amm_market a \<and>
     amm_market_program b = amm_market_program a \<and> amm_target_orders b = amm_target_orders a \<and>
     lp_amount b = lp_amount a \<and> amm_client_order_id b = amm_client_order_id a \<and>
     need_take_pnl_pc (amm_state_data b) = need_take_pnl_pc (amm_state_data a) \<and>
     need_take_pnl_coin (amm_state_data b) = need_take_pnl_coin (amm_state_data a)"

lemma with_value_Done: "with_value sp f = Done x \<longleftrightarrow> (\<exists>v. sp_value sp = Some v \<and> f v = Done x)"
  by (auto simp: with_value_def and_then_Done)

lemmas set_param_simps = set_param.simps with_value_Done and_then_Done Let_def

lemma apply_param_Done:
  assumes "apply_param R pid A rest amm sp w = Done (amm', v, w')"
  shows "same_pool amm amm' \<and> (wf_amm amm \<longrightarrow> wf_amm amm') \<and> cpis w' = cpis w"
proof -
  obtain p where "set_param p R pid A rest amm sp w = Done (amm', v, w')"
    using assms by (auto simp: apply_param_def and_then_Done)
  then show ?thesis
    by (cases p) (auto simp: set_param_simps same_pool_def wf_amm_def target_orders_store_def
      split: if_splits)
qed

lemma apply_param_ok:
  assumes "apply_param R pid A rest amm sp w = Done (amm', v, w')" and "params_ok amm"
  shows "params_ok amm'"
proof -
  obtain p where "set_param p R pid A rest amm sp w = Done (amm', v, w')"
    using assms(1) by (auto simp: apply_param_def and_then_Done)
  then show ?thesis
    using assms(2)
    by (cases p) (auto simp: set_param_simps params_ok_def fees_validate_Done [folded word_less_def]
      MAX_ORDER_LIMIT_def not_less word_gt_0 split: if_splits)
qed

text \<open>A status changes only once nothing of the pool is left on the market.\<close>

lemma apply_param_status:
  assumes "apply_param R pid A rest amm sp w = Done (amm', v, w')"
    and "amm_status amm' \<noteq> amm_status amm"
  shows "market_is_clear R A amm w = Done () \<and> valid_status (amm_status amm')"
proof -
  obtain p where "set_param p R pid A rest amm sp w = Done (amm', v, w')"
    using assms(1) by (auto simp: apply_param_def and_then_Done)
  then show ?thesis
    using assms(2) by (cases p) (auto simp: set_param_simps split: if_splits)
qed

lemma set_params_clear_market_calls:
  "set_params_clear_market R A amm w = Done w' \<Longrightarrow>
     \<exists>pre. cpis w' = cpis w @ pre \<and> list_all market_call pre"
  by (fastforce simp: set_params_clear_market_def and_then_Done
      dest!: do_cancel_amm_orders_calls settle_funds_market_call)

lemma set_params_parse_Done:
  "set_params_parse_accounts accounts = Done A \<Longrightarrow>
     16 \<le> length accounts \<and> sp_amm A = accounts ! 1 \<and> sp_owner A = accounts ! 15"
  by (auto simp: set_params_parse_accounts_def and_then_Done need_accounts_def)

lemma set_params_check_owner:
  "set_params_check R pid A amm w = Done () \<Longrightarrow> is_signer (sp_owner A) \<and> ai_key (sp_owner A) = amm_owner_id"
  by (auto simp: set_params_check_def and_then_Done)

lemma process_set_params_effects:
  assumes "process_set_params R pid accounts sp w = Done w'"
    and "amm_load w (accounts ! 1) = Done amm"
  shows "\<exists>A w1 amm1 w2 pre amm'. set_params_parse_accounts accounts = Done A \<and>
    is_signer (accounts ! 15) \<and> ai_key (accounts ! 15) = amm_owner_id \<and> 15 < length accounts \<and>
    set_params_clear_market R A amm w = Done w1 \<and>
    apply_param R pid A (drop 16 accounts) amm sp w1 = Done (amm1, True, w2) \<and>
    cpis w' = cpis w @ pre \<and> list_all market_call pre \<and>
    amm_load w' (accounts ! 1) = Done amm' \<and> same_pool amm amm' \<and>
    amm_status amm' = amm_status amm1 \<and> amm_state amm' = state_into_u64 CancelAllOrdersState \<and>
    amm_reset_flag amm' = reset_flag_into_u64 ResetYes \<and> (params_ok amm \<longrightarrow> params_ok amm')"
proof -
  obtain A amm0 w1 amm1 w2 clock where
    A: "set_params_parse_accounts accounts = Done A" and
    l0: "amm_load_mut_checked w (sp_amm A) pid = Done amm0" and
    c: "set_params_check R pid A amm0 w = Done ()" and
    m: "set_params_clear_market R A amm0 w = Done w1" and
    p: "apply_param R pid A (drop 16 accounts) amm0 sp w1 = Done (amm1, True, w2)" and
    w': "w' = amm_store (sp_amm A) (amm1\<lparr>amm_state := state_into_u64 CancelAllOrdersState,
      amm_reset_flag := reset_flag_into_u64 ResetYes, recent_epoch := clk_epoch (clock :: clock)\<rparr>) w2"
    using assms(1) by (auto simp: process_set_params_def and_then_Done split: if_splits)
  note parse = set_params_parse_Done [OF A]
  have same: "amm0 = amm"
    using l0 assms(2) parse by (simp add: amm_load_mut_checked_Done)
  note p = p [unfolded same]
  let ?amm' = "amm1\<lparr>amm_state := state_into_u64 CancelAllOrdersState,
    amm_reset_flag := reset_flag_into_u64 ResetYes, recent_epoch := clk_epoch clock\<rparr>"
  have "wf_amm ?amm'"
    using apply_param_Done [OF p] amm_load_wf [OF assms(2)] by (simp add: wf_amm_def)
  then have "amm_load w' (accounts ! 1) = Done ?amm'"
    using parse by (simp add: w' amm_load_store)
  moreover have "same_pool amm ?amm'"
    using apply_param_Done [OF p] by (simp add: same_pool_def)
  moreover have "params_ok ?amm'" if "params_ok amm"
    using apply_param_ok [OF p that] by (simp add: params_ok_def)
  moreover obtain pre where "cpis w' = cpis w @ pre" "list_all market_call pre"
    using set_params_clear_market_calls [OF m] apply_param_Done [OF p]
    by (auto simp: w' amm_store_def)
  ultimately show ?thesis
    using A m [unfolded same] p parse set_params_check_owner [OF c]
    by (intro exI [of _ A] exI [of _ w1] exI [of _ amm1] exI [of _ w2] exI [of _ pre]
        exI [of _ ?amm']) auto
qed

text \<open>
  C32: a parameter is set only under the administrator's signature. The instruction makes no
  call but the cancellations and the settlement of the pool's orders, sends the pool to the
  state that cancels all orders with the reset flag raised, leaves its vaults, mints,
  shares, market, decimals and owed profit alone, and keeps the parameters in their ranges.
  A changed status is a valid one, and nothing of the pool was left on the market.
\<close>

theorem process_set_params_correct:
  assumes "process_set_params R pid accounts sp w = Done w'"
    and "amm_load w (accounts ! 1) = Done amm"
  shows "\<exists>A w1 pre amm'. set_params_parse_accounts accounts = Done A \<and>
    is_signer (accounts ! 15) \<and> ai_key (accounts ! 15) = amm_owner_id \<and>
    set_params_clear_market R A amm w = Done w1 \<and>
    cpis w' = cpis w @ pre \<and> list_all market_call pre \<and>
    amm_load w' (accounts ! 1) = Done amm' \<and> same_pool amm amm' \<and>
    amm_state amm' = state_into_u64 CancelAllOrdersState \<and>
    amm_reset_flag amm' = reset_flag_into_u64 ResetYes \<and> (params_ok amm \<longrightarrow> params_ok amm') \<and>
    (amm_status amm' \<noteq> amm_status amm \<longrightarrow>
      valid_status (amm_status amm') \<and> market_is_clear R A amm w1 = Done ())"
  using process_set_params_effects [OF assms] apply_param_status by metis

definition sample_set_params_accounts :: "account_info list" where
  "sample_set_params_accounts = map sample_info
     [1, 100, 50, 101, 102, 104, 105, 112, 106, 122, 123, 124, 125, 120, 121, amm_owner_id]"

definition sample_set_depth :: set_params_instruction where
  "sample_set_depth = \<lparr>sp_param = 3, sp_value = Some 5, sp_new_pubkey = None, sp_fees = None,
     sp_last_order_distance = None\<rparr>"

lemma sample_set_params_run:
  "\<exists>w'. process_set_params sample_runtime 7 sample_set_params_accounts sample_set_depth sample_world = Done w'"
proof -
  have "params_from_u64 (widen (3 :: u8)) = Done Depth" by code_simp
  then show ?thesis
    by (simp add: process_set_params_def and_then_Done set_params_parse_accounts_def need_accounts_def
        sample_set_params_accounts_def set_params_check_def set_params_clear_market_def sample_do_cancel
        authority_id_def invoke_dex_settle_funds_def apply_param_def with_value_Done sample_set_depth_def)
qed

theorem process_set_params_correct_witness:
  "\<exists>w' amm'. process_set_params sample_runtime 7 sample_set_params_accounts sample_set_depth sample_world = Done w' \<and>
     amm_load w' (sample_info 100) = Done amm' \<and> lp_amount amm' = 2000 \<and>
     amm_state amm' = state_into_u64 CancelAllOrdersState"
proof -
  obtain w' where run: "process_set_params sample_runtime 7 sample_set_params_accounts sample_set_depth
      sample_world = Done w'"
    using sample_set_params_run by blast
  have "sample_set_params_accounts ! 1 = sample_info 100"
    by (simp add: sample_set_params_accounts_def)
  then show ?thesis
    using process_set_params_correct [OF run, of sample_amm] run by (auto simp: same_pool_def)
qed

section \<open>Cancelling orders by the administrator or the config's owner\<close>

record admin_cancel_accounts =
  ac_token_program :: account_info
  ac_amm :: account_info
  ac_authority :: account_info
  ac_open_orders :: account_info
  ac_target_orders :: account_info
  ac_coin_vault :: account_info
  ac_pc_vault :: account_info
  ac_owner :: account_info
  ac_config :: account_info
  ac_market_program :: account_info
  ac_market :: account_info
  ac_market_coin_vault :: account_info
  ac_market_pc_vault :: account_info
  ac_vault_signer :: account_info
  ac_event_queue :: account_info
  ac_bids :: account_info
  ac_asks :: account_info
  ac_srm_token :: "account_info option"
  ac_referrer :: "account_info option"

definition admin_cancel_parse_accounts :: "account_info list \<Rightarrow> admin_cancel_accounts outcome" where
  "admin_cancel_parse_accounts accounts =
     (if length accounts \<noteq> 17 \<and> length accounts \<noteq> 17 + 1 \<and> length accounts \<noteq> 17 + 2
      then err WrongAccountsNumber
      else Done \<lparr>ac_token_program = accounts ! 0,
        ac_amm = accounts ! 1,
        ac_authority = accounts ! 2,
        ac_open_orders = accounts ! 3,
        ac_target_orders = accounts ! 4,
        ac_coin_vault = accounts ! 5,
        ac_pc_vault = accounts ! 6,
        ac_owner = accounts ! 7,
        ac_config = accounts ! 8,
        ac_market_program = accounts ! 9,
        ac_market = accounts ! 10,
        ac_market_coin_vault = accounts ! 11,
        ac_market_pc_vault = accounts ! 12,
        ac_vault_signer = accounts ! 13,
        ac_event_queue = accounts ! 14,
        ac_bids = accounts ! 15,
        ac_asks = accounts ! 16,
        ac_srm_token = (if length accounts > 17 then Some (accounts ! 17) else None),
        ac_referrer = (if length accounts = 17 + 2 then Some (accounts ! 18) else None)\<rparr>)"

definition check_srm_token ::
  "runtime \<Rightarrow> account_info \<Rightarrow> account_info option \<Rightarrow> world \<Rightarrow> unit outcome" where
  "check_srm_token R authority srm w =
     (case srm of
        None \<Rightarrow> Done ()
      | Some info \<Rightarrow>
          and_then (unpack_token_account R w info (rt_spl_token_id R)) (\<lambda>token.
            if ai_key authority \<noteq> ta_owner token then err InvalidOwner
            else if ta_mint token \<noteq> srm_token_id \<and> ta_mint token \<noteq> msrm_token_id
            then err InvalidSrmMint else Done ()))"

definition check_referrer_pc ::
  "runtime \<Rightarrow> amm_info \<Rightarrow> account_info option \<Rightarrow> world \<Rightarrow> unit outcome" where
  "check_referrer_pc R amm referrer w =
     (case referrer of
        None \<Rightarrow> Done ()
      | Some info \<Rightarrow>
          and_then (unpack_token_account R w info (rt_spl_token_id R)) (\<lambda>token.
            if ta_owner token \<noteq> referrer_pc_wallet_id then err InvalidOwner
            else if ta_mint token \<noteq> pc_vault_mint amm then err InvalidReferPCMint else Done ()))"

definition admin_cancel_check ::
  "runtime \<Rightarrow> pubkey \<Rightarrow> admin_cancel_accounts \<Rightarrow> amm_info \<Rightarrow> world \<Rightarrow> unit outcome" where
  "admin_cancel_check R program_id A amm w =
     and_then (authority_id R program_id AUTHORITY_AMM (as_u8 (amm_nonce amm))) (\<lambda>authority.
     if ai_key (ac_authority A) \<noteq> authority then err InvalidProgramAddress
     else if acc_owner (acc_of w (ac_amm A)) \<noteq> program_id then err InvalidOwner
     else if fst (rt_find_program_address R [AMM_CONFIG_SEED] program_id) \<noteq> ai_key (ac_config A)
     then err InvalidConfigAccount
     else
     and_then (config_load_checked w (ac_config A) program_id) (\<lambda>config.
     if \<not> is_signer (ac_owner A) \<or>
        ai_key (ac_owner A) \<noteq> amm_owner_id \<and> ai_key (ac_owner A) \<noteq> cancel_owner config
     then err InvalidSignAccount
     else if amm_status amm = status_into_u64 Uninitialized then err InvalidStatus
     else if ai_key (ac_market_program A) \<noteq> amm_market_program amm then err InvalidMarketProgram
     else if ai_key (ac_market A) \<noteq> amm_market amm then err InvalidMarket
     else if ai_key (ac_open_orders A) \<noteq> amm_open_orders amm then err InvalidOpenOrders
     else if amm_coin_vault amm \<noteq> ai_key (ac_coin_vault A) then err InvalidCoinVault
     else if amm_pc_vault amm \<noteq> ai_key (ac_pc_vault A) then err InvalidPCVault
     else if amm_target_orders amm \<noteq> ai_key (ac_target_orders A) then err InvalidTargetOrders
     else
     and_then (check_srm_token R (ac_authority A) (ac_srm_token A) w) (\<lambda>_.
       check_referrer_pc R amm (ac_referrer A) w)))"

definition process_admin_cancel_orders ::
  "runtime \<Rightarrow> pubkey \<Rightarrow> account_info list \<Rightarrow> admin_cancel_orders_instruction \<Rightarrow> world \<Rightarrow> world outcome"
  where
  "process_admin_cancel_orders R program_id accounts cancel w =
     and_then (admin_cancel_parse_accounts accounts) (\<lambda>A.
     if ai_key (ac_token_program A) \<noteq> rt_spl_token_id R then err InvalidSplTokenProgram
     else
     and_then (amm_load_checked w (ac_amm A) program_id) (\<lambda>amm.
     and_then (admin_cancel_check R program_id A amm w) (\<lambda>_.
     and_then (do_cancel_amm_orders R amm (ac_authority A) (ac_open_orders A) (ac_market_program A)
       (ac_market A) (ac_bids A) (ac_asks A) (ac_event_queue A) w) (\<lambda>w1.
     and_then (load_serum_market_order R w1 (ac_market A) (ac_open_orders A) (ac_authority A) amm True)
       (\<lambda>(ms, oo).
     if native_coin_free oo = 0 \<and> native_pc_free oo = 0 then Done w1
     else
       invoke_dex_settle_funds R (ac_market_program A) (ac_market A) (ac_open_orders A)
         (ac_authority A) (ac_market_coin_vault A) (ac_market_pc_vault A) (ac_coin_vault A)
         (ac_pc_vault A) (ac_vault_signer A) (ac_token_program A) (ac_referrer A)
         AUTHORITY_AMM (as_u8 (amm_nonce amm)) w1)))))"

section \<open>The program's config\<close>

definition process_create_config ::
  "runtime \<Rightarrow> pubkey \<Rightarrow> account_info list \<Rightarrow> world \<Rightarrow> world outcome" where
  "process_create_config R program_id accounts w =
     and_then (need_accounts 5 accounts) (\<lambda>_.
     let admin = accounts ! 0; config_info = accounts ! 1; pnl_owner_info = accounts ! 2;
         system_program = accounts ! 3; rent_sysvar = accounts ! 4 in
     if \<not> is_signer admin \<or> amm_owner_id \<noteq> ai_key admin then err InvalidSignAccount
     else if ai_key system_program \<noteq> rt_system_program_id R then err InvalidSysProgramAddress
     else
       let (pda, bump_seed) = rt_find_program_address R [AMM_CONFIG_SEED] program_id in
       if pda \<noteq> ai_key config_info then err InvalidConfigAccount
       else if acc_owner (acc_of w config_info) \<noteq> ai_key system_program
       then err RepeatCreateConfigAccount
       else
       and_then (rt_rent_minimum_balance R (ai_key rent_sysvar) (acc_of w rent_sysvar) config_SIZE)
         (\<lambda>minimum_balance.
       let seeds = [[AMM_CONFIG_SEED, [bump_seed]]];
           required_lamports =
             saturating_sub (max minimum_balance 1) (acc_lamports (acc_of w config_info)) in
       and_then
         (if required_lamports > 0
          then invoke_signed R (SysTransfer (ai_key admin) (ai_key config_info) required_lamports)
            [admin, config_info, system_program] [] w
          else Done w) (\<lambda>w1.
       and_then (invoke_signed R (SysAllocate (ai_key config_info) (of_nat config_SIZE))
         [config_info, system_program] seeds w1) (\<lambda>w2.
       and_then (invoke_signed R (SysAssign (ai_key config_info) program_id)
         [config_info, system_program] seeds w2) (\<lambda>w3.
       and_then (config_load_mut_checked w3 config_info program_id) (\<lambda>config.
         Done (config_store config_info
           (config\<lparr>pnl_owner := ai_key pnl_owner_info, create_pool_fee := 0\<rparr>) w3)))))))"

definition process_update_config ::
  "runtime \<Rightarrow> pubkey \<Rightarrow> account_info list \<Rightarrow> config_args \<Rightarrow> world \<Rightarrow> world outcome" where
  "process_update_config R program_id accounts args w =
     and_then (need_accounts 2 accounts) (\<lambda>_.
     let admin = accounts ! 0; config_info = accounts ! 1 in
     if \<not> is_signer admin \<or> amm_owner_id \<noteq> ai_key admin then err InvalidSignAccount
     else if fst (rt_find_program_address R [AMM_CONFIG_SEED] program_id) \<noteq> ai_key config_info \<or>
             acc_owner (acc_of w config_info) \<noteq> program_id then err InvalidConfigAccount
     else
     and_then (config_load_mut_checked w config_info program_id) (\<lambda>config.
     and_then
       (if ca_param args = 0 then
          and_then (unwrap (ca_owner args)) (\<lambda>k.
            if k = default_pubkey then err InvalidInput else Done (config\<lparr>pnl_owner := k\<rparr>))
        else if ca_param args = 1 then
          and_then (unwrap (ca_owner args)) (\<lambda>k.
            if k = default_pubkey then err InvalidInput else Done (config\<lparr>cancel_owner := k\<rparr>))
        else if ca_param args = 2 then
          and_then (unwrap (ca_create_pool_fee args)) (\<lambda>fee.
            Done (config\<lparr>create_pool_fee := fee\<rparr>))
        else err InvalidInput) (\<lambda>config'.
       Done (config_store config_info config' w))))"

section \<open>Withdrawing SRM tokens\<close>

definition process_withdraw_srm ::
  "runtime \<Rightarrow> pubkey \<Rightarrow> account_info list \<Rightarrow> withdraw_srm_instruction \<Rightarrow> world \<Rightarrow> world outcome" where
  "process_withdraw_srm R program_id accounts withdrawsrm w =
     and_then (need_accounts 6 accounts) (\<lambda>_.
     let token_program = accounts ! 0; amm_info = accounts ! 1; owner_info = accounts ! 2;
         authority_info = accounts ! 3; srm_info = accounts ! 4; dest_info = accounts ! 5 in
     and_then (amm_load_checked w amm_info program_id) (\<lambda>amm.
     if amm_status amm = status_into_u64 Uninitialized then err InvalidStatus
     else if \<not> is_signer owner_info \<or> ai_key owner_info \<noteq> amm_owner_id then err InvalidSignAccount
     else if ai_key token_program \<noteq> rt_spl_token_id R then err InvalidSplTokenProgram
     else
     and_then (authority_id R program_id AUTHORITY_AMM (as_u8 (amm_nonce amm))) (\<lambda>authority.
     if ai_key authority_info \<noteq> authority then err InvalidProgramAddress
     else
     and_then (unpack_token_account R w srm_info (ai_key token_program)) (\<lambda>srm_token.
     if ta_owner srm_token \<noteq> ai_key authority_info then err InvalidOwner
     else if ta_mint srm_token \<noteq> srm_token_id \<and> ta_mint srm_token \<noteq> msrm_token_id
     then err InvalidSrmMint
     else
     and_then (unpack_token_account R w dest_info (ai_key token_program)) (\<lambda>dest_token.
     if ta_mint srm_token \<noteq> ta_mint dest_token then err InvalidInput
     else if srm_amount withdrawsrm > ta_amount srm_token then err InsufficientFunds
     else
       token_transfer_with_authority R token_program srm_info dest_info authority_info
         AUTHORITY_AMM (as_u8 (amm_nonce amm)) (srm_amount withdrawsrm) w)))))"

section \<open>Who may run them\<close>

text \<open>The config of the program, at its derived address.\<close>

definition program_config :: "runtime \<Rightarrow> pubkey \<Rightarrow> world \<Rightarrow> amm_config" where
  "program_config R pid w =
     fst (get_config (acc_data (ledger w (fst (rt_find_program_address R [AMM_CONFIG_SEED] pid)))))"

lemma config_load_checked_program:
  assumes "config_load_checked w info pid = Done config"
    and "fst (rt_find_program_address R [AMM_CONFIG_SEED] pid) = ai_key info"
  shows "config = program_config R pid w"
  using assms
  by (auto simp: config_load_checked_def config_load_def program_config_def acc_of_def split: if_splits)

text \<open>
  The contract of a privileged instruction: when it succeeds, the administrator signed, or one
  of the keys the config grants it to.
\<close>

locale privileged =
  fixes run :: "runtime \<Rightarrow> pubkey \<Rightarrow> account_info list \<Rightarrow> 'ins \<Rightarrow> world \<Rightarrow> world outcome"
    and granted :: "amm_config \<Rightarrow> pubkey set"
  assumes signed: "run R pid accounts ins w = Done w' \<Longrightarrow>
    \<exists>a\<in>set accounts. is_signer a \<and> ai_key a \<in> insert amm_owner_id (granted (program_config R pid w))"
begin

lemma unsigned_fails:
  assumes "\<And>a. a \<in> set accounts \<Longrightarrow> is_signer a \<Longrightarrow>
      ai_key a \<noteq> amm_owner_id \<and> ai_key a \<notin> granted (program_config R pid w)"
  shows "run R pid accounts ins w \<noteq> Done w'"
  using signed [of R pid accounts ins w w'] assms by blast

end

lemma signed_at:
  "i < length accounts \<Longrightarrow> is_signer (accounts ! i) \<Longrightarrow> ai_key (accounts ! i) = amm_owner_id \<Longrightarrow>
     \<exists>a\<in>set accounts. is_signer a \<and> ai_key a \<in> insert amm_owner_id K"
  by (metis insertI1 nth_mem)

lemma need_accounts_Done: "need_accounts n xs = Done u \<longleftrightarrow> n \<le> length xs"
  by (auto simp: need_accounts_def)

interpretation set_params: privileged process_set_params "\<lambda>_. {}"
proof unfold_locales
  fix R pid accounts ins w w'
  assume "process_set_params R pid accounts ins w = Done w'"
  then obtain A amm where "set_params_parse_accounts accounts = Done A"
    and "set_params_check R pid A amm w = Done ()"
    by (auto simp: process_set_params_def and_then_Done)
  then have "15 < length accounts" "is_signer (accounts ! 15)" "ai_key (accounts ! 15) = amm_owner_id"
    using set_params_parse_Done [of accounts A] set_params_check_owner [of R pid A amm w] by auto
  then show "\<exists>a\<in>set accounts. is_signer a \<and> ai_key a \<in> insert amm_owner_id {}"
    by (rule signed_at)
qed

lemma withdraw_srm_owner:
  "process_withdraw_srm R pid accounts ins w = Done w' \<Longrightarrow>
     2 < length accounts \<and> is_signer (accounts ! 2) \<and> ai_key (accounts ! 2) = amm_owner_id"
  by (auto simp: process_withdraw_srm_def and_then_Done Let_def need_accounts_Done)

interpretation withdraw_srm: privileged process_withdraw_srm "\<lambda>_. {}"
  by unfold_locales (metis signed_at withdraw_srm_owner)

lemma config_admin:
  "process_create_config R pid accounts w = Done w' \<Longrightarrow>
     0 < length accounts \<and> is_signer (accounts ! 0) \<and> ai_key (accounts ! 0) = amm_owner_id"
  "process_update_config R pid accounts args w = Done w' \<Longrightarrow>
     0 < length accounts \<and> is_signer (accounts ! 0) \<and> ai_key (accounts ! 0) = amm_owner_id"
  by (auto simp: process_create_config_def process_update_config_def and_then_Done Let_def
      need_accounts_Done)

interpretation create_config:
  privileged "\<lambda>R pid accounts (_ :: unit). process_create_config R pid accounts" "\<lambda>_. {}"
  by unfold_locales (metis signed_at config_admin(1))

interpretation update_config: privileged process_update_config "\<lambda>_. {}"
  by unfold_locales (metis signed_at config_admin(2))

lemma admin_cancel_parse_Done:
  "admin_cancel_parse_accounts accounts = Done A \<Longrightarrow> ac_owner A \<in> set accounts \<and> ac_amm A = accounts ! 1"
  by (auto simp: admin_cancel_parse_accounts_def split: if_splits)

lemma admin_cancel_check_owner:
  "admin_cancel_check R pid A amm w = Done () \<Longrightarrow>
     is_signer (ac_owner A) \<and>
     ai_key (ac_owner A) \<in> {amm_owner_id, cancel_owner (program_config R pid w)}"
  by (auto simp: admin_cancel_check_def and_then_Done dest!: config_load_checked_program)

interpretation admin_cancel: privileged process_admin_cancel_orders "\<lambda>c. {cancel_owner c}"
  by unfold_locales
     (fastforce simp: process_admin_cancel_orders_def and_then_Done
      dest: admin_cancel_parse_Done admin_cancel_check_owner)

section \<open>What they change\<close>

text \<open>
  An update of the config changes exactly the field its parameter names, to the argument,
  in the account at the program's derived address; the default key is refused as an owner,
  and so is every other parameter.
\<close>

theorem process_update_config_correct:
  assumes "process_update_config R pid accounts args w = Done w'"
  shows "\<exists>config. config_load w (accounts ! 1) = Done config \<and>
    ai_key (accounts ! 1) = fst (rt_find_program_address R [AMM_CONFIG_SEED] pid) \<and>
    is_signer (accounts ! 0) \<and> ai_key (accounts ! 0) = amm_owner_id \<and> cpis w' = cpis w \<and>
    (ca_param args = 0 \<and> (\<exists>k. ca_owner args = Some k \<and> k \<noteq> default_pubkey \<and>
       config_load w' (accounts ! 1) = Done (config\<lparr>pnl_owner := k\<rparr>)) \<or>
     ca_param args = 1 \<and> (\<exists>k. ca_owner args = Some k \<and> k \<noteq> default_pubkey \<and>
       config_load w' (accounts ! 1) = Done (config\<lparr>cancel_owner := k\<rparr>)) \<or>
     ca_param args = 2 \<and> (\<exists>fee. ca_create_pool_fee args = Some fee \<and>
       config_load w' (accounts ! 1) = Done (config\<lparr>create_pool_fee := fee\<rparr>)))"
proof -
  have wf: "wf_config c" if "config_load w (accounts ! 1) = Done c" for c
    using that by (simp add: config_load_cast config_struct.cast_Done_wf)
  have load: "config_load_mut_checked w i p = Done c \<Longrightarrow> config_load w i = Done c" for i p c
    by (auto simp: config_load_mut_checked_def split: if_splits)
  have upd: "wf_config (c\<lparr>pnl_owner := k\<rparr>) = wf_config c" "wf_config (c\<lparr>cancel_owner := k\<rparr>) = wf_config c"
    "wf_config (c\<lparr>create_pool_fee := f\<rparr>) = wf_config c" for c k f
    by (simp_all add: wf_config_def)
  show ?thesis
    using assms
    by (auto simp: process_update_config_def and_then_Done Let_def config_load_store wf upd
        config_store_def [THEN arg_cong [of _ _ cpis]]
        dest!: load split: if_splits)
qed

definition sample_config_args :: config_args where
  "sample_config_args = \<lparr>ca_param = 0, ca_owner = Some 77, ca_create_pool_fee = None\<rparr>"

theorem process_update_config_correct_witness:
  "\<exists>w'. process_update_config sample_runtime 7 [sample_info amm_owner_id, sample_info 60] sample_config_args
       sample_world = Done w' \<and>
     config_load w' (sample_info 60) = Done (sample_config\<lparr>pnl_owner := 77\<rparr>)"
proof -
  obtain w' where run: "process_update_config sample_runtime 7 [sample_info amm_owner_id, sample_info 60]
      sample_config_args sample_world = Done w'"
    by (simp add: process_update_config_def need_accounts_Done and_then_Done sample_config_args_def
        default_pubkey_def need_accounts_def)
  have "config_load sample_world (sample_info 60) = Done sample_config"
    by (rule config_load_bytes) simp_all
  then show ?thesis
    using process_update_config_correct [OF run] run by (auto simp: sample_config_args_def)
qed

text \<open>
  Withdrawing SRM makes one transfer, signed by the seeds of the pool's authority, under the
  administrator's signature: out of an account of that authority that holds SRM or MSRM, into
  an account of the same mint, of no more than it holds. The ledger changes by that call only.
\<close>

theorem process_withdraw_srm_correct:
  assumes "process_withdraw_srm R pid accounts ins w = Done w'"
  shows "\<exists>amm src dst. amm_load w (accounts ! 1) = Done amm \<and>
    is_signer (accounts ! 2) \<and> ai_key (accounts ! 2) = amm_owner_id \<and>
    unpack_token_account R w (accounts ! 4) (rt_spl_token_id R) = Done src \<and>
    unpack_token_account R w (accounts ! 5) (rt_spl_token_id R) = Done dst \<and>
    ta_owner src = ai_key (accounts ! 3) \<and> ta_mint src \<in> {srm_token_id, msrm_token_id} \<and>
    ta_mint dst = ta_mint src \<and> srm_amount ins \<le> ta_amount src \<and>
    authority_id R pid AUTHORITY_AMM (as_u8 (amm_nonce amm)) = Done (ai_key (accounts ! 3)) \<and>
    (\<exists>l. rt_invoke R (pool_transfer (accounts ! 0) (accounts ! 4) (accounts ! 5) (accounts ! 3)
        (as_u8 (amm_nonce amm)) (srm_amount ins)) (ledger w) = Done l \<and>
      w' = w\<lparr>ledger := l, cpis := cpis w @ [pool_transfer (accounts ! 0) (accounts ! 4) (accounts ! 5)
        (accounts ! 3) (as_u8 (amm_nonce amm)) (srm_amount ins)]\<rparr>)"
proof -
  have load: "amm_load_checked w i p = Done a \<Longrightarrow> amm_load w i = Done a" for i p a
    by (auto simp: amm_load_checked_def and_then_Done split: if_splits)
  show ?thesis
    using assms
    by (auto simp: process_withdraw_srm_def and_then_Done Let_def not_less invoke_signed_def
        token_transfer_with_authority_def pool_transfer_def dest!: load)
qed

definition sample_srm_runtime :: runtime where
  "sample_srm_runtime = sample_runtime\<lparr>rt_token_unpack := (\<lambda>_. Some (sample_token srm_token_id 50 30))\<rparr>"

definition sample_srm_accounts :: "account_info list" where
  "sample_srm_accounts = map sample_info [1, 100, amm_owner_id, 50, 104, 107]"

theorem process_withdraw_srm_correct_witness:
  "\<exists>w'. process_withdraw_srm sample_srm_runtime 7 sample_srm_accounts \<lparr>srm_amount = 30\<rparr> sample_world = Done w' \<and>
     cpis w' = [pool_transfer (sample_info 1) (sample_info 104) (sample_info 107) (sample_info 50) 254 30]"
proof -
  have "amm_load_checked sample_world (sample_info 100) 7 = Done sample_amm"
    using sample_load_checked(1) by (simp add: amm_load_checked_def amm_load_mut_checked_def)
  moreover have "as_u8 254 = 254" by code_simp
  ultimately obtain w' where run: "process_withdraw_srm sample_srm_runtime 7 sample_srm_accounts \<lparr>srm_amount = 30\<rparr>
      sample_world = Done w'"
    by (simp add: process_withdraw_srm_def sample_srm_accounts_def need_accounts_def and_then_Done
        unpack_token_account_def sample_srm_runtime_def authority_id_def
        token_transfer_with_authority_def invoke_signed_def)
  have "as_u8 254 = 254" by code_simp
  moreover have "cpis sample_world = []" by (simp add: sample_world_def)
  moreover have "amm_load sample_world (sample_srm_accounts ! 1) = Done sample_amm"
    by (simp add: sample_srm_accounts_def)
  ultimately show ?thesis
    using process_withdraw_srm_correct [OF run] run by (auto simp: sample_srm_accounts_def)
qed

end
