(* ===== verification/Initialize.thy ===== *)
theory Initialize
  imports Admin
begin

text \<open>
  \<open>process_initialize2\<close> of \<open>program/src/processor.rs\<close>, with the three
  \<open>generate_amm_associated_*\<close> functions that create the accounts of a pool at addresses derived
  from its market.
\<close>

section \<open>Accounts derived from the market\<close>

text \<open>
  The steps the three functions share: the address is the derived one, the account is still
  the system program's, it is funded to rent exemption, given its size and assigned.
\<close>

definition create_associated ::
  "runtime \<Rightarrow> amm_error \<Rightarrow> pubkey \<Rightarrow> pubkey \<Rightarrow> account_info \<Rightarrow> account_info \<Rightarrow> account_info \<Rightarrow>
   account_info \<Rightarrow> account_info \<Rightarrow> bytes \<Rightarrow> nat \<Rightarrow> world \<Rightarrow> world outcome" where
  "create_associated R mismatch program_id assign_to market associated user_wallet system_program
     rent_sysvar associated_seed data_size w =
     (let (associated_address, bump_seed) =
        get_associated_address_and_bump_seed R program_id (ai_key market) associated_seed program_id in
      if associated_address \<noteq> ai_key associated then err mismatch
      else if acc_owner (acc_of w associated) = ai_key system_program then
        let seeds = [[to_le_bytes program_id, to_le_bytes (ai_key market), associated_seed, [bump_seed]]] in
        and_then (rt_rent_minimum_balance R (ai_key rent_sysvar) (acc_of w rent_sysvar) data_size)
          (\<lambda>minimum_balance.
        let required_lamports =
              saturating_sub (max minimum_balance 1) (acc_lamports (acc_of w associated)) in
        and_then
          (if required_lamports > 0
           then invoke_signed R (SysTransfer (ai_key user_wallet) (ai_key associated) required_lamports)
             [user_wallet, associated, system_program] [] w
           else Done w) (\<lambda>w1.
        and_then (invoke_signed R (SysAllocate (ai_key associated) (of_nat data_size))
          [associated, system_program] seeds w1) (\<lambda>w2.
          invoke_signed R (SysAssign (ai_key associated) assign_to)
            [associated, system_program] seeds w2)))
      else err RepeatCreateAmm)"

definition generate_amm_associated_account ::
  "runtime \<Rightarrow> pubkey \<Rightarrow> pubkey \<Rightarrow> account_info \<Rightarrow> account_info \<Rightarrow> account_info \<Rightarrow>
   account_info \<Rightarrow> account_info \<Rightarrow> bytes \<Rightarrow> nat \<Rightarrow> world \<Rightarrow> world outcome" where
  "generate_amm_associated_account R program_id assign_to market associated user_wallet
     system_program rent_sysvar associated_seed data_size w =
     create_associated R ExpectedAccount program_id assign_to market associated user_wallet
       system_program rent_sysvar associated_seed data_size w"

definition generate_amm_associated_spl_token ::
  "runtime \<Rightarrow> pubkey \<Rightarrow> pubkey \<Rightarrow> account_info \<Rightarrow> account_info \<Rightarrow> account_info \<Rightarrow> account_info \<Rightarrow>
   account_info \<Rightarrow> account_info \<Rightarrow> account_info \<Rightarrow> account_info \<Rightarrow> bytes \<Rightarrow> world \<Rightarrow> world outcome" where
  "generate_amm_associated_spl_token R program_id spl_token_program_id market associated token_mint
     user_wallet system_program rent_sysvar spl_token_program associated_owner associated_seed w =
     and_then (create_associated R ExpectedAccount program_id spl_token_program_id market associated
       user_wallet system_program rent_sysvar associated_seed (rt_token_account_len R) w) (\<lambda>w1.
       invoke_signed R
         (SplInitializeAccount spl_token_program_id (ai_key associated) (ai_key token_mint)
            (ai_key associated_owner))
         [associated, token_mint, associated_owner, rent_sysvar, spl_token_program] [] w1)"

definition generate_amm_associated_spl_mint ::
  "runtime \<Rightarrow> pubkey \<Rightarrow> pubkey \<Rightarrow> account_info \<Rightarrow> account_info \<Rightarrow> account_info \<Rightarrow> account_info \<Rightarrow>
   account_info \<Rightarrow> account_info \<Rightarrow> account_info \<Rightarrow> bytes \<Rightarrow> u8 \<Rightarrow> world \<Rightarrow> world outcome" where
  "generate_amm_associated_spl_mint R program_id spl_token_program_id market associated
     user_wallet system_program rent_sysvar spl_token_program associated_owner associated_seed
     decimals w =
     and_then (create_associated R ExpectedMint program_id spl_token_program_id market associated
       user_wallet system_program rent_sysvar associated_seed (rt_mint_len R) w) (\<lambda>w1.
       invoke_signed R
         (SplInitializeMint spl_token_program_id (ai_key associated) (ai_key associated_owner) None
            decimals)
         [associated, associated_owner, rent_sysvar, spl_token_program] [] w1)"

section \<open>Creating a pool\<close>

record init_accounts =
  in_token_program :: account_info
  in_ata_program :: account_info
  in_system_program :: account_info
  in_rent :: account_info
  in_amm :: account_info
  in_authority :: account_info
  in_open_orders :: account_info
  in_lp_mint :: account_info
  in_coin_mint :: account_info
  in_pc_mint :: account_info
  in_coin_vault :: account_info
  in_pc_vault :: account_info
  in_target_orders :: account_info
  in_config :: account_info
  in_fee_destination :: account_info
  in_market_program :: account_info
  in_market :: account_info
  in_user_wallet :: account_info
  in_user_coin :: account_info
  in_user_pc :: account_info
  in_user_lp :: account_info

definition init_parse_accounts :: "account_info list \<Rightarrow> init_accounts outcome" where
  "init_parse_accounts accounts =
     and_then (need_accounts 21 accounts) (\<lambda>_.
       Done \<lparr>in_token_program = accounts ! 0,
         in_ata_program = accounts ! 1,
         in_system_program = accounts ! 2,
         in_rent = accounts ! 3,
         in_amm = accounts ! 4,
         in_authority = accounts ! 5,
         in_open_orders = accounts ! 6,
         in_lp_mint = accounts ! 7,
         in_coin_mint = accounts ! 8,
         in_pc_mint = accounts ! 9,
         in_coin_vault = accounts ! 10,
         in_pc_vault = accounts ! 11,
         in_target_orders = accounts ! 12,
         in_config = accounts ! 13,
         in_fee_destination = accounts ! 14,
         in_market_program = accounts ! 15,
         in_market = accounts ! 16,
         in_user_wallet = accounts ! 17,
         in_user_coin = accounts ! 18,
         in_user_pc = accounts ! 19,
         in_user_lp = accounts ! 20\<rparr>)"

definition init_check ::
  "runtime \<Rightarrow> pubkey \<Rightarrow> init_accounts \<Rightarrow> initialize_instruction2 \<Rightarrow> world \<Rightarrow> amm_config outcome" where
  "init_check R program_id A init w =
     (if fst (rt_find_program_address R [AMM_CONFIG_SEED] program_id) \<noteq> ai_key (in_config A) \<or>
         acc_owner (acc_of w (in_config A)) \<noteq> program_id then err InvalidConfigAccount
      else if \<not> is_signer (in_user_wallet A) then err InvalidSignAccount
      else if ai_key (in_token_program A) \<noteq> rt_spl_token_id R then err InvalidSplTokenProgram
      else if ai_key (in_ata_program A) \<noteq> rt_ata_program_id R then err InvalidSplTokenProgram
      else if ai_key (in_market_program A) \<noteq> openbook_program_id then err InvalidMarketProgram
      else if ai_key (in_system_program A) \<noteq> rt_system_program_id R then err InvalidSysProgramAddress
      else
        let (expect_amm_authority, expect_nonce) = rt_find_program_address R [AUTHORITY_AMM] program_id in
        if ai_key (in_authority A) \<noteq> expect_amm_authority \<or> init2_nonce init \<noteq> expect_nonce
        then err InvalidProgramAddress
        else if ai_key (in_fee_destination A) \<noteq> create_pool_fee_address_id then err InvalidFee
        else config_load_checked w (in_config A) program_id)"

definition init_charge_fee ::
  "runtime \<Rightarrow> init_accounts \<Rightarrow> amm_config \<Rightarrow> world \<Rightarrow> world outcome" where
  "init_charge_fee R A config w =
     (if create_pool_fee config \<noteq> 0 then
        and_then (invoke_signed R
          (SysTransfer (ai_key (in_user_wallet A)) (ai_key (in_fee_destination A)) (create_pool_fee config))
          [in_user_wallet A, in_fee_destination A, in_system_program A] [] w) (\<lambda>w1.
          invoke_signed R (SplSyncNative (ai_key (in_token_program A)) (ai_key (in_fee_destination A)))
            [in_token_program A, in_fee_destination A] [] w1)
      else Done w)"

text \<open>The accounts of the pool, in the order of the code; the last one is the user's share account.\<close>

definition init_create_accounts ::
  "runtime \<Rightarrow> pubkey \<Rightarrow> init_accounts \<Rightarrow> initialize_instruction2 \<Rightarrow> mint \<Rightarrow> world \<Rightarrow> world outcome" where
  "init_create_accounts R program_id A init coin_mint_data w =
     (let token_id = ai_key (in_token_program A) in
      and_then (generate_amm_associated_account R program_id program_id (in_market A)
        (in_target_orders A) (in_user_wallet A) (in_system_program A) (in_rent A)
        TARGET_ASSOCIATED_SEED target_orders_SIZE w) (\<lambda>w1.
      and_then (generate_amm_associated_spl_mint R program_id token_id (in_market A) (in_lp_mint A)
        (in_user_wallet A) (in_system_program A) (in_rent A) (in_token_program A) (in_authority A)
        LP_MINT_ASSOCIATED_SEED (mint_decimals coin_mint_data) w1) (\<lambda>w2.
      and_then (generate_amm_associated_spl_token R program_id token_id (in_market A) (in_coin_vault A)
        (in_coin_mint A) (in_user_wallet A) (in_system_program A) (in_rent A) (in_token_program A)
        (in_authority A) COIN_VAULT_ASSOCIATED_SEED w2) (\<lambda>w3.
      and_then (generate_amm_associated_spl_token R program_id token_id (in_market A) (in_pc_vault A)
        (in_pc_mint A) (in_user_wallet A) (in_system_program A) (in_rent A) (in_token_program A)
        (in_authority A) PC_VAULT_ASSOCIATED_SEED w3) (\<lambda>w4.
      and_then (generate_amm_associated_account R program_id program_id (in_market A) (in_amm A)
        (in_user_wallet A) (in_system_program A) (in_rent A) AMM_ASSOCIATED_SEED amm_SIZE w4) (\<lambda>w5.
      and_then (generate_amm_associated_account R program_id (ai_key (in_market_program A)) (in_market A)
        (in_open_orders A) (in_user_wallet A) (in_system_program A) (in_rent A)
        OPEN_ORDER_ASSOCIATED_SEED (rt_open_orders_size R + 12) w5) (\<lambda>w6.
      and_then (invoke_dex_init_open_orders R (in_market_program A) (in_open_orders A) (in_authority A)
        (in_market A) (in_rent A) AUTHORITY_AMM (init2_nonce init) w6) (\<lambda>w7.
        create_ata_spl_token R (in_user_lp A) (in_user_wallet A) (in_user_wallet A) (in_lp_mint A)
          (in_token_program A) (in_ata_program A) (in_system_program A) w7))))))))"

definition init_fund_vaults ::
  "runtime \<Rightarrow> init_accounts \<Rightarrow> initialize_instruction2 \<Rightarrow> world \<Rightarrow> world outcome" where
  "init_fund_vaults R A init w =
     and_then (token_transfer R (in_token_program A) (in_user_coin A) (in_coin_vault A)
       (in_user_wallet A) (init_coin_amount init) w) (\<lambda>w1.
       token_transfer R (in_token_program A) (in_user_pc A) (in_pc_vault A)
         (in_user_wallet A) (init_pc_amount init) w1)"

text \<open>The checks of a vault after it was funded; \<open>wrong_mint\<close> is the error of its side.\<close>

definition init_vault ::
  "runtime \<Rightarrow> init_accounts \<Rightarrow> account_info \<Rightarrow> account_info \<Rightarrow> amm_error \<Rightarrow> world \<Rightarrow> token_account outcome"
  where
  "init_vault R A vault_info mint_info wrong_mint w =
     and_then (unpack_token_account R w vault_info (ai_key (in_token_program A))) (\<lambda>vault.
     if ta_owner vault \<noteq> ai_key (in_authority A) then err InvalidOwner
     else if ta_amount vault = 0 then err InvalidSupply
     else if ta_delegate vault \<noteq> None then err InvalidDelegate
     else if ta_close_authority vault \<noteq> None then err InvalidCloseAuthority
     else if ai_key mint_info \<noteq> ta_mint vault then err wrong_mint
     else Done vault)"

definition init_market ::
  "runtime \<Rightarrow> init_accounts \<Rightarrow> token_account \<Rightarrow> token_account \<Rightarrow> world \<Rightarrow> market_state outcome" where
  "init_market R A coin_vault pc_vault w =
     and_then (rt_market_load R (ai_key (in_market A)) (acc_of w (in_market A)) openbook_program_id False)
       (\<lambda>ms.
     if coin_mint ms \<noteq> rt_aligned R (ta_mint coin_vault) \<or>
        coin_mint ms \<noteq> rt_aligned R (ai_key (in_coin_mint A)) then err InvalidCoinMint
     else if pc_mint ms \<noteq> rt_aligned R (ta_mint pc_vault) \<or>
        pc_mint ms \<noteq> rt_aligned R (ai_key (in_pc_mint A)) then err InvalidPCMint
     else if ms_pc_lot_size ms = 0 \<or> ms_coin_lot_size ms = 0 then err InvalidMarket
     else Done ms)"

definition init_lp_mint :: "runtime \<Rightarrow> init_accounts \<Rightarrow> world \<Rightarrow> mint outcome" where
  "init_lp_mint R A w =
     and_then (unpack_mint R w (in_lp_mint A) (ai_key (in_token_program A))) (\<lambda>lp_mint.
     if mint_supply lp_mint \<noteq> 0 then err InvalidSupply
     else if Some (ai_key (in_authority A)) \<noteq> mint_authority lp_mint then err InvalidOwner
     else if mint_freeze_authority lp_mint \<noteq> None then err InvalidFreezeAuthority
     else Done lp_mint)"

text \<open>The shares of the new pool, and those of them the user gets.\<close>

definition init_liquidity :: "runtime \<Rightarrow> u64 \<Rightarrow> u64 \<Rightarrow> u8 \<Rightarrow> (u64 \<times> u64) outcome" where
  "init_liquidity R pc_amount coin_amount decimals =
     and_then (unwrap (checked_mul (widen pc_amount) (widen coin_amount))) (\<lambda>product.
     and_then (to_u64 (rt_integer_sqrt_U128 R product)) (\<lambda>liquidity.
     and_then (unwrap (checked_pow 10 (unat decimals))) (\<lambda>locked.
     and_then (ok_or InitLpAmountTooLess (checked_sub liquidity locked)) (\<lambda>user_lp.
       Done (liquidity, user_lp)))))"

definition init_pool_fields ::
  "init_accounts \<Rightarrow> u64 \<Rightarrow> u64 \<Rightarrow> amm_info \<Rightarrow> amm_info" where
  "init_pool_fields A liquidity status amm = amm\<lparr>
     amm_coin_vault := ai_key (in_coin_vault A),
     amm_pc_vault := ai_key (in_pc_vault A),
     coin_vault_mint := ai_key (in_coin_mint A),
     pc_vault_mint := ai_key (in_pc_mint A),
     amm_lp_mint := ai_key (in_lp_mint A),
     amm_open_orders := ai_key (in_open_orders A),
     amm_market := ai_key (in_market A),
     amm_market_program := ai_key (in_market_program A),
     amm_target_orders := ai_key (in_target_orders A),
     amm_owner := amm_owner_id,
     lp_amount := liquidity,
     amm_status := status,
     amm_reset_flag := reset_flag_into_u64 ResetYes\<rparr>"

definition process_initialize2 ::
  "runtime \<Rightarrow> pubkey \<Rightarrow> account_info list \<Rightarrow> initialize_instruction2 \<Rightarrow> world \<Rightarrow> world outcome" where
  "process_initialize2 R program_id accounts init w =
     and_then (init_parse_accounts accounts) (\<lambda>A.
     and_then (init_check R program_id A init w) (\<lambda>config.
     and_then (init_charge_fee R A config w) (\<lambda>w1.
     and_then (unpack_mint R w1 (in_coin_mint A) (ai_key (in_token_program A))) (\<lambda>coin_mint_data.
     and_then (unpack_mint R w1 (in_pc_mint A) (ai_key (in_token_program A))) (\<lambda>pc_mint_data.
     and_then (init_create_accounts R program_id A init coin_mint_data w1) (\<lambda>w2.
     and_then (init_fund_vaults R A init w2) (\<lambda>w3.
     and_then (amm_load w3 (in_amm A)) (\<lambda>amm0.
     if amm_status amm0 \<noteq> status_into_u64 Uninitialized then err AlreadyInUse
     else
     and_then (init_vault R A (in_coin_vault A) (in_coin_mint A) InvalidCoinMint w3) (\<lambda>coin_vault.
     and_then (init_vault R A (in_pc_vault A) (in_pc_mint A) InvalidPCMint w3) (\<lambda>pc_vault.
     and_then (init_market R A coin_vault pc_vault w3) (\<lambda>ms.
     and_then (init_lp_mint R A w3) (\<lambda>lp_mint.
     and_then (init_liquidity R (ta_amount pc_vault) (ta_amount coin_vault) (mint_decimals lp_mint))
       (\<lambda>(liquidity, user_lp_amount).
     and_then (token_mint_to R (in_token_program A) (in_lp_mint A) (in_user_lp A) (in_authority A)
       AUTHORITY_AMM (init2_nonce init) user_lp_amount w3) (\<lambda>w4.
     and_then (amm_initialize (and_then (rt_clock R) (\<lambda>c. Done (clk_epoch c))) amm0 (init2_nonce init)
       (init2_open_time init) (mint_decimals coin_mint_data) (mint_decimals pc_mint_data)
       (ms_coin_lot_size ms) (ms_pc_lot_size ms)) (\<lambda>amm1.
     and_then (unwrap (normalize_decimal_v2 (ta_amount pc_vault) (pc_decimals amm1)
       (sys_decimal_value amm1))) (\<lambda>x.
     and_then (unwrap (normalize_decimal_v2 (ta_amount coin_vault) (coin_decimals amm1)
       (sys_decimal_value amm1))) (\<lambda>y.
     if acc_owner (acc_of w4 (in_target_orders A)) \<noteq> program_id then err InvalidProgramAddress
     else
     and_then (target_orders_load w4 (in_target_orders A)) (\<lambda>target0.
     and_then (target_check_init (rt_aligned R) target0 x y (ai_key (in_amm A))) (\<lambda>target.
     and_then (rt_clock R) (\<lambda>clock.
     let status = (if init2_open_time init > clk_unix_timestamp clock
                   then status_into_u64 WaitingTrade else status_into_u64 SwapOnly) in
       Done (amm_store (in_amm A) (init_pool_fields A liquidity status amm1)
         (target_orders_store (in_target_orders A) target w4))))))))))))))))))))))"

section \<open>A new pool\<close>

lemma create_associated_Done:
  assumes "create_associated R e pid assign_to market associated user sys rent seed n w = Done w'"
  shows "ai_key associated = fst (get_associated_address_and_bump_seed R pid (ai_key market) seed pid)"
    and "acc_owner (acc_of w associated) = ai_key sys"
  using assms by (auto simp: create_associated_def Let_def split: prod.splits if_splits)

lemma init_create_accounts_derived:
  assumes "init_create_accounts R pid A init m w = Done w'"
  shows "\<forall>(info, seed) \<in> {(in_target_orders A, TARGET_ASSOCIATED_SEED), (in_lp_mint A, LP_MINT_ASSOCIATED_SEED),
      (in_coin_vault A, COIN_VAULT_ASSOCIATED_SEED), (in_pc_vault A, PC_VAULT_ASSOCIATED_SEED),
      (in_amm A, AMM_ASSOCIATED_SEED), (in_open_orders A, OPEN_ORDER_ASSOCIATED_SEED)}.
    ai_key info = fst (get_associated_address_and_bump_seed R pid (ai_key (in_market A)) seed pid)"
  using assms
  by (auto simp: init_create_accounts_def Let_def and_then_Done generate_amm_associated_account_def
      generate_amm_associated_spl_token_def generate_amm_associated_spl_mint_def
      dest!: create_associated_Done(1))

lemma init_vault_Done:
  "init_vault R A v m e w = Done t \<Longrightarrow>
     ta_amount t \<noteq> 0 \<and> ta_owner t = ai_key (in_authority A) \<and> ta_mint t = ai_key m"
  by (auto simp: init_vault_def and_then_Done)

lemma to_u64_Done: "to_u64 v = Done x \<longleftrightarrow> uint x = uint v"
  by (auto simp: to_u64_def narrow_Some)

lemma init_liquidity_Done:
  assumes "init_liquidity R pc coin dec = Done (liquidity, user_lp)"
    and "sqrt_spec (rt_integer_sqrt_U128 R)"
  shows "uint liquidity * uint liquidity \<le> uint pc * uint coin \<and>
    uint pc * uint coin < (uint liquidity + 1) * (uint liquidity + 1) \<and>
    uint liquidity = uint user_lp + 10 ^ unat dec"
proof -
  obtain product and l10 :: u64 where
    p: "uint product = uint pc * uint coin" and
    l: "uint liquidity = uint (rt_integer_sqrt_U128 R product)" and
    d: "uint l10 = 10 ^ unat dec" and u: "uint user_lp = uint liquidity - uint l10"
    using assms(1)
    by (auto simp: init_liquidity_def and_then_Done checked_arith to_u64_Done)
  then show ?thesis
    using assms(2) unfolding sqrt_spec_def by (metis add_diff_cancel_right' diff_add_cancel)
qed

lemma amm_initialize_wf:
  assumes "amm_initialize e self n t cd pd cl pl = Done a"
  shows "wf_amm a" and "need_take_pnl_pc (amm_state_data a) = 0" and "need_take_pnl_coin (amm_state_data a) = 0"
    and "pool_open_time (amm_state_data a) = t" and "amm_nonce a = widen n"
  using assms
  by (auto simp: amm_initialize_def and_then_Done state_data_initialize_def wf_amm_def)

lemma init_parse_Done:
  "init_parse_accounts accounts = Done A \<Longrightarrow>
     in_amm A = accounts ! 4 \<and> in_target_orders A = accounts ! 12 \<and> in_user_wallet A = accounts ! 17"
  by (auto simp: init_parse_accounts_def and_then_Done)

lemma init_check_signer: "init_check R pid A init w = Done c \<Longrightarrow> is_signer (in_user_wallet A)"
  by (auto simp: init_check_def)

lemma target_check_init_Done:
  "target_check_init al t0 x y own = Done t \<Longrightarrow>
     to_owner t0 = al default_pubkey \<and> calc_pnl_x t = x \<and> calc_pnl_y t = y \<and> to_owner t = al own \<and>
     (wf_target_orders t0 \<longrightarrow> length (al own) = 4 \<longrightarrow> wf_target_orders t)"
  by (auto simp: target_check_init_def wf_target_orders_def)

text \<open>
  The transfers, mints and burns of the token program; the accounts of a pool are created without any.
\<close>

definition moves_tokens :: "cpi \<Rightarrow> bool" where
  "moves_tokens c =
     (case cpi_ix c of
        SplTransfer _ _ _ _ _ \<Rightarrow> True
      | SplMintTo _ _ _ _ _ \<Rightarrow> True
      | SplBurn _ _ _ _ _ \<Rightarrow> True
      | _ \<Rightarrow> False)"

definition only_sets_up :: "world \<Rightarrow> world \<Rightarrow> bool" where
  "only_sets_up w w' \<longleftrightarrow> (\<exists>pre. cpis w' = cpis w @ pre \<and> list_all (\<lambda>c. \<not> moves_tokens c) pre)"

lemma only_sets_up_refl [simp]: "only_sets_up w w"
  by (simp add: only_sets_up_def)

lemma only_sets_up_trans: "only_sets_up w w1 \<Longrightarrow> only_sets_up w1 w2 \<Longrightarrow> only_sets_up w w2"
  by (auto simp: only_sets_up_def)

lemma invoke_sets_up:
  "invoke_signed R ix accts seeds w = Done w' \<Longrightarrow>
     \<not> moves_tokens \<lparr>cpi_ix = ix, cpi_accounts = accts, cpi_seeds = seeds\<rparr> \<Longrightarrow> only_sets_up w w'"
  by (auto simp: only_sets_up_def dest!: invoke_signed_cpis)

lemma create_associated_sets_up:
  "create_associated R e pid assign_to market associated user sys rent seed n w = Done w' \<Longrightarrow> only_sets_up w w'"
  by (auto simp: create_associated_def Let_def and_then_Done moves_tokens_def split: prod.splits if_splits
      dest!: invoke_sets_up intro: only_sets_up_trans)

lemma generate_sets_up:
  "generate_amm_associated_account R pid own m a u s rent seed n w = Done w' \<Longrightarrow> only_sets_up w w'"
  "generate_amm_associated_spl_token R pid sid m a tm u s rent sp ow seed w = Done w' \<Longrightarrow> only_sets_up w w'"
  "generate_amm_associated_spl_mint R pid sid m a u s rent sp ow seed d w = Done w' \<Longrightarrow> only_sets_up w w'"
  by (auto simp: generate_amm_associated_account_def generate_amm_associated_spl_token_def
      generate_amm_associated_spl_mint_def and_then_Done moves_tokens_def
      dest!: invoke_sets_up create_associated_sets_up intro: only_sets_up_trans)

lemma init_charge_fee_sets_up: "init_charge_fee R A config w = Done w' \<Longrightarrow> only_sets_up w w'"
  by (auto simp: init_charge_fee_def and_then_Done moves_tokens_def split: if_splits
      dest!: invoke_sets_up intro: only_sets_up_trans)

lemma init_create_accounts_sets_up: "init_create_accounts R pid A init m w = Done w' \<Longrightarrow> only_sets_up w w'"
  by (auto simp: init_create_accounts_def Let_def and_then_Done invoke_dex_init_open_orders_def
      create_ata_spl_token_def moves_tokens_def dest!: generate_sets_up invoke_sets_up)
     (meson only_sets_up_trans)

lemma init_fund_vaults_cpis:
  "init_fund_vaults R A init w = Done w' \<Longrightarrow> cpis w' = cpis w @
     [user_transfer (in_token_program A) (in_user_coin A) (in_coin_vault A) (in_user_wallet A) (init_coin_amount init),
      user_transfer (in_token_program A) (in_user_pc A) (in_pc_vault A) (in_user_wallet A) (init_pc_amount init)]"
  by (auto simp: init_fund_vaults_def and_then_Done dest!: token_call_cpis)

text \<open>
  C31: a pool that is created starts well. The user signed. Each of the six accounts of the pool,
  its own, its vaults, its mint, its target orders and its open orders, is at the address derived
  from its market. The token calls are, in this order, the user's two transfers of the stated amounts
  into the vaults and one mint; no other call is a transfer, mint or burn of the token program. Both
  vaults then hold tokens
  of the pool's mints; the shares are the integer square root of the product of the two
  balances, and the mint gives the user all of them but ten to the mint's decimals,
  which stay locked. Nothing is owed, the parameters are in their ranges, and the status is
  open for swaps, or waiting exactly when the opening time is still to come.
\<close>

theorem process_initialize2_correct:
  assumes "process_initialize2 R pid accounts init w = Done w'"
    and "sqrt_spec (rt_integer_sqrt_U128 R)"
  shows "\<exists>A amm clock coin pc w3 user_lp lp_mint pre.
    init_parse_accounts accounts = Done A \<and> is_signer (in_user_wallet A) \<and>
    unpack_token_account R w3 (in_coin_vault A) (ai_key (in_token_program A)) = Done coin \<and>
    unpack_token_account R w3 (in_pc_vault A) (ai_key (in_token_program A)) = Done pc \<and>
    init_lp_mint R A w3 = Done lp_mint \<and> ta_amount coin \<noteq> 0 \<and> ta_amount pc \<noteq> 0 \<and>
    rt_clock R = Done clock \<and> amm_load w' (in_amm A) = Done amm \<and> params_ok amm \<and>
    amm_coin_vault amm = fst (get_associated_address_and_bump_seed R pid (amm_market amm) COIN_VAULT_ASSOCIATED_SEED pid) \<and>
    amm_pc_vault amm = fst (get_associated_address_and_bump_seed R pid (amm_market amm) PC_VAULT_ASSOCIATED_SEED pid) \<and>
    amm_lp_mint amm = fst (get_associated_address_and_bump_seed R pid (amm_market amm) LP_MINT_ASSOCIATED_SEED pid) \<and>
    amm_target_orders amm = fst (get_associated_address_and_bump_seed R pid (amm_market amm) TARGET_ASSOCIATED_SEED pid) \<and>
    amm_open_orders amm = fst (get_associated_address_and_bump_seed R pid (amm_market amm) OPEN_ORDER_ASSOCIATED_SEED pid) \<and>
    ai_key (in_amm A) = fst (get_associated_address_and_bump_seed R pid (amm_market amm) AMM_ASSOCIATED_SEED pid) \<and>
    amm_market amm = ai_key (in_market A) \<and>
    amm_coin_vault amm = ai_key (in_coin_vault A) \<and> amm_pc_vault amm = ai_key (in_pc_vault A) \<and>
    amm_lp_mint amm = ai_key (in_lp_mint A) \<and>
    coin_vault_mint amm = ta_mint coin \<and> pc_vault_mint amm = ta_mint pc \<and>
    uint (lp_amount amm) * uint (lp_amount amm) \<le> uint (ta_amount pc) * uint (ta_amount coin) \<and>
    uint (ta_amount pc) * uint (ta_amount coin) < (uint (lp_amount amm) + 1) * (uint (lp_amount amm) + 1) \<and>
    uint (lp_amount amm) = uint user_lp + 10 ^ unat (mint_decimals lp_mint) \<and>
    list_all (\<lambda>c. \<not> moves_tokens c) pre \<and> cpis w3 = cpis w @ pre @
      [user_transfer (in_token_program A) (in_user_coin A) (in_coin_vault A) (in_user_wallet A) (init_coin_amount init),
       user_transfer (in_token_program A) (in_user_pc A) (in_pc_vault A) (in_user_wallet A) (init_pc_amount init)] \<and>
    cpis w' = cpis w3 @ [pool_mint (in_token_program A) (in_lp_mint A) (in_user_lp A) (in_authority A)
      (init2_nonce init) user_lp] \<and>
    need_take_pnl_pc (amm_state_data amm) = 0 \<and> need_take_pnl_coin (amm_state_data amm) = 0 \<and>
    amm_status amm = (if clk_unix_timestamp clock < init2_open_time init then status_into_u64 WaitingTrade
      else status_into_u64 SwapOnly)"
proof -
  obtain A config w1 m w2 w3 amm0 coin pc lp_mint liquidity user_lp w4 amm1 cd pd cl pl target clock where
    A: "init_parse_accounts accounts = Done A" and c: "init_check R pid A init w = Done config" and
    fee: "init_charge_fee R A config w = Done w1" and fund: "init_fund_vaults R A init w2 = Done w3" and
    g: "init_create_accounts R pid A init m w1 = Done w2" and
    vc: "init_vault R A (in_coin_vault A) (in_coin_mint A) InvalidCoinMint w3 = Done coin" and
    vp: "init_vault R A (in_pc_vault A) (in_pc_mint A) InvalidPCMint w3 = Done pc" and
    lm: "init_lp_mint R A w3 = Done lp_mint" and
    lq: "init_liquidity R (ta_amount pc) (ta_amount coin) (mint_decimals lp_mint) = Done (liquidity, user_lp)" and
    mint: "token_mint_to R (in_token_program A) (in_lp_mint A) (in_user_lp A) (in_authority A)
       AUTHORITY_AMM (init2_nonce init) user_lp w3 = Done w4" and
    i: "amm_initialize (and_then (rt_clock R) (\<lambda>c. Done (clk_epoch c))) amm0 (init2_nonce init)
       (init2_open_time init) cd pd cl pl = Done amm1" and
    clk: "rt_clock R = Done clock" and
    w': "w' = amm_store (in_amm A) (init_pool_fields A liquidity
        (if init2_open_time init > clk_unix_timestamp clock then status_into_u64 WaitingTrade
         else status_into_u64 SwapOnly) amm1) (target_orders_store (in_target_orders A) target w4)"
    using assms(1) by (auto simp: process_initialize2_def and_then_Done Let_def)
  define amm where "amm = init_pool_fields A liquidity
        (if init2_open_time init > clk_unix_timestamp clock then status_into_u64 WaitingTrade
         else status_into_u64 SwapOnly) amm1"
  note w' = w' [folded amm_def]
  note init_facts = amm_initialize_wf [OF i]
  have "wf_amm amm" using init_facts(1) by (simp add: amm_def init_pool_fields_def wf_amm_def)
  then have "amm_load w' (in_amm A) = Done amm" by (simp add: w' amm_load_store)
  moreover have "params_ok amm"
    using amm_initialize_ok [OF i] by (simp add: amm_def init_pool_fields_def params_ok_def)
  moreover note derived = init_create_accounts_derived [OF g]
  moreover obtain pre where "list_all (\<lambda>c. \<not> moves_tokens c) pre" "cpis w2 = cpis w @ pre"
    using only_sets_up_trans [OF init_charge_fee_sets_up [OF fee] init_create_accounts_sets_up [OF g]]
    unfolding only_sets_up_def by blast
  moreover note init_fund_vaults_cpis [OF fund]
  moreover have "unpack_token_account R w3 (in_coin_vault A) (ai_key (in_token_program A)) = Done coin"
    "unpack_token_account R w3 (in_pc_vault A) (ai_key (in_token_program A)) = Done pc"
    using vc vp by (auto simp: init_vault_def and_then_Done)
  moreover have "cpis w' = cpis w3 @ [pool_mint (in_token_program A) (in_lp_mint A) (in_user_lp A)
      (in_authority A) (init2_nonce init) user_lp]"
    using token_call_cpis(3) [OF mint] by (simp add: w' amm_store_def target_orders_store_def)
  moreover have "amm_coin_vault amm = ai_key (in_coin_vault A)" "amm_pc_vault amm = ai_key (in_pc_vault A)"
    "amm_lp_mint amm = ai_key (in_lp_mint A)" "amm_market amm = ai_key (in_market A)"
    "amm_target_orders amm = ai_key (in_target_orders A)" "amm_open_orders amm = ai_key (in_open_orders A)"
    "coin_vault_mint amm = ta_mint coin" "pc_vault_mint amm = ta_mint pc" "lp_amount amm = liquidity"
    "need_take_pnl_pc (amm_state_data amm) = 0" "need_take_pnl_coin (amm_state_data amm) = 0"
    using init_vault_Done [OF vc] init_vault_Done [OF vp] init_facts
    by (simp_all add: amm_def init_pool_fields_def)
  moreover have "amm_status amm = (if clk_unix_timestamp clock < init2_open_time init
      then status_into_u64 WaitingTrade else status_into_u64 SwapOnly)"
    by (simp add: amm_def init_pool_fields_def)
  moreover note A init_check_signer [OF c] lm clk init_vault_Done [OF vc] init_vault_Done [OF vp]
    init_liquidity_Done [OF lq assms(2)]
  ultimately show ?thesis
    by (intro exI [of _ A] exI [of _ amm] exI [of _ clock] exI [of _ coin] exI [of _ pc] exI [of _ w3]
        exI [of _ user_lp] exI [of _ lp_mint] exI [of _ pre]) auto
qed

text \<open>
  A run: the system program hands each account to its owner with the data listed here, every
  other call succeeds and changes nothing.
\<close>

definition sample_empty_amm :: amm_info where
  "sample_empty_amm = sample_amm\<lparr>amm_status := 0\<rparr>"

definition sample_empty_target :: target_orders where
  "sample_empty_target = sample_target\<lparr>to_owner := [0, 0, 0, 0]\<rparr>"

definition sample_created :: "pubkey \<Rightarrow> account" where
  "sample_created k =
     (if k = 100 then \<lparr>acc_owner = 7, acc_lamports = 1, acc_data = amm_bytes sample_empty_amm\<rparr>
      else if k = 102 then \<lparr>acc_owner = 7, acc_lamports = 1, acc_data = target_orders_bytes sample_empty_target\<rparr>
      else if k = 104 then \<lparr>acc_owner = 1, acc_lamports = 1, acc_data = [1]\<rparr>
      else if k = 105 then \<lparr>acc_owner = 1, acc_lamports = 1, acc_data = [2]\<rparr>
      else \<lparr>acc_owner = 1, acc_lamports = 1, acc_data = []\<rparr>)"

definition sample_init_invoke :: "cpi \<Rightarrow> ledger \<Rightarrow> ledger outcome" where
  "sample_init_invoke c l =
     (case cpi_ix c of SysAssign k p \<Rightarrow> Done (l(k := sample_created k)) | _ \<Rightarrow> Done l)"

definition sample_derive :: "bytes list \<Rightarrow> pubkey \<Rightarrow> pubkey \<times> u8" where
  "sample_derive seeds pid =
     (case map_of [([AMM_CONFIG_SEED], 60), ([AUTHORITY_AMM], 50)] seeds of
        Some k \<Rightarrow> (k, 254)
      | None \<Rightarrow>
          (case map_of [(AMM_ASSOCIATED_SEED, 100), (TARGET_ASSOCIATED_SEED, 102),
             (OPEN_ORDER_ASSOCIATED_SEED, 101), (COIN_VAULT_ASSOCIATED_SEED, 104),
             (PC_VAULT_ASSOCIATED_SEED, 105), (LP_MINT_ASSOCIATED_SEED, 103)] (last seeds) of
             Some k \<Rightarrow> (k, 253) | None \<Rightarrow> (0, 252)))"

definition sample_init_runtime :: runtime where
  "sample_init_runtime = sample_runtime\<lparr>rt_find_program_address := sample_derive,
     rt_mint_unpack := (\<lambda>_. Some \<lparr>mint_authority = Some 50, mint_supply = 0, mint_decimals = 2,
       mint_freeze_authority = None\<rparr>),
     rt_invoke := sample_init_invoke\<rparr>"

definition sample_init_world :: world where
  "sample_init_world = \<lparr>ledger = (\<lambda>k.
       if k = 60 then sample_ledger 60
       else if k = 201 \<or> k = 202 then \<lparr>acc_owner = 1, acc_lamports = 1, acc_data = []\<rparr>
       else \<lparr>acc_owner = 3, acc_lamports = 0, acc_data = []\<rparr>), cpis = []\<rparr>"

definition sample_init_accounts :: "account_info list" where
  "sample_init_accounts = map sample_info
     [1, 2, 3, 5, 100, 50, 101, 103, 201, 202, 104, 105, 102, 60, create_pool_fee_address_id,
      openbook_program_id, 106, 110, 107, 108, 109]"

definition sample_init :: initialize_instruction2 where
  "sample_init = \<lparr>init2_nonce = 254, init2_open_time = 500, init_pc_amount = 4000, init_coin_amount = 1000\<rparr>"

lemma sample_derive_simps:
  "sample_derive [AMM_CONFIG_SEED] p = (60, 254)" "sample_derive [AUTHORITY_AMM] p = (50, 254)"
  "sample_derive [a, b, AMM_ASSOCIATED_SEED] p = (100, 253)"
  "sample_derive [a, b, TARGET_ASSOCIATED_SEED] p = (102, 253)"
  "sample_derive [a, b, OPEN_ORDER_ASSOCIATED_SEED] p = (101, 253)"
  "sample_derive [a, b, COIN_VAULT_ASSOCIATED_SEED] p = (104, 253)"
  "sample_derive [a, b, PC_VAULT_ASSOCIATED_SEED] p = (105, 253)"
  "sample_derive [a, b, LP_MINT_ASSOCIATED_SEED] p = (103, 253)"
  by (simp_all add: sample_derive_def AMM_CONFIG_SEED_def AUTHORITY_AMM_def AMM_ASSOCIATED_SEED_def
      TARGET_ASSOCIATED_SEED_def OPEN_ORDER_ASSOCIATED_SEED_def COIN_VAULT_ASSOCIATED_SEED_def
      PC_VAULT_ASSOCIATED_SEED_def LP_MINT_ASSOCIATED_SEED_def seed_bytes_def)

lemma sample_amm_initialize:
  "\<exists>a1. amm_initialize (Done 700) a 254 500 2 2 1 1 = Done a1 \<and> pc_decimals a1 = 2 \<and>
     coin_decimals a1 = 2 \<and> sys_decimal_value a1 = 100"
proof -
  have "init_sys_decimal_value 2 2 1 1 = Some 100" "init_min_size 2 1 100 = Done 1"
    "do { m \<leftarrow> checked_mul (100 :: u64) 5; checked_div m 1000 } = Some 0"
    "convert_in_pc_lot_size 2 2 1 1 100 = Some 100" "widen (2 :: u8) = (2 :: u64)"
    by code_simp+
  then show ?thesis
    by (simp add: amm_initialize_def fees_initialize_def state_data_initialize_def)
qed

lemma sample_init_runtime_simps:
  "rt_find_program_address sample_init_runtime = sample_derive"
  "rt_invoke sample_init_runtime = sample_init_invoke"
  "rt_spl_token_id sample_init_runtime = 1" "rt_ata_program_id sample_init_runtime = 2"
  "rt_system_program_id sample_init_runtime = 3"
  "rt_rent_minimum_balance sample_init_runtime k a n = Done 1"
  "rt_clock sample_init_runtime = Done \<lparr>clk_epoch = 700, clk_unix_timestamp = 1000\<rparr>"
  "rt_integer_sqrt_U128 sample_init_runtime = sample_sqrt_U128"
  "rt_aligned sample_init_runtime k = [ucast k, 0, 0, 0]"
  "rt_mint_unpack sample_init_runtime bs = Some \<lparr>mint_authority = Some 50, mint_supply = 0,
     mint_decimals = 2, mint_freeze_authority = None\<rparr>"
  "rt_token_unpack sample_init_runtime = sample_token_unpack"
  "rt_market_load sample_init_runtime k a p b = Done \<lparr>coin_mint = [201, 0, 0, 0],
     pc_mint = [202, 0, 0, 0], ms_coin_lot_size = 1, ms_pc_lot_size = 1\<rparr>"
  by (simp_all add: sample_init_runtime_def) (simp_all add: sample_runtime_def)

lemma sample_invoke_init:
  "invoke_signed sample_init_runtime (SysAssign k p) a s w = Done (w\<lparr>ledger := (ledger w)(k := sample_created k),
     cpis := cpis w @ [\<lparr>cpi_ix = SysAssign k p, cpi_accounts = a, cpi_seeds = s\<rparr>]\<rparr>)"
  "(\<And>k p. ix \<noteq> SysAssign k p) \<Longrightarrow> invoke_signed sample_init_runtime ix a s w =
     Done (w\<lparr>cpis := cpis w @ [\<lparr>cpi_ix = ix, cpi_accounts = a, cpi_seeds = s\<rparr>]\<rparr>)"
  by (simp_all add: invoke_signed_def sample_init_runtime_simps sample_init_invoke_def split: cpi_data.split)

lemmas sample_create_simps = create_associated_def get_associated_address_and_bump_seed_def
  generate_amm_associated_account_def generate_amm_associated_spl_mint_def
  generate_amm_associated_spl_token_def invoke_dex_init_open_orders_def create_ata_spl_token_def
  sample_init_runtime_simps sample_derive_simps sample_invoke_init acc_of_def saturating_sub_def Let_def

lemma sample_loads:
  "acc_data (ledger w k) = amm_bytes sample_empty_amm \<Longrightarrow> amm_load w (sample_info k) = Done sample_empty_amm"
  "acc_data (ledger w k) = target_orders_bytes sample_empty_target \<Longrightarrow>
     target_orders_load w (sample_info k) = Done sample_empty_target"
  by (auto intro!: amm_load_bytes target_orders_load_bytes
      simp: acc_of_def sample_empty_amm_def sample_empty_target_def wf_amm_def wf_target_orders_def
        sample_amm_def sample_target_def sample_state_data_def MAX_ORDER_LIMIT_def)

definition sample_init_ledger :: ledger where
  "sample_init_ledger = (ledger sample_init_world)(102 := sample_created 102, 103 := sample_created 103,
      104 := sample_created 104, 105 := sample_created 105, 100 := sample_created 100,
      101 := sample_created 101)"

definition sample_init_accs :: init_accounts where
  "sample_init_accs = \<lparr>in_token_program = sample_info 1, in_ata_program = sample_info 2,
      in_system_program = sample_info 3, in_rent = sample_info 5, in_amm = sample_info 100,
      in_authority = sample_info 50, in_open_orders = sample_info 101, in_lp_mint = sample_info 103,
      in_coin_mint = sample_info 201, in_pc_mint = sample_info 202, in_coin_vault = sample_info 104,
      in_pc_vault = sample_info 105, in_target_orders = sample_info 102, in_config = sample_info 60,
      in_fee_destination = sample_info create_pool_fee_address_id,
      in_market_program = sample_info openbook_program_id, in_market = sample_info 106,
      in_user_wallet = sample_info 110, in_user_coin = sample_info 107, in_user_pc = sample_info 108,
      in_user_lp = sample_info 109\<rparr>"

lemma sample_init_parse: "init_parse_accounts sample_init_accounts = Done sample_init_accs"
  by (simp add: init_parse_accounts_def need_accounts_def sample_init_accounts_def sample_init_accs_def)

lemma sample_init_accs_simps [simp]:
  "in_token_program sample_init_accs = sample_info 1" "in_amm sample_init_accs = sample_info 100"
  "in_authority sample_init_accs = sample_info 50" "in_lp_mint sample_init_accs = sample_info 103"
  "in_coin_mint sample_init_accs = sample_info 201" "in_pc_mint sample_init_accs = sample_info 202"
  "in_coin_vault sample_init_accs = sample_info 104" "in_pc_vault sample_init_accs = sample_info 105"
  "in_target_orders sample_init_accs = sample_info 102" "in_user_lp sample_init_accs = sample_info 109"
  "in_market sample_init_accs = sample_info 106"
  by (simp_all add: sample_init_accs_def)

lemma sample_init_create:
  assumes "ledger w = ledger sample_init_world"
  shows "\<exists>cs. init_create_accounts sample_init_runtime 7 sample_init_accs sample_init m w =
    Done (w\<lparr>ledger := sample_init_ledger, cpis := cs\<rparr>)"
  by (simp add: sample_init_accs_def init_create_accounts_def sample_create_simps assms sample_init_world_def
      sample_init_ledger_def) (rule exI, rule refl)

lemma sample_init_before:
  "\<exists>cs. and_then (init_check sample_init_runtime 7 sample_init_accs sample_init sample_init_world) (\<lambda>config.
     init_charge_fee sample_init_runtime sample_init_accs config sample_init_world) =
     Done (sample_init_world\<lparr>cpis := cs\<rparr>)"
  "config_load_checked sample_init_world (sample_info 60) 7 = Done sample_config"
proof -
  show c: "config_load_checked sample_init_world (sample_info 60) 7 = Done sample_config"
    by (simp add: config_load_checked_def config_load_bytes acc_of_def sample_init_world_def)
  show "\<exists>cs. and_then (init_check sample_init_runtime 7 sample_init_accs sample_init sample_init_world) (\<lambda>config.
     init_charge_fee sample_init_runtime sample_init_accs config sample_init_world) =
     Done (sample_init_world\<lparr>cpis := cs\<rparr>)"
    by (simp add: init_check_def init_charge_fee_def sample_init_accs_def sample_init_runtime_simps
        sample_derive_simps sample_invoke_init sample_init_def c acc_of_def)
       (simp add: sample_init_world_def sample_config_def)
qed

lemma sample_init_liquidity: "init_liquidity sample_init_runtime 4000 1000 2 = Done (2000, 1900)"
proof -
  have m: "checked_mul (widen (4000 :: u64)) (widen (1000 :: u64)) = Some (4000000 :: u128)"
    "checked_pow 10 2 = Some (100 :: u64)" "checked_sub (2000 :: u64) 100 = Some 1900"
    by code_simp+
  have "uint (sample_sqrt_U128 4000000) = 2000"
    by (rule sqrt_spec_square [OF sqrt_spec_samples(1)]) simp_all
  then have r: "to_u64 (sample_sqrt_U128 4000000) = Done 2000"
    by (simp add: to_u64_Done)
  show ?thesis
    by (simp add: init_liquidity_def sample_init_runtime_simps m r)
qed

lemma sample_init_run:
  "\<exists>w'. process_initialize2 sample_init_runtime 7 sample_init_accounts sample_init sample_init_world = Done w'"
proof -
  let ?R = sample_init_runtime and ?A = sample_init_accs
  obtain config cs where c: "init_check ?R 7 ?A sample_init sample_init_world = Done config"
    and f: "init_charge_fee ?R ?A config sample_init_world = Done (sample_init_world\<lparr>cpis := cs\<rparr>)"
    using sample_init_before(1) by (auto simp: and_then_Done)
  define w1 where "w1 = sample_init_world\<lparr>cpis := cs\<rparr>"
  have l1: "ledger w1 = ledger sample_init_world" by (simp add: w1_def)
  obtain m where m: "unpack_mint ?R w1 (sample_info 201) 1 = Done m" "mint_decimals m = 2"
    "unpack_mint ?R w1 (sample_info 202) 1 = Done m"
    by (simp add: unpack_mint_def acc_of_def l1 sample_init_world_def sample_init_runtime_simps)
  obtain cs2 where g: "init_create_accounts ?R 7 ?A sample_init m w1 = Done (w1\<lparr>ledger := sample_init_ledger, cpis := cs2\<rparr>)"
    using sample_init_create [OF l1] by blast
  define w2 where "w2 = w1\<lparr>ledger := sample_init_ledger, cpis := cs2\<rparr>"
  obtain cs3 where v: "init_fund_vaults ?R ?A sample_init w2 = Done (w2\<lparr>cpis := cs3\<rparr>)"
    by (simp add: init_fund_vaults_def token_transfer_def sample_invoke_init)
  define w3 where "w3 = w2\<lparr>cpis := cs3\<rparr>"
  have l3: "ledger w3 = sample_init_ledger" by (simp add: w3_def w2_def)
  have amm: "amm_load w3 (sample_info 100) = Done sample_empty_amm"
    by (rule sample_loads) (simp add: l3 sample_init_ledger_def sample_created_def)
  have v1: "init_vault ?R ?A (sample_info 104) (sample_info 201) InvalidCoinMint w3 = Done (sample_token 201 50 1000)"
    and v2: "init_vault ?R ?A (sample_info 105) (sample_info 202) InvalidPCMint w3 = Done (sample_token 202 50 4000)"
    by (simp_all add: init_vault_def unpack_token_account_def acc_of_def l3 sample_init_ledger_def
        sample_created_def sample_init_runtime_simps sample_token_unpack_def) (simp_all add: sample_token_def)
  obtain ms where ms: "init_market ?R ?A (sample_token 201 50 1000) (sample_token 202 50 4000) w3 = Done ms"
    "ms_coin_lot_size ms = 1" "ms_pc_lot_size ms = 1"
    by (simp add: init_market_def sample_init_runtime_simps)
  obtain lm where lm: "init_lp_mint ?R ?A w3 = Done lm" "mint_decimals lm = 2"
    by (simp add: init_lp_mint_def unpack_mint_def acc_of_def l3 sample_init_ledger_def
        sample_created_def sample_init_runtime_simps)
  obtain w4 where w4: "token_mint_to ?R (sample_info 1) (sample_info 103) (sample_info 109) (sample_info 50)
       AUTHORITY_AMM 254 1900 w3 = Done w4" "ledger w4 = sample_init_ledger"
    by (simp add: token_mint_to_def sample_invoke_init l3)
  obtain a1 where a1: "amm_initialize (Done 700) sample_empty_amm 254 500 2 2 1 1 = Done a1"
    "pc_decimals a1 = 2" "coin_decimals a1 = 2" "sys_decimal_value a1 = 100"
    using sample_amm_initialize by blast
  have xy: "normalize_decimal_v2 4000 2 100 = Some 4000" "normalize_decimal_v2 1000 2 100 = Some 1000"
    by code_simp+
  have t: "acc_owner (acc_of w4 (sample_info 102)) = 7"
    "target_orders_load w4 (sample_info 102) = Done sample_empty_target"
    by (simp add: acc_of_def w4 sample_init_ledger_def sample_created_def)
       (rule sample_loads, simp add: w4 sample_init_ledger_def sample_created_def)
  have ti: "\<exists>t. target_check_init (rt_aligned ?R) sample_empty_target 4000 1000 100 = Done t"
    by (simp add: target_check_init_def sample_init_runtime_simps sample_empty_target_def default_pubkey_def)
  have i: "init2_nonce sample_init = 254" "init2_open_time sample_init = 500"
    "amm_status sample_empty_amm = 0" by (simp_all add: sample_init_def sample_empty_amm_def)
  show ?thesis
    using ti
    by (auto simp: process_initialize2_def sample_init_parse c f m g v amm v1 v2 ms lm sample_init_liquidity
        w4(1) a1 xy t i sample_init_runtime_simps Let_def
        w1_def [symmetric] w2_def [symmetric] w3_def [symmetric])
qed

theorem process_initialize2_correct_witness:
  "\<exists>w' amm. process_initialize2 sample_init_runtime 7 sample_init_accounts sample_init sample_init_world = Done w' \<and>
     amm_load w' (sample_info 100) = Done amm \<and> params_ok amm \<and> amm_status amm = status_into_u64 SwapOnly"
proof -
  obtain w' where r: "process_initialize2 sample_init_runtime 7 sample_init_accounts sample_init
      sample_init_world = Done w'"
    using sample_init_run by blast
  have "sqrt_spec (rt_integer_sqrt_U128 sample_init_runtime)"
    by (simp add: sample_init_runtime_simps sqrt_spec_samples)
  from process_initialize2_correct [OF r this] show ?thesis
    using r by (auto simp: sample_init_parse sample_init_runtime_simps sample_init_def)
qed

end
