(* ===== verification/Migrate.thy ===== *)
theory Migrate
  imports Initialize
begin

text \<open>
  \<open>process_migrate_to_openbook\<close> of \<open>program/src/processor.rs\<close>: a pool leaves its market for one
  of OpenBook. The old open orders are cancelled and settled, and must be found empty; new
  open orders are created at the address derived from the new market; the pool is
  initialized again for the lot sizes of that market.
\<close>

record migrate_accounts =
  mg_token_program :: account_info
  mg_system_program :: account_info
  mg_rent :: account_info
  mg_amm :: account_info
  mg_authority :: account_info
  mg_open_orders :: account_info
  mg_coin_vault :: account_info
  mg_pc_vault :: account_info
  mg_target_orders :: account_info
  mg_market_program :: account_info
  mg_market :: account_info
  mg_bids :: account_info
  mg_asks :: account_info
  mg_event_queue :: account_info
  mg_market_coin_vault :: account_info
  mg_market_pc_vault :: account_info
  mg_vault_signer :: account_info
  mg_new_open_orders :: account_info
  mg_new_market_program :: account_info
  mg_new_market :: account_info
  mg_admin :: account_info

definition migrate_parse_accounts :: "account_info list \<Rightarrow> migrate_accounts outcome" where
  "migrate_parse_accounts accounts =
     and_then (need_accounts 21 accounts) (\<lambda>_.
       Done \<lparr>mg_token_program = accounts ! 0,
         mg_system_program = accounts ! 1,
         mg_rent = accounts ! 2,
         mg_amm = accounts ! 3,
         mg_authority = accounts ! 4,
         mg_open_orders = accounts ! 5,
         mg_coin_vault = accounts ! 6,
         mg_pc_vault = accounts ! 7,
         mg_target_orders = accounts ! 8,
         mg_market_program = accounts ! 9,
         mg_market = accounts ! 10,
         mg_bids = accounts ! 11,
         mg_asks = accounts ! 12,
         mg_event_queue = accounts ! 13,
         mg_market_coin_vault = accounts ! 14,
         mg_market_pc_vault = accounts ! 15,
         mg_vault_signer = accounts ! 16,
         mg_new_open_orders = accounts ! 17,
         mg_new_market_program = accounts ! 18,
         mg_new_market = accounts ! 19,
         mg_admin = accounts ! 20\<rparr>)"

text \<open>The wrong target orders are reported as a wrong pc vault, as in the code.\<close>

definition migrate_check ::
  "runtime \<Rightarrow> pubkey \<Rightarrow> migrate_accounts \<Rightarrow> amm_info \<Rightarrow> unit outcome" where
  "migrate_check R program_id A amm =
     (if \<not> is_signer (mg_admin A) \<or> ai_key (mg_admin A) \<noteq> amm_owner_id then err InvalidSignAccount
      else
      and_then (authority_id R program_id AUTHORITY_AMM (as_u8 (amm_nonce amm))) (\<lambda>authority.
        if ai_key (mg_authority A) \<noteq> authority then err InvalidProgramAddress
        else if ai_key (mg_token_program A) \<noteq> rt_spl_token_id R then err InvalidSplTokenProgram
        else if ai_key (mg_system_program A) \<noteq> rt_system_program_id R then err InvalidSysProgramAddress
        else if ai_key (mg_coin_vault A) \<noteq> amm_coin_vault amm then err InvalidCoinVault
        else if ai_key (mg_pc_vault A) \<noteq> amm_pc_vault amm then err InvalidPCVault
        else if ai_key (mg_target_orders A) \<noteq> amm_target_orders amm then err InvalidPCVault
        else if ai_key (mg_market A) \<noteq> amm_market amm then err InvalidMarket
        else if ai_key (mg_market_program A) \<noteq> amm_market_program amm then err InvalidMarketProgram
        else if ai_key (mg_open_orders A) \<noteq> amm_open_orders amm then err InvalidOpenOrders
        else Done ()))"

text \<open>The amounts behind \<open>calc_pnl_x\<close> and \<open>calc_pnl_y\<close>, in the tokens' own decimals.\<close>

definition migrate_pnl_amounts :: "target_orders \<Rightarrow> amm_info \<Rightarrow> (u64 \<times> u64) outcome" where
  "migrate_pnl_amounts target amm =
     and_then (unwrap (restore_decimal (calc_pnl_x target) (pc_decimals amm) (sys_decimal_value amm))) (\<lambda>pc.
     and_then (unwrap (narrow pc)) (\<lambda>pnl_pc_amount.
     and_then (unwrap (restore_decimal (calc_pnl_y target) (coin_decimals amm) (sys_decimal_value amm))) (\<lambda>coin.
     and_then (unwrap (narrow coin)) (\<lambda>pnl_coin_amount.
       Done (pnl_pc_amount, pnl_coin_amount)))))"

definition same_mints :: "runtime \<Rightarrow> amm_info \<Rightarrow> market_state \<Rightarrow> unit outcome" where
  "same_mints R amm ms =
     (if coin_mint ms \<noteq> rt_aligned R (coin_vault_mint amm) then err InvalidCoinMint
      else if pc_mint ms \<noteq> rt_aligned R (pc_vault_mint amm) then err InvalidPCMint
      else Done ())"

text \<open>Orders off the old market and everything home, or no migration.\<close>

definition migrate_leave ::
  "runtime \<Rightarrow> migrate_accounts \<Rightarrow> amm_info \<Rightarrow> world \<Rightarrow> (market_state \<times> world) outcome" where
  "migrate_leave R A amm w =
     and_then (do_cancel_amm_orders R amm (mg_authority A) (mg_open_orders A) (mg_market_program A)
       (mg_market A) (mg_bids A) (mg_asks A) (mg_event_queue A) w) (\<lambda>w1.
     and_then (invoke_dex_settle_funds R (mg_market_program A) (mg_market A) (mg_open_orders A)
       (mg_authority A) (mg_market_coin_vault A) (mg_market_pc_vault A) (mg_coin_vault A)
       (mg_pc_vault A) (mg_vault_signer A) (mg_token_program A) None
       AUTHORITY_AMM (as_u8 (amm_nonce amm)) w1) (\<lambda>w2.
     and_then (load_serum_market_order R w2 (mg_market A) (mg_open_orders A) (mg_authority A) amm False)
       (\<lambda>(ms, oo).
     and_then (same_mints R amm ms) (\<lambda>_.
     and_then (calc_exact_vault_in_serum R w2 oo ms (mg_event_queue A) (mg_open_orders A))
       (\<lambda>(pc_total_in_serum, coin_total_in_serum).
       if pc_total_in_serum \<noteq> 0 \<or> coin_total_in_serum \<noteq> 0 then err UnknownAmmError
       else Done (ms, w2))))))"

text \<open>The new market, and the open orders of the pool there.\<close>

definition migrate_enter ::
  "runtime \<Rightarrow> pubkey \<Rightarrow> migrate_accounts \<Rightarrow> amm_info \<Rightarrow> world \<Rightarrow> (market_state \<times> world) outcome" where
  "migrate_enter R program_id A amm w =
     (if ai_key (mg_new_market_program A) \<noteq> openbook_program_id then err InvalidMarketProgram
      else
      and_then (rt_market_load R (ai_key (mg_new_market A)) (acc_of w (mg_new_market A))
        openbook_program_id False) (\<lambda>new_ms.
      and_then (same_mints R amm new_ms) (\<lambda>_.
      and_then (generate_amm_associated_account R program_id (ai_key (mg_new_market_program A))
        (mg_new_market A) (mg_new_open_orders A) (mg_admin A) (mg_system_program A) (mg_rent A)
        OPEN_ORDER_ASSOCIATED_SEED (rt_open_orders_size R + 12) w) (\<lambda>w1.
      and_then (invoke_dex_init_open_orders R (mg_new_market_program A) (mg_new_open_orders A)
        (mg_authority A) (mg_new_market A) (mg_rent A) AUTHORITY_AMM (as_u8 (amm_nonce amm)) w1)
        (\<lambda>w2. Done (new_ms, w2))))))"

definition migrate_pool ::
  "runtime \<Rightarrow> migrate_accounts \<Rightarrow> amm_info \<Rightarrow> market_state \<Rightarrow> amm_info outcome" where
  "migrate_pool R A amm new_ms =
     and_then (amm_initialize (and_then (rt_clock R) (\<lambda>c. Done (clk_epoch c)))
       (amm\<lparr>amm_market_program := ai_key (mg_new_market_program A),
          amm_market := ai_key (mg_new_market A),
          amm_open_orders := ai_key (mg_new_open_orders A)\<rparr>)
       (as_u8 (amm_nonce amm)) (pool_open_time (amm_state_data amm)) (as_u8 (coin_decimals amm))
       (as_u8 (pc_decimals amm)) (ms_coin_lot_size new_ms) (ms_pc_lot_size new_ms)) (\<lambda>amm1.
       Done (amm1\<lparr>amm_status := status_into_u64 WaitingTrade,
         amm_reset_flag := reset_flag_into_u64 ResetYes\<rparr>))"

definition migrate_target ::
  "amm_info \<Rightarrow> u64 \<Rightarrow> u64 \<Rightarrow> target_orders \<Rightarrow> target_orders outcome" where
  "migrate_target amm pnl_pc_amount pnl_coin_amount target =
     and_then (unwrap (normalize_decimal_v2 pnl_pc_amount (pc_decimals amm) (sys_decimal_value amm))) (\<lambda>x.
     and_then (unwrap (normalize_decimal_v2 pnl_coin_amount (coin_decimals amm) (sys_decimal_value amm))) (\<lambda>y.
       Done (target\<lparr>calc_pnl_x := x, calc_pnl_y := y\<rparr>)))"

definition process_migrate_to_openbook ::
  "runtime \<Rightarrow> pubkey \<Rightarrow> account_info list \<Rightarrow> world \<Rightarrow> world outcome" where
  "process_migrate_to_openbook R program_id accounts w =
     and_then (migrate_parse_accounts accounts) (\<lambda>A.
     and_then (amm_load_mut_checked w (mg_amm A) program_id) (\<lambda>amm0.
     and_then (migrate_check R program_id A amm0) (\<lambda>_.
     and_then (target_orders_load_mut_checked R w (mg_target_orders A) program_id (ai_key (mg_amm A)))
       (\<lambda>target0.
     and_then (migrate_pnl_amounts target0 amm0) (\<lambda>(pnl_pc_amount, pnl_coin_amount).
     and_then (migrate_leave R A amm0 w) (\<lambda>(ms, w1).
     and_then (migrate_enter R program_id A amm0 w1) (\<lambda>(new_ms, w2).
     and_then (migrate_pool R A amm0 new_ms) (\<lambda>amm1.
     and_then
       (if ms_coin_lot_size new_ms \<noteq> ms_coin_lot_size ms \<or> ms_pc_lot_size new_ms \<noteq> ms_pc_lot_size ms
        then migrate_target amm1 pnl_pc_amount pnl_coin_amount target0
        else Done target0) (\<lambda>target.
     and_then (rt_clock R) (\<lambda>clock.
       Done (amm_store (mg_amm A) (amm1\<lparr>recent_epoch := clk_epoch clock\<rparr>)
         (target_orders_store (mg_target_orders A) target w2))))))))))))"

section \<open>A migrated pool\<close>

lemma migrate_parse_Done:
  "migrate_parse_accounts accounts = Done A \<Longrightarrow>
     20 < length accounts \<and> mg_amm A = accounts ! 3 \<and> mg_target_orders A = accounts ! 8 \<and>
     mg_admin A = accounts ! 20"
  by (auto simp: migrate_parse_accounts_def and_then_Done need_accounts_Done)

lemma migrate_check_admin:
  "migrate_check R pid A amm = Done () \<Longrightarrow>
     is_signer (mg_admin A) \<and> ai_key (mg_admin A) = amm_owner_id"
  by (auto simp: migrate_check_def)

lemma same_mints_Done:
  "same_mints R amm ms = Done u \<longleftrightarrow>
     coin_mint ms = rt_aligned R (coin_vault_mint amm) \<and> pc_mint ms = rt_aligned R (pc_vault_mint amm)"
  by (auto simp: same_mints_def)

text \<open>What a migration keeps of the pool.\<close>

definition same_holdings :: "amm_info \<Rightarrow> amm_info \<Rightarrow> bool" where
  "same_holdings a b \<longleftrightarrow>
     amm_coin_vault b = amm_coin_vault a \<and> amm_pc_vault b = amm_pc_vault a \<and>
     coin_vault_mint b = coin_vault_mint a \<and> pc_vault_mint b = pc_vault_mint a \<and>
     amm_lp_mint b = amm_lp_mint a \<and> amm_target_orders b = amm_target_orders a \<and>
     amm_owner b = amm_owner a \<and> lp_amount b = lp_amount a \<and>
     pool_open_time (amm_state_data b) = pool_open_time (amm_state_data a)"

lemma migrate_pool_Done:
  assumes "migrate_pool R A amm new_ms = Done amm'"
  shows "same_holdings amm amm'" and "params_ok amm'" and "wf_amm amm'"
    and "amm_market amm' = ai_key (mg_new_market A)"
    and "amm_market_program amm' = ai_key (mg_new_market_program A)"
    and "amm_open_orders amm' = ai_key (mg_new_open_orders A)"
    and "amm_status amm' = status_into_u64 WaitingTrade"
    and "amm_reset_flag amm' = reset_flag_into_u64 ResetYes"
    and "need_take_pnl_pc (amm_state_data amm') = 0" and "need_take_pnl_coin (amm_state_data amm') = 0"
proof -
  obtain e n t cd pd cl pl amm1 where
    i: "amm_initialize e (amm\<lparr>amm_market_program := ai_key (mg_new_market_program A),
          amm_market := ai_key (mg_new_market A),
          amm_open_orders := ai_key (mg_new_open_orders A)\<rparr>) n (pool_open_time (amm_state_data amm))
          cd pd cl pl = Done amm1" and
    amm': "amm' = amm1\<lparr>amm_status := status_into_u64 WaitingTrade,
         amm_reset_flag := reset_flag_into_u64 ResetYes\<rparr>"
    using assms by (auto simp: migrate_pool_def and_then_Done)
  have kept: "same_holdings amm amm1" "amm_market amm1 = ai_key (mg_new_market A)"
    "amm_market_program amm1 = ai_key (mg_new_market_program A)"
    "amm_open_orders amm1 = ai_key (mg_new_open_orders A)"
    using i amm_initialize_wf(4) [OF i]
    by (auto simp: amm_initialize_def and_then_Done same_holdings_def)
  show "same_holdings amm amm'" "params_ok amm'" "wf_amm amm'"
    "amm_market amm' = ai_key (mg_new_market A)"
    "amm_market_program amm' = ai_key (mg_new_market_program A)"
    "amm_open_orders amm' = ai_key (mg_new_open_orders A)"
    "amm_status amm' = status_into_u64 WaitingTrade"
    "amm_reset_flag amm' = reset_flag_into_u64 ResetYes"
    "need_take_pnl_pc (amm_state_data amm') = 0" "need_take_pnl_coin (amm_state_data amm') = 0"
    using kept amm_initialize_wf [OF i] amm_initialize_ok [OF i]
    by (simp_all add: amm' same_holdings_def params_ok_def wf_amm_def)
qed

lemma migrate_leave_Done:
  assumes "migrate_leave R A amm w = Done (ms, w')"
  shows "\<exists>oo pre. cpis w' = cpis w @ pre \<and> list_all market_call pre \<and>
    load_serum_market_order R w' (mg_market A) (mg_open_orders A) (mg_authority A) amm False = Done (ms, oo) \<and>
    calc_exact_vault_in_serum R w' oo ms (mg_event_queue A) (mg_open_orders A) = Done (0, 0)"
proof -
  obtain w1 oo where
    c: "do_cancel_amm_orders R amm (mg_authority A) (mg_open_orders A) (mg_market_program A)
       (mg_market A) (mg_bids A) (mg_asks A) (mg_event_queue A) w = Done w1" and
    s: "invoke_dex_settle_funds R (mg_market_program A) (mg_market A) (mg_open_orders A)
       (mg_authority A) (mg_market_coin_vault A) (mg_market_pc_vault A) (mg_coin_vault A)
       (mg_pc_vault A) (mg_vault_signer A) (mg_token_program A) None
       AUTHORITY_AMM (as_u8 (amm_nonce amm)) w1 = Done w'" and
    "load_serum_market_order R w' (mg_market A) (mg_open_orders A) (mg_authority A) amm False = Done (ms, oo)"
    "calc_exact_vault_in_serum R w' oo ms (mg_event_queue A) (mg_open_orders A) = Done (0, 0)"
    using assms by (auto simp: migrate_leave_def and_then_Done split: if_splits)
  moreover obtain pre1 pre2 where "cpis w1 = cpis w @ pre1" "list_all market_call pre1"
    "cpis w' = cpis w1 @ pre2" "list_all market_call pre2"
    using do_cancel_amm_orders_calls [OF c] settle_funds_market_call [OF s] by blast
  ultimately show ?thesis
    by (intro exI [of _ oo] exI [of _ "pre1 @ pre2"]) simp
qed

lemma migrate_enter_Done:
  assumes "migrate_enter R pid A amm w = Done (new_ms, w')"
  shows "ai_key (mg_new_market_program A) = openbook_program_id \<and>
    rt_market_load R (ai_key (mg_new_market A)) (acc_of w (mg_new_market A)) openbook_program_id False = Done new_ms \<and>
    same_mints R amm new_ms = Done () \<and>
    ai_key (mg_new_open_orders A) = fst (get_associated_address_and_bump_seed R pid
      (ai_key (mg_new_market A)) OPEN_ORDER_ASSOCIATED_SEED pid)"
  using assms
  by (auto simp: migrate_enter_def and_then_Done generate_amm_associated_account_def
      dest!: create_associated_Done(1))

text \<open>
  C33: a pool changes its market only under the administrator's signature, and only once nothing
  of it is left on the old one, as the event queue tells after the cancellations and the
  settlement, which are the calls that lead there. It then trades on an OpenBook market of the same two
  mints, with open orders at the derived address, waits with its reset flag raised and its
  parameters in range, and keeps its vaults, mints, shares and opening time. The profit owed
  to its owner is forgotten.
\<close>

theorem process_migrate_correct:
  assumes "process_migrate_to_openbook R pid accounts w = Done w'"
    and "amm_load w (accounts ! 3) = Done amm"
  shows "\<exists>A ms oo w1 pre new_ms amm'. migrate_parse_accounts accounts = Done A \<and>
    is_signer (accounts ! 20) \<and> ai_key (accounts ! 20) = amm_owner_id \<and>
    cpis w1 = cpis w @ pre \<and> list_all market_call pre \<and>
    load_serum_market_order R w1 (mg_market A) (mg_open_orders A) (mg_authority A) amm False = Done (ms, oo) \<and>
    calc_exact_vault_in_serum R w1 oo ms (mg_event_queue A) (mg_open_orders A) = Done (0, 0) \<and>
    amm_load w' (accounts ! 3) = Done amm' \<and> amm_market_program amm' = openbook_program_id \<and>
    rt_market_load R (amm_market amm') (ledger w1 (amm_market amm')) openbook_program_id False = Done new_ms \<and>
    same_mints R amm' new_ms = Done () \<and>
    amm_open_orders amm' = fst (get_associated_address_and_bump_seed R pid (amm_market amm')
      OPEN_ORDER_ASSOCIATED_SEED pid) \<and>
    same_holdings amm amm' \<and> params_ok amm' \<and>
    amm_status amm' = status_into_u64 WaitingTrade \<and> amm_reset_flag amm' = reset_flag_into_u64 ResetYes \<and>
    need_take_pnl_pc (amm_state_data amm') = 0 \<and> need_take_pnl_coin (amm_state_data amm') = 0"
proof -
  obtain A amm0 ms w1 new_ms w2 amm1 target clock where
    A: "migrate_parse_accounts accounts = Done A" and
    l0: "amm_load_mut_checked w (mg_amm A) pid = Done amm0" and
    c: "migrate_check R pid A amm0 = Done ()" and
    lv: "migrate_leave R A amm0 w = Done (ms, w1)" and
    en: "migrate_enter R pid A amm0 w1 = Done (new_ms, w2)" and
    mp: "migrate_pool R A amm0 new_ms = Done amm1" and
    w': "w' = amm_store (mg_amm A) (amm1\<lparr>recent_epoch := clk_epoch (clock :: clock)\<rparr>)
         (target_orders_store (mg_target_orders A) target w2)"
    using assms(1) unfolding process_migrate_to_openbook_def and_then_Done
    by (auto simp: and_then_Done)
  note parse = migrate_parse_Done [OF A]
  have same: "amm0 = amm"
    using l0 assms(2) parse by (simp add: amm_load_mut_checked_Done)
  let ?amm' = "amm1\<lparr>recent_epoch := clk_epoch clock\<rparr>"
  note facts = migrate_pool_Done [OF mp [unfolded same]]
  have "wf_amm ?amm'" using facts(3) by (simp add: wf_amm_def)
  then have load: "amm_load w' (accounts ! 3) = Done ?amm'"
    using parse by (simp add: w' amm_load_store)
  obtain oo pre where leave: "cpis w1 = cpis w @ pre" "list_all market_call pre"
    "load_serum_market_order R w1 (mg_market A) (mg_open_orders A) (mg_authority A) amm False = Done (ms, oo)"
    "calc_exact_vault_in_serum R w1 oo ms (mg_event_queue A) (mg_open_orders A) = Done (0, 0)"
    using migrate_leave_Done [OF lv [unfolded same]] by blast
  have "same_holdings amm ?amm'" "params_ok ?amm'"
    using facts(1,2) by (simp_all add: same_holdings_def params_ok_def)
  moreover have "same_mints R ?amm' new_ms = Done ()"
    using migrate_enter_Done [OF en [unfolded same]] facts(1)
    by (simp add: same_mints_Done same_holdings_def)
  ultimately show ?thesis
    using A parse migrate_check_admin [OF c] leave load migrate_enter_Done [OF en [unfolded same]] facts
    by (intro exI [of _ A] exI [of _ ms] exI [of _ oo] exI [of _ w1] exI [of _ pre] exI [of _ new_ms]
        exI [of _ ?amm']) (simp add: acc_of_def)
qed

definition sample_empty_open_orders :: open_orders where
  "sample_empty_open_orders = \<lparr>oo_market = [106, 0, 0, 0],
     oo_owner = [50, 0, 0, 0], native_coin_free = 0, native_coin_total = 0,
     native_pc_free = 0, native_pc_total = 0, oo_free_slot_bits = - 1, is_bid_bits = 0,
     oo_orders = replicate 128 0\<rparr>"

definition sample_migrate_runtime :: runtime where
  "sample_migrate_runtime = sample_runtime\<lparr>rt_find_program_address := (\<lambda>_ _. (130, 254)),
     rt_open_orders_load := (\<lambda>_ _ _ _ _. Done sample_empty_open_orders),
     rt_event_queue := (\<lambda>_ _ _. Done [])\<rparr>"

definition sample_migrate_accounts :: "account_info list" where
  "sample_migrate_accounts = map sample_info
     [1, 3, 5, 100, 50, 101, 104, 105, 102, 112, 106, 120, 121, 125, 122, 123, 124,
      130, openbook_program_id, 131, amm_owner_id]"

lemma sample_migrate_invoke:
  "invoke_signed sample_migrate_runtime ix accts seeds w =
     Done (w\<lparr>cpis := cpis w @ [\<lparr>cpi_ix = ix, cpi_accounts = accts, cpi_seeds = seeds\<rparr>]\<rparr>)"
  by (simp add: invoke_signed_def sample_migrate_runtime_def)

lemma sample_migrate_market:
  "load_serum_market_order sample_migrate_runtime w (sample_info 106) (sample_info 101) (sample_info 50)
     sample_amm False =
   Done (\<lparr>coin_mint = [201, 0, 0, 0], pc_mint = [202, 0, 0, 0], ms_coin_lot_size = 1, ms_pc_lot_size = 1\<rparr>,
     sample_empty_open_orders)"
  by (simp add: load_serum_market_order_def sample_migrate_runtime_def)
     (simp add: sample_runtime_def sample_empty_open_orders_def)

lemma sample_migrate_cancel:
  "do_cancel_amm_orders sample_migrate_runtime sample_amm (sample_info 50) (sample_info 101) mp
     (sample_info 106) bids asks q w = Done w"
proof -
  have "load_amm_orders sample_migrate_runtime w ms sample_empty_open_orders bids asks = Done ([], [])" for ms
    using sample_no_orders [of sample_empty_open_orders]
    by (simp add: load_amm_orders_def sample_migrate_runtime_def)
       (simp add: sample_runtime_def sample_empty_open_orders_def)
  moreover have "both_side_batches [] [] = Done []" by code_simp
  ultimately show ?thesis
    by (simp add: do_cancel_amm_orders_def sample_migrate_market cancel_batches_def)
qed

interpretation migrate:
  privileged "\<lambda>R pid accounts (_ :: unit). process_migrate_to_openbook R pid accounts" "\<lambda>_. {}"
proof unfold_locales
  fix R pid accounts w w'
  assume "process_migrate_to_openbook R pid accounts w = Done w'"
  then obtain A amm where "migrate_parse_accounts accounts = Done A" and "migrate_check R pid A amm = Done ()"
    by (auto simp: process_migrate_to_openbook_def and_then_Done)
  then have "20 < length accounts" "is_signer (accounts ! 20)" "ai_key (accounts ! 20) = amm_owner_id"
    using migrate_parse_Done [of accounts A] migrate_check_admin [of R pid A amm] by auto
  then show "\<exists>a\<in>set accounts. is_signer a \<and> ai_key a \<in> insert amm_owner_id {}"
    by (rule signed_at)
qed

lemma sample_migrate_run:
  "\<exists>w'. process_migrate_to_openbook sample_migrate_runtime 7 sample_migrate_accounts sample_world = Done w'"
proof -
  let ?R = sample_migrate_runtime
  obtain A where A: "migrate_parse_accounts sample_migrate_accounts = Done A"
    and f: "mg_amm A = sample_info 100" "mg_authority A = sample_info 50" "mg_open_orders A = sample_info 101"
      "mg_target_orders A = sample_info 102" "mg_market A = sample_info 106"
      "mg_new_open_orders A = sample_info 130" "mg_new_market_program A = sample_info openbook_program_id"
      "mg_new_market A = sample_info 131" "mg_system_program A = sample_info 3"
      "mg_token_program A = sample_info 1" "mg_coin_vault A = sample_info 104" "mg_pc_vault A = sample_info 105"
      "mg_market_program A = sample_info 112" "mg_admin A = sample_info amm_owner_id"
    by (simp add: migrate_parse_accounts_def need_accounts_def sample_migrate_accounts_def)
  have R: "rt_spl_token_id ?R = 1" "rt_system_program_id ?R = 3" "rt_aligned ?R k = [ucast k, 0, 0, 0]"
    "rt_event_queue ?R m k a = Done []" "rt_rent_minimum_balance ?R k a n = Done 1"
    "rt_market_load ?R k a p b = Done \<lparr>coin_mint = [201, 0, 0, 0], pc_mint = [202, 0, 0, 0],
      ms_coin_lot_size = 1, ms_pc_lot_size = 1\<rparr>"
    "rt_clock ?R = Done \<lparr>clk_epoch = 700, clk_unix_timestamp = 1000\<rparr>"
    "rt_create_program_address ?R s p = Some 50" "rt_find_program_address ?R s p = (130, 254)"
    for k a p b m n s
    by (simp_all add: sample_migrate_runtime_def) (simp_all add: sample_runtime_def)
  have t: "target_orders_load_mut_checked ?R sample_world (sample_info 102) 7 100 = Done sample_target"
    using sample_load_checked(2) R(3) by (simp add: target_orders_load_mut_checked_def sample_runtime_def)
  have p: "migrate_pnl_amounts sample_target sample_amm = Done (4000, 1000)"
    unfolding migrate_pnl_amounts_def sample_target_simps sample_amm_simps by code_simp
  have c: "migrate_check ?R 7 A sample_amm = Done ()"
    by (simp add: migrate_check_def f authority_id_def R)
  obtain w1 where lv: "migrate_leave ?R A sample_amm sample_world =
      Done (\<lparr>coin_mint = [201, 0, 0, 0], pc_mint = [202, 0, 0, 0], ms_coin_lot_size = 1, ms_pc_lot_size = 1\<rparr>, w1)"
    "ledger w1 = sample_ledger"
    by (simp add: migrate_leave_def f sample_migrate_cancel invoke_dex_settle_funds_def sample_migrate_invoke
        sample_migrate_market same_mints_def calc_exact_vault_in_serum_def R)
       (simp add: sample_empty_open_orders_def sample_world_def)
  have "sample_ledger 130 = \<lparr>acc_owner = 3, acc_lamports = 0, acc_data = []\<rparr>"
    by (simp add: sample_ledger_def sample_accounts_def)
  then obtain w2 where en: "migrate_enter ?R 7 A sample_amm w1 =
      Done (\<lparr>coin_mint = [201, 0, 0, 0], pc_mint = [202, 0, 0, 0], ms_coin_lot_size = 1, ms_pc_lot_size = 1\<rparr>, w2)"
    by (simp add: migrate_enter_def f R same_mints_def generate_amm_associated_account_def
        create_associated_def get_associated_address_and_bump_seed_def sample_migrate_invoke
        invoke_dex_init_open_orders_def acc_of_def lv(2) saturating_sub_def Let_def)
  have "init_sys_decimal_value 0 0 1 1 = Some 1" "init_min_size 0 1 1 = Done 1"
    "do { m \<leftarrow> checked_mul (1 :: u64) 5; checked_div m 1000 } = Some 0"
    "convert_in_pc_lot_size 0 0 1 1 1 = Some 1" "as_u8 0 = 0" "as_u8 254 = 254"
    by code_simp+
  then obtain amm1 where mp: "migrate_pool ?R A sample_amm
      \<lparr>coin_mint = [201, 0, 0, 0], pc_mint = [202, 0, 0, 0], ms_coin_lot_size = 1, ms_pc_lot_size = 1\<rparr> = Done amm1"
    by (simp add: migrate_pool_def f R amm_initialize_def fees_initialize_def state_data_initialize_def)
  show ?thesis
    by (simp add: process_migrate_to_openbook_def A f t p c lv(1) en mp R)
qed

theorem process_migrate_correct_witness:
  "\<exists>w' amm'. process_migrate_to_openbook sample_migrate_runtime 7 sample_migrate_accounts sample_world = Done w' \<and>
     amm_load w' (sample_info 100) = Done amm' \<and> amm_market_program amm' = openbook_program_id \<and>
     lp_amount amm' = 2000"
proof -
  obtain w' where r: "process_migrate_to_openbook sample_migrate_runtime 7 sample_migrate_accounts
      sample_world = Done w'"
    using sample_migrate_run by blast
  have "sample_migrate_accounts ! 3 = sample_info 100" by (simp add: sample_migrate_accounts_def)
  then show ?thesis
    using process_migrate_correct [OF r, of sample_amm] r by (auto simp: same_holdings_def)
qed

end
