(* ===== verification/Pnl.thy ===== *)
theory Pnl
  imports Market Quotes
begin

text \<open>
  \<open>calc_take_pnl\<close> of \<open>program/src/processor.rs\<close>: the share of a pool's growth that is set
  aside for its owner before every deposit, withdrawal and planning step. The totals the
  function changes through mutable references are part of its result.
\<close>

record pnl_amounts =
  pa_delta_x :: u128
  pa_delta_y :: u128
  pa_diff_pc :: u128
  pa_diff_coin :: u128
  pa_pc_pnl :: u64
  pa_coin_pnl :: u64

definition mul_div_U128 :: "u128 \<Rightarrow> u64 \<Rightarrow> u64 \<Rightarrow> u128 option" where
  "mul_div_U128 v num den =
     do {
       m \<leftarrow> checked_mul v (widen num);
       checked_div m (widen den)
     }"

definition calc_pnl_amounts ::
  "runtime \<Rightarrow> target_orders \<Rightarrow> amm_info \<Rightarrow> u256 \<Rightarrow> u256 \<Rightarrow> pnl_amounts option" where
  "calc_pnl_amounts R target amm x1 y1 =
     do {
       x2_power \<leftarrow> calc_x_power (widen (calc_pnl_x target)) (widen (calc_pnl_y target)) x1 y1;
       let x2 = rt_integer_sqrt_U256 R x2_power in do {
       m \<leftarrow> checked_mul x2 y1;
       y2 \<leftarrow> checked_div m x1;
       dx \<leftarrow> checked_sub x1 x2;
       diff_x \<leftarrow> narrow dx;
       dy \<leftarrow> checked_sub y1 y2;
       diff_y \<leftarrow> narrow dy;
       delta_x \<leftarrow> mul_div_U128 diff_x (pnl_numerator (amm_fees amm)) (pnl_denominator (amm_fees amm));
       delta_y \<leftarrow> mul_div_U128 diff_y (pnl_numerator (amm_fees amm)) (pnl_denominator (amm_fees amm));
       diff_pc \<leftarrow> restore_decimal diff_x (pc_decimals amm) (sys_decimal_value amm);
       diff_coin \<leftarrow> restore_decimal diff_y (coin_decimals amm) (sys_decimal_value amm);
       pc128 \<leftarrow> mul_div_U128 diff_pc (pnl_numerator (amm_fees amm)) (pnl_denominator (amm_fees amm));
       pc_pnl \<leftarrow> narrow pc128;
       coin128 \<leftarrow> mul_div_U128 diff_coin (pnl_numerator (amm_fees amm)) (pnl_denominator (amm_fees amm));
       coin_pnl \<leftarrow> narrow coin128;
       Some \<lparr>pa_delta_x = delta_x, pa_delta_y = delta_y, pa_diff_pc = diff_pc,
         pa_diff_coin = diff_coin, pa_pc_pnl = pc_pnl, pa_coin_pnl = coin_pnl\<rparr>
     }}"

definition save_pnl :: "pnl_amounts \<Rightarrow> state_data \<Rightarrow> state_data option" where
  "save_pnl p sd =
     do {
       diff_pc \<leftarrow> narrow (pa_diff_pc p);
       total_pc \<leftarrow> checked_add (total_pnl_pc sd) diff_pc;
       diff_coin \<leftarrow> narrow (pa_diff_coin p);
       total_coin \<leftarrow> checked_add (total_pnl_coin sd) diff_coin;
       need_pc \<leftarrow> checked_add (need_take_pnl_pc sd) (pa_pc_pnl p);
       need_coin \<leftarrow> checked_add (need_take_pnl_coin sd) (pa_coin_pnl p);
       Some (sd\<lparr>total_pnl_pc := total_pc, total_pnl_coin := total_coin,
         need_take_pnl_pc := need_pc, need_take_pnl_coin := need_coin\<rparr>)
     }"

record pnl_result =
  pr_delta_x :: u128
  pr_delta_y :: u128
  pr_amm :: amm_info
  pr_total_pc :: u64
  pr_total_coin :: u64

definition apply_pnl :: "amm_info \<Rightarrow> u64 \<Rightarrow> u64 \<Rightarrow> pnl_amounts \<Rightarrow> pnl_result outcome" where
  "apply_pnl amm total_pc total_coin p =
     (if pa_pc_pnl p \<noteq> 0 \<and> pa_coin_pnl p \<noteq> 0 then
        and_then (unwrap (save_pnl p (amm_state_data amm))) (\<lambda>sd.
        and_then (unwrap (checked_sub total_pc (pa_pc_pnl p))) (\<lambda>pc'.
        and_then (unwrap (checked_sub total_coin (pa_coin_pnl p))) (\<lambda>coin'.
          Done \<lparr>pr_delta_x = pa_delta_x p, pr_delta_y = pa_delta_y p,
            pr_amm = amm\<lparr>amm_state_data := sd\<rparr>, pr_total_pc = pc', pr_total_coin = coin'\<rparr>)))
      else
        Done \<lparr>pr_delta_x = 0, pr_delta_y = 0, pr_amm = amm, pr_total_pc = total_pc,
          pr_total_coin = total_coin\<rparr>)"

text \<open>The product of the pool's totals and the one at the last settlement of profit.\<close>

definition pnl_products :: "target_orders \<Rightarrow> amm_info \<Rightarrow> u64 \<Rightarrow> u64 \<Rightarrow> (u128 \<times> u128) option" where
  "pnl_products target amm total_pc total_coin =
     do {
       calc_pc_amount \<leftarrow> restore_decimal (calc_pnl_x target) (pc_decimals amm) (sys_decimal_value amm);
       calc_coin_amount \<leftarrow> restore_decimal (calc_pnl_y target) (coin_decimals amm) (sys_decimal_value amm);
       pool_k \<leftarrow> checked_mul (widen total_pc :: u128) (widen total_coin);
       calc_k \<leftarrow> checked_mul calc_pc_amount calc_coin_amount;
       Some (pool_k, calc_k)
     }"

definition calc_take_pnl ::
  "runtime \<Rightarrow> target_orders \<Rightarrow> amm_info \<Rightarrow> u64 \<Rightarrow> u64 \<Rightarrow> u256 \<Rightarrow> u256 \<Rightarrow> pnl_result outcome" where
  "calc_take_pnl R target amm total_pc total_coin x1 y1 =
     and_then (unwrap (pnl_products target amm total_pc total_coin)) (\<lambda>(pool_k, calc_k).
       if pool_k \<ge> calc_k then
         and_then (unwrap (calc_pnl_amounts R target amm x1 y1)) (apply_pnl amm total_pc total_coin)
       else err CalcPnlError)"

section \<open>Conservation\<close>

lemma mul_div_U128_Some:
  "mul_div_U128 v num den = Some r \<Longrightarrow> 0 < uint den \<and> uint r = uint v * uint num div uint den"
  by (auto simp: mul_div_U128_def bind_eq_Some_conv checked_arith order.strict_iff_order)

lemma fraction_le:
  fixes v num den :: int
  assumes "0 \<le> v" and "num \<le> den" and "0 < den"
  shows "v * num div den \<le> v"
proof -
  have "v * num \<le> v * den" using assms by (intro mult_left_mono) auto
  then have "v * num div den \<le> v * den div den" using assms by (intro zdiv_mono1) auto
  then show ?thesis using assms by simp
qed

lemma calc_take_pnl_cases:
  assumes "calc_take_pnl R target amm pc coin x1 y1 = Done r"
  obtains
    (none) "r = \<lparr>pr_delta_x = 0, pr_delta_y = 0, pr_amm = amm, pr_total_pc = pc, pr_total_coin = coin\<rparr>"
  | (some) p sd where "calc_pnl_amounts R target amm x1 y1 = Some p"
      "save_pnl p (amm_state_data amm) = Some sd" "pa_pc_pnl p \<noteq> 0" "pa_coin_pnl p \<noteq> 0"
      "uint (pr_total_pc r) = uint pc - uint (pa_pc_pnl p)"
      "uint (pr_total_coin r) = uint coin - uint (pa_coin_pnl p)"
      "pr_amm r = amm\<lparr>amm_state_data := sd\<rparr>"
      "pr_delta_x r = pa_delta_x p" "pr_delta_y r = pa_delta_y p"
proof -
  obtain p where p: "calc_pnl_amounts R target amm x1 y1 = Some p" and r: "apply_pnl amm pc coin p = Done r"
    using assms by (auto simp: calc_take_pnl_def and_then_Done split: if_splits)
  show thesis
  proof (cases "pa_pc_pnl p \<noteq> 0 \<and> pa_coin_pnl p \<noteq> 0")
    case True
    then show thesis
      using r some [OF p] by (auto simp: apply_pnl_def and_then_Done checked_sub_Some)
  next
    case False
    then show thesis using r none by (auto simp: apply_pnl_def)
  qed
qed

lemma save_pnl_Some:
  assumes "save_pnl p sd = Some sd'"
  shows "uint (need_take_pnl_pc sd') = uint (need_take_pnl_pc sd) + uint (pa_pc_pnl p)"
    and "uint (need_take_pnl_coin sd') = uint (need_take_pnl_coin sd) + uint (pa_coin_pnl p)"
    and "uint (total_pnl_pc sd') = uint (total_pnl_pc sd) + uint (pa_diff_pc p)"
    and "uint (total_pnl_coin sd') = uint (total_pnl_coin sd) + uint (pa_diff_coin p)"
    and "sd_padding sd' = sd_padding sd"
  using assms by (auto simp: save_pnl_def bind_eq_Some_conv checked_arith)

lemma calc_pnl_amounts_fraction:
  assumes "calc_pnl_amounts R target amm x1 y1 = Some p"
    and "pnl_numerator (amm_fees amm) \<le> pnl_denominator (amm_fees amm)"
  shows "uint (pa_pc_pnl p) \<le> uint (pa_diff_pc p)" and "uint (pa_coin_pnl p) \<le> uint (pa_diff_coin p)"
  using assms
  by (auto simp: calc_pnl_amounts_def bind_eq_Some_conv narrow_Some Let_def word_le_def
      dest!: mul_div_U128_Some intro!: fraction_le)

lemma calc_take_pnl_totals:
  assumes "calc_take_pnl R target amm pc coin x1 y1 = Done r"
  shows "uint (pr_total_pc r) + uint (need_take_pnl_pc (amm_state_data (pr_amm r))) =
      uint pc + uint (need_take_pnl_pc (amm_state_data amm))"
    and "uint (pr_total_coin r) + uint (need_take_pnl_coin (amm_state_data (pr_amm r))) =
      uint coin + uint (need_take_pnl_coin (amm_state_data amm))"
    and "uint (pr_total_pc r) \<le> uint pc" and "uint (pr_total_coin r) \<le> uint coin"
    and "\<exists>sd. pr_amm r = amm\<lparr>amm_state_data := sd\<rparr> \<and> sd_padding sd = sd_padding (amm_state_data amm)"
proof -
  show "uint (pr_total_pc r) + uint (need_take_pnl_pc (amm_state_data (pr_amm r))) =
      uint pc + uint (need_take_pnl_pc (amm_state_data amm))"
    by (rule calc_take_pnl_cases [OF assms]) (auto dest: save_pnl_Some)
  show "uint (pr_total_coin r) + uint (need_take_pnl_coin (amm_state_data (pr_amm r))) =
      uint coin + uint (need_take_pnl_coin (amm_state_data amm))"
    by (rule calc_take_pnl_cases [OF assms]) (auto dest: save_pnl_Some)
  show "uint (pr_total_pc r) \<le> uint pc" "uint (pr_total_coin r) \<le> uint coin"
    by (rule calc_take_pnl_cases [OF assms]; simp)+
  show "\<exists>sd. pr_amm r = amm\<lparr>amm_state_data := sd\<rparr> \<and> sd_padding sd = sd_padding (amm_state_data amm)"
    by (rule calc_take_pnl_cases [OF assms])
       (auto dest: save_pnl_Some intro: exI [of _ "amm_state_data amm"])
qed

text \<open>
  C14: taking profit moves value, it never creates or destroys any: what leaves the totals of
  the pool is added, unit by unit, to what the owner may withdraw. When the pnl fraction is
  at most one, the pool keeps at least the rest of the growth, and the recorded growth covers
  what was set aside.
\<close>

theorem calc_take_pnl_conserves:
  assumes "calc_take_pnl R target amm pc coin x1 y1 = Done r"
    and "pnl_numerator (amm_fees amm) \<le> pnl_denominator (amm_fees amm)"
  shows "uint (pr_total_pc r) + uint (need_take_pnl_pc (amm_state_data (pr_amm r))) =
      uint pc + uint (need_take_pnl_pc (amm_state_data amm)) \<and>
    uint (pr_total_coin r) + uint (need_take_pnl_coin (amm_state_data (pr_amm r))) =
      uint coin + uint (need_take_pnl_coin (amm_state_data amm)) \<and>
    uint pc - uint (pr_total_pc r) \<le> uint (total_pnl_pc (amm_state_data (pr_amm r))) -
      uint (total_pnl_pc (amm_state_data amm)) \<and>
    uint coin - uint (pr_total_coin r) \<le> uint (total_pnl_coin (amm_state_data (pr_amm r))) -
      uint (total_pnl_coin (amm_state_data amm)) \<and>
    (\<exists>sd. pr_amm r = amm\<lparr>amm_state_data := sd\<rparr>)"
proof -
  have "uint pc - uint (pr_total_pc r) \<le> uint (total_pnl_pc (amm_state_data (pr_amm r))) -
      uint (total_pnl_pc (amm_state_data amm)) \<and>
    uint coin - uint (pr_total_coin r) \<le> uint (total_pnl_coin (amm_state_data (pr_amm r))) -
      uint (total_pnl_coin (amm_state_data amm))"
  proof (rule calc_take_pnl_cases [OF assms(1)])
    fix p sd
    assume a: "calc_pnl_amounts R target amm x1 y1 = Some p"
      "save_pnl p (amm_state_data amm) = Some sd"
      "uint (pr_total_pc r) = uint pc - uint (pa_pc_pnl p)"
      "uint (pr_total_coin r) = uint coin - uint (pa_coin_pnl p)"
      "pr_amm r = amm\<lparr>amm_state_data := sd\<rparr>"
    then show ?thesis
      using calc_pnl_amounts_fraction [OF a(1) assms(2)] save_pnl_Some(3,4) [OF a(2)] by simp
  qed simp
  then show ?thesis
    using calc_take_pnl_totals [OF assms(1)] by blast
qed

lemma sample_root: "rt_integer_sqrt_U256 sample_runtime 16000000 = 4000"
  using sqrt_spec_square [OF sqrt_spec_samples(2), of 16000000 4000]
  by (intro uint_eqI) simp

lemma sample_pnl_amounts:
  "calc_pnl_amounts sample_runtime sample_target sample_amm 6000 1500 =
     Some \<lparr>pa_delta_x = 240, pa_delta_y = 60, pa_diff_pc = 2000, pa_diff_coin = 500,
       pa_pc_pnl = 240, pa_coin_pnl = 60\<rparr>"
proof -
  have x: "calc_x_power (widen (4000 :: u128)) (widen (1000 :: u128)) 6000 1500 = Some 16000000"
    by code_simp
  have s: "rt_integer_sqrt_U256 sample_runtime 16000000 = 4000"
    by (rule sample_root)
  show ?thesis
    unfolding calc_pnl_amounts_def sample_target_simps sample_amm_simps x bind.simps Let_def s
    by code_simp
qed

theorem calc_take_pnl_conserves_witness:
  "\<exists>r. calc_take_pnl sample_runtime sample_target sample_amm 6000 1500 6000 1500 = Done r \<and>
    uint (pr_total_pc r) + uint (need_take_pnl_pc (amm_state_data (pr_amm r))) = 6000"
proof -
  have k: "pnl_products sample_target sample_amm 6000 1500 = Some (9000000, 4000000)"
    unfolding pnl_products_def sample_target_simps sample_amm_simps by code_simp
  have "\<exists>r. apply_pnl sample_amm 6000 1500 \<lparr>pa_delta_x = 240, pa_delta_y = 60, pa_diff_pc = 2000,
      pa_diff_coin = 500, pa_pc_pnl = 240, pa_coin_pnl = 60\<rparr> = Done r"
    by (simp add: apply_pnl_def save_pnl_def sample_state_data_def checked_add_def checked_sub_def
        narrow_def)
  then obtain r where run: "calc_take_pnl sample_runtime sample_target sample_amm 6000 1500 6000 1500 = Done r"
    by (auto simp: calc_take_pnl_def k sample_pnl_amounts)
  have "pnl_numerator (amm_fees sample_amm) \<le> pnl_denominator (amm_fees sample_amm)"
    by (simp add: sample_fees_def)
  from calc_take_pnl_conserves [OF run this] run show ?thesis
    by (auto simp: sample_state_data_def)
qed

text \<open>
  A pool that has not grown gives nothing: when the product of the normalised totals is
  that of the last settlement, whatever trading did to their ratio, both deltas are zero and
  the pool and its totals stay as they were. The square root is assumed to be exact.
\<close>

theorem calc_take_pnl_no_growth:
  assumes "calc_take_pnl R target amm pc coin x1 y1 = Done r"
    and "sqrt_spec (rt_integer_sqrt_U256 R)"
    and "uint x1 * uint y1 = uint (calc_pnl_x target) * uint (calc_pnl_y target)"
  shows "r = \<lparr>pr_delta_x = 0, pr_delta_y = 0, pr_amm = amm, pr_total_pc = pc, pr_total_coin = coin\<rparr>"
proof (rule calc_take_pnl_cases [OF assms(1)])
  fix p sd
  assume p: "calc_pnl_amounts R target amm x1 y1 = Some p" and nz: "pa_pc_pnl p \<noteq> 0"
  obtain xp where xp: "calc_x_power (widen (calc_pnl_x target)) (widen (calc_pnl_y target)) x1 y1 = Some xp"
    using p by (auto simp: calc_pnl_amounts_def bind_eq_Some_conv)
  have "uint y1 \<noteq> 0 \<and> uint xp = (uint x1 * uint y1) * uint x1 div uint y1"
    using xp assms(3) by (auto simp: calc_x_power_def bind_eq_Some_conv checked_arith)
  then have "uint xp = uint x1 * uint x1"
    by (simp add: mult.assoc mult.commute [of "uint y1"] flip: mult.assoc)
  then have "uint (rt_integer_sqrt_U256 R xp) = uint x1"
    by (rule sqrt_spec_square [OF assms(2)]) simp
  then have "rt_integer_sqrt_U256 R xp = x1"
    by (rule uint_eqI)
  then obtain diff_x diff_pc pc128 where "uint (diff_x :: u128) = 0"
    and "restore_decimal diff_x (pc_decimals amm) (sys_decimal_value amm) = Some diff_pc"
    and "mul_div_U128 diff_pc (pnl_numerator (amm_fees amm)) (pnl_denominator (amm_fees amm)) = Some pc128"
    and "uint (pa_pc_pnl p) = uint pc128"
    using p xp by (auto simp: calc_pnl_amounts_def bind_eq_Some_conv Let_def checked_arith)
  then have "uint (pa_pc_pnl p) = 0"
    by (auto simp: restore_decimal_def bind_eq_Some_conv checked_arith dest!: mul_div_U128_Some)
  with nz show ?thesis by (simp add: uint_0_iff)
qed simp

theorem calc_take_pnl_no_growth_witness:
  "calc_take_pnl sample_runtime sample_target sample_amm 4000 1000 4000 1000 =
     Done \<lparr>pr_delta_x = 0, pr_delta_y = 0, pr_amm = sample_amm, pr_total_pc = 4000,
       pr_total_coin = 1000\<rparr>"
proof -
  have k: "pnl_products sample_target sample_amm 4000 1000 = Some (4000000, 4000000)"
    unfolding pnl_products_def sample_target_simps sample_amm_simps by code_simp
  have x: "calc_x_power (widen (4000 :: u128)) (widen (1000 :: u128)) 4000 1000 = Some 16000000"
    by code_simp
  have s: "rt_integer_sqrt_U256 sample_runtime 16000000 = 4000"
    by (rule sample_root)
  have "calc_pnl_amounts sample_runtime sample_target sample_amm 4000 1000 =
     Some \<lparr>pa_delta_x = 0, pa_delta_y = 0, pa_diff_pc = 0, pa_diff_coin = 0,
       pa_pc_pnl = 0, pa_coin_pnl = 0\<rparr>"
    unfolding calc_pnl_amounts_def sample_target_simps sample_amm_simps x bind.simps Let_def s
    by code_simp
  then obtain r where run: "calc_take_pnl sample_runtime sample_target sample_amm 4000 1000 4000 1000 = Done r"
    by (auto simp: calc_take_pnl_def k apply_pnl_def)
  have "sqrt_spec (rt_integer_sqrt_U256 sample_runtime)"
    using sqrt_spec_samples by simp
  from calc_take_pnl_no_growth [OF run this] run show ?thesis by simp
qed

text \<open>
  C22: a pool whose product has fallen below that of the last settlement refuses the operation
  with \<open>CalcPnlError\<close>, before anything is set aside.
\<close>

theorem calc_take_pnl_loss_refused:
  assumes "restore_decimal (calc_pnl_x target) (pc_decimals amm) (sys_decimal_value amm) = Some a"
    and "restore_decimal (calc_pnl_y target) (coin_decimals amm) (sys_decimal_value amm) = Some b"
    and "uint pc * uint coin < uint a * uint b" and "uint a * uint b < 2 ^ 128"
  shows "calc_take_pnl R target amm pc coin x1 y1 = err CalcPnlError"
proof -
  obtain pool_k where k: "checked_mul (widen pc :: u128) (widen coin) = Some pool_k"
    using checked_mul_widen_u64 by blast
  obtain calc_k where c: "checked_mul a b = Some calc_k"
    using checked_mul_defined [of a b] assms(4) by auto
  have "\<not> calc_k \<le> pool_k"
    using k c assms(3) by (simp add: checked_mul_Some word_le_def)
  then show ?thesis
    using assms(1,2) k c by (simp add: calc_take_pnl_def pnl_products_def)
qed

theorem calc_take_pnl_loss_refused_witness:
  "calc_take_pnl sample_runtime sample_target sample_amm 3999 1000 3999 1000 = err CalcPnlError"
proof (rule calc_take_pnl_loss_refused)
  show "restore_decimal (calc_pnl_x sample_target) (pc_decimals sample_amm)
      (sys_decimal_value sample_amm) = Some 4000"
    unfolding sample_target_simps sample_amm_simps by code_simp
  show "restore_decimal (calc_pnl_y sample_target) (coin_decimals sample_amm)
      (sys_decimal_value sample_amm) = Some 1000"
    unfolding sample_target_simps sample_amm_simps by code_simp
qed simp_all

section \<open>Runs on the sample pool\<close>

lemma sample_calc_take_pnl:
  "calc_take_pnl sample_runtime sample_target sample_amm 4000 1000 4000 1000 =
     Done \<lparr>pr_delta_x = 0, pr_delta_y = 0, pr_amm = sample_amm, pr_total_pc = 4000,
       pr_total_coin = 1000\<rparr>"
proof -
  have k: "pnl_products sample_target sample_amm 4000 1000 = Some (4000000, 4000000)"
    unfolding pnl_products_def sample_target_simps sample_amm_simps by code_simp
  have x: "calc_x_power (widen (4000 :: u128)) (widen (1000 :: u128)) 4000 1000 = Some 16000000"
    by code_simp
  have "calc_pnl_amounts sample_runtime sample_target sample_amm 4000 1000 =
     Some \<lparr>pa_delta_x = 0, pa_delta_y = 0, pa_diff_pc = 0, pa_diff_coin = 0,
       pa_pc_pnl = 0, pa_coin_pnl = 0\<rparr>"
    unfolding calc_pnl_amounts_def sample_target_simps sample_amm_simps x bind.simps Let_def
      sample_root
    by code_simp
  then show ?thesis by (simp add: calc_take_pnl_def k apply_pnl_def)
qed

lemma sample_normalize: "normalize_decimal_v2 v 0 1 = Some (widen v)"
proof -
  have "uint v < 2 ^ 128" using uint_lt_pow [of v] by simp
  moreover have "(widen (1 :: u64) :: u128) = 1" by (simp add: widen_def)
  ultimately show ?thesis
    by (simp add: normalize_decimal_v2_def pow10_def checked_pow_def checked_mul_def checked_div_def)
qed

lemma widen_256 [simp]: "(widen (4000 :: u128) :: u256) = 4000" "(widen (1000 :: u128) :: u256) = 1000"
  "(widen (4000 :: u64) :: u128) = 4000" "(widen (1000 :: u64) :: u128) = 1000"
  by (simp_all add: widen_def)

end
