(* ===== verification/Plan.thy ===== *)
theory Plan
  imports Pnl
begin

text \<open>
  The two states of the order-book monitor that compute without calling other programs:
  \<open>do_idle_state\<close> decides what comes next and settles the profit, \<open>do_plan_orderbook\<close> fills
  the target orders, a limited number per instruction (\<open>program/src/processor.rs\<close>). The pool
  and the target orders, which the code changes through mutable references, are passed in
  and returned.
\<close>

section \<open>The idle state\<close>

text \<open>Whether a price lies between the pool's smallest and largest multiple of its lot.\<close>

definition price_in_range :: "amm_info \<Rightarrow> u128 \<Rightarrow> bool option" where
  "price_in_range amm cur_price =
     do {
       mux_cur_price \<leftarrow> checked_mul (widen (amm_pc_lot_size amm)) (widen (max_price_multiplier amm));
       min_cur_price \<leftarrow> checked_mul (widen (amm_pc_lot_size amm)) (widen (min_price_multiplier amm));
       Some (\<not> (cur_price < min_cur_price \<or> cur_price > mux_cur_price))
     }"

definition idle_price :: "u128 \<Rightarrow> u128 \<Rightarrow> amm_info \<Rightarrow> u128 option" where
  "idle_price x y amm =
     do {
       m \<leftarrow> checked_mul x (widen (sys_decimal_value amm));
       checked_div m y
     }"

text \<open>Orders are missing, or something was traded or deposited since they were placed.\<close>

definition needs_plan :: "u128 \<Rightarrow> u128 \<Rightarrow> leaf_node list \<Rightarrow> leaf_node list \<Rightarrow> target_orders \<Rightarrow> bool" where
  "needs_plan x y bids asks target \<longleftrightarrow>
     length bids < unat (valid_buy_order_num target) \<or>
     length asks < unat (valid_sell_order_num target) \<or>
     bids = [] \<and> asks = [] \<or> x \<noteq> placed_x target \<or> y \<noteq> placed_y target"

definition idle_pnl ::
  "runtime \<Rightarrow> u64 \<Rightarrow> u64 \<Rightarrow> u128 \<Rightarrow> u128 \<Rightarrow> amm_info \<Rightarrow> target_orders \<Rightarrow>
   (amm_info \<times> target_orders) outcome" where
  "idle_pnl R total_coin total_pc x y amm target =
     and_then (unwrap (checked_mul x y)) (\<lambda>k.
     and_then (unwrap (checked_mul (calc_pnl_x target) (calc_pnl_y target))) (\<lambda>calc_k.
     if k < calc_k then Done (amm\<lparr>amm_state := state_into_u64 CancelAllOrdersState\<rparr>, target)
     else
       and_then (calc_take_pnl R target amm total_pc total_coin (widen x) (widen y)) (\<lambda>r.
       if pr_delta_x r \<noteq> 0 \<and> pr_delta_y r \<noteq> 0 then
         and_then (unwrap (checked_sub x (pr_delta_x r))) (\<lambda>px.
         and_then (unwrap (checked_sub y (pr_delta_y r))) (\<lambda>py.
           Done (pr_amm r, target\<lparr>calc_pnl_x := px, calc_pnl_y := py\<rparr>)))
       else Done (pr_amm r, target))))"

definition do_idle_state ::
  "runtime \<Rightarrow> u64 \<Rightarrow> u64 \<Rightarrow> leaf_node list \<Rightarrow> leaf_node list \<Rightarrow> amm_info \<Rightarrow> target_orders \<Rightarrow>
   (amm_info \<times> target_orders) outcome" where
  "do_idle_state R total_coin total_pc bids asks amm target =
     and_then (unwrap (normalize_decimal_v2 total_pc (pc_decimals amm) (sys_decimal_value amm))) (\<lambda>x.
     and_then (unwrap (normalize_decimal_v2 total_coin (coin_decimals amm) (sys_decimal_value amm))) (\<lambda>y.
     if x = 0 \<or> y = 0 then err CheckedEmptyFunds
     else
     let (amm1, target1) =
       (if needs_plan x y bids asks target
        then (amm\<lparr>amm_state := state_into_u64 PlanOrdersState\<rparr>, target\<lparr>plan_orders_cur := 0\<rparr>)
        else (amm\<lparr>amm_state := state_into_u64 IdleState\<rparr>, target)) in
     and_then (unwrap (idle_price x y amm1)) (\<lambda>cur_price.
     and_then (unwrap (price_in_range amm1 cur_price)) (\<lambda>in_range.
     let amm2 =
       (if in_range then amm1
        else if bids = [] \<and> asks = [] then amm1\<lparr>amm_state := state_into_u64 IdleState\<rparr>
        else amm1\<lparr>amm_state := state_into_u64 CancelAllOrdersState\<rparr>) in
       idle_pnl R total_coin total_pc x y amm2 target1))))"

section \<open>Planning\<close>

record plan_prices =
  pp_cur :: u64
  pp_max_bid :: u64
  pp_min_ask :: u64
  pp_grid :: u64

definition plan_prices_of :: "amm_info \<Rightarrow> u64 \<Rightarrow> plan_prices option" where
  "plan_prices_of amm cur_price =
     (let den = trade_fee_denominator (amm_fees amm) in
      do {
        fee \<leftarrow> checked_add (min_separate_numerator (amm_fees amm)) (trade_fee_numerator (amm_fees amm));
        below \<leftarrow> checked_sub den fee;
        m1 \<leftarrow> checked_mul (widen cur_price :: u128) (widen below);
        q1 \<leftarrow> checked_div m1 (widen den);
        max_bid \<leftarrow> narrow q1;
        above \<leftarrow> checked_add den fee;
        m2 \<leftarrow> checked_mul (widen cur_price) (widen above);
        (q2, _) \<leftarrow> checked_ceil_div m2 (widen den);
        min_ask \<leftarrow> narrow q2;
        g1 \<leftarrow> checked_mul cur_price (amm_depth amm);
        g2 \<leftarrow> checked_div g1 100;
        grid \<leftarrow> checked_div g2 (amm_order_num amm);
        Some \<lparr>pp_cur = cur_price, pp_max_bid = max_bid, pp_min_ask = min_ask,
          pp_grid = (if grid < amm_pc_lot_size amm then amm_pc_lot_size amm else grid)\<rparr>
      })"

text \<open>The last order of the grid, when the pool has a distance set for it.\<close>

definition is_last_order :: "amm_info \<Rightarrow> target_orders \<Rightarrow> nat \<Rightarrow> bool option" where
  "is_last_order amm target i =
     do {
       last \<leftarrow> checked_sub (amm_order_num amm) 1;
       Some (i = unat last \<and> last_order_denominator target \<noteq> 0 \<and> last_order_numerator target \<noteq> 0)
     }"

text \<open>The order two places earlier; an index below zero is an arithmetic panic.\<close>

definition two_before :: "target_orders \<Rightarrow> nat \<Rightarrow> target_order option" where
  "two_before target i = (if i < 2 then None else idx (buy_orders target) (i - 2))"

definition plan_buy_price ::
  "amm_info \<Rightarrow> target_orders \<Rightarrow> plan_prices \<Rightarrow> nat \<Rightarrow> u64 \<Rightarrow> u64 option" where
  "plan_buy_price amm target pp i distance =
     do {
       last \<leftarrow> is_last_order amm target i;
       let buy = saturating_sub (pp_max_bid pp) distance in do {
       buy_price \<leftarrow>
         (if last then do {
            m \<leftarrow> checked_mul (pp_cur pp) (last_order_denominator target);
            target_buy_price \<leftarrow> checked_div m (last_order_numerator target);
            let buy1 = (if buy > target_buy_price then target_buy_price else buy) in
            if buy1 < amm_pc_lot_size amm then do {
              before \<leftarrow> two_before target i;
              Some (if price before \<noteq> 0 \<and> price before \<noteq> pp_grid pp then pp_grid pp else buy1)
            }
            else Some buy1
          }
          else Some buy);
       floor_lot buy_price (amm_pc_lot_size amm)
     }}"

definition plan_sell_price ::
  "amm_info \<Rightarrow> target_orders \<Rightarrow> plan_prices \<Rightarrow> nat \<Rightarrow> u64 \<Rightarrow> u64 option" where
  "plan_sell_price amm target pp i distance =
     do {
       sell \<leftarrow> checked_add (pp_min_ask pp) distance;
       last \<leftarrow> is_last_order amm target i;
       sell_price \<leftarrow>
         (if last then do {
            m \<leftarrow> checked_mul (pp_cur pp) (last_order_numerator target);
            target_sell_price \<leftarrow> checked_div m (last_order_denominator target);
            Some (if sell < target_sell_price then target_sell_price else sell)
          }
          else Some sell);
       ceil_lot sell_price (amm_pc_lot_size amm)
     }"

text \<open>The share of a volume that is left after the cut \<open>vol_max_cut_ratio\<close>.\<close>

definition cut_vol :: "amm_info \<Rightarrow> u64 \<Rightarrow> u64 outcome" where
  "cut_vol amm max_vol =
     and_then (unwrap (do { m \<leftarrow> checked_mul (widen (vol_max_cut_ratio amm) :: u128) (widen max_vol);
       checked_div m (widen TEN_THOUSAND) })) (\<lambda>c.
     and_then (to_u64 c) (\<lambda>cut.
       unwrap (checked_sub max_vol cut)))"

text \<open>Whole lots of the coin; a volume below the smallest size is none.\<close>

definition plan_qty :: "amm_info \<Rightarrow> u64 \<Rightarrow> u64 option" where
  "plan_qty amm v =
     do {
       lot \<leftarrow> normalize_decimal (amm_coin_lot_size amm) (coin_decimals amm) (sys_decimal_value amm);
       floor_lot (if v < min_size amm then 0 else v) lot
     }"

definition plan_cost :: "amm_info \<Rightarrow> u64 \<Rightarrow> u64 \<Rightarrow> u128 option" where
  "plan_cost amm qty p =
     do {
       m \<leftarrow> checked_mul (widen qty) (widen p);
       checked_div m (widen (sys_decimal_value amm))
     }"

definition plan_buy ::
  "amm_info \<Rightarrow> plan_prices \<Rightarrow> nat \<Rightarrow> u64 \<Rightarrow> target_orders \<Rightarrow> target_orders outcome" where
  "plan_buy amm pp i distance target =
     and_then (unwrap (plan_buy_price amm target pp i distance)) (\<lambda>buy_price.
     and_then
       (if buy_price \<noteq> 0 then
          and_then (unwrap (get_max_buy_size_at_price buy_price (plan_x_buy target) (plan_y_buy target) amm))
            (cut_vol amm)
        else Done 0) (\<lambda>buy_vol.
     and_then (unwrap (plan_qty amm buy_vol)) (\<lambda>qty.
     and_then (unwrap (plan_cost amm qty buy_price)) (\<lambda>cost.
     and_then (unwrap (checked_sub (plan_x_buy target) cost)) (\<lambda>x.
     and_then (unwrap (checked_add (plan_y_buy target) (widen qty))) (\<lambda>y.
     and_then (unwrap (idx (buy_orders target) i)) (\<lambda>_.
       Done (target\<lparr>plan_x_buy := x, plan_y_buy := y,
         buy_orders := (buy_orders target)[i := \<lparr>price = buy_price, vol = qty\<rparr>]\<rparr>))))))))"

definition plan_sell ::
  "amm_info \<Rightarrow> plan_prices \<Rightarrow> nat \<Rightarrow> u64 \<Rightarrow> target_orders \<Rightarrow> target_orders outcome" where
  "plan_sell amm pp i distance target =
     and_then (unwrap (plan_sell_price amm target pp i distance)) (\<lambda>sell_price.
     and_then (unwrap (get_max_sell_size_at_price sell_price (plan_x_sell target) (plan_y_sell target) amm))
       (\<lambda>max_sell_vol.
     and_then (cut_vol amm max_sell_vol) (\<lambda>sell_vol.
     and_then (unwrap (plan_qty amm sell_vol)) (\<lambda>qty.
     and_then (unwrap (checked_sub (plan_y_sell target) (widen qty))) (\<lambda>y.
     and_then (unwrap (plan_cost amm qty sell_price)) (\<lambda>cost.
     and_then (unwrap (checked_add (plan_x_sell target) cost)) (\<lambda>x.
     and_then (unwrap (idx (sell_orders target) i)) (\<lambda>_.
       Done (target\<lparr>plan_y_sell := y, plan_x_sell := x,
         sell_orders := (sell_orders target)[i := \<lparr>price = sell_price, vol = qty\<rparr>]\<rparr>)))))))))"

definition plan_order ::
  "amm_info \<Rightarrow> plan_prices \<Rightarrow> u64 list \<Rightarrow> nat \<Rightarrow> target_orders \<Rightarrow> target_orders outcome" where
  "plan_order amm pp fb i target =
     and_then (unwrap (idx fb i)) (\<lambda>f.
     and_then (unwrap (checked_mul (pp_grid pp) f)) (\<lambda>distance.
     and_then (plan_buy amm pp i distance target) (\<lambda>target1.
     and_then (plan_sell amm pp i distance target1) (\<lambda>target2.
     and_then (unwrap (checked_add (plan_orders_cur target2) 1)) (\<lambda>cur.
       Done (target2\<lparr>plan_orders_cur := cur\<rparr>))))))"

text \<open>How far a limited loop over the orders runs.\<close>

definition orders_until :: "u64 \<Rightarrow> u16 \<Rightarrow> u64 \<Rightarrow> u64 option" where
  "orders_until cur limit order_num =
     do {
       next \<leftarrow> checked_add cur (widen limit);
       Some (if next > order_num then order_num else next)
     }"

definition plan_done :: "amm_info \<Rightarrow> target_orders \<Rightarrow> amm_info \<times> target_orders" where
  "plan_done amm target =
     (amm\<lparr>amm_state := state_into_u64 PlaceOrdersState\<rparr>,
      target\<lparr>place_orders_cur := 0, replace_buy_client_id := replicate 10 0,
        replace_sell_client_id := replicate 10 0, placed_x := 0, placed_y := 0\<rparr>)"

definition plan_start :: "u128 \<Rightarrow> u128 \<Rightarrow> target_orders \<Rightarrow> target_orders" where
  "plan_start x y target =
     (if plan_orders_cur target = 0 then
        target\<lparr>target_x := x, target_y := y, plan_x_buy := x, plan_y_buy := y,
          plan_x_sell := x, plan_y_sell := y, valid_buy_order_num := 0, valid_sell_order_num := 0\<rparr>
      else target)"

definition plan_orders ::
  "amm_info \<Rightarrow> u16 \<Rightarrow> u64 \<Rightarrow> target_orders \<Rightarrow> (amm_info \<times> target_orders) outcome" where
  "plan_orders amm limit cur_price target =
     and_then (unwrap (plan_prices_of amm cur_price)) (\<lambda>pp.
     and_then (unwrap (orders_until (plan_orders_cur target) limit (amm_order_num amm))) (\<lambda>num.
     and_then (unwrap (fibonacci (amm_order_num amm))) (\<lambda>fb.
     and_then (map_outcome_list (plan_order amm pp fb)
       [unat (plan_orders_cur target)..<unat num] target) (\<lambda>target1.
       Done (if amm_order_num amm = plan_orders_cur target1 then plan_done amm target1
             else (amm, target1))))))"

definition do_plan_orderbook ::
  "u16 \<Rightarrow> u64 \<Rightarrow> u64 \<Rightarrow> amm_info \<Rightarrow> target_orders \<Rightarrow> (amm_info \<times> target_orders) outcome" where
  "do_plan_orderbook limit total_coin total_pc amm target =
     (if amm_order_num amm = plan_orders_cur target then Done (plan_done amm target)
      else
      and_then (unwrap (normalize_decimal_v2 total_pc (pc_decimals amm) (sys_decimal_value amm))) (\<lambda>x.
      and_then (unwrap (normalize_decimal_v2 total_coin (coin_decimals amm) (sys_decimal_value amm))) (\<lambda>y.
      let target1 = plan_start x y target in
      if x = 0 \<or> y = 0 then err CheckedEmptyFunds
      else if x \<noteq> target_x target1 \<or> y \<noteq> target_y target1
      then Done (amm\<lparr>amm_state := state_into_u64 IdleState\<rparr>, target1)
      else
      and_then (unwrap (idle_price x y amm)) (\<lambda>p.
      and_then (unwrap (narrow p)) (\<lambda>cur_price.
      and_then (unwrap (price_in_range amm (widen cur_price))) (\<lambda>in_range.
        if \<not> in_range then Done (amm\<lparr>amm_state := state_into_u64 IdleState\<rparr>, target1)
        else plan_orders amm limit cur_price target1))))))"

section \<open>Prices of the plan\<close>

lemma floor_lot_Some:
  assumes "floor_lot v lot = Some r"
  shows "uint lot dvd uint r \<and> uint r \<le> uint v"
proof -
  have "0 < uint lot" and r: "uint r = uint v div uint lot * uint lot"
    using assms by (auto simp: floor_lot_def bind_eq_Some_conv checked_arith order.strict_iff_order)
  then show ?thesis
    by (metis add.right_neutral add_le_cancel_left div_mult_mod_eq dvd_triv_right pos_mod_sign)
qed

lemma ceil_lot_ge:
  assumes "ceil_lot v lot = Some r" and "uint lot \<le> uint v"
  shows "uint lot dvd uint r \<and> uint v \<le> uint r"
  using ceil_lot_bounds [OF assms(1)] assms(2) uint_ge_0 [of v] uint_ge_0 [of lot] by (smt (verit))

lemma price_in_range_lot:
  assumes "price_in_range amm p = Some True" and "min_price_multiplier amm \<noteq> 0"
  shows "uint (amm_pc_lot_size amm) \<le> uint p"
proof -
  obtain m :: u128 where "uint m = uint (amm_pc_lot_size amm) * uint (min_price_multiplier amm)" "m \<le> p"
    using assms(1) by (auto simp: price_in_range_def bind_eq_Some_conv checked_arith not_less)
  moreover have "uint (amm_pc_lot_size amm) * 1 \<le> uint (amm_pc_lot_size amm) * uint (min_price_multiplier amm)"
    using uint_pos [OF assms(2)] by (intro mult_left_mono) auto
  ultimately show ?thesis by (simp add: word_le_def)
qed

lemma plan_prices_Some:
  assumes "plan_prices_of amm cur = Some pp"
  shows "pp_cur pp = cur" and "uint (pp_max_bid pp) \<le> uint cur" and "uint cur \<le> uint (pp_min_ask pp)"
    and "amm_depth amm < 100 \<Longrightarrow> uint (amm_pc_lot_size amm) \<le> uint cur \<Longrightarrow> uint (pp_grid pp) \<le> uint cur"
proof -
  define den where "den = trade_fee_denominator (amm_fees amm)"
  obtain fee below m1 q1 above m2 q2 s g1 g2 g3 where
    o: "checked_add (min_separate_numerator (amm_fees amm)) (trade_fee_numerator (amm_fees amm)) = Some fee"
      "checked_sub den fee = Some below" "checked_mul (widen cur :: u128) (widen below) = Some m1"
      "checked_div m1 (widen den) = Some q1" "narrow q1 = Some (pp_max_bid pp)"
      "checked_add den fee = Some above" "checked_mul (widen cur :: u128) (widen above) = Some m2"
      "narrow q2 = Some (pp_min_ask pp)" "checked_mul cur (amm_depth amm) = Some g1"
      "checked_div g1 100 = Some g2" "checked_div g2 (amm_order_num amm) = Some g3"
    and c: "checked_ceil_div m2 (widen den) = Some (q2, s)"
    and grid: "pp_grid pp = (if g3 < amm_pc_lot_size amm then amm_pc_lot_size amm else g3)"
    and pc: "pp_cur pp = cur"
    using assms
    by (auto simp: plan_prices_of_def Let_def bind_eq_Some_conv den_def)
  note e = o [unfolded checked_arith, simplified]
  show "pp_cur pp = cur" by (rule pc)
  have nn: "0 \<le> uint fee" "0 \<le> uint cur" "0 \<le> uint g2" by simp_all
  have den: "0 < uint den" using e(4) uint_ge_0 [of den] by linarith
  have "uint m1 \<le> uint cur * uint den"
    unfolding e(3) by (rule mult_left_mono) (use e(2) nn in linarith)+
  then have "uint m1 div uint den \<le> uint cur * uint den div uint den"
    using den by (rule zdiv_mono1)
  then show "uint (pp_max_bid pp) \<le> uint cur" using den e(4,5) by simp
  have m2: "uint cur * uint den \<le> uint m2"
    unfolding e(7) by (rule mult_left_mono) (use e(6) nn in linarith)+
  show "uint cur \<le> uint (pp_min_ask pp)"
  proof (cases "uint q2 = 0")
    case True
    then have "2 * uint m2 < uint den" using U128_ceil.ceil_zero [OF c] by simp
    moreover have "0 \<le> uint m2" by simp
    ultimately have "uint cur * uint den < 1 * uint den" using m2 by linarith
    then have "uint cur < 1" using den by (simp only: mult_less_cancel_right)
    then show ?thesis using True e(8) by linarith
  next
    case False
    then have "uint m2 \<le> uint q2 * uint den" using U128_ceil.ceil_lower [OF c] by simp
    then have "uint cur * uint den \<le> uint q2 * uint den" using m2 by linarith
    then show ?thesis using e(8) den by (simp only: mult_le_cancel_right)
  qed
  show "uint (pp_grid pp) \<le> uint cur"
    if dep: "amm_depth amm < 100" and lot: "uint (amm_pc_lot_size amm) \<le> uint cur"
  proof -
    have "uint (amm_depth amm) < 100" using dep by (simp add: word_less_def)
    then have "uint g1 \<le> uint cur * 100"
      unfolding e(9) by (intro mult_left_mono) auto
    then have g2: "uint g2 \<le> uint cur" unfolding e(10) by linarith
    have "0 < uint (amm_order_num amm)" using e(11) uint_ge_0 [of "amm_order_num amm"] by linarith
    then have "uint g3 \<le> uint g2"
      using e(11) nn(3) zdiv_mono2 [of "uint g2" 1 "uint (amm_order_num amm)"] by simp
    then show ?thesis using g2 grid lot by simp
  qed
qed

lemma plan_buy_price_Some:
  assumes "plan_buy_price amm target pp i distance = Some p"
    and "uint (pp_max_bid pp) \<le> P" and "uint (pp_grid pp) \<le> P"
  shows "uint (amm_pc_lot_size amm) dvd uint p \<and> uint p \<le> P"
proof -
  have s: "uint (saturating_sub (pp_max_bid pp) distance) \<le> P"
    unfolding uint_saturating_sub
    using assms(2) uint_ge_0 [of distance] uint_ge_0 [of "pp_max_bid pp"] by linarith
  obtain b where f: "floor_lot b (amm_pc_lot_size amm) = Some p" and "uint b \<le> P"
    using assms(1,3) s
    by (auto simp: plan_buy_price_def Let_def bind_eq_Some_conv word_less_def split: if_splits)
  then show ?thesis using floor_lot_Some [OF f] by linarith
qed

lemma plan_sell_price_Some:
  assumes "plan_sell_price amm target pp i distance = Some p"
    and "P \<le> uint (pp_min_ask pp)" and "uint (amm_pc_lot_size amm) \<le> P"
  shows "uint (amm_pc_lot_size amm) dvd uint p \<and> P \<le> uint p"
proof -
  obtain sell b where a: "checked_add (pp_min_ask pp) distance = Some sell"
    and c: "ceil_lot b (amm_pc_lot_size amm) = Some p" and "sell \<le> b"
    using assms(1)
    by (auto simp: plan_sell_price_def bind_eq_Some_conv not_less less_imp_le split: if_splits)
  then have "uint sell = uint (pp_min_ask pp) + uint distance" "uint sell \<le> uint b"
    by (simp_all add: checked_add_Some word_le_def)
  then have b: "uint (pp_min_ask pp) \<le> uint b" using uint_ge_0 [of distance] by linarith
  have "uint (amm_pc_lot_size amm) \<le> uint b" using assms(2,3) b by linarith
  from ceil_lot_ge [OF c this] show ?thesis using assms(2) b by linarith
qed

section \<open>What is planned\<close>

text \<open>What \<open>n\<close> planned orders of one side hold, in coin and in pc.\<close>

definition vols :: "target_order list \<Rightarrow> nat \<Rightarrow> int" where
  "vols os n = (\<Sum>i<n. uint (vol (os ! i)))"

definition costs :: "amm_info \<Rightarrow> target_order list \<Rightarrow> nat \<Rightarrow> int" where
  "costs amm os n = (\<Sum>i<n. uint (vol (os ! i)) * uint (price (os ! i)) div uint (sys_decimal_value amm))"

text \<open>The price of the pool at the totals the plan started from.\<close>

definition pool_price :: "amm_info \<Rightarrow> target_orders \<Rightarrow> int" where
  "pool_price amm t = uint (target_x t) * uint (sys_decimal_value amm) div uint (target_y t)"

text \<open>
  The first \<open>n\<close> orders: no bid is above the pool's price and no ask below it, all prices are
  whole lots, and the running totals are the pool's, less what the orders would pay and more
  what they would receive.
\<close>

definition planned :: "amm_info \<Rightarrow> target_orders \<Rightarrow> nat \<Rightarrow> bool" where
  "planned amm t n \<longleftrightarrow>
     (\<forall>i<n. uint (amm_pc_lot_size amm) dvd uint (price (buy_orders t ! i)) \<and>
        uint (amm_pc_lot_size amm) dvd uint (price (sell_orders t ! i)) \<and>
        uint (price (buy_orders t ! i)) \<le> pool_price amm t \<and>
        pool_price amm t \<le> uint (price (sell_orders t ! i))) \<and>
     uint (plan_x_buy t) = uint (target_x t) - costs amm (buy_orders t) n \<and>
     uint (plan_y_buy t) = uint (target_y t) + vols (buy_orders t) n \<and>
     uint (plan_x_sell t) = uint (target_x t) + costs amm (sell_orders t) n \<and>
     uint (plan_y_sell t) = uint (target_y t) - vols (sell_orders t) n"

lemma sums_update [simp]:
  "vols (os[n := p]) n = vols os n" "costs amm (os[n := p]) n = costs amm os n"
  by (simp_all add: vols_def costs_def)

lemma sums_Suc:
  "vols os (Suc n) = vols os n + uint (vol (os ! n))"
  "costs amm os (Suc n) = costs amm os n + uint (vol (os ! n)) * uint (price (os ! n)) div uint (sys_decimal_value amm)"
  by (simp_all add: vols_def costs_def)

text \<open>The fields a plan does not touch.\<close>

definition erase_plan :: "target_orders \<Rightarrow> target_orders" where
  "erase_plan t = t\<lparr>plan_x_buy := 0, plan_y_buy := 0, plan_x_sell := 0, plan_y_sell := 0,
     buy_orders := [], sell_orders := [], plan_orders_cur := 0\<rparr>"

lemma erase_plan_fields:
  assumes "erase_plan t' = erase_plan t"
  shows "target_x t' = target_x t" and "target_y t' = target_y t" and "to_owner t' = to_owner t"
    and "calc_pnl_x t' = calc_pnl_x t" and "calc_pnl_y t' = calc_pnl_y t"
    and "length (buy_orders t') = length (buy_orders t) \<Longrightarrow>
      length (sell_orders t') = length (sell_orders t) \<Longrightarrow> wf_target_orders t' = wf_target_orders t"
proof -
  show "target_x t' = target_x t" "target_y t' = target_y t" "to_owner t' = to_owner t"
    "calc_pnl_x t' = calc_pnl_x t" "calc_pnl_y t' = calc_pnl_y t"
    using assms by (cases t; cases t'; simp add: erase_plan_def)+
  show "wf_target_orders t' = wf_target_orders t"
    if "length (buy_orders t') = length (buy_orders t)" "length (sell_orders t') = length (sell_orders t)"
    using assms that by (cases t; cases t') (simp add: erase_plan_def wf_target_orders_def)
qed

lemma checked_add_one:
  assumes "checked_add a 1 = Some (c :: 'a::len word)"
  shows "unat c = Suc (unat a)"
proof -
  have "(1 :: 'a word) \<noteq> 0" by simp
  then have "uint (1 :: 'a word) = 1" by simp
  then have "int (unat c) = int (Suc (unat a))"
    using assms by (simp add: checked_add_Some)
  then show ?thesis by (simp only: of_nat_eq_iff)
qed

lemma plan_buy_Some:
  assumes "plan_buy amm pp n distance t = Done t'"
    and "planned amm t n" 
    and "uint (pp_max_bid pp) \<le> pool_price amm t" and "uint (pp_grid pp) \<le> pool_price amm t"
  shows "\<exists>x y p q. t' = t\<lparr>plan_x_buy := x, plan_y_buy := y, buy_orders := (buy_orders t)[n := \<lparr>price = p, vol = q\<rparr>]\<rparr> \<and>
    n < length (buy_orders t) \<and> uint (amm_pc_lot_size amm) dvd uint p \<and> uint p \<le> pool_price amm t \<and>
    uint x = uint (plan_x_buy t) - uint q * uint p div uint (sys_decimal_value amm) \<and>
    uint y = uint (plan_y_buy t) + uint q"
proof -
  obtain p v q cost x y where p: "plan_buy_price amm t pp n distance = Some p"
    and o: "plan_cost amm q p = Some cost" "checked_sub (plan_x_buy t) cost = Some x"
      "checked_add (plan_y_buy t) (widen q) = Some y" "n < length (buy_orders t)"
      "t' = t\<lparr>plan_x_buy := x, plan_y_buy := y, buy_orders := (buy_orders t)[n := \<lparr>price = p, vol = q\<rparr>]\<rparr>"
    using assms(1) by (auto simp: plan_buy_def and_then_Done idx_Some)
  have "uint cost = uint q * uint p div uint (sys_decimal_value amm)"
    using o(1) by (auto simp: plan_cost_def bind_eq_Some_conv checked_arith)
  then show ?thesis
    using o plan_buy_price_Some [OF p assms(3,4)]
    by (intro exI [of _ x] exI [of _ y] exI [of _ p] exI [of _ q]) (simp add: checked_arith)
qed

lemma plan_sell_Some:
  assumes "plan_sell amm pp n distance t = Done t'"
    and "pool_price amm t \<le> uint (pp_min_ask pp)" and "uint (amm_pc_lot_size amm) \<le> pool_price amm t"
  shows "\<exists>x y p q. t' = t\<lparr>plan_y_sell := y, plan_x_sell := x, sell_orders := (sell_orders t)[n := \<lparr>price = p, vol = q\<rparr>]\<rparr> \<and>
    n < length (sell_orders t) \<and> uint (amm_pc_lot_size amm) dvd uint p \<and> pool_price amm t \<le> uint p \<and>
    uint x = uint (plan_x_sell t) + uint q * uint p div uint (sys_decimal_value amm) \<and>
    uint y = uint (plan_y_sell t) - uint q"
proof -
  obtain p q cost x y where p: "plan_sell_price amm t pp n distance = Some p"
    and o: "plan_cost amm q p = Some cost" "checked_add (plan_x_sell t) cost = Some x"
      "checked_sub (plan_y_sell t) (widen q) = Some y" "n < length (sell_orders t)"
      "t' = t\<lparr>plan_y_sell := y, plan_x_sell := x, sell_orders := (sell_orders t)[n := \<lparr>price = p, vol = q\<rparr>]\<rparr>"
    using assms(1) by (auto simp: plan_sell_def and_then_Done idx_Some)
  have "uint cost = uint q * uint p div uint (sys_decimal_value amm)"
    using o(1) by (auto simp: plan_cost_def bind_eq_Some_conv checked_arith)
  then show ?thesis
    using o plan_sell_price_Some [OF p assms(2,3)]
    by (intro exI [of _ x] exI [of _ y] exI [of _ p] exI [of _ q]) (simp add: checked_arith)
qed

text \<open>The prices of a step fit the pool's price.\<close>

definition prices_fit :: "amm_info \<Rightarrow> plan_prices \<Rightarrow> int \<Rightarrow> bool" where
  "prices_fit amm pp P \<longleftrightarrow>
     uint (pp_max_bid pp) \<le> P \<and> uint (pp_grid pp) \<le> P \<and> P \<le> uint (pp_min_ask pp) \<and>
     uint (amm_pc_lot_size amm) \<le> P"

lemma plan_order_step:
  assumes "plan_order amm pp fb n t = Done t'"
    and "planned amm t n" and "prices_fit amm pp (pool_price amm t)"
  shows "planned amm t' (Suc n)" and "unat (plan_orders_cur t') = Suc (unat (plan_orders_cur t))"
    and "erase_plan t' = erase_plan t" and "length (buy_orders t') = length (buy_orders t)"
    and "length (sell_orders t') = length (sell_orders t)"
proof -
  obtain distance t1 t2 c where b: "plan_buy amm pp n distance t = Done t1"
    and s: "plan_sell amm pp n distance t1 = Done t2"
    and c: "checked_add (plan_orders_cur t2) 1 = Some c" and t': "t' = t2\<lparr>plan_orders_cur := c\<rparr>"
    using assms(1) by (auto simp: plan_order_def and_then_Done)
  obtain x y p q where t1: "t1 = t\<lparr>plan_x_buy := x, plan_y_buy := y,
      buy_orders := (buy_orders t)[n := \<lparr>price = p, vol = q\<rparr>]\<rparr>" "n < length (buy_orders t)"
    and buy: "uint (amm_pc_lot_size amm) dvd uint p" "uint p \<le> pool_price amm t"
      "uint x = uint (plan_x_buy t) - uint q * uint p div uint (sys_decimal_value amm)"
      "uint y = uint (plan_y_buy t) + uint q"
    using plan_buy_Some [OF b assms(2)] assms(3) by (auto simp: prices_fit_def)
  have P1: "pool_price amm t1 = pool_price amm t" by (simp add: t1 pool_price_def)
  obtain x2 y2 p2 q2 where t2: "t2 = t1\<lparr>plan_y_sell := y2, plan_x_sell := x2,
      sell_orders := (sell_orders t1)[n := \<lparr>price = p2, vol = q2\<rparr>]\<rparr>" "n < length (sell_orders t1)"
    and sell: "uint (amm_pc_lot_size amm) dvd uint p2" "pool_price amm t \<le> uint p2"
      "uint x2 = uint (plan_x_sell t1) + uint q2 * uint p2 div uint (sys_decimal_value amm)"
      "uint y2 = uint (plan_y_sell t1) - uint q2"
    using plan_sell_Some [OF s] assms(3) by (auto simp: prices_fit_def P1)
  have f: "buy_orders t' = (buy_orders t)[n := \<lparr>price = p, vol = q\<rparr>]"
    "sell_orders t' = (sell_orders t)[n := \<lparr>price = p2, vol = q2\<rparr>]"
    "plan_x_buy t' = x" "plan_y_buy t' = y" "plan_x_sell t' = x2" "plan_y_sell t' = y2"
    "target_x t' = target_x t" "target_y t' = target_y t" "pool_price amm t' = pool_price amm t"
    "n < length (sell_orders t)" "plan_x_sell t1 = plan_x_sell t" "plan_y_sell t1 = plan_y_sell t"
    using t2(2) by (simp_all add: t' t2(1) t1(1) pool_price_def)
  note old = assms(2) [unfolded planned_def]
  show "planned amm t' (Suc n)"
    unfolding planned_def
  proof (intro conjI allI impI)
    fix i assume "i < Suc n"
    then consider "i < n" | "i = n" by linarith
    then show "uint (amm_pc_lot_size amm) dvd uint (price (buy_orders t' ! i))"
      "uint (amm_pc_lot_size amm) dvd uint (price (sell_orders t' ! i))"
      "uint (price (buy_orders t' ! i)) \<le> pool_price amm t'"
      "pool_price amm t' \<le> uint (price (sell_orders t' ! i))"
      using old buy(1,2) sell(1,2) t1(2) f(10) by (cases; simp add: f)+
  next
    show "uint (plan_x_buy t') = uint (target_x t') - costs amm (buy_orders t') (Suc n)"
      "uint (plan_y_buy t') = uint (target_y t') + vols (buy_orders t') (Suc n)"
      "uint (plan_x_sell t') = uint (target_x t') + costs amm (sell_orders t') (Suc n)"
      "uint (plan_y_sell t') = uint (target_y t') - vols (sell_orders t') (Suc n)"
      using old buy(3,4) sell(3,4) t1(2) f(10) by (simp_all add: f sums_Suc)
  qed
  show "unat (plan_orders_cur t') = Suc (unat (plan_orders_cur t))"
    using checked_add_one [OF c] by (simp add: t' t2(1) t1(1))
  show "erase_plan t' = erase_plan t" "length (buy_orders t') = length (buy_orders t)"
    "length (sell_orders t') = length (sell_orders t)"
    by (simp_all add: t' t2(1) t1(1) erase_plan_def)
qed

lemma plan_loop:
  assumes "map_outcome_list (plan_order amm pp fb) [a..<b] t = Done t'"
    and "planned amm t a" and "unat (plan_orders_cur t) = a" and "a \<le> b"
    and "prices_fit amm pp (pool_price amm t)"
  shows "planned amm t' b \<and> unat (plan_orders_cur t') = b \<and> erase_plan t' = erase_plan t \<and>
    length (buy_orders t') = length (buy_orders t) \<and> length (sell_orders t') = length (sell_orders t)"
  using assms
proof (induction "b - a" arbitrary: a t)
  case 0
  then show ?case by simp
next
  case (Suc k)
  then have "[a..<b] = a # [Suc a..<b]" by (simp add: upt_conv_Cons)
  then obtain t1 where t1: "plan_order amm pp fb a t = Done t1"
    and rest: "map_outcome_list (plan_order amm pp fb) [Suc a..<b] t1 = Done t'"
    using Suc.prems(1) by (auto simp: and_then_Done)
  note step = plan_order_step [OF t1 Suc.prems(2,5)]
  have "pool_price amm t1 = pool_price amm t"
    using erase_plan_fields(1,2) [OF step(3)] by (simp add: pool_price_def)
  then show ?case
    using Suc.hyps(1) [OF _ rest step(1)] Suc.hyps(2) Suc.prems(3,4,5) step by simp
qed

text \<open>The invariant of the planning state.\<close>

definition plan_inv :: "amm_info \<Rightarrow> target_orders \<Rightarrow> bool" where
  "plan_inv amm t \<longleftrightarrow> plan_orders_cur t = 0 \<or> planned amm t (unat (plan_orders_cur t))"

lemma plan_inv_state [simp]: "plan_inv (amm\<lparr>amm_state := s\<rparr>) t = plan_inv amm t"
  by (simp add: plan_inv_def planned_def pool_price_def costs_def)

lemma plan_inv_done [simp]: "plan_inv (fst (plan_done amm t)) (snd (plan_done amm t)) = plan_inv amm t"
  by (simp add: plan_done_def plan_inv_def planned_def pool_price_def costs_def)

lemma plan_orders_facts:
  assumes "plan_orders amm limit cur t = Done (amm', t')"
    and "planned amm t (unat (plan_orders_cur t))" and "params_ok amm"
    and "uint (amm_pc_lot_size amm) \<le> uint cur" and "uint cur = pool_price amm t"
  shows "\<exists>t1. (if amm_order_num amm = plan_orders_cur t1 then plan_done amm t1 else (amm, t1)) = (amm', t') \<and>
    planned amm t1 (unat (plan_orders_cur t1)) \<and> erase_plan t1 = erase_plan t \<and>
    length (buy_orders t1) = length (buy_orders t) \<and> length (sell_orders t1) = length (sell_orders t) \<and>
    (plan_orders_cur t \<le> amm_order_num amm \<longrightarrow> uint (plan_orders_cur t1) =
      min (uint (plan_orders_cur t) + uint limit) (uint (amm_order_num amm)))"
proof -
  obtain pp num fb t1 where pp: "plan_prices_of amm cur = Some pp"
    and num: "orders_until (plan_orders_cur t) limit (amm_order_num amm) = Some num"
    and loop: "map_outcome_list (plan_order amm pp fb) [unat (plan_orders_cur t)..<unat num] t = Done t1"
    and fin: "(if amm_order_num amm = plan_orders_cur t1 then plan_done amm t1 else (amm, t1)) = (amm', t')"
    using assms(1) by (auto simp: plan_orders_def and_then_Done)
  have fit: "prices_fit amm pp (pool_price amm t)"
    using plan_prices_Some [OF pp] assms(3-5) by (auto simp: prices_fit_def params_ok_def)
  have num': "uint num = min (uint (plan_orders_cur t) + uint limit) (uint (amm_order_num amm))"
    using num by (auto simp: orders_until_def bind_eq_Some_conv checked_add_Some word_less_def split: if_splits)
  show ?thesis
  proof (cases "plan_orders_cur t \<le> amm_order_num amm")
    case True
    then have "uint (plan_orders_cur t) \<le> uint num"
      unfolding num' using uint_ge_0 [of limit] by (simp add: word_le_def)
    then have "unat (plan_orders_cur t) \<le> unat num" by (simp add: word_le_nat_alt flip: word_le_def)
    note l = plan_loop [OF loop assms(2) refl this fit]
    then have "plan_orders_cur t1 = num" by (simp add: word_unat_eq_iff)
    then show ?thesis
      using l fin num' by (intro exI [of _ t1] conjI impI) simp_all
  next
    case False
    then have "uint num \<le> uint (plan_orders_cur t)"
      unfolding num' by (simp add: word_le_def)
    then have "unat num \<le> unat (plan_orders_cur t)" by (simp add: word_le_nat_alt flip: word_le_def)
    then have "t1 = t" using loop by simp
    then show ?thesis
      using fin [unfolded \<open>t1 = t\<close>] assms(2) False by (intro exI [of _ t] conjI impI) simp_all
  qed
qed

lemma plan_start_planned:
  assumes "plan_orders_cur t = 0"
  shows "planned amm (plan_start x y t) 0"
  using assms by (simp add: planned_def plan_start_def vols_def costs_def)

lemma do_plan_cases:
  assumes "do_plan_orderbook limit coin pc amm t = Done (amm', t')"
  obtains (finished) "amm_order_num amm = plan_orders_cur t" "(amm', t') = plan_done amm t"
  | (stopped) x y where "amm' = amm\<lparr>amm_state := state_into_u64 IdleState\<rparr>" "t' = plan_start x y t"
      "amm_order_num amm \<noteq> plan_orders_cur t"
  | (planning) x y cur where "amm_order_num amm \<noteq> plan_orders_cur t"
      "uint cur = pool_price amm (plan_start x y t)"
      "price_in_range amm (widen cur) = Some True"
      "plan_orders amm limit cur (plan_start x y t) = Done (amm', t')"
proof (cases "amm_order_num amm = plan_orders_cur t")
  case True
  then show thesis using assms finished by (simp add: do_plan_orderbook_def)
next
  case False
  then obtain x y where xy: "normalize_decimal_v2 pc (pc_decimals amm) (sys_decimal_value amm) = Some x"
    "normalize_decimal_v2 coin (coin_decimals amm) (sys_decimal_value amm) = Some y" "x \<noteq> 0" "y \<noteq> 0"
    using assms by (auto simp: do_plan_orderbook_def and_then_Done Let_def)
  define t1 where "t1 = plan_start x y t"
  show thesis
  proof (cases "x \<noteq> target_x t1 \<or> y \<noteq> target_y t1")
    case True
    then show thesis
      using assms stopped [of x y] False xy by (simp add: do_plan_orderbook_def and_then_Done Let_def t1_def)
  next
    case same: False
    then have run: "and_then (unwrap (idle_price x y amm)) (\<lambda>p. and_then (unwrap (narrow p)) (\<lambda>cur.
        and_then (unwrap (price_in_range amm (widen cur))) (\<lambda>r.
        if \<not> r then Done (amm\<lparr>amm_state := state_into_u64 IdleState\<rparr>, t1)
        else plan_orders amm limit cur t1))) = Done (amm', t')"
      using assms False xy unfolding t1_def by (simp add: do_plan_orderbook_def Let_def)
    then obtain p cur r where p: "idle_price x y amm = Some p" "narrow p = Some cur"
      "price_in_range amm (widen cur) = Some r"
      and fin: "(if \<not> r then Done (amm\<lparr>amm_state := state_into_u64 IdleState\<rparr>, t1)
         else plan_orders amm limit cur t1) = Done (amm', t')"
      using run unfolding and_then_Done unwrap_Done by blast
    have "uint cur = pool_price amm t1"
      using p(1,2) same by (auto simp: idle_price_def bind_eq_Some_conv checked_arith pool_price_def)
    then show thesis
      using fin p False stopped planning unfolding t1_def by (cases r) auto
  qed
qed

lemma plan_start_fields:
  "to_owner (plan_start x y t) = to_owner t" "calc_pnl_x (plan_start x y t) = calc_pnl_x t"
  "calc_pnl_y (plan_start x y t) = calc_pnl_y t" "plan_orders_cur (plan_start x y t) = plan_orders_cur t"
  "wf_target_orders (plan_start x y t) = wf_target_orders t"
  by (simp_all add: plan_start_def wf_target_orders_def)

lemma plan_done_fields:
  "plan_done amm t = (amm', t') \<Longrightarrow> to_owner t' = to_owner t \<and> calc_pnl_x t' = calc_pnl_x t \<and>
     calc_pnl_y t' = calc_pnl_y t \<and> plan_orders_cur t' = plan_orders_cur t \<and>
     (wf_target_orders t \<longrightarrow> wf_target_orders t') \<and>
     amm' = amm\<lparr>amm_state := state_into_u64 PlaceOrdersState\<rparr> \<and> place_orders_cur t' = 0 \<and>
     plan_inv amm' t' = plan_inv amm t \<and> amm_state amm' = state_into_u64 PlaceOrdersState"
  using plan_inv_done [of amm t]
  by (auto simp: plan_done_def wf_target_orders_def MAX_ORDER_LIMIT_def)

text \<open>Parameters under which a plan keeps its invariant.\<close>

definition plan_params :: "amm_info \<Rightarrow> bool" where
  "plan_params amm \<longleftrightarrow> params_ok amm \<and> min_price_multiplier amm \<noteq> 0"

lemma plan_params_state [simp]: "plan_params (amm\<lparr>amm_state := s\<rparr>) = plan_params amm"
  by (simp add: plan_params_def params_ok_def)

lemma do_plan_facts:
  assumes "do_plan_orderbook limit coin pc amm t = Done (amm', t')"
    and "plan_inv amm t" and "plan_params amm" and "wf_target_orders t"
  shows "plan_inv amm' t' \<and> wf_target_orders t' \<and> to_owner t' = to_owner t \<and>
    calc_pnl_x t' = calc_pnl_x t \<and> calc_pnl_y t' = calc_pnl_y t"
    and "\<exists>s. amm' = amm\<lparr>amm_state := s\<rparr> \<and>
      (s = state_into_u64 IdleState \<or>
       s = state_into_u64 PlaceOrdersState \<and> plan_orders_cur t' = amm_order_num amm \<and> place_orders_cur t' = 0 \<or>
       s = amm_state amm \<and> (plan_orders_cur t \<le> amm_order_num amm \<longrightarrow>
         uint (plan_orders_cur t') = uint (plan_orders_cur t) + uint limit \<and>
         uint (plan_orders_cur t') < uint (amm_order_num amm)))" (is "\<exists>s. _ \<and> ?next s")
proof -
  have "plan_inv amm' t' \<and> wf_target_orders t' \<and> to_owner t' = to_owner t \<and>
    calc_pnl_x t' = calc_pnl_x t \<and> calc_pnl_y t' = calc_pnl_y t \<and>
    (\<exists>s. amm' = amm\<lparr>amm_state := s\<rparr> \<and> ?next s)"
    using assms(1)
  proof (cases rule: do_plan_cases)
    case finished
    note d = plan_done_fields [OF finished(2) [symmetric]]
    then show ?thesis
      using assms(2,4) finished(1) by (intro conjI exI [of _ "state_into_u64 PlaceOrdersState"]) auto
  next
    case (stopped x y)
    have "plan_inv amm (plan_start x y t)"
      using assms(2) plan_start_planned [of t amm x y]
      by (auto simp: plan_inv_def plan_start_def)
    then show ?thesis
      using stopped assms(4)
      by (intro conjI exI [of _ "state_into_u64 IdleState"]) (auto simp: plan_start_fields)
  next
    case (planning x y cur)
    let ?t = "plan_start x y t"
    have "planned amm ?t (unat (plan_orders_cur ?t))"
      using assms(2) plan_start_planned [of t amm x y]
      by (cases "plan_orders_cur t = 0") (auto simp: plan_inv_def plan_start_def)
    moreover have "uint (amm_pc_lot_size amm) \<le> uint cur"
      using price_in_range_lot [OF planning(3)] assms(3) by (simp add: plan_params_def)
    ultimately obtain t1 where
      fin: "(if amm_order_num amm = plan_orders_cur t1 then plan_done amm t1 else (amm, t1)) = (amm', t')" and
      p1: "planned amm t1 (unat (plan_orders_cur t1))" and e: "erase_plan t1 = erase_plan ?t" and
      len: "length (buy_orders t1) = length (buy_orders ?t)" "length (sell_orders t1) = length (sell_orders ?t)" and
      cur: "plan_orders_cur t \<le> amm_order_num amm \<longrightarrow> uint (plan_orders_cur t1) =
        min (uint (plan_orders_cur t) + uint limit) (uint (amm_order_num amm))"
      using plan_orders_facts [OF planning(4)] assms(3) planning(2)
      by (auto simp: plan_params_def plan_start_fields)
    have inv: "plan_inv amm t1" using p1 by (simp add: plan_inv_def)
    have wf: "wf_target_orders t1"
      using erase_plan_fields(6) [OF e len] assms(4) by (simp add: plan_start_fields)
    note fields = erase_plan_fields(3-5) [OF e, unfolded plan_start_fields]
    show ?thesis
    proof (cases "amm_order_num amm = plan_orders_cur t1")
      case True
      then have "plan_done amm t1 = (amm', t')" using fin by simp
      note d = plan_done_fields [OF this]
      show ?thesis
        using d inv wf fields True by (intro conjI exI [of _ "state_into_u64 PlaceOrdersState"]) auto
    next
      case False
      then have "amm' = amm" "t' = t1" using fin by simp_all
      moreover have "uint (plan_orders_cur t1) \<noteq> uint (amm_order_num amm)"
        using False by (simp add: word_uint_eq_iff)
      ultimately show ?thesis
        using inv wf fields cur
        by (intro conjI exI [of _ "amm_state amm"]) (auto simp: min_def split: if_splits)
    qed
  qed
  then show "plan_inv amm' t' \<and> wf_target_orders t' \<and> to_owner t' = to_owner t \<and>
      calc_pnl_x t' = calc_pnl_x t \<and> calc_pnl_y t' = calc_pnl_y t"
    and "\<exists>s. amm' = amm\<lparr>amm_state := s\<rparr> \<and> ?next s"
    by blast+
qed

lemma costs_nonneg: "0 \<le> costs amm os n"
  unfolding costs_def by (intro sum_nonneg) (simp add: pos_imp_zdiv_nonneg_iff div_int_pos_iff)

text \<open>
  C34: the orders planned so far form a book that does not cross, at whole lots, and that the
  pool can pay for: no planned bid is above a planned ask, what the bids would spend is within
  the pc the plan started from, and what the asks would sell within its coin. A planning
  step keeps this, for parameters in their ranges and a smallest price multiplier that is
  not zero; it changes nothing of the pool but its state.
\<close>

theorem do_plan_orderbook_invariant:
  assumes "do_plan_orderbook limit coin pc amm t = Done (amm', t')"
    and "plan_inv amm t" and "plan_params amm" and "wf_target_orders t"
  shows "plan_inv amm' t' \<and> (\<exists>s. amm' = amm\<lparr>amm_state := s\<rparr>) \<and>
    (\<forall>i < unat (plan_orders_cur t'). \<forall>j < unat (plan_orders_cur t').
      uint (price (buy_orders t' ! i)) \<le> uint (price (sell_orders t' ! j)) \<and>
      uint (amm_pc_lot_size amm) dvd uint (price (buy_orders t' ! i)) \<and>
      uint (amm_pc_lot_size amm) dvd uint (price (sell_orders t' ! j))) \<and>
    costs amm' (buy_orders t') (unat (plan_orders_cur t')) \<le> uint (target_x t') \<and>
    vols (sell_orders t') (unat (plan_orders_cur t')) \<le> uint (target_y t')"
proof -
  obtain s where amm': "amm' = amm\<lparr>amm_state := s\<rparr>" using do_plan_facts(2) [OF assms] by blast
  have inv: "plan_inv amm' t'" using do_plan_facts(1) [OF assms] by blast
  let ?n = "unat (plan_orders_cur t')"
  have "?n = 0 \<or> planned amm' t' ?n" using inv by (auto simp: plan_inv_def)
  then have "(\<forall>i < ?n. \<forall>j < ?n. uint (price (buy_orders t' ! i)) \<le> uint (price (sell_orders t' ! j)) \<and>
      uint (amm_pc_lot_size amm) dvd uint (price (buy_orders t' ! i)) \<and>
      uint (amm_pc_lot_size amm) dvd uint (price (sell_orders t' ! j))) \<and>
    costs amm' (buy_orders t') ?n \<le> uint (target_x t') \<and> vols (sell_orders t') ?n \<le> uint (target_y t')"
  proof
    assume "?n = 0"
    then show ?thesis by (simp add: costs_def vols_def)
  next
    assume p: "planned amm' t' ?n"
    have "amm_pc_lot_size amm' = amm_pc_lot_size amm" by (simp add: amm')
    moreover have "uint (plan_x_buy t') = uint (target_x t') - costs amm' (buy_orders t') ?n"
      "uint (plan_y_sell t') = uint (target_y t') - vols (sell_orders t') ?n"
      using p by (simp_all add: planned_def)
    then have "costs amm' (buy_orders t') ?n \<le> uint (target_x t')" "vols (sell_orders t') ?n \<le> uint (target_y t')"
      using uint_ge_0 [of "plan_x_buy t'"] uint_ge_0 [of "plan_y_sell t'"] by linarith+
    moreover have "uint (amm_pc_lot_size amm') dvd uint (price (buy_orders t' ! i))"
      "uint (amm_pc_lot_size amm') dvd uint (price (sell_orders t' ! i))"
      "uint (price (buy_orders t' ! i)) \<le> pool_price amm' t'"
      "pool_price amm' t' \<le> uint (price (sell_orders t' ! i))" if "i < ?n" for i
      using p that by (simp_all add: planned_def)
    ultimately show ?thesis by (auto intro: order_trans [of _ "pool_price amm' t'"])
  qed
  then show ?thesis using inv amm' by blast
qed

definition sample_plan_amm :: amm_info where
  "sample_plan_amm = sample_amm\<lparr>amm_state := 3\<rparr>"

definition sample_planned :: target_orders where
  "sample_planned = (case do_plan_orderbook 3 1000 4000 sample_plan_amm sample_target of
     Done (a, t) \<Rightarrow> t | _ \<Rightarrow> sample_target)"

lemma sample_plan_run:
  "case do_plan_orderbook 3 1000 4000 sample_plan_amm sample_target of
     Done (a, t) \<Rightarrow> a = sample_plan_amm \<and> plan_orders_cur t = 3 \<and>
       take 3 (map price (buy_orders t)) = [3, 2, 1] \<and> take 3 (map price (sell_orders t)) = [5, 6, 7]
   | _ \<Rightarrow> False"
  by code_simp

lemma sample_plan_Done:
  "do_plan_orderbook 3 1000 4000 sample_plan_amm sample_target = Done (sample_plan_amm, sample_planned)"
  "plan_orders_cur sample_planned = 3"
  using sample_plan_run by (auto simp: sample_planned_def split: outcome.splits)

lemma sample_plan_hyps:
  "plan_inv sample_plan_amm sample_target" "plan_params sample_plan_amm" "wf_target_orders sample_target"
proof -
  show "plan_inv sample_plan_amm sample_target" by (simp add: plan_inv_def sample_target_def)
  show "plan_params sample_plan_amm" by code_simp
qed simp

theorem do_plan_orderbook_invariant_witness:
  "plan_inv sample_plan_amm sample_planned \<and> plan_orders_cur sample_planned = 3 \<and>
     uint (price (buy_orders sample_planned ! 0)) \<le> uint (price (sell_orders sample_planned ! 2))"
  using do_plan_orderbook_invariant [OF sample_plan_Done(1) sample_plan_hyps]
  by (simp add: sample_plan_Done(2))

text \<open>The orders from \<open>a\<close> on and below \<open>b\<close> are the only ones that differ.\<close>

definition plans_only :: "nat \<Rightarrow> nat \<Rightarrow> target_orders \<Rightarrow> target_orders \<Rightarrow> bool" where
  "plans_only a b t t' \<longleftrightarrow>
     (\<forall>i. i < a \<or> b \<le> i \<longrightarrow>
        buy_orders t' ! i = buy_orders t ! i \<and> sell_orders t' ! i = sell_orders t ! i)"

lemma plan_order_only:
  assumes "plan_order amm pp fb i t = Done t'"
  shows "plans_only i (Suc i) t t' \<and> unat (plan_orders_cur t') = Suc (unat (plan_orders_cur t))"
proof -
  obtain b sl cur where "buy_orders t' = (buy_orders t)[i := b]" "sell_orders t' = (sell_orders t)[i := sl]"
    and "checked_add (plan_orders_cur t) 1 = Some cur" "plan_orders_cur t' = cur"
    using assms by (auto simp: plan_order_def plan_buy_def plan_sell_def and_then_Done split: if_splits)
  then show ?thesis
    using checked_add_one by (auto simp: plans_only_def nth_list_update_neq)
qed

lemma plan_loop_only:
  assumes "map_outcome_list (plan_order amm pp fb) [a..<b] t = Done t'" and "unat (plan_orders_cur t) = a"
  shows "plans_only a (unat (plan_orders_cur t')) t t' \<and> a \<le> unat (plan_orders_cur t')"
  using assms
proof (induction "b - a" arbitrary: a t)
  case 0
  then show ?case by (simp add: plans_only_def)
next
  case (Suc k)
  then have "[a..<b] = a # [Suc a..<b]" by (simp add: upt_conv_Cons)
  then obtain t1 where t1: "plan_order amm pp fb a t = Done t1"
    and rest: "map_outcome_list (plan_order amm pp fb) [Suc a..<b] t1 = Done t'"
    using Suc.prems(1) by (auto simp: and_then_Done)
  note o = plan_order_only [OF t1]
  have "plans_only (Suc a) (unat (plan_orders_cur t')) t1 t' \<and> Suc a \<le> unat (plan_orders_cur t')"
    using Suc.hyps(1) [OF _ rest] Suc.hyps(2) Suc.prems(2) o by simp
  then show ?case using o by (auto simp: plans_only_def)
qed

lemma do_plan_only:
  assumes "do_plan_orderbook limit coin pc amm t = Done (amm', t')"
  shows "plans_only (unat (plan_orders_cur t)) (unat (plan_orders_cur t')) t t'"
  using assms
proof (cases rule: do_plan_cases)
  case finished
  then show ?thesis by (simp add: plan_done_def plans_only_def)
next
  case (stopped x y)
  then show ?thesis by (simp add: plan_start_def plans_only_def)
next
  case (planning x y cur)
  then obtain pp num fb t1 where
    loop: "map_outcome_list (plan_order amm pp fb) [unat (plan_orders_cur t)..<unat (num :: u64)] (plan_start x y t) = Done t1"
    and fin: "(if amm_order_num amm = plan_orders_cur t1 then plan_done amm t1 else (amm, t1)) = (amm', t')"
    by (auto simp: plan_orders_def and_then_Done plan_start_fields)
  have "plans_only (unat (plan_orders_cur t)) (unat (plan_orders_cur t1)) (plan_start x y t) t1"
    using plan_loop_only [OF loop] by (simp add: plan_start_fields)
  moreover have "buy_orders t' = buy_orders t1" "sell_orders t' = sell_orders t1"
    "plan_orders_cur t' = plan_orders_cur t1"
    using fin by (auto simp: plan_done_def split: if_splits)
  moreover have "buy_orders (plan_start x y t) = buy_orders t" "sell_orders (plan_start x y t) = sell_orders t"
    by (simp_all add: plan_start_def)
  ultimately show ?thesis by (simp add: plans_only_def)
qed

text \<open>
  C35: planning comes to an end. While planning steps with a limit that is not zero leave the
  pool in the planning state, each of them plans exactly as many orders of either side as its
  limit says: the count of planned orders grows by the limit, the orders between the old count and
  the new one are the only ones that change, and all below the count satisfy the invariant of the
  plan. The pool stays as it is. The orders planned at the start and the number of steps times
  the limit together stay below the number of orders of the pool, so after fewer steps than that
  number planning is over.
\<close>

theorem planning_ends:
  assumes "\<forall>k<n. do_plan_orderbook limit (coin k) (pc k) (A k) (T k) = Done (A (Suc k), T (Suc k))"
    and "\<forall>k\<le>n. amm_state (A k) = state_into_u64 PlanOrdersState"
    and "plan_inv (A 0) (T 0)" and "plan_params (A 0)" and "wf_target_orders (T 0)"
    and "plan_orders_cur (T 0) < amm_order_num (A 0)"
  shows "(\<forall>k<n. uint (plan_orders_cur (T (Suc k))) = uint (plan_orders_cur (T k)) + uint limit \<and>
      plans_only (unat (plan_orders_cur (T k))) (unat (plan_orders_cur (T (Suc k)))) (T k) (T (Suc k))) \<and>
    (\<forall>k\<le>n. A k = A 0 \<and> plan_inv (A 0) (T k)) \<and>
    uint (plan_orders_cur (T 0)) + int n * uint limit < uint (amm_order_num (A 0)) \<and>
    (limit \<noteq> 0 \<longrightarrow> int n < uint (amm_order_num (A 0)))"
proof -
  have steps: "A k = A 0 \<and> plan_inv (A 0) (T k) \<and> wf_target_orders (T k) \<and>
    uint (plan_orders_cur (T k)) = uint (plan_orders_cur (T 0)) + int k * uint limit \<and>
    uint (plan_orders_cur (T k)) < uint (amm_order_num (A 0))" if "k \<le> n" for k
    using that
  proof (induction k)
    case 0
    then show ?case using assms(3,5,6) by (simp add: word_less_def)
  next
    case (Suc k)
    then have ih: "A k = A 0" "plan_inv (A 0) (T k)" "wf_target_orders (T k)"
      "uint (plan_orders_cur (T k)) = uint (plan_orders_cur (T 0)) + int k * uint limit"
      "uint (plan_orders_cur (T k)) < uint (amm_order_num (A 0))"
      by simp_all
    have "do_plan_orderbook limit (coin k) (pc k) (A 0) (T k) = Done (A (Suc k), T (Suc k))"
      using assms(1) ih(1) Suc.prems by (metis Suc_le_lessD)
    note f = do_plan_facts [OF this ih(2) assms(4) ih(3)]
    obtain s where s: "A (Suc k) = (A 0)\<lparr>amm_state := s\<rparr>"
      "s = state_into_u64 IdleState \<or> s = state_into_u64 PlaceOrdersState \<or> s = amm_state (A 0) \<and>
       uint (plan_orders_cur (T (Suc k))) = uint (plan_orders_cur (T k)) + uint limit \<and>
       uint (plan_orders_cur (T (Suc k))) < uint (amm_order_num (A 0))"
      using f(2) ih(5) by (auto simp: word_le_def)
    have "s = state_into_u64 PlanOrdersState" "amm_state (A 0) = state_into_u64 PlanOrdersState"
      using assms(2) Suc.prems s(1) by force+
    then show ?case
      using s f(1) ih(4) by (simp add: algebra_simps)
  qed
  have "uint (plan_orders_cur (T (Suc k))) = uint (plan_orders_cur (T k)) + uint limit" if "k < n" for k
    using steps [of k] steps [of "Suc k"] that by (simp add: algebra_simps)
  moreover have "int n \<le> int n * uint limit" if "limit \<noteq> 0"
    using mult_left_mono [of 1 "uint limit" "int n"] uint_pos [OF that] by simp
  moreover have "plans_only (unat (plan_orders_cur (T k))) (unat (plan_orders_cur (T (Suc k)))) (T k) (T (Suc k))"
    if "k < n" for k
    using do_plan_only assms(1) that by blast
  moreover have "\<forall>k\<le>n. A k = A 0 \<and> plan_inv (A 0) (T k)"
    using steps by blast
  moreover have "uint (plan_orders_cur (T 0)) + int n * uint limit < uint (amm_order_num (A 0))"
    using steps [of n] by simp
  ultimately show ?thesis
    using uint_ge_0 [of "plan_orders_cur (T 0)"] by (smt (verit))
qed

theorem planning_ends_witness:
  "uint (plan_orders_cur sample_planned) = uint (plan_orders_cur sample_target) + uint (3 :: u16) \<and>
   int 1 < uint (amm_order_num sample_plan_amm)"
proof -
  have "\<forall>k<1. do_plan_orderbook 3 1000 4000 sample_plan_amm (if k = (0 :: nat) then sample_target else sample_planned) =
      Done (sample_plan_amm, if Suc k = 0 then sample_target else sample_planned)"
    using sample_plan_Done(1) by simp
  from planning_ends [OF this [folded One_nat_def]] show ?thesis
    using sample_plan_hyps by (simp add: sample_plan_amm_def sample_amm_def sample_target_def)
qed

end
