(* ===== verification/Place.thy ===== *)
theory Place
  imports Plan Admin
begin

text \<open>
  \<open>do_place_orders\<close> of \<open>program/src/processor.rs\<close>: the planned orders are sent to the market, a
  limited number per instruction, as new orders or as replacements of the pool's old ones.
  The theory also holds the accounts of the monitor and what a monitor step may change of a
  pool.
\<close>

section \<open>Accounts\<close>

record monitor_accounts =
  mo_token_program :: account_info
  mo_rent :: account_info
  mo_clock :: account_info
  mo_amm :: account_info
  mo_authority :: account_info
  mo_open_orders :: account_info
  mo_target_orders :: account_info
  mo_coin_vault :: account_info
  mo_pc_vault :: account_info
  mo_market_program :: account_info
  mo_market :: account_info
  mo_market_coin_vault :: account_info
  mo_market_pc_vault :: account_info
  mo_vault_signer :: account_info
  mo_request_queue :: account_info
  mo_event_queue :: account_info
  mo_bids :: account_info
  mo_asks :: account_info
  mo_srm_token :: "account_info option"
  mo_referrer :: "account_info option"

definition monitor_parse_accounts :: "account_info list \<Rightarrow> monitor_accounts outcome" where
  "monitor_parse_accounts accounts =
     (if length accounts \<noteq> 18 \<and> length accounts \<noteq> 18 + 1 \<and> length accounts \<noteq> 18 + 2
      then err WrongAccountsNumber
      else Done \<lparr>mo_token_program = accounts ! 0,
        mo_rent = accounts ! 1,
        mo_clock = accounts ! 2,
        mo_amm = accounts ! 3,
        mo_authority = accounts ! 4,
        mo_open_orders = accounts ! 5,
        mo_target_orders = accounts ! 6,
        mo_coin_vault = accounts ! 7,
        mo_pc_vault = accounts ! 8,
        mo_market_program = accounts ! 9,
        mo_market = accounts ! 10,
        mo_market_coin_vault = accounts ! 11,
        mo_market_pc_vault = accounts ! 12,
        mo_vault_signer = accounts ! 13,
        mo_request_queue = accounts ! 14,
        mo_event_queue = accounts ! 15,
        mo_bids = accounts ! 16,
        mo_asks = accounts ! 17,
        mo_srm_token = (if length accounts > 18 then Some (accounts ! 18) else None),
        mo_referrer = (if length accounts = 18 + 2 then Some (accounts ! 19) else None)\<rparr>)"

section \<open>Placing orders\<close>

record place_state =
  ps_amm :: amm_info
  ps_target :: target_orders
  ps_bids :: "u64 list"
  ps_asks :: "u64 list"
  ps_pc :: u64
  ps_coin :: u64
  ps_world :: world

text \<open>
  The client id of an order: a new one when no order is left to replace, else that of the last
  order (for the first placed) or of the first one.
\<close>

definition take_client_id ::
  "amm_info \<Rightarrow> u64 list \<Rightarrow> u64 \<Rightarrow> u64 \<times> bool \<times> amm_info \<times> u64 list" where
  "take_client_id amm ids valid_num =
     (if ids = [] then (let (client_order_id, amm') = incr_client_order_id amm in (client_order_id, True, amm', []))
      else if valid_num = 0 then (last ids, False, amm, butlast ids)
      else (hd ids, False, amm, tl ids))"

text \<open>The call; \<open>NonZeroU64::new\<close> of a zero is \<open>None\<close>, and unwrapped.\<close>

definition send_order ::
  "runtime \<Rightarrow> monitor_accounts \<Rightarrow> u64 \<Rightarrow> bool \<Rightarrow> side \<Rightarrow> account_info \<Rightarrow> u64 \<Rightarrow> u64 \<Rightarrow> u64 \<Rightarrow> u64 \<Rightarrow>
   world \<Rightarrow> world outcome" where
  "send_order R M nonce new_order sd payer limit_price max_coin_qty max_native_pc client_order_id w =
     (if limit_price = 0 \<or> max_coin_qty = 0 \<or> max_native_pc = 0 then Panic
      else if new_order then
        invoke_dex_new_order_v3 R (mo_market_program M) (mo_market M) (mo_open_orders M)
          (mo_request_queue M) (mo_event_queue M) (mo_bids M) (mo_asks M) payer (mo_authority M)
          (mo_market_coin_vault M) (mo_market_pc_vault M) (mo_token_program M) (mo_rent M)
          (mo_srm_token M) AUTHORITY_AMM (as_u8 nonce) sd limit_price max_coin_qty max_native_pc
          Limit client_order_id 65535 w
      else
        invoke_dex_replace_order_by_client_id R (mo_market_program M) (mo_market M) (mo_open_orders M)
          (mo_request_queue M) (mo_event_queue M) (mo_bids M) (mo_asks M) payer (mo_authority M)
          (mo_market_coin_vault M) (mo_market_pc_vault M) (mo_token_program M) (mo_rent M)
          (mo_srm_token M) AUTHORITY_AMM (as_u8 nonce) sd limit_price max_coin_qty max_native_pc
          Limit client_order_id 65535 w)"

text \<open>
  One order of a side: its id is written to the side's array of replaced ids, at the place of
  the side's counter, which then moves on.
\<close>

definition place_order ::
  "runtime \<Rightarrow> monitor_accounts \<Rightarrow> side \<Rightarrow> account_info \<Rightarrow> u64 \<Rightarrow> u64 \<Rightarrow> u64 \<Rightarrow> amm_info \<Rightarrow> u64 list \<Rightarrow>
   u64 list \<Rightarrow> u64 \<Rightarrow> world \<Rightarrow> (amm_info \<times> u64 list \<times> u64 list \<times> u64 \<times> world) outcome" where
  "place_order R M sd payer limit_price max_coin_qty max_native_pc amm ids replace_ids valid_num w =
     (let (client_order_id, new_order, amm', ids') = take_client_id amm ids valid_num in
      and_then (unwrap (idx replace_ids (unat valid_num))) (\<lambda>_.
      and_then (send_order R M (amm_nonce amm) new_order sd payer limit_price max_coin_qty max_native_pc
        client_order_id w) (\<lambda>w'.
      and_then (unwrap (checked_add valid_num 1)) (\<lambda>valid_num'.
        Done (amm', ids', replace_ids[unat valid_num := client_order_id], valid_num', w')))))"

text \<open>A planned order in the units of the market: its price and its quantity in lots.\<close>

definition order_out :: "amm_info \<Rightarrow> target_order list \<Rightarrow> nat \<Rightarrow> (u64 \<times> u64) option" where
  "order_out amm orders i =
     do {
       order \<leftarrow> idx orders i;
       limit_price \<leftarrow> convert_price_out (price order) (amm_pc_lot_size amm);
       max_coin_qty \<leftarrow> convert_vol_out (vol order) (coin_decimals amm) (amm_coin_lot_size amm)
         (sys_decimal_value amm);
       Some (limit_price, max_coin_qty)
     }"

text \<open>The first component tells whether the handler returns here.\<close>

definition place_bid ::
  "runtime \<Rightarrow> monitor_accounts \<Rightarrow> nat \<Rightarrow> place_state \<Rightarrow> (bool \<times> place_state) outcome" where
  "place_bid R M i st =
     (let amm = ps_amm st; target = ps_target st in
      and_then (unwrap (order_out amm (buy_orders target) i)) (\<lambda>(limit_price, max_coin_qty).
      and_then (unwrap (convert_out_pc_lot_size (as_u8 (pc_decimals amm)) (as_u8 (coin_decimals amm))
        (amm_pc_lot_size amm) (amm_coin_lot_size amm) (sys_decimal_value amm))) (\<lambda>out_pc_lot_size.
      and_then (unwrap (do { a \<leftarrow> checked_mul max_coin_qty limit_price; checked_mul a out_pc_lot_size }))
        (\<lambda>max_native_pc.
      if max_native_pc > ps_pc st then
        Done (True, st\<lparr>ps_amm := amm\<lparr>amm_state := state_into_u64 CancelAllOrdersState\<rparr>\<rparr>)
      else if limit_price \<noteq> 0 \<and> max_coin_qty \<noteq> 0 then
        and_then (place_order R M Bid (mo_pc_vault M) limit_price max_coin_qty max_native_pc amm
          (ps_bids st) (replace_buy_client_id target) (valid_buy_order_num target) (ps_world st))
          (\<lambda>(amm', ids, replace_ids, valid_num, w).
          Done (False, st\<lparr>ps_amm := amm', ps_bids := ids, ps_world := w,
            ps_target := target\<lparr>replace_buy_client_id := replace_ids, valid_buy_order_num := valid_num\<rparr>\<rparr>))
      else Done (False, st)))))"

definition place_ask ::
  "runtime \<Rightarrow> monitor_accounts \<Rightarrow> nat \<Rightarrow> place_state \<Rightarrow> (bool \<times> place_state) outcome" where
  "place_ask R M i st =
     (let amm = ps_amm st; target = ps_target st in
      and_then (unwrap (order_out amm (sell_orders target) i)) (\<lambda>(limit_price, max_coin_qty).
      and_then (unwrap (checked_mul max_coin_qty (amm_coin_lot_size amm))) (\<lambda>native_coin.
      if native_coin > ps_coin st then
        Done (True, st\<lparr>ps_amm := amm\<lparr>amm_state := state_into_u64 CancelAllOrdersState\<rparr>\<rparr>)
      else if limit_price \<noteq> 0 \<and> max_coin_qty \<noteq> 0 then
        and_then (place_order R M Ask (mo_coin_vault M) limit_price max_coin_qty 1 amm
          (ps_asks st) (replace_sell_client_id target) (valid_sell_order_num target) (ps_world st))
          (\<lambda>(amm', ids, replace_ids, valid_num, w).
          Done (False, st\<lparr>ps_amm := amm', ps_asks := ids, ps_world := w,
            ps_target := target\<lparr>replace_sell_client_id := replace_ids, valid_sell_order_num := valid_num\<rparr>\<rparr>))
      else Done (False, st))))"

definition available :: "u64 \<Rightarrow> u64 \<Rightarrow> u64 \<Rightarrow> u64 option" where
  "available amount free need_take =
     do {
       a \<leftarrow> checked_add amount free;
       checked_sub a need_take
     }"

text \<open>The reload after an order: both amounts are read from the pc vault, as in the code.\<close>

definition place_reload ::
  "runtime \<Rightarrow> monitor_accounts \<Rightarrow> place_state \<Rightarrow> place_state outcome" where
  "place_reload R M st =
     (let amm = ps_amm st; w = ps_world st in
      and_then (rt_open_orders_load R (ai_key (mo_open_orders M)) (acc_of w (mo_open_orders M))
        (ai_key (mo_market M)) (ai_key (mo_authority M)) (amm_market_program amm)) (\<lambda>oo.
      and_then (unpack_token_account R w (mo_pc_vault M) (rt_spl_token_id R)) (\<lambda>pc_vault.
      and_then (unpack_token_account R w (mo_pc_vault M) (rt_spl_token_id R)) (\<lambda>coin_vault.
      and_then (unwrap (available (ta_amount pc_vault) (native_pc_free oo)
        (need_take_pnl_pc (amm_state_data amm)))) (\<lambda>pc.
      and_then (unwrap (available (ta_amount coin_vault) (native_coin_free oo)
        (need_take_pnl_coin (amm_state_data amm)))) (\<lambda>coin.
        Done (st\<lparr>ps_pc := pc, ps_coin := coin\<rparr>)))))))"

definition place_step ::
  "runtime \<Rightarrow> monitor_accounts \<Rightarrow> nat \<Rightarrow> place_state \<Rightarrow> (bool \<times> place_state) outcome" where
  "place_step R M i st =
     and_then (place_bid R M i st) (\<lambda>(stop1, st1).
     if stop1 then Done (True, st1)
     else
     and_then (place_ask R M i st1) (\<lambda>(stop2, st2).
     if stop2 then Done (True, st2)
     else
     and_then (unwrap (checked_add (place_orders_cur (ps_target st2)) 1)) (\<lambda>cur.
     and_then (place_reload R M (st2\<lparr>ps_target := (ps_target st2)\<lparr>place_orders_cur := cur\<rparr>\<rparr>)) (\<lambda>st3.
       Done (False, st3)))))"

fun place_loop ::
  "runtime \<Rightarrow> monitor_accounts \<Rightarrow> nat list \<Rightarrow> place_state \<Rightarrow> (bool \<times> place_state) outcome" where
  "place_loop R M [] st = Done (False, st)"
| "place_loop R M (i # is) st =
     and_then (place_step R M i st) (\<lambda>(stop, st').
       if stop then Done (True, st') else place_loop R M is st')"

text \<open>The loop over the planned orders, with what is available before its first one.\<close>

definition place_start ::
  "open_orders \<Rightarrow> leaf_node list \<Rightarrow> leaf_node list \<Rightarrow> u64 \<Rightarrow> u64 \<Rightarrow> amm_info \<Rightarrow> target_orders \<Rightarrow> world \<Rightarrow>
   place_state outcome" where
  "place_start oo bids asks coin_vault_amount pc_vault_amount amm target w =
     and_then (unwrap (available pc_vault_amount (native_pc_free oo)
       (need_take_pnl_pc (amm_state_data amm)))) (\<lambda>pc.
     and_then (unwrap (available coin_vault_amount (native_coin_free oo)
       (need_take_pnl_coin (amm_state_data amm)))) (\<lambda>coin.
       Done \<lparr>ps_amm = amm, ps_target = target,
         ps_bids = filter (\<lambda>i. i \<notin> set (replace_buy_client_id target)) (map leaf_client_order_id bids),
         ps_asks = filter (\<lambda>i. i \<notin> set (replace_sell_client_id target)) (map leaf_client_order_id asks),
         ps_pc = pc, ps_coin = coin, ps_world = w\<rparr>))"

text \<open>After the loop: the totals are remembered once every order is placed, then orders are purged.\<close>

definition place_finish ::
  "u128 \<Rightarrow> u128 \<Rightarrow> bool \<times> place_state \<Rightarrow> (amm_info \<times> target_orders \<times> world) outcome" where
  "place_finish x y r =
     (case r of (stop, st) \<Rightarrow>
        if stop then Done (ps_amm st, ps_target st, ps_world st)
        else
          Done
            (if place_orders_cur (ps_target st) \<ge> amm_order_num (ps_amm st)
             then (ps_amm st)\<lparr>amm_state := state_into_u64 PurgeOrderState\<rparr> else ps_amm st,
             if place_orders_cur (ps_target st) = amm_order_num (ps_amm st)
             then (ps_target st)\<lparr>placed_x := x, placed_y := y\<rparr> else ps_target st,
             ps_world st))"

definition do_place_orders ::
  "runtime \<Rightarrow> monitor_accounts \<Rightarrow> u16 \<Rightarrow> open_orders \<Rightarrow> leaf_node list \<Rightarrow> leaf_node list \<Rightarrow> u64 \<Rightarrow> u64 \<Rightarrow>
   u64 \<Rightarrow> u64 \<Rightarrow> amm_info \<Rightarrow> target_orders \<Rightarrow> world \<Rightarrow> (amm_info \<times> target_orders \<times> world) outcome" where
  "do_place_orders R M limit oo bids asks total_coin total_pc coin_vault_amount pc_vault_amount amm target w =
     (if count_zeros (oo_free_slot_bits oo) > 100
      then Done (amm\<lparr>amm_state := state_into_u64 CancelAllOrdersState\<rparr>, target, w)
      else
      and_then (unwrap (normalize_decimal_v2 total_pc (pc_decimals amm) (sys_decimal_value amm))) (\<lambda>x.
      and_then (unwrap (normalize_decimal_v2 total_coin (coin_decimals amm) (sys_decimal_value amm))) (\<lambda>y.
      if x = 0 \<or> y = 0 then err CheckedEmptyFunds
      else if x \<noteq> target_x target \<or> y \<noteq> target_y target
      then Done (amm\<lparr>amm_state := state_into_u64 IdleState\<rparr>, target, w)
      else
      and_then (unwrap (orders_until (place_orders_cur target) limit (amm_order_num amm))) (\<lambda>num.
      and_then (place_start oo bids asks coin_vault_amount pc_vault_amount amm target w) (\<lambda>st.
      and_then (place_loop R M [unat (place_orders_cur target)..<unat num] st)
        (place_finish x y))))))"

section \<open>What a step may change\<close>

text \<open>
  The monitor moves the pool's state, its reset flag, its order ids and the record of its
  profit, of which what is owed never falls.
\<close>

definition erase_monitor :: "amm_info \<Rightarrow> amm_info" where
  "erase_monitor a = a\<lparr>amm_state := 0, amm_reset_flag := 0, amm_client_order_id := 0,
     amm_state_data := (amm_state_data a)\<lparr>need_take_pnl_pc := 0, need_take_pnl_coin := 0,
       total_pnl_pc := 0, total_pnl_coin := 0\<rparr>\<rparr>"

definition moved :: "amm_info \<Rightarrow> amm_info \<Rightarrow> bool" where
  "moved amm amm' \<longleftrightarrow> erase_monitor amm' = erase_monitor amm \<and>
     uint (need_take_pnl_pc (amm_state_data amm)) \<le> uint (need_take_pnl_pc (amm_state_data amm')) \<and>
     uint (need_take_pnl_coin (amm_state_data amm)) \<le> uint (need_take_pnl_coin (amm_state_data amm'))"

lemma moved_state:
  "moved amm (amm\<lparr>amm_state := s\<rparr>)" "moved amm amm" "moved amm (amm\<lparr>amm_reset_flag := f, amm_state := s\<rparr>)"
  "moved amm (amm\<lparr>amm_client_order_id := i\<rparr>)"
  by (simp_all add: moved_def erase_monitor_def)

lemma moved_trans: "moved a b \<Longrightarrow> moved b c \<Longrightarrow> moved a c"
  by (simp add: moved_def)

lemma erase_field:
  "moved a b \<Longrightarrow> (\<And>x. f (erase_monitor x) = f x) \<Longrightarrow> f b = f a"
  unfolding moved_def by metis

lemma moved_fields:
  assumes "moved a b"
  shows "amm_status b = amm_status a"
    and "amm_nonce b = amm_nonce a"
    and "amm_order_num b = amm_order_num a"
    and "amm_depth b = amm_depth a"
    and "coin_decimals b = coin_decimals a"
    and "pc_decimals b = pc_decimals a"
    and "min_size b = min_size a"
    and "vol_max_cut_ratio b = vol_max_cut_ratio a"
    and "amm_coin_lot_size b = amm_coin_lot_size a"
    and "amm_pc_lot_size b = amm_pc_lot_size a"
    and "min_price_multiplier b = min_price_multiplier a"
    and "max_price_multiplier b = max_price_multiplier a"
    and "sys_decimal_value b = sys_decimal_value a"
    and "amm_fees b = amm_fees a"
    and "amm_coin_vault b = amm_coin_vault a"
    and "amm_pc_vault b = amm_pc_vault a"
    and "coin_vault_mint b = coin_vault_mint a"
    and "pc_vault_mint b = pc_vault_mint a"
    and "amm_lp_mint b = amm_lp_mint a"
    and "amm_open_orders b = amm_open_orders a"
    and "amm_market b = amm_market a"
    and "amm_market_program b = amm_market_program a"
    and "amm_target_orders b = amm_target_orders a"
    and "amm_padding1 b = amm_padding1 a"
    and "amm_owner b = amm_owner a"
    and "lp_amount b = lp_amount a"
    and "uint (need_take_pnl_pc (amm_state_data a)) \<le> uint (need_take_pnl_pc (amm_state_data b))"
    and "uint (need_take_pnl_coin (amm_state_data a)) \<le> uint (need_take_pnl_coin (amm_state_data b))"
    and "sd_padding (amm_state_data b) = sd_padding (amm_state_data a)"
proof -
  show "amm_status b = amm_status a" by (rule erase_field [OF assms, where f = amm_status]) (simp add: erase_monitor_def)
  show "amm_nonce b = amm_nonce a" by (rule erase_field [OF assms, where f = amm_nonce]) (simp add: erase_monitor_def)
  show "amm_order_num b = amm_order_num a" by (rule erase_field [OF assms, where f = amm_order_num]) (simp add: erase_monitor_def)
  show "amm_depth b = amm_depth a" by (rule erase_field [OF assms, where f = amm_depth]) (simp add: erase_monitor_def)
  show "coin_decimals b = coin_decimals a" by (rule erase_field [OF assms, where f = coin_decimals]) (simp add: erase_monitor_def)
  show "pc_decimals b = pc_decimals a" by (rule erase_field [OF assms, where f = pc_decimals]) (simp add: erase_monitor_def)
  show "min_size b = min_size a" by (rule erase_field [OF assms, where f = min_size]) (simp add: erase_monitor_def)
  show "vol_max_cut_ratio b = vol_max_cut_ratio a" by (rule erase_field [OF assms, where f = vol_max_cut_ratio]) (simp add: erase_monitor_def)
  show "amm_coin_lot_size b = amm_coin_lot_size a" by (rule erase_field [OF assms, where f = amm_coin_lot_size]) (simp add: erase_monitor_def)
  show "amm_pc_lot_size b = amm_pc_lot_size a" by (rule erase_field [OF assms, where f = amm_pc_lot_size]) (simp add: erase_monitor_def)
  show "min_price_multiplier b = min_price_multiplier a" by (rule erase_field [OF assms, where f = min_price_multiplier]) (simp add: erase_monitor_def)
  show "max_price_multiplier b = max_price_multiplier a" by (rule erase_field [OF assms, where f = max_price_multiplier]) (simp add: erase_monitor_def)
  show "sys_decimal_value b = sys_decimal_value a" by (rule erase_field [OF assms, where f = sys_decimal_value]) (simp add: erase_monitor_def)
  show "amm_fees b = amm_fees a" by (rule erase_field [OF assms, where f = amm_fees]) (simp add: erase_monitor_def)
  show "amm_coin_vault b = amm_coin_vault a" by (rule erase_field [OF assms, where f = amm_coin_vault]) (simp add: erase_monitor_def)
  show "amm_pc_vault b = amm_pc_vault a" by (rule erase_field [OF assms, where f = amm_pc_vault]) (simp add: erase_monitor_def)
  show "coin_vault_mint b = coin_vault_mint a" by (rule erase_field [OF assms, where f = coin_vault_mint]) (simp add: erase_monitor_def)
  show "pc_vault_mint b = pc_vault_mint a" by (rule erase_field [OF assms, where f = pc_vault_mint]) (simp add: erase_monitor_def)
  show "amm_lp_mint b = amm_lp_mint a" by (rule erase_field [OF assms, where f = amm_lp_mint]) (simp add: erase_monitor_def)
  show "amm_open_orders b = amm_open_orders a" by (rule erase_field [OF assms, where f = amm_open_orders]) (simp add: erase_monitor_def)
  show "amm_market b = amm_market a" by (rule erase_field [OF assms, where f = amm_market]) (simp add: erase_monitor_def)
  show "amm_market_program b = amm_market_program a" by (rule erase_field [OF assms, where f = amm_market_program]) (simp add: erase_monitor_def)
  show "amm_target_orders b = amm_target_orders a" by (rule erase_field [OF assms, where f = amm_target_orders]) (simp add: erase_monitor_def)
  show "amm_padding1 b = amm_padding1 a" by (rule erase_field [OF assms, where f = amm_padding1]) (simp add: erase_monitor_def)
  show "amm_owner b = amm_owner a" by (rule erase_field [OF assms, where f = amm_owner]) (simp add: erase_monitor_def)
  show "lp_amount b = lp_amount a" by (rule erase_field [OF assms, where f = lp_amount]) (simp add: erase_monitor_def)
  show "sd_padding (amm_state_data b) = sd_padding (amm_state_data a)"
    by (rule erase_field [OF assms, where f = "\<lambda>x. sd_padding (amm_state_data x)"]) (simp add: erase_monitor_def)
qed (use assms in \<open>simp_all add: moved_def\<close>)

lemma moved_inv:
  assumes "moved a b"
  shows "wf_amm b = wf_amm a" and "params_ok b = params_ok a" and "plan_params b = plan_params a"
    and "plan_inv b t = plan_inv a t"
  by (simp_all add: wf_amm_def params_ok_def plan_params_def plan_inv_def planned_def
      pool_price_def costs_def moved_fields [OF assms])

section \<open>Orders that are placed\<close>

definition order_call :: "side \<Rightarrow> u64 \<Rightarrow> u64 \<Rightarrow> cpi \<Rightarrow> bool" where
  "order_call sd p q c =
     (case cpi_ix c of
        DexNewOrderV3 keys s limit_price max_coin_qty ty cid limit mx \<Rightarrow>
          s = sd \<and> limit_price = p \<and> max_coin_qty = q
      | DexReplaceOrderByClientId keys s limit_price max_coin_qty ty cid limit mx \<Rightarrow>
          s = sd \<and> limit_price = p \<and> max_coin_qty = q
      | _ \<Rightarrow> False)"

text \<open>A call that places one of the first \<open>n\<close> planned orders.\<close>

definition planned_call :: "amm_info \<Rightarrow> target_orders \<Rightarrow> nat \<Rightarrow> cpi \<Rightarrow> bool" where
  "planned_call amm t n c \<longleftrightarrow>
     (\<exists>i<n. \<exists>p q. order_out amm (buy_orders t) i = Some (p, q) \<and> order_call Bid p q c \<or>
        order_out amm (sell_orders t) i = Some (p, q) \<and> order_call Ask p q c)"

definition erase_place :: "target_orders \<Rightarrow> target_orders" where
  "erase_place t = t\<lparr>replace_buy_client_id := replicate (length (replace_buy_client_id t)) 0,
     replace_sell_client_id := replicate (length (replace_sell_client_id t)) 0,
     valid_buy_order_num := 0, valid_sell_order_num := 0, place_orders_cur := 0, placed_x := 0, placed_y := 0\<rparr>"

lemma erase_place_field:
  "erase_place a = erase_place b \<Longrightarrow> (\<And>x. f (erase_place x) = f x) \<Longrightarrow> f a = f b"
  by metis

lemma erase_place_fields:
  assumes "erase_place a = erase_place b"
  shows "buy_orders a = buy_orders b" and "sell_orders a = sell_orders b"
    and "wf_target_orders a = wf_target_orders b" and "plan_inv amm a = plan_inv amm b"
proof -
  show "buy_orders a = buy_orders b"
    by (rule erase_place_field [OF assms, where f = buy_orders]) (simp add: erase_place_def)
  show "sell_orders a = sell_orders b"
    by (rule erase_place_field [OF assms, where f = sell_orders]) (simp add: erase_place_def)
  show "wf_target_orders a = wf_target_orders b"
    by (rule erase_place_field [OF assms, where f = wf_target_orders])
       (simp add: erase_place_def wf_target_orders_def)
  show "plan_inv amm a = plan_inv amm b"
    by (rule erase_place_field [OF assms, where f = "plan_inv amm"])
       (simp add: erase_place_def plan_inv_def planned_def pool_price_def)
qed

text \<open>What a part of the placing loop does to its state, and the calls it makes.\<close>

definition place_rel :: "(cpi \<Rightarrow> bool) \<Rightarrow> place_state \<Rightarrow> bool \<Rightarrow> place_state \<Rightarrow> bool" where
  "place_rel P st stop st' \<longleftrightarrow>
     moved (ps_amm st) (ps_amm st') \<and>
     amm_state (ps_amm st') = (if stop then state_into_u64 CancelAllOrdersState else amm_state (ps_amm st)) \<and>
     erase_place (ps_target st') = erase_place (ps_target st) \<and>
     (\<exists>cs. cpis (ps_world st') = cpis (ps_world st) @ cs \<and> list_all P cs)"

lemma place_rel_refl: "place_rel P st False st"
  by (simp add: place_rel_def moved_state)

lemma place_rel_trans: "place_rel P a False b \<Longrightarrow> place_rel P b s c \<Longrightarrow> place_rel P a s c"
  by (auto simp: place_rel_def intro: moved_trans)

lemma order_out_moved: "moved a b \<Longrightarrow> order_out b os i = order_out a os i"
  by (simp add: order_out_def moved_fields)

lemma send_order_call:
  "send_order R M nonce new_order sd payer p q mx cid w = Done w' \<Longrightarrow>
     \<exists>c. cpis w' = cpis w @ [c] \<and> order_call sd p q c"
  by (auto simp: send_order_def invoke_dex_new_order_v3_def invoke_dex_replace_order_by_client_id_def
      order_call_def dest!: invoke_signed_cpis split: if_splits)

lemma place_order_facts:
  assumes "place_order R M sd payer p q mx amm ids rep num w = Done (amm', ids', rep', num', w')"
  shows "moved amm amm' \<and> amm_state amm' = amm_state amm \<and> length rep' = length rep \<and>
    (\<exists>c. cpis w' = cpis w @ [c] \<and> order_call sd p q c)"
proof -
  obtain cid new_order where t: "take_client_id amm ids num = (cid, new_order, amm', ids')"
    and s: "send_order R M (amm_nonce amm) new_order sd payer p q mx cid w = Done w'"
    and r: "rep' = rep[unat num := cid]"
    using assms by (auto simp: place_order_def and_then_Done split: prod.splits)
  have "moved amm amm' \<and> amm_state amm' = amm_state amm"
    using t by (auto simp: take_client_id_def incr_client_order_id_def Let_def moved_state split: if_splits)
  then show ?thesis using r send_order_call [OF s] by simp
qed

lemma place_bid_facts:
  assumes "place_bid R M i st = Done (stop, st')"
  shows "place_rel (\<lambda>c. \<exists>p q. order_out (ps_amm st) (buy_orders (ps_target st)) i = Some (p, q) \<and> order_call Bid p q c)
    st stop st'"
proof -
  obtain p q mx where o: "order_out (ps_amm st) (buy_orders (ps_target st)) i = Some (p, q)"
    and run: "(if mx > ps_pc st then
        Done (True, st\<lparr>ps_amm := (ps_amm st)\<lparr>amm_state := state_into_u64 CancelAllOrdersState\<rparr>\<rparr>)
      else if p \<noteq> 0 \<and> q \<noteq> 0 then
        and_then (place_order R M Bid (mo_pc_vault M) p q mx (ps_amm st)
          (ps_bids st) (replace_buy_client_id (ps_target st)) (valid_buy_order_num (ps_target st)) (ps_world st))
          (\<lambda>(amm', ids, replace_ids, valid_num, w).
          Done (False, st\<lparr>ps_amm := amm', ps_bids := ids, ps_world := w,
            ps_target := (ps_target st)\<lparr>replace_buy_client_id := replace_ids, valid_buy_order_num := valid_num\<rparr>\<rparr>))
      else Done (False, st)) = Done (stop, st')"
    using assms unfolding place_bid_def Let_def by (auto simp: and_then_Done simp del: state_into_u64.simps)
  show ?thesis
    using run o
    by (auto simp: place_rel_def moved_state erase_place_def and_then_Done
        dest!: place_order_facts split: if_splits simp del: state_into_u64.simps)
qed

lemma place_ask_facts:
  assumes "place_ask R M i st = Done (stop, st')"
  shows "place_rel (\<lambda>c. \<exists>p q. order_out (ps_amm st) (sell_orders (ps_target st)) i = Some (p, q) \<and> order_call Ask p q c)
    st stop st'"
proof -
  obtain p q mx where o: "order_out (ps_amm st) (sell_orders (ps_target st)) i = Some (p, q)"
    and run: "(if mx > ps_coin st then
        Done (True, st\<lparr>ps_amm := (ps_amm st)\<lparr>amm_state := state_into_u64 CancelAllOrdersState\<rparr>\<rparr>)
      else if p \<noteq> 0 \<and> q \<noteq> 0 then
        and_then (place_order R M Ask (mo_coin_vault M) p q 1 (ps_amm st)
          (ps_asks st) (replace_sell_client_id (ps_target st)) (valid_sell_order_num (ps_target st)) (ps_world st))
          (\<lambda>(amm', ids, replace_ids, valid_num, w).
          Done (False, st\<lparr>ps_amm := amm', ps_asks := ids, ps_world := w,
            ps_target := (ps_target st)\<lparr>replace_sell_client_id := replace_ids, valid_sell_order_num := valid_num\<rparr>\<rparr>))
      else Done (False, st)) = Done (stop, st')"
    using assms unfolding place_ask_def Let_def by (auto simp: and_then_Done simp del: state_into_u64.simps)
  show ?thesis
    using run o
    by (auto simp: place_rel_def moved_state erase_place_def and_then_Done
        dest!: place_order_facts split: if_splits simp del: state_into_u64.simps)
qed

lemma place_rel_mono: "place_rel P a s b \<Longrightarrow> (\<And>c. P c \<Longrightarrow> Q c) \<Longrightarrow> place_rel Q a s b"
  by (auto simp: place_rel_def list_all_iff)

lemma place_reload_facts:
  "place_reload R M st = Done st' \<Longrightarrow> \<exists>pc coin. st' = st\<lparr>ps_pc := pc, ps_coin := coin\<rparr>"
  by (auto simp: place_reload_def Let_def and_then_Done)

text \<open>The loop starts from \<open>amm\<close> and \<open>t\<close>; its state differs from them as a part of it may change them.\<close>

definition place_from :: "amm_info \<Rightarrow> target_orders \<Rightarrow> place_state \<Rightarrow> bool" where
  "place_from amm t st \<longleftrightarrow> moved amm (ps_amm st) \<and> erase_place (ps_target st) = erase_place t"

lemma place_from_rel: "place_from amm t a \<Longrightarrow> place_rel P a s b \<Longrightarrow> place_from amm t b"
  by (auto simp: place_from_def place_rel_def intro: moved_trans)

lemma place_step_facts:
  assumes "place_step R M i st = Done (stop, st')" and "place_from amm t st" and "i < n"
  shows "place_rel (planned_call amm t n) st stop st'"
proof -
  obtain stop1 st1 where b: "place_bid R M i st = Done (stop1, st1)"
    and rest: "(if stop1 then Done (True, st1) else
     and_then (place_ask R M i st1) (\<lambda>(stop2, st2).
     if stop2 then Done (True, st2)
     else
     and_then (unwrap (checked_add (place_orders_cur (ps_target st2)) 1)) (\<lambda>cur.
     and_then (place_reload R M (st2\<lparr>ps_target := (ps_target st2)\<lparr>place_orders_cur := cur\<rparr>\<rparr>)) (\<lambda>st3.
       Done (False, st3))))) = Done (stop, st')"
    using assms(1) by (auto simp: place_step_def and_then_Done)
  have out: "order_out (ps_amm s) os i = order_out amm os i"
    "buy_orders (ps_target s) = buy_orders t" "sell_orders (ps_target s) = sell_orders t"
    if "place_from amm t s" for s os
    using that order_out_moved [of amm "ps_amm s" os i] erase_place_fields(1,2) [of "ps_target s" t]
    by (auto simp: place_from_def)
  have rb: "place_rel (planned_call amm t n) st stop1 st1"
    by (rule place_rel_mono [OF place_bid_facts [OF b]])
       (use assms(3) out [OF assms(2)] in \<open>auto simp: planned_call_def\<close>)
  show ?thesis
  proof (cases stop1)
    case True
    then show ?thesis using rb rest by simp
  next
    case False
    then have rb: "place_rel (planned_call amm t n) st False st1" using rb by simp
    have f1: "place_from amm t st1" using place_from_rel [OF assms(2) rb] by simp
    obtain stop2 st2 where a: "place_ask R M i st1 = Done (stop2, st2)"
      and rest2: "(if stop2 then Done (True, st2) else
       and_then (unwrap (checked_add (place_orders_cur (ps_target st2)) 1)) (\<lambda>cur.
       and_then (place_reload R M (st2\<lparr>ps_target := (ps_target st2)\<lparr>place_orders_cur := cur\<rparr>\<rparr>)) (\<lambda>st3.
         Done (False, st3)))) = Done (stop, st')"
      using rest False by (auto simp: and_then_Done)
    have ra: "place_rel (planned_call amm t n) st1 stop2 st2"
      by (rule place_rel_mono [OF place_ask_facts [OF a]])
         (use assms(3) out [OF f1] in \<open>auto simp: planned_call_def\<close>)
    note r2 = place_rel_trans [OF rb ra]
    show ?thesis
    proof (cases stop2)
      case True
      then show ?thesis using r2 rest2 by simp
    next
      case no: False
      then obtain cur st3 where c: "checked_add (place_orders_cur (ps_target st2)) 1 = Some cur"
        and l: "place_reload R M (st2\<lparr>ps_target := (ps_target st2)\<lparr>place_orders_cur := cur\<rparr>\<rparr>) = Done st3"
        and e: "\<not> stop" "st' = st3"
        using rest2 by (auto simp: and_then_Done)
      show ?thesis
        using r2 place_reload_facts [OF l] no e by (auto simp: place_rel_def erase_place_def)
    qed
  qed
qed

lemma place_loop_facts:
  assumes "place_loop R M is st = Done (stop, st')" and "place_from amm t st" and "\<forall>i\<in>set is. i < n"
  shows "place_rel (planned_call amm t n) st stop st'"
  using assms
proof (induction "is" arbitrary: st)
  case Nil
  then show ?case by (simp add: place_rel_refl)
next
  case (Cons i "is")
  obtain s1 st1 where step: "place_step R M i st = Done (s1, st1)"
    and rest: "(if s1 then Done (True, st1) else place_loop R M is st1) = Done (stop, st')"
    using Cons.prems(1) by (auto simp: and_then_Done)
  have r: "place_rel (planned_call amm t n) st s1 st1"
    by (rule place_step_facts [OF step Cons.prems(2)]) (use Cons.prems(3) in simp)
  show ?case
  proof (cases s1)
    case True
    then show ?thesis using r rest by simp
  next
    case False
    then have r: "place_rel (planned_call amm t n) st False st1" using r by simp
    have "place_rel (planned_call amm t n) st1 stop st'"
      by (rule Cons.IH) (use False rest place_from_rel [OF Cons.prems(2) r] Cons.prems(3) in auto)
    then show ?thesis by (rule place_rel_trans [OF r])
  qed
qed

lemma do_place_cases:
  assumes "do_place_orders R M limit oo bids asks total_coin total_pc coin_v pc_v amm t w = Done (amm', t', w')"
  obtains (moved) s where "s \<in> {IdleState, CancelAllOrdersState}" "amm' = amm\<lparr>amm_state := state_into_u64 s\<rparr>" "t' = t" "w' = w"
  | (placed) x y num st r where
      "orders_until (place_orders_cur t) limit (amm_order_num amm) = Some num"
      "place_start oo bids asks coin_v pc_v amm t w = Done st"
      "place_loop R M [unat (place_orders_cur t)..<unat num] st = Done r"
      "place_finish x y r = Done (amm', t', w')"
proof (cases "count_zeros (oo_free_slot_bits oo) > 100")
  case True
  then show thesis using assms moved [of CancelAllOrdersState] by (simp add: do_place_orders_def)
next
  case False
  then obtain x y where run: "(if x \<noteq> target_x t \<or> y \<noteq> target_y t
      then Done (amm\<lparr>amm_state := state_into_u64 IdleState\<rparr>, t, w)
      else
      and_then (unwrap (orders_until (place_orders_cur t) limit (amm_order_num amm))) (\<lambda>num.
      and_then (place_start oo bids asks coin_v pc_v amm t w) (\<lambda>st.
      and_then (place_loop R M [unat (place_orders_cur t)..<unat num] st)
        (place_finish x y)))) = Done (amm', t', w')"
    using assms by (auto simp: do_place_orders_def and_then_Done simp del: state_into_u64.simps)
  show thesis
  proof (cases "x \<noteq> target_x t \<or> y \<noteq> target_y t")
    case True
    then show thesis using run moved [of IdleState] by simp
  next
    case False
    then show thesis using run placed by (auto simp: and_then_Done)
  qed
qed

lemma place_finish_Done:
  assumes "place_finish x y (stop, st) = Done (amm', t', w')"
  shows "w' = ps_world st" and "erase_place t' = erase_place (ps_target st)"
    and "amm' = ps_amm st \<or> \<not> stop \<and> amm' = (ps_amm st)\<lparr>amm_state := state_into_u64 PurgeOrderState\<rparr>"
  using assms by (auto simp: place_finish_def erase_place_def split: if_splits)

lemma do_place_facts:
  assumes "do_place_orders R M limit oo bids asks total_coin total_pc coin_v pc_v amm t w = Done (amm', t', w')"
  shows "moved amm amm' \<and> erase_place t' = erase_place t \<and>
    amm_state amm' \<in> insert (amm_state amm) (state_into_u64 ` {IdleState, CancelAllOrdersState, PurgeOrderState}) \<and>
    (\<exists>cs. cpis w' = cpis w @ cs \<and> list_all (planned_call amm t (unat (amm_order_num amm))) cs)"
  using assms
proof (cases rule: do_place_cases)
  case (moved s)
  then show ?thesis by (auto simp: moved_state)
next
  case (placed x y num st0 r)
  obtain stop st where r: "r = (stop, st)" by (cases r)
  have st0: "ps_amm st0 = amm" "ps_target st0 = t" "ps_world st0 = w"
    using placed(2) by (auto simp: place_start_def and_then_Done)
  have "num \<le> amm_order_num amm"
    using placed(1) by (auto simp: orders_until_def bind_eq_Some_conv not_less split: if_splits)
  then have "unat num \<le> unat (amm_order_num amm)" by (simp add: word_le_nat_alt)
  then have "\<forall>i\<in>set [unat (place_orders_cur t)..<unat num]. i < unat (amm_order_num amm)" by auto
  from place_loop_facts [OF placed(3) [unfolded r] _ this, of amm t]
  have rel: "place_rel (planned_call amm t (unat (amm_order_num amm))) st0 stop st"
    by (simp add: place_from_def st0 moved_state)
  note fin = place_finish_Done [OF placed(4) [unfolded r]]
  have "moved amm amm'"
    using fin(3) rel moved_trans [OF _ moved_state(1)] by (auto simp: place_rel_def st0)
  then show ?thesis
    using fin rel by (auto simp: place_rel_def st0 split: if_splits)
qed

text \<open>
  C36: orders go to the market only as they were planned. Every call that placing makes is for
  one of the pool's planned orders, at its price and of its quantity in the market's lots, so
  no bid is above the price the plan was made at and no ask below it. The step leaves the
  plan, the shares, the vaults and the fees of the pool as they are.
\<close>

theorem do_place_orders_as_planned:
  assumes "do_place_orders R M limit oo bids asks total_coin total_pc coin_v pc_v amm t w = Done (amm', t', w')"
    and "plan_inv amm t" and "plan_orders_cur t = amm_order_num amm"
  shows "\<exists>cs. cpis w' = cpis w @ cs \<and> list_all (planned_call amm t (unat (amm_order_num amm))) cs \<and>
    (\<forall>c sd p q. c \<in> set cs \<and> order_call sd p q c \<longrightarrow>
      (sd = Bid \<longrightarrow> uint p * uint (amm_pc_lot_size amm) \<le> pool_price amm t) \<and>
      (sd = Ask \<longrightarrow> pool_price amm t \<le> uint p * uint (amm_pc_lot_size amm))) \<and>
    moved amm amm' \<and> erase_place t' = erase_place t \<and> plan_inv amm' t'"
proof -
  note f = do_place_facts [OF assms(1)]
  then obtain cs where cs: "cpis w' = cpis w @ cs"
    "list_all (planned_call amm t (unat (amm_order_num amm))) cs" by blast
  have out: "p = p'" if "order_call sd p q c" "order_call sd p' q' c" for sd p p' q q' c
    using that by (auto simp: order_call_def split: cpi_data.splits)
  have side: "sd = sd'" if "order_call sd p q c" "order_call sd' p' q' c" for sd sd' p p' q q' c
    using that by (auto simp: order_call_def split: cpi_data.splits)
  have lots: "uint p * uint (amm_pc_lot_size amm) = uint (price (os ! i)) \<and> i < length os"
    if "order_out amm os i = Some (p, q)" "uint (amm_pc_lot_size amm) dvd uint (price (os ! i))" for os i p q
    using that
    by (auto simp: order_out_def convert_price_out_def bind_eq_Some_conv checked_arith idx_Some)
  have "(sd = Bid \<longrightarrow> uint p * uint (amm_pc_lot_size amm) \<le> pool_price amm t) \<and>
      (sd = Ask \<longrightarrow> pool_price amm t \<le> uint p * uint (amm_pc_lot_size amm))"
    if "c \<in> set cs" "order_call sd p q c" for c sd p q
  proof -
    have "planned_call amm t (unat (amm_order_num amm)) c"
      using cs(2) that(1) by (simp add: list_all_iff)
    then obtain i p' q' where i: "i < unat (amm_order_num amm)"
      and o: "order_out amm (buy_orders t) i = Some (p', q') \<and> order_call Bid p' q' c \<or>
        order_out amm (sell_orders t) i = Some (p', q') \<and> order_call Ask p' q' c"
      unfolding planned_call_def by blast
    have "plan_orders_cur t \<noteq> 0" using i assms(3) by auto
    then have "planned amm t (unat (amm_order_num amm))"
      using assms(2,3) by (simp add: plan_inv_def)
    then have planned: "uint (amm_pc_lot_size amm) dvd uint (price (buy_orders t ! i))"
      "uint (amm_pc_lot_size amm) dvd uint (price (sell_orders t ! i))"
      "uint (price (buy_orders t ! i)) \<le> pool_price amm t"
      "pool_price amm t \<le> uint (price (sell_orders t ! i))"
      using i by (simp_all add: planned_def)
    show ?thesis
      using o
    proof
      assume b: "order_out amm (buy_orders t) i = Some (p', q') \<and> order_call Bid p' q' c"
      then have "sd = Bid" "p = p'" using side [OF that(2), of Bid p' q'] out [OF that(2), of p' q'] by auto
      then show ?thesis using b lots [of "buy_orders t" i p' q'] planned by simp
    next
      assume a: "order_out amm (sell_orders t) i = Some (p', q') \<and> order_call Ask p' q' c"
      then have "sd = Ask" "p = p'" using side [OF that(2), of Ask p' q'] out [OF that(2), of p' q'] by auto
      then show ?thesis using a lots [of "sell_orders t" i p' q'] planned by simp
    qed
  qed
  then show ?thesis
    using cs f erase_place_fields(4) [of t' t amm] moved_inv(4) [of amm amm'] assms(2) by auto
qed

section \<open>A run\<close>

text \<open>A pool with one order, planned and then placed.\<close>

definition sample_one_amm :: amm_info where
  "sample_one_amm = sample_plan_amm\<lparr>amm_order_num := 1\<rparr>"

definition sample_one_target :: target_orders where
  "sample_one_target = (case do_plan_orderbook 3 1000 4000 sample_one_amm sample_target of
     Done (a, t) \<Rightarrow> t | _ \<Rightarrow> sample_target)"

lemma sample_one_fields:
  "case do_plan_orderbook 3 1000 4000 sample_one_amm sample_target of
     Done (a, t) \<Rightarrow> a = sample_one_amm\<lparr>amm_state := 5\<rparr> \<and> plan_orders_cur t = 1 \<and> place_orders_cur t = 0 \<and>
       target_x t = 4000 \<and> target_y t = 1000 \<and> buy_orders t ! 0 = \<lparr>price = 3, vol = 317\<rparr> \<and>
       sell_orders t ! 0 = \<lparr>price = 5, vol = 0\<rparr> \<and>
       valid_buy_order_num t = 0 \<and> valid_sell_order_num t = 0 \<and>
       replace_buy_client_id t = replicate 10 0 \<and> replace_sell_client_id t = replicate 10 0
   | _ \<Rightarrow> False"
  by code_simp

lemma sample_one_Done:
  "do_plan_orderbook 3 1000 4000 sample_one_amm sample_target =
     Done (sample_one_amm\<lparr>amm_state := 5\<rparr>, sample_one_target)"
  "plan_orders_cur sample_one_target = 1" "place_orders_cur sample_one_target = 0"
  "target_x sample_one_target = 4000" "target_y sample_one_target = 1000"
  "buy_orders sample_one_target ! 0 = \<lparr>price = 3, vol = 317\<rparr>"
  "sell_orders sample_one_target ! 0 = \<lparr>price = 5, vol = 0\<rparr>"
  "valid_buy_order_num sample_one_target = 0" "valid_sell_order_num sample_one_target = 0"
  "replace_buy_client_id sample_one_target = replicate 10 0"
  "replace_sell_client_id sample_one_target = replicate 10 0"
  using sample_one_fields by (auto simp: sample_one_target_def split: outcome.splits)

lemma sample_one_plan:
  "plan_inv (sample_one_amm\<lparr>amm_state := 5\<rparr>) sample_one_target" "wf_target_orders sample_one_target"
proof -
  have "plan_inv sample_one_amm sample_target" by (simp add: plan_inv_def sample_target_def)
  moreover have "plan_params sample_one_amm" by code_simp
  ultimately show "plan_inv (sample_one_amm\<lparr>amm_state := 5\<rparr>) sample_one_target"
    "wf_target_orders sample_one_target"
    using do_plan_facts(1) [OF sample_one_Done(1)] by auto
qed

definition sample_monitor_accounts :: monitor_accounts where
  "sample_monitor_accounts = \<lparr>mo_token_program = sample_info 1, mo_rent = sample_info 5,
     mo_clock = sample_info 4, mo_amm = sample_info 100, mo_authority = sample_info 50,
     mo_open_orders = sample_info 101, mo_target_orders = sample_info 102, mo_coin_vault = sample_info 104,
     mo_pc_vault = sample_info 105, mo_market_program = sample_info openbook_program_id,
     mo_market = sample_info 106, mo_market_coin_vault = sample_info 122,
     mo_market_pc_vault = sample_info 123, mo_vault_signer = sample_info 124,
     mo_request_queue = sample_info 126, mo_event_queue = sample_info 125, mo_bids = sample_info 120,
     mo_asks = sample_info 121, mo_srm_token = None, mo_referrer = None\<rparr>"

lemma sample_monitor_accounts_simps [simp]:
  "mo_token_program sample_monitor_accounts = sample_info 1" "mo_amm sample_monitor_accounts = sample_info 100"
  "mo_authority sample_monitor_accounts = sample_info 50" "mo_clock sample_monitor_accounts = sample_info 4"
  "mo_open_orders sample_monitor_accounts = sample_info 101"
  "mo_target_orders sample_monitor_accounts = sample_info 102"
  "mo_coin_vault sample_monitor_accounts = sample_info 104" "mo_pc_vault sample_monitor_accounts = sample_info 105"
  "mo_market_program sample_monitor_accounts = sample_info openbook_program_id"
  "mo_market sample_monitor_accounts = sample_info 106" "mo_srm_token sample_monitor_accounts = None"
  "mo_event_queue sample_monitor_accounts = sample_info 125" "mo_referrer sample_monitor_accounts = None"
  "mo_bids sample_monitor_accounts = sample_info 120" "mo_asks sample_monitor_accounts = sample_info 121"
  by (simp_all add: sample_monitor_accounts_def)

lemma sample_unpack_pc:
  "ledger w 105 = sample_ledger 105 \<Longrightarrow>
     unpack_token_account sample_runtime w (sample_info 105) 1 = Done (sample_token 202 50 4000)"
  using sample_unpack(2) by (simp add: unpack_token_account_def acc_of_def sample_world_def)

lemma sample_reload:
  assumes "ledger (ps_world st) = sample_ledger" and "amm_state_data (ps_amm st) = sample_state_data"
  shows "place_reload sample_runtime sample_monitor_accounts st = Done (st\<lparr>ps_pc := 4000, ps_coin := 4000\<rparr>)"
proof -
  have "available 4000 0 0 = Some 4000" by code_simp
  moreover have "\<exists>oo. rt_open_orders_load sample_runtime k a m au p = Done oo \<and> native_pc_free oo = 0 \<and> native_coin_free oo = 0" for k a m au p
    by (simp add: sample_runtime_def)
  then obtain oo where "rt_open_orders_load sample_runtime 101 (sample_ledger 101) 106 50 (amm_market_program (ps_amm st)) = Done oo"
    "native_pc_free oo = 0" "native_coin_free oo = 0" by blast
  ultimately show ?thesis
    using assms
    by (simp add: place_reload_def Let_def acc_of_def sample_unpack_pc sample_state_data_def)
qed

lemma sample_place_run:
  "\<exists>amm' t' w'. do_place_orders sample_runtime sample_monitor_accounts 3 (sample_open_orders\<lparr>oo_free_slot_bits := -1\<rparr>) [] [] 1000 4000
     1000 4000 (sample_one_amm\<lparr>amm_state := 5\<rparr>) sample_one_target sample_world = Done (amm', t', w') \<and>
     length (cpis w') = 1"
proof -
  let ?amm = "sample_one_amm\<lparr>amm_state := 5\<rparr>"
  have n: "normalize_decimal_v2 4000 0 1 = Some 4000" "normalize_decimal_v2 1000 0 1 = Some 1000"
    "orders_until 0 3 1 = Some 1" "convert_price_out 3 1 = Some 3" "convert_price_out 5 1 = Some 5"
    "convert_vol_out 317 0 1 1 = Some 317" "convert_vol_out 0 0 1 1 = Some 0"
    "convert_out_pc_lot_size 0 0 1 1 1 = Some 1" "as_u8 0 = 0" "as_u8 254 = 254"
    "do { a \<leftarrow> checked_mul (317 :: u64) 3; checked_mul a 1 } = Some 951"
    "available 4000 0 0 = Some 4000" "available 1000 0 0 = Some 1000"
    "checked_add (0 :: u64) 1 = Some 1" "checked_mul (0 :: u64) 1 = Some 0"
    by code_simp+
  have f: "amm_pc_lot_size sample_amm = 1" "amm_coin_lot_size sample_amm = 1"
    by (simp_all add: sample_amm_def)
  have o: "order_out (sample_amm\<lparr>amm_order_num := 1, amm_state := 5\<rparr>) (buy_orders sample_one_target) 0 = Some (3, 317)"
    "order_out (sample_amm\<lparr>amm_order_num := 1, amm_state := 5, amm_client_order_id := i\<rparr>)
      (sell_orders sample_one_target) 0 = Some (5, 0)" for i
    using sample_one_plan(2) by (simp_all add: order_out_def idx_def wf_target_orders_def sample_one_Done n f)
  have i: "\<exists>i. incr_client_order_id (sample_amm\<lparr>amm_order_num := 1, amm_state := 5\<rparr>) =
      (1, sample_amm\<lparr>amm_order_num := 1, amm_state := 5, amm_client_order_id := 1\<rparr>)"
    by (simp add: incr_client_order_id_def Let_def sample_amm_def)
  show ?thesis
    using i
    by (auto simp: do_place_orders_def place_start_def n sample_one_Done sample_one_amm_def sample_plan_amm_def
        sample_open_orders_def count_zeros_def sample_state_data_def place_step_def place_bid_def place_ask_def
        o f place_order_def take_client_id_def send_order_def invoke_dex_new_order_v3_def
        sample_reload place_finish_def sample_world_def idx_def Let_def)
qed
theorem do_place_orders_as_planned_witness:
  "\<exists>amm' t' w' c. do_place_orders sample_runtime sample_monitor_accounts 3 (sample_open_orders\<lparr>oo_free_slot_bits := -1\<rparr>)
     [] [] 1000 4000 1000 4000 (sample_one_amm\<lparr>amm_state := 5\<rparr>) sample_one_target sample_world = Done (amm', t', w') \<and>
     cpis w' = [c] \<and> planned_call (sample_one_amm\<lparr>amm_state := 5\<rparr>) sample_one_target 1 c"
proof -
  obtain amm' t' w' where run: "do_place_orders sample_runtime sample_monitor_accounts 3
      (sample_open_orders\<lparr>oo_free_slot_bits := -1\<rparr>) [] [] 1000 4000 1000 4000
      (sample_one_amm\<lparr>amm_state := 5\<rparr>) sample_one_target sample_world = Done (amm', t', w')"
    and one: "length (cpis w') = 1"
    using sample_place_run by blast
  have num: "amm_order_num (sample_one_amm\<lparr>amm_state := 5\<rparr>) = 1" by (simp add: sample_one_amm_def)
  have cur: "plan_orders_cur sample_one_target = amm_order_num (sample_one_amm\<lparr>amm_state := 5\<rparr>)"
    by (simp add: num sample_one_Done(2))
  have empty: "cpis sample_world = []" by (simp add: sample_world_def)
  from do_place_orders_as_planned [OF run sample_one_plan(1) cur]
  obtain cs where "cpis w' = cs"
    and all: "list_all (planned_call (sample_one_amm\<lparr>amm_state := 5\<rparr>) sample_one_target 1) cs"
    unfolding num empty by auto
  then obtain c where "cpis w' = [c]" "cs = [c]" using one by (auto simp: length_Suc_conv)
  then show ?thesis using run all by auto
qed

end
