(* ===== verification/Monitor.thy ===== *)
theory Monitor
  imports Place
begin

text \<open>
  The order-book monitor of \<open>program/src/processor.rs\<close>: \<open>process_monitor_step\<close> with
  \<open>check_accounts\<close>, the parsers of the module \<open>account_parser\<close>, and the states that purge and
  cancel orders: \<open>do_purge_orders\<close>, \<open>do_cancel_all_orders_state\<close>, \<open>do_cancel_order\<close>. A pool
  moves through its states one instruction at a time; the last part gives the machine it
  implements.

  Each \<open>with_parsed_args\<close> gets an array the caller has just built with the length it asks for, so
  its check of the length cannot fail and is not repeated here.
\<close>

section \<open>The checks of the accounts\<close>

definition check_accounts ::
  "runtime \<Rightarrow> pubkey \<Rightarrow> amm_info \<Rightarrow> account_info \<Rightarrow> account_info \<Rightarrow> account_info \<Rightarrow> account_info \<Rightarrow>
   account_info \<Rightarrow> account_info \<Rightarrow> account_info \<Rightarrow> account_info \<Rightarrow> account_info \<Rightarrow> account_info \<Rightarrow>
   account_info option \<Rightarrow> account_info option \<Rightarrow> world \<Rightarrow> unit outcome" where
  "check_accounts R program_id amm amm_info token_program clock market_program authority market
     open_orders coin_vault pc_vault target_orders srm_token referrer_pc w =
     (if amm_status amm = status_into_u64 Uninitialized then err InvalidStatus
      else
      and_then (authority_id R program_id AUTHORITY_AMM (as_u8 (amm_nonce amm))) (\<lambda>expected.
        if ai_key authority \<noteq> expected then err InvalidProgramAddress
        else if acc_owner (acc_of w amm_info) \<noteq> program_id then err InvalidOwner
        else if ai_key token_program \<noteq> rt_spl_token_id R then err InvalidSplTokenProgram
        else if ai_key clock \<noteq> rt_clock_id R then err InvalidProgramAddress
        else if ai_key market_program \<noteq> amm_market_program amm then err InvalidMarketProgram
        else if ai_key market \<noteq> amm_market amm then err InvalidMarket
        else if ai_key open_orders \<noteq> amm_open_orders amm then err InvalidOpenOrders
        else if ai_key coin_vault \<noteq> amm_coin_vault amm then err InvalidCoinVault
        else if ai_key pc_vault \<noteq> amm_pc_vault amm then err InvalidPCVault
        else if ai_key target_orders \<noteq> amm_target_orders amm then err InvalidTargetOrders
        else
        and_then (check_srm_token R authority srm_token w) (\<lambda>_.
          check_referrer_pc R amm referrer_pc w)))"

text \<open>The call of the monitor.\<close>

definition monitor_check ::
  "runtime \<Rightarrow> pubkey \<Rightarrow> amm_info \<Rightarrow> monitor_accounts \<Rightarrow> world \<Rightarrow> unit outcome" where
  "monitor_check R program_id amm M w =
     check_accounts R program_id amm (mo_amm M) (mo_token_program M) (mo_clock M) (mo_market_program M)
       (mo_authority M) (mo_market M) (mo_open_orders M) (mo_coin_vault M) (mo_pc_vault M)
       (mo_target_orders M) (mo_srm_token M) (mo_referrer M) w"

section \<open>Parsed arguments\<close>

definition parse_vaults ::
  "runtime \<Rightarrow> monitor_accounts \<Rightarrow> world \<Rightarrow> (u64 \<times> u64) outcome" where
  "parse_vaults R M w =
     and_then (unpack_token_account R w (mo_coin_vault M) (ai_key (mo_token_program M))) (\<lambda>coin.
     and_then (unpack_token_account R w (mo_pc_vault M) (ai_key (mo_token_program M))) (\<lambda>pc.
       Done (ta_amount coin, ta_amount pc)))"

definition parse_target ::
  "runtime \<Rightarrow> pubkey \<Rightarrow> monitor_accounts \<Rightarrow> world \<Rightarrow> target_orders outcome" where
  "parse_target R program_id M w =
     target_orders_load_mut_checked R w (mo_target_orders M) program_id (ai_key (mo_amm M))"

text \<open>The market, the open orders and the pool's orders on both sides.\<close>

definition parse_orders ::
  "runtime \<Rightarrow> amm_info \<Rightarrow> monitor_accounts \<Rightarrow> bool \<Rightarrow> world \<Rightarrow>
   (market_state \<times> open_orders \<times> leaf_node list \<times> leaf_node list) outcome" where
  "parse_orders R amm M allow_disabled w =
     and_then (load_serum_market_order R w (mo_market M) (mo_open_orders M) (mo_authority M) amm
       allow_disabled) (\<lambda>(ms, oo).
     and_then (load_amm_orders R w ms oo (mo_bids M) (mo_asks M)) (\<lambda>(bids, asks).
       Done (ms, oo, bids, asks)))"

text \<open>The totals, as \<open>(coin, pc)\<close>.\<close>

definition parse_totals ::
  "runtime \<Rightarrow> amm_info \<Rightarrow> monitor_accounts \<Rightarrow> u64 \<Rightarrow> u64 \<Rightarrow> market_state \<Rightarrow> open_orders \<Rightarrow> world \<Rightarrow>
   (u64 \<times> u64) outcome" where
  "parse_totals R amm M coin_amount pc_amount ms oo w =
     and_then (calc_total_without_take_pnl R w pc_amount coin_amount oo amm ms (mo_event_queue M)
       (mo_open_orders M)) (\<lambda>(total_pc, total_coin).
       Done (total_coin, total_pc))"

section \<open>Purging and cancelling\<close>

definition cancel_calls ::
  "runtime \<Rightarrow> monitor_accounts \<Rightarrow> amm_info \<Rightarrow> u64 list list \<Rightarrow> world \<Rightarrow> world outcome" where
  "cancel_calls R M amm batches w =
     cancel_batches R (mo_market_program M) (mo_market M) (mo_bids M) (mo_asks M) (mo_open_orders M)
       (mo_authority M) (mo_event_queue M) (as_u8 (amm_nonce amm)) batches w"

text \<open>Orders beyond those that were placed are cancelled; with none left the pool is idle.\<close>

definition do_purge_orders ::
  "runtime \<Rightarrow> monitor_accounts \<Rightarrow> leaf_node list \<Rightarrow> leaf_node list \<Rightarrow> amm_info \<Rightarrow> target_orders \<Rightarrow> world \<Rightarrow>
   (amm_info \<times> world) outcome" where
  "do_purge_orders R M bids asks amm target w =
     (let buys = unat (valid_buy_order_num target); sells = unat (valid_sell_order_num target) in
      if length bids \<le> buys \<and> length asks \<le> sells
      then Done (amm\<lparr>amm_state := state_into_u64 IdleState\<rparr>, w)
      else
        and_then (order_id_batches (drop buys bids @ drop sells asks)) (\<lambda>batches.
        and_then (cancel_calls R M amm batches w) (\<lambda>w'. Done (amm, w'))))"

definition do_cancel_all_orders_state ::
  "runtime \<Rightarrow> monitor_accounts \<Rightarrow> open_orders \<Rightarrow> leaf_node list \<Rightarrow> leaf_node list \<Rightarrow> amm_info \<Rightarrow>
   target_orders \<Rightarrow> world \<Rightarrow> (amm_info \<times> target_orders \<times> world) outcome" where
  "do_cancel_all_orders_state R M oo bids asks amm target w =
     (if count_zeros (oo_free_slot_bits oo) > 100 \<and> bids = [] \<and> asks = [] then Done (amm, target, w)
      else
        and_then (both_side_batches bids asks) (\<lambda>batches.
        and_then (cancel_calls R M amm batches w) (\<lambda>w1.
        and_then
          (if native_coin_total oo \<noteq> 0 \<or> native_pc_total oo \<noteq> 0 then
             invoke_dex_settle_funds R (mo_market_program M) (mo_market M) (mo_open_orders M)
               (mo_authority M) (mo_market_coin_vault M) (mo_market_pc_vault M) (mo_coin_vault M)
               (mo_pc_vault M) (mo_vault_signer M) (mo_token_program M) (mo_referrer M)
               AUTHORITY_AMM (as_u8 (amm_nonce amm)) w1
           else Done w1) (\<lambda>w2.
          Done (amm\<lparr>amm_reset_flag :=
                  (if amm_reset_flag amm = reset_flag_into_u64 ResetYes then reset_flag_into_u64 ResetNo
                   else amm_reset_flag amm),
                amm_state := state_into_u64 IdleState\<rparr>,
              target\<lparr>plan_orders_cur := 0, place_orders_cur := 0\<rparr>, w2)))))"

definition do_cancel_order :: "amm_info \<Rightarrow> amm_info" where
  "do_cancel_order amm = amm\<lparr>amm_state := state_into_u64 IdleState\<rparr>"

section \<open>A step of the monitor\<close>

text \<open>
  The arms of the handler, each with the arguments its parser loads. Target orders that the
  state changes are written back; the pool is written back by the handler.
\<close>

definition monitor_idle ::
  "runtime \<Rightarrow> pubkey \<Rightarrow> monitor_accounts \<Rightarrow> amm_info \<Rightarrow> world \<Rightarrow> (amm_info \<times> world) outcome" where
  "monitor_idle R program_id M amm w =
     and_then (parse_vaults R M w) (\<lambda>(coin_amount, pc_amount).
     and_then (parse_target R program_id M w) (\<lambda>target.
     and_then (parse_orders R amm M False w) (\<lambda>(ms, oo, bids, asks).
     and_then (parse_totals R amm M coin_amount pc_amount ms oo w) (\<lambda>(total_coin, total_pc).
     and_then (do_idle_state R total_coin total_pc bids asks amm target) (\<lambda>(amm', target').
       Done (amm', target_orders_store (mo_target_orders M) target' w))))))"

definition monitor_cancel_all ::
  "runtime \<Rightarrow> pubkey \<Rightarrow> monitor_accounts \<Rightarrow> amm_info \<Rightarrow> world \<Rightarrow> (amm_info \<times> world) outcome" where
  "monitor_cancel_all R program_id M amm w =
     and_then (parse_target R program_id M w) (\<lambda>target.
     and_then (parse_orders R amm M True w) (\<lambda>(ms, oo, bids, asks).
     and_then (do_cancel_all_orders_state R M oo bids asks amm target w) (\<lambda>(amm', target', w').
       Done (amm', target_orders_store (mo_target_orders M) target' w'))))"

definition monitor_plan ::
  "runtime \<Rightarrow> pubkey \<Rightarrow> monitor_accounts \<Rightarrow> u16 \<Rightarrow> amm_info \<Rightarrow> world \<Rightarrow> (amm_info \<times> world) outcome" where
  "monitor_plan R program_id M limit amm w =
     and_then (parse_vaults R M w) (\<lambda>(coin_amount, pc_amount).
     and_then (parse_target R program_id M w) (\<lambda>target.
     and_then (load_serum_market_order R w (mo_market M) (mo_open_orders M) (mo_authority M) amm False)
       (\<lambda>(ms, oo).
     and_then (parse_totals R amm M coin_amount pc_amount ms oo w) (\<lambda>(total_coin, total_pc).
     and_then (do_plan_orderbook limit total_coin total_pc amm target) (\<lambda>(amm', target').
       Done (amm', target_orders_store (mo_target_orders M) target' w))))))"

definition monitor_cancel ::
  "runtime \<Rightarrow> pubkey \<Rightarrow> monitor_accounts \<Rightarrow> amm_info \<Rightarrow> world \<Rightarrow> (amm_info \<times> world) outcome" where
  "monitor_cancel R program_id M amm w =
     and_then (parse_vaults R M w) (\<lambda>_.
     and_then (parse_target R program_id M w) (\<lambda>_.
     and_then (parse_orders R amm M True w) (\<lambda>_.
       Done (do_cancel_order amm, w))))"

definition monitor_place ::
  "runtime \<Rightarrow> pubkey \<Rightarrow> monitor_accounts \<Rightarrow> u16 \<Rightarrow> amm_info \<Rightarrow> world \<Rightarrow> (amm_info \<times> world) outcome" where
  "monitor_place R program_id M limit amm w =
     and_then (parse_vaults R M w) (\<lambda>(coin_amount, pc_amount).
     and_then (parse_target R program_id M w) (\<lambda>target.
     and_then (parse_orders R amm M False w) (\<lambda>(ms, oo, bids, asks).
     and_then (parse_totals R amm M coin_amount pc_amount ms oo w) (\<lambda>(total_coin, total_pc).
     and_then (do_place_orders R M limit oo bids asks total_coin total_pc coin_amount pc_amount amm
       target w) (\<lambda>(amm', target', w').
       Done (amm', target_orders_store (mo_target_orders M) target' w'))))))"

definition monitor_purge ::
  "runtime \<Rightarrow> pubkey \<Rightarrow> monitor_accounts \<Rightarrow> amm_info \<Rightarrow> world \<Rightarrow> (amm_info \<times> world) outcome" where
  "monitor_purge R program_id M amm w =
     and_then (parse_target R program_id M w) (\<lambda>target.
     and_then (parse_orders R amm M True w) (\<lambda>(ms, oo, bids, asks).
       do_purge_orders R M bids asks amm target w))"

definition monitor_state ::
  "runtime \<Rightarrow> pubkey \<Rightarrow> monitor_accounts \<Rightarrow> monitor_step_instruction \<Rightarrow> amm_state \<Rightarrow> amm_info \<Rightarrow> world \<Rightarrow>
   (amm_info \<times> world) outcome" where
  "monitor_state R program_id M monitor state amm w =
     (case state of
        IdleState \<Rightarrow> unwrap_result (monitor_idle R program_id M amm w)
      | CancelAllOrdersState \<Rightarrow> unwrap_result (monitor_cancel_all R program_id M amm w)
      | PlanOrdersState \<Rightarrow>
          unwrap_result (monitor_plan R program_id M (plan_order_limit monitor) amm w)
      | CancelOrderState \<Rightarrow> unwrap_result (monitor_cancel R program_id M amm w)
      | PlaceOrdersState \<Rightarrow>
          unwrap_result (monitor_place R program_id M (place_order_limit monitor) amm w)
      | PurgeOrderState \<Rightarrow> unwrap_result (monitor_purge R program_id M amm w)
      | InvlidState \<Rightarrow> Done (amm, w))"

definition process_monitor_step ::
  "runtime \<Rightarrow> pubkey \<Rightarrow> account_info list \<Rightarrow> monitor_step_instruction \<Rightarrow> world \<Rightarrow> world outcome" where
  "process_monitor_step R program_id accounts monitor w =
     and_then (monitor_parse_accounts accounts) (\<lambda>M.
     and_then (amm_load_mut_checked w (mo_amm M) program_id) (\<lambda>amm.
     and_then (monitor_check R program_id amm M w) (\<lambda>_.
     if ai_key (mo_market_program M) \<noteq> openbook_program_id then err InvalidMarketProgram
     else if acc_owner (acc_of w (mo_amm M)) \<noteq> program_id then err InvalidOwner
     else if min_size amm = 0 then err MarketLotSizeIsTooLarge
     else
     and_then (status_from_u64 (amm_status amm)) (\<lambda>status.
     and_then (state_from_u64 (amm_state amm)) (\<lambda>state.
     and_then
       (if amm_reset_flag amm = reset_flag_into_u64 ResetYes then
          unwrap_result (monitor_cancel_all R program_id M amm w)
        else if amm_order_num amm = 0 then Done (amm, w)
        else if status = Initialized \<or> status = OrderBookOnly then
          monitor_state R program_id M monitor state amm w
        else err InvalidStatus) (\<lambda>(amm', w').
       Done (amm_store (mo_amm M) amm' w')))))))"

section \<open>The idle state\<close>

lemma save_pnl_moved:
  assumes "save_pnl p (amm_state_data amm) = Some sd"
  shows "moved amm (amm\<lparr>amm_state_data := sd\<rparr>)"
proof -
  have "uint (need_take_pnl_pc sd) = uint (need_take_pnl_pc (amm_state_data amm)) + uint (pa_pc_pnl p)"
    "uint (need_take_pnl_coin sd) = uint (need_take_pnl_coin (amm_state_data amm)) + uint (pa_coin_pnl p)"
    using save_pnl_Some(1,2) [OF assms] by blast+
  then have le: "uint (need_take_pnl_pc (amm_state_data amm)) \<le> uint (need_take_pnl_pc sd)"
    "uint (need_take_pnl_coin (amm_state_data amm)) \<le> uint (need_take_pnl_coin sd)"
    using uint_ge_0 [of "pa_pc_pnl p"] uint_ge_0 [of "pa_coin_pnl p"] by linarith+
  have "erase_monitor (amm\<lparr>amm_state_data := sd\<rparr>) = erase_monitor amm"
    using assms by (auto simp: save_pnl_def bind_eq_Some_conv erase_monitor_def)
  then show ?thesis
    using le by (simp add: moved_def)
qed

lemma calc_take_pnl_moved:
  assumes "calc_take_pnl R target amm pc coin x y = Done r"
  shows "moved amm (pr_amm r)" and "amm_state (pr_amm r) = amm_state amm"
  by (rule calc_take_pnl_cases [OF assms]; simp add: moved_state save_pnl_moved)+

lemma plan_inv_pnl [simp]: "plan_inv a (t\<lparr>calc_pnl_x := u, calc_pnl_y := v\<rparr>) = plan_inv a t"
  by (simp add: plan_inv_def planned_def pool_price_def)

lemma wf_target_pnl [simp]:
  "wf_target_orders (t\<lparr>calc_pnl_x := u, calc_pnl_y := v\<rparr>) = wf_target_orders t"
  by (simp add: wf_target_orders_def)

lemma idle_pnl_cases:
  assumes "idle_pnl R coin pc x y amm t = Done (amm', t')"
  obtains (loss) "amm' = amm\<lparr>amm_state := state_into_u64 CancelAllOrdersState\<rparr>" "t' = t"
  | (pnl) r u v where "calc_take_pnl R t amm pc coin (widen x) (widen y) = Done r" "amm' = pr_amm r"
      "t' = t \<or> t' = t\<lparr>calc_pnl_x := u, calc_pnl_y := v\<rparr>"
proof -
  obtain k ck where "(if k < (ck :: u128) then Done (amm\<lparr>amm_state := state_into_u64 CancelAllOrdersState\<rparr>, t)
     else and_then (calc_take_pnl R t amm pc coin (widen x) (widen y)) (\<lambda>r.
       if pr_delta_x r \<noteq> 0 \<and> pr_delta_y r \<noteq> 0 then
         and_then (unwrap (checked_sub x (pr_delta_x r))) (\<lambda>px.
         and_then (unwrap (checked_sub y (pr_delta_y r))) (\<lambda>py.
           Done (pr_amm r, t\<lparr>calc_pnl_x := px, calc_pnl_y := py\<rparr>)))
       else Done (pr_amm r, t))) = Done (amm', t')"
    using assms unfolding idle_pnl_def and_then_Done unwrap_Done by blast
  then show thesis
    using loss pnl by (auto simp: and_then_Done split: if_splits)
qed

lemma idle_pnl_facts:
  assumes "idle_pnl R coin pc x y amm t = Done (amm', t')"
  shows "moved amm amm' \<and> (amm_state amm' = amm_state amm \<or> amm_state amm' = state_into_u64 CancelAllOrdersState) \<and>
    plan_inv a t' = plan_inv a t \<and> wf_target_orders t' = wf_target_orders t"
  using assms by (cases rule: idle_pnl_cases) (auto simp: moved_state calc_take_pnl_moved)

lemma do_idle_facts:
  assumes "do_idle_state R coin pc bids asks amm t = Done (amm', t')"
  shows "moved amm amm' \<and> amm_state amm' \<in> state_into_u64 ` {IdleState, PlanOrdersState, CancelAllOrdersState} \<and>
    (plan_inv a t \<longrightarrow> plan_inv a t') \<and> (wf_target_orders t \<longrightarrow> wf_target_orders t')"
proof -
  obtain x y amm2 t1 where run: "idle_pnl R coin pc x y amm2 t1 = Done (amm', t')"
    and amm2: "\<exists>s \<in> {IdleState, PlanOrdersState, CancelAllOrdersState}. amm2 = amm\<lparr>amm_state := state_into_u64 s\<rparr>"
    and t1: "t1 = t \<or> t1 = t\<lparr>plan_orders_cur := 0\<rparr>"
    using assms
    by (auto simp: do_idle_state_def and_then_Done Let_def split: if_splits simp del: state_into_u64.simps)
  obtain s where s: "s \<in> {IdleState, PlanOrdersState, CancelAllOrdersState}" "amm2 = amm\<lparr>amm_state := state_into_u64 s\<rparr>"
    using amm2 by blast
  have "moved amm amm'"
    using moved_trans [OF moved_state(1)] idle_pnl_facts [OF run] unfolding s(2) by blast
  moreover have "plan_inv a t1" if "plan_inv a t" using t1 that by (auto simp: plan_inv_def)
  moreover have "wf_target_orders t1" if "wf_target_orders t" using t1 that by (auto simp: wf_target_orders_def)
  ultimately show ?thesis
    using idle_pnl_facts [OF run, of a] s by auto
qed

section \<open>Phases\<close>

text \<open>
  The other programs do not write the accounts this program owns: the runtime lets only the
  owner of an account change its data.
\<close>

definition cpi_isolated :: "runtime \<Rightarrow> pubkey \<Rightarrow> bool" where
  "cpi_isolated R pid \<longleftrightarrow>
     (\<forall>c l l' k. rt_invoke R c l = Done l' \<longrightarrow> acc_owner (l k) = pid \<longrightarrow>
       acc_owner (l' k) = pid \<and> acc_data (l' k) = acc_data (l k))"

definition keeps_account :: "pubkey \<Rightarrow> pubkey \<Rightarrow> world \<Rightarrow> world \<Rightarrow> bool" where
  "keeps_account pid k w w' \<longleftrightarrow>
     (acc_owner (ledger w k) = pid \<longrightarrow> acc_owner (ledger w' k) = pid \<and> acc_data (ledger w' k) = acc_data (ledger w k))"

lemma invoke_signed_keeps:
  "cpi_isolated R pid \<Longrightarrow> invoke_signed R ix a s w = Done w' \<Longrightarrow> keeps_account pid k w w'"
  by (auto simp: cpi_isolated_def keeps_account_def invoke_signed_def Let_def and_then_Done)

lemma keeps_account_trans:
  "keeps_account pid k w1 w2 \<Longrightarrow> keeps_account pid k w2 w3 \<Longrightarrow> keeps_account pid k w1 w3"
  by (simp add: keeps_account_def)

lemma cancel_batches_keeps:
  assumes "cpi_isolated R pid"
  shows "cancel_batches R dex m b a oo auth q nonce batches w = Done w' \<Longrightarrow> keeps_account pid k w w'"
proof (induction batches arbitrary: w)
  case Nil
  then show ?case by (simp add: cancel_batches_def keeps_account_def)
next
  case (Cons ids batches)
  then obtain w1 where "invoke_dex_cancel_orders_by_client_order_ids R dex m b a oo auth q
      AUTHORITY_AMM nonce ids w = Done w1"
    and "cancel_batches R dex m b a oo auth q nonce batches w1 = Done w'"
    by (auto simp: cancel_batches_def and_then_Done)
  then show ?case
    using Cons.IH invoke_signed_keeps [OF assms] keeps_account_trans
    unfolding invoke_dex_cancel_orders_by_client_order_ids_def by blast
qed

definition monitor_call :: "cpi \<Rightarrow> bool" where
  "monitor_call c \<longleftrightarrow> market_call c \<or> (\<exists>sd p q. order_call sd p q c)"

text \<open>What every phase of the monitor keeps.\<close>

definition phase_ok ::
  "runtime \<Rightarrow> pubkey \<Rightarrow> monitor_accounts \<Rightarrow> amm_info \<Rightarrow> world \<Rightarrow> amm_info \<Rightarrow> world \<Rightarrow> bool" where
  "phase_ok R pid M amm w amm' w' \<longleftrightarrow>
     moved amm amm' \<and> (\<exists>cs. cpis w' = cpis w @ cs \<and> list_all monitor_call cs) \<and>
     (\<forall>t. target_orders_load w (mo_target_orders M) = Done t \<and> plan_inv amm t \<and> plan_params amm \<and>
        cpi_isolated R pid \<longrightarrow>
        (\<exists>t'. target_orders_load w' (mo_target_orders M) = Done t' \<and> plan_inv amm t'))"

locale monitor_phase =
  fixes phase :: "runtime \<Rightarrow> pubkey \<Rightarrow> monitor_accounts \<Rightarrow> u16 \<Rightarrow> amm_info \<Rightarrow> world \<Rightarrow> (amm_info \<times> world) outcome"
    and nexts :: "amm_state \<Rightarrow> amm_state set"
  assumes phase_keeps: "phase R pid M n amm w = Done (amm', w') \<Longrightarrow> phase_ok R pid M amm w amm' w'"
    and phase_moves: "phase R pid M n amm w = Done (amm', w') \<Longrightarrow> amm_state amm = state_into_u64 s \<Longrightarrow>
      amm_state amm' \<in> state_into_u64 ` nexts s"
begin

lemma phase_step:
  assumes "unwrap_result (phase R pid M n amm w) = Done (amm', w')" and "amm_state amm = state_into_u64 s"
    and "\<And>s'. s' \<in> nexts s \<Longrightarrow> next_ok s s'"
  shows "phase_ok R pid M amm w amm' w' \<and> (\<exists>s'. amm_state amm' = state_into_u64 s' \<and> next_ok s s')"
  using phase_keeps [of R pid M n amm w] phase_moves [of R pid M n amm w _ _ s] assms by auto

end

lemma parse_target_load:
  assumes "parse_target R pid M w = Done t"
  shows "target_orders_load w (mo_target_orders M) = Done t" and "wf_target_orders t"
    and "acc_owner (ledger w (ai_key (mo_target_orders M))) = pid"
proof -
  show l: "target_orders_load w (mo_target_orders M) = Done t"
    and "acc_owner (ledger w (ai_key (mo_target_orders M))) = pid"
    using assms
    by (auto simp: parse_target_def target_orders_load_mut_checked_def and_then_Done acc_of_def split: if_splits)
  show "wf_target_orders t"
    using l by (simp add: target_orders_load_cast target_struct.cast_Done_wf)
qed

lemma phase_okI:
  assumes "moved amm amm'" and "cpis w' = cpis w @ cs" and "list_all monitor_call cs"
    and "parse_target R pid M w = Done t"
    and "plan_inv amm t \<Longrightarrow> plan_params amm \<Longrightarrow> cpi_isolated R pid \<Longrightarrow>
      \<exists>t'. target_orders_load w' (mo_target_orders M) = Done t' \<and> plan_inv amm t'"
  shows "phase_ok R pid M amm w amm' w'"
  using assms parse_target_load(1) [OF assms(4)] by (auto simp: phase_ok_def)

lemma monitor_idle_Done:
  assumes "monitor_idle R pid M amm w = Done (amm', w')"
  shows "\<exists>coin pc bids asks t t'. parse_target R pid M w = Done t \<and>
    do_idle_state R coin pc bids asks amm t = Done (amm', t') \<and>
    w' = target_orders_store (mo_target_orders M) t' w"
  using assms by (auto simp: monitor_idle_def and_then_Done) blast

lemma store_target_ok:
  "wf_target_orders t \<Longrightarrow> plan_inv amm t \<Longrightarrow>
     \<exists>t'. target_orders_load (target_orders_store info t w) info = Done t' \<and> plan_inv amm t'"
  by (simp add: target_orders_load_store)

interpretation idle_phase: monitor_phase "\<lambda>R pid M _. monitor_idle R pid M"
  "\<lambda>_. {IdleState, PlanOrdersState, CancelAllOrdersState}"
proof unfold_locales
  fix R pid M amm w amm' w'
  assume "monitor_idle R pid M amm w = Done (amm', w')"
  from monitor_idle_Done [OF this] obtain coin pc bids asks t t' where t: "parse_target R pid M w = Done t"
    and run: "do_idle_state R coin pc bids asks amm t = Done (amm', t')"
    and w': "w' = target_orders_store (mo_target_orders M) t' w"
    by blast
  note f = do_idle_facts [OF run]
  show "phase_ok R pid M amm w amm' w'"
    by (rule phase_okI [OF _ _ _ t, where cs = "[]"])
       (use f [of amm] moved_inv(4) [of amm amm'] parse_target_load(2) [OF t] store_target_ok
        in \<open>auto simp: w' target_orders_store_def\<close>)
  show "amm_state amm' \<in> state_into_u64 ` {IdleState, PlanOrdersState, CancelAllOrdersState}"
    using f by blast
qed

lemma do_plan_moved:
  assumes "do_plan_orderbook limit coin pc amm t = Done (amm', t')"
  shows "moved amm amm' \<and> amm_state amm' \<in> insert (amm_state amm) (state_into_u64 ` {IdleState, PlaceOrdersState})"
  using assms
proof (cases rule: do_plan_cases)
  case (planning x y cur)
  then have "amm' = amm \<or> amm' = amm\<lparr>amm_state := state_into_u64 PlaceOrdersState\<rparr>"
    by (auto simp: plan_orders_def and_then_Done plan_done_def split: if_splits)
  then show ?thesis by (auto simp: moved_state)
qed (auto simp: plan_done_def moved_state)

lemma monitor_plan_Done:
  assumes "monitor_plan R pid M limit amm w = Done (amm', w')"
  shows "\<exists>coin pc t t'. parse_target R pid M w = Done t \<and>
    do_plan_orderbook limit coin pc amm t = Done (amm', t') \<and>
    w' = target_orders_store (mo_target_orders M) t' w"
  using assms by (auto simp: monitor_plan_def and_then_Done)

interpretation plan_phase: monitor_phase monitor_plan "\<lambda>s. {s, IdleState, PlaceOrdersState}"
proof unfold_locales
  fix R pid M n amm w amm' w'
  assume "monitor_plan R pid M n amm w = Done (amm', w')"
  from monitor_plan_Done [OF this] obtain coin pc t t' where t: "parse_target R pid M w = Done t"
    and run: "do_plan_orderbook n coin pc amm t = Done (amm', t')"
    and w': "w' = target_orders_store (mo_target_orders M) t' w"
    by blast
  show "phase_ok R pid M amm w amm' w'"
    by (rule phase_okI [OF _ _ _ t, where cs = "[]"])
       (use do_plan_moved [OF run] do_plan_facts(1) [OF run] moved_inv(4) [of amm amm'] parse_target_load(2) [OF t]
         store_target_ok in \<open>auto simp: w' target_orders_store_def\<close>)
  show "amm_state amm' \<in> state_into_u64 ` {s, IdleState, PlaceOrdersState}"
    if "amm_state amm = state_into_u64 s" for s
    using do_plan_moved [OF run] that by auto
qed

lemma monitor_place_Done:
  assumes "monitor_place R pid M limit amm w = Done (amm', w')"
  shows "\<exists>oo bids asks tc tp coin pc t t' w1. parse_target R pid M w = Done t \<and>
    do_place_orders R M limit oo bids asks tc tp coin pc amm t w = Done (amm', t', w1) \<and>
    w' = target_orders_store (mo_target_orders M) t' w1"
  using assms by (auto simp: monitor_place_def and_then_Done) blast

lemma planned_call_monitor: "list_all (planned_call amm t n) cs \<Longrightarrow> list_all monitor_call cs"
  unfolding list_all_iff planned_call_def monitor_call_def by blast

interpretation place_phase: monitor_phase monitor_place
  "\<lambda>s. {s, IdleState, CancelAllOrdersState, PurgeOrderState}"
proof unfold_locales
  fix R pid M n amm w amm' w'
  assume "monitor_place R pid M n amm w = Done (amm', w')"
  from monitor_place_Done [OF this] obtain oo bids asks tc tp coin pc t t' w1 where t: "parse_target R pid M w = Done t"
    and run: "do_place_orders R M n oo bids asks tc tp coin pc amm t w = Done (amm', t', w1)"
    and w': "w' = target_orders_store (mo_target_orders M) t' w1"
    by blast
  note f = do_place_facts [OF run]
  obtain cs where cs: "cpis w1 = cpis w @ cs" "list_all (planned_call amm t (unat (amm_order_num amm))) cs"
    using f by blast
  have "erase_place t' = erase_place t" using f by blast
  note e = erase_place_fields(3,4) [OF this]
  show "phase_ok R pid M amm w amm' w'"
    by (rule phase_okI [OF _ _ planned_call_monitor [OF cs(2)] t])
       (use f e cs(1) moved_inv(4) [of amm amm'] parse_target_load(2) [OF t] store_target_ok
        in \<open>auto simp: w' target_orders_store_def\<close>)
  show "amm_state amm' \<in> state_into_u64 ` {s, IdleState, CancelAllOrdersState, PurgeOrderState}"
    if "amm_state amm = state_into_u64 s" for s
    using f that by auto
qed

lemma market_calls_monitor: "list_all market_call cs \<Longrightarrow> list_all monitor_call cs"
  by (simp add: list_all_iff monitor_call_def)

lemma cancel_calls_facts:
  assumes "cancel_calls R M amm batches w = Done w'"
  shows "\<exists>cs. cpis w' = cpis w @ cs \<and> list_all market_call cs"
    and "cpi_isolated R pid \<Longrightarrow> keeps_account pid k w w'"
  using cancel_batches_market_calls [OF assms [unfolded cancel_calls_def]]
    cancel_batches_keeps [OF _ assms [unfolded cancel_calls_def]] by blast+

lemma do_purge_cases:
  assumes "do_purge_orders R M bids asks amm t w = Done (amm', w')"
  obtains (idle) "amm' = amm\<lparr>amm_state := state_into_u64 IdleState\<rparr>" "w' = w"
  | (purge) batches where "amm' = amm" "cancel_calls R M amm batches w = Done w'"
  using assms by (auto simp: do_purge_orders_def Let_def and_then_Done split: if_splits)

lemma do_purge_facts:
  assumes "do_purge_orders R M bids asks amm t w = Done (amm', w')"
  shows "moved amm amm' \<and> amm_state amm' \<in> {amm_state amm, state_into_u64 IdleState} \<and>
    (\<exists>cs. cpis w' = cpis w @ cs \<and> list_all market_call cs) \<and>
    (cpi_isolated R pid \<longrightarrow> keeps_account pid k w w')"
  using assms
proof (cases rule: do_purge_cases)
  case idle
  then show ?thesis by (simp add: moved_state keeps_account_def)
next
  case (purge batches)
  then show ?thesis using cancel_calls_facts [OF purge(2)] by (simp add: moved_state)
qed

interpretation purge_phase: monitor_phase "\<lambda>R pid M _. monitor_purge R pid M" "\<lambda>s. {s, IdleState}"
proof unfold_locales
  fix R pid M amm w amm' w'
  assume "monitor_purge R pid M amm w = Done (amm', w')"
  then obtain bids asks t where t: "parse_target R pid M w = Done t"
    and run: "do_purge_orders R M bids asks amm t w = Done (amm', w')"
    by (auto simp: monitor_purge_def and_then_Done)
  note f = do_purge_facts [OF run, of pid "ai_key (mo_target_orders M)"]
  obtain cs where cs: "cpis w' = cpis w @ cs" "list_all market_call cs" using f by blast
  show "phase_ok R pid M amm w amm' w'"
    by (rule phase_okI [OF _ cs(1) market_calls_monitor [OF cs(2)] t])
       (use f moved_inv(4) [of amm amm'] parse_target_load [OF t]
        in \<open>auto simp: keeps_account_def target_orders_load_cast acc_of_def\<close>)
  show "amm_state amm' \<in> state_into_u64 ` {s, IdleState}" if "amm_state amm = state_into_u64 s" for s
    using f that by auto
qed

interpretation cancel_phase: monitor_phase "\<lambda>R pid M _. monitor_cancel R pid M" "\<lambda>_. {IdleState}"
proof unfold_locales
  fix R pid M amm w amm' w'
  assume "monitor_cancel R pid M amm w = Done (amm', w')"
  then obtain t where t: "parse_target R pid M w = Done t"
    and "Done (do_cancel_order amm, w) = Done (amm', w')"
    unfolding monitor_cancel_def and_then_Done by blast
  then have e: "amm' = amm\<lparr>amm_state := state_into_u64 IdleState\<rparr>" "w' = w"
    by (simp_all add: do_cancel_order_def)
  show "phase_ok R pid M amm w amm' w'"
  proof (rule phase_okI [OF _ _ _ t, where cs = "[]"])
    show "moved amm amm'" unfolding e by (rule moved_state)
    show "\<exists>t'. target_orders_load w' (mo_target_orders M) = Done t' \<and> plan_inv amm t'" if "plan_inv amm t"
      using parse_target_load(1) [OF t] that by (simp add: e)
  qed (simp_all add: e)
  show "amm_state amm' \<in> state_into_u64 ` {IdleState}" by (simp add: e)
qed

lemma settle_facts:
  assumes "invoke_dex_settle_funds R dex m oo own cv pv cw pw vs tp ref seed nonce w = Done w'"
  shows "\<exists>cs. cpis w' = cpis w @ cs \<and> list_all market_call cs"
    and "cpi_isolated R pid \<Longrightarrow> keeps_account pid k w w'"
  using settle_funds_market_call [OF assms] invoke_signed_keeps assms
  unfolding invoke_dex_settle_funds_def by blast+

text \<open>
  Either nothing happens, while slots of the market are still held by orders that are gone, or
  every order is cancelled, proceeds are settled, and the pool is idle with its flag cleared.
\<close>

lemma do_cancel_all_cases:
  assumes "do_cancel_all_orders_state R M oo bids asks amm t w = Done (amm', t', w')"
  obtains (wait) "amm' = amm" "t' = t" "w' = w" "100 < count_zeros (oo_free_slot_bits oo)" "bids = []" "asks = []"
  | (cancel) batches w1 where "both_side_batches bids asks = Done batches"
      "cancel_calls R M amm batches w = Done w1"
      "(if native_coin_total oo \<noteq> 0 \<or> native_pc_total oo \<noteq> 0 then
         invoke_dex_settle_funds R (mo_market_program M) (mo_market M) (mo_open_orders M)
           (mo_authority M) (mo_market_coin_vault M) (mo_market_pc_vault M) (mo_coin_vault M)
           (mo_pc_vault M) (mo_vault_signer M) (mo_token_program M) (mo_referrer M)
           AUTHORITY_AMM (as_u8 (amm_nonce amm)) w1
        else Done w1) = Done w'"
      "amm' = amm\<lparr>amm_reset_flag := (if amm_reset_flag amm = reset_flag_into_u64 ResetYes
         then reset_flag_into_u64 ResetNo else amm_reset_flag amm), amm_state := state_into_u64 IdleState\<rparr>"
      "t' = t\<lparr>plan_orders_cur := 0, place_orders_cur := 0\<rparr>"
proof (cases "count_zeros (oo_free_slot_bits oo) > 100 \<and> bids = [] \<and> asks = []")
  case True
  then show thesis using assms wait by (simp add: do_cancel_all_orders_state_def)
next
  case False
  then show thesis
    using assms cancel unfolding do_cancel_all_orders_state_def if_not_P [OF False] and_then_Done by blast
qed

lemma do_cancel_all_facts:
  assumes "do_cancel_all_orders_state R M oo bids asks amm t w = Done (amm', t', w')"
  shows "moved amm amm' \<and> amm_state amm' \<in> {amm_state amm, state_into_u64 IdleState} \<and>
    (\<exists>cs. cpis w' = cpis w @ cs \<and> list_all market_call cs) \<and>
    (plan_inv a t \<longrightarrow> plan_inv a t') \<and> (wf_target_orders t \<longrightarrow> wf_target_orders t')"
  using assms
proof (cases rule: do_cancel_all_cases)
  case wait
  then show ?thesis by (simp add: moved_state)
next
  case (cancel batches w1)
  obtain cs where "cpis w1 = cpis w @ cs" "list_all market_call cs"
    using cancel_calls_facts(1) [OF cancel(2)] by blast
  moreover obtain cs2 where "cpis w' = cpis w1 @ cs2" "list_all market_call cs2"
    using cancel(3) settle_facts(1) by (cases "native_coin_total oo \<noteq> 0 \<or> native_pc_total oo \<noteq> 0") force+
  ultimately show ?thesis
    unfolding cancel(4,5)
    by (intro conjI exI [of _ "cs @ cs2"]) (simp_all add: moved_state plan_inv_def wf_target_orders_def)
qed

lemma monitor_cancel_all_Done:
  assumes "monitor_cancel_all R pid M amm w = Done (amm', w')"
  shows "\<exists>oo bids asks t t' w1. parse_target R pid M w = Done t \<and>
    do_cancel_all_orders_state R M oo bids asks amm t w = Done (amm', t', w1) \<and>
    w' = target_orders_store (mo_target_orders M) t' w1"
  using assms by (auto simp: monitor_cancel_all_def and_then_Done) blast

interpretation cancel_all_phase: monitor_phase "\<lambda>R pid M _. monitor_cancel_all R pid M" "\<lambda>s. {s, IdleState}"
proof unfold_locales
  fix R pid M amm w amm' w'
  assume "monitor_cancel_all R pid M amm w = Done (amm', w')"
  from monitor_cancel_all_Done [OF this] obtain oo bids asks t t' w1 where t: "parse_target R pid M w = Done t"
    and run: "do_cancel_all_orders_state R M oo bids asks amm t w = Done (amm', t', w1)"
    and w': "w' = target_orders_store (mo_target_orders M) t' w1"
    by blast
  note f = do_cancel_all_facts [OF run]
  obtain cs where cs: "cpis w1 = cpis w @ cs" "list_all market_call cs" using f by blast
  show "phase_ok R pid M amm w amm' w'"
    by (rule phase_okI [OF _ _ market_calls_monitor [OF cs(2)] t])
       (use f [of amm] cs(1) moved_inv(4) [of amm amm'] parse_target_load(2) [OF t] store_target_ok
        in \<open>auto simp: w' target_orders_store_def\<close>)
  show "amm_state amm' \<in> state_into_u64 ` {s, IdleState}" if "amm_state amm = state_into_u64 s" for s
    using f that by auto
qed

section \<open>The machine\<close>

text \<open>
  The states of a pool's orders. With the reset flag raised there is only the way to the idle
  state; otherwise the arms of the handler. A step may always leave the state as it is: a
  plan or a placement goes on, orders are still to be purged or settled.
\<close>

inductive monitor_next :: "bool \<Rightarrow> amm_state \<Rightarrow> amm_state \<Rightarrow> bool" where
  stay: "monitor_next reset s s"
| reset: "monitor_next True s IdleState"
| idle_plan: "monitor_next False IdleState PlanOrdersState"
| idle_cancel: "monitor_next False IdleState CancelAllOrdersState"
| plan_idle: "monitor_next False PlanOrdersState IdleState"
| plan_place: "monitor_next False PlanOrdersState PlaceOrdersState"
| place_idle: "monitor_next False PlaceOrdersState IdleState"
| place_cancel: "monitor_next False PlaceOrdersState CancelAllOrdersState"
| place_purge: "monitor_next False PlaceOrdersState PurgeOrderState"
| purge_idle: "monitor_next False PurgeOrderState IdleState"
| cancel_idle: "monitor_next False CancelAllOrdersState IdleState"
| cancel_order_idle: "monitor_next False CancelOrderState IdleState"

inductive_cases monitor_next_placeE: "monitor_next False s PlaceOrdersState"
inductive_cases monitor_next_purgeE: "monitor_next False s PurgeOrderState"

lemmas monitor_moves = monitor_next.intros

text \<open>Orders are placed only from a plan, and purged only after they were placed.\<close>

lemma placed_after_plan:
  "monitor_next reset s PlaceOrdersState \<Longrightarrow> s \<in> {PlanOrdersState, PlaceOrdersState}"
  "monitor_next reset s PurgeOrderState \<Longrightarrow> s \<in> {PlaceOrdersState, PurgeOrderState}"
  by (auto elim: monitor_next.cases)

lemma monitor_state_facts:
  assumes "monitor_state R pid M monitor s amm w = Done (amm', w')" and "amm_state amm = state_into_u64 s"
  shows "phase_ok R pid M amm w amm' w' \<and> (\<exists>s'. amm_state amm' = state_into_u64 s' \<and> monitor_next False s s')"
proof (cases s)
  case InvlidState
  then have "amm' = amm" "w' = w" using assms by (auto simp: monitor_state_def)
  then show ?thesis
    using assms(2) by (auto simp: phase_ok_def moved_state intro!: exI [of _ s] monitor_moves(1))
next
  case IdleState
  show ?thesis
    by (rule idle_phase.phase_step [OF _ assms(2), of R pid M])
       (use assms(1) in \<open>auto simp: monitor_state_def IdleState intro: monitor_moves\<close>)
next
  case CancelAllOrdersState
  show ?thesis
    by (rule cancel_all_phase.phase_step [OF _ assms(2), of R pid M])
       (use assms(1) in \<open>auto simp: monitor_state_def CancelAllOrdersState intro: monitor_moves\<close>)
next
  case PlanOrdersState
  show ?thesis
    by (rule plan_phase.phase_step [OF _ assms(2), of R pid M "plan_order_limit monitor"])
       (use assms(1) in \<open>auto simp: monitor_state_def PlanOrdersState intro: monitor_moves\<close>)
next
  case CancelOrderState
  show ?thesis
    by (rule cancel_phase.phase_step [OF _ assms(2), of R pid M])
       (use assms(1) in \<open>auto simp: monitor_state_def CancelOrderState intro: monitor_moves\<close>)
next
  case PlaceOrdersState
  show ?thesis
    by (rule place_phase.phase_step [OF _ assms(2), of R pid M "place_order_limit monitor"])
       (use assms(1) in \<open>auto simp: monitor_state_def PlaceOrdersState intro: monitor_moves\<close>)
next
  case PurgeOrderState
  show ?thesis
    by (rule purge_phase.phase_step [OF _ assms(2), of R pid M])
       (use assms(1) in \<open>auto simp: monitor_state_def PurgeOrderState intro: monitor_moves\<close>)
qed

lemma monitor_parse_Done:
  "monitor_parse_accounts accounts = Done M \<Longrightarrow> mo_amm M = accounts ! 3 \<and> mo_target_orders M = accounts ! 6"
  by (auto simp: monitor_parse_accounts_def split: if_splits)

lemma monitor_step_effects:
  assumes "process_monitor_step R pid accounts monitor w = Done w'"
    and "amm_load w (accounts ! 3) = Done amm"
  shows "\<exists>M s s' status amm' w1. monitor_parse_accounts accounts = Done M \<and>
    amm_state amm = state_into_u64 s \<and> amm_state amm' = state_into_u64 s' \<and>
    monitor_next (amm_reset_flag amm = reset_flag_into_u64 ResetYes) s s' \<and>
    amm_status amm = status_into_u64 status \<and>
    (amm_reset_flag amm = reset_flag_into_u64 ResetYes \<or> amm_order_num amm = 0 \<or> orderbook_permission status) \<and>
    amm_market_program amm = openbook_program_id \<and>
    phase_ok R pid M amm w amm' w1 \<and> w' = amm_store (mo_amm M) amm' w1"
proof -
  obtain M amm0 status state amm' w1 where
    M: "monitor_parse_accounts accounts = Done M" and
    l0: "amm_load_mut_checked w (mo_amm M) pid = Done amm0" and
    c: "monitor_check R pid amm0 M w = Done ()" "ai_key (mo_market_program M) = openbook_program_id" and
    st: "status_from_u64 (amm_status amm0) = Done status" "state_from_u64 (amm_state amm0) = Done state" and
    run: "(if amm_reset_flag amm0 = reset_flag_into_u64 ResetYes then
          unwrap_result (monitor_cancel_all R pid M amm0 w)
        else if amm_order_num amm0 = 0 then Done (amm0, w)
        else if status = Initialized \<or> status = OrderBookOnly then
          monitor_state R pid M monitor state amm0 w
        else err InvalidStatus) = Done (amm', w1)" and
    w': "w' = amm_store (mo_amm M) amm' w1"
    using assms(1) unfolding process_monitor_step_def
    by (auto simp: and_then_Done simp del: state_into_u64.simps reset_flag_into_u64.simps)
  have same: "amm0 = amm"
    using l0 assms(2) monitor_parse_Done [OF M] by (simp add: amm_load_mut_checked_Done)
  have s: "amm_state amm = state_into_u64 state" "amm_status amm = status_into_u64 status"
    using st by (simp_all add: same state_from_Done status_from_Done)
  have prog: "amm_market_program amm = openbook_program_id"
    using c by (auto simp: monitor_check_def check_accounts_def and_then_Done same)
  consider (reset) "amm_reset_flag amm = reset_flag_into_u64 ResetYes"
      "unwrap_result (monitor_cancel_all R pid M amm w) = Done (amm', w1)"
    | (none) "amm_reset_flag amm \<noteq> reset_flag_into_u64 ResetYes" "amm_order_num amm = 0" "amm' = amm" "w1 = w"
    | (state) "amm_reset_flag amm \<noteq> reset_flag_into_u64 ResetYes" "orderbook_permission status"
      "monitor_state R pid M monitor state amm w = Done (amm', w1)"
    using run unfolding same by (auto split: if_splits simp del: reset_flag_into_u64.simps)
  then show ?thesis
  proof cases
    case reset
    have "phase_ok R pid M amm w amm' w1 \<and> (\<exists>s'. amm_state amm' = state_into_u64 s' \<and> monitor_next True state s')"
      by (rule cancel_all_phase.phase_step [OF reset(2) s(1)]) (auto intro: monitor_moves)
    then show ?thesis using M s prog reset(1) w' by auto
  next
    case none
    then have "phase_ok R pid M amm w amm' w1" by (auto simp: phase_ok_def moved_state)
    then show ?thesis using M s prog none w' monitor_moves(1) by metis
  next
    case state
    then show ?thesis using M s prog w' monitor_state_facts [OF state(3) s(1)] by auto
  qed
qed

lemma monitor_step_keeps:
  assumes "process_monitor_step R pid accounts monitor w = Done w'"
    and "amm_load w (accounts ! 3) = Done amm"
  shows "\<exists>s s' status amm' cs. amm_state amm = state_into_u64 s \<and>
    amm_load w' (accounts ! 3) = Done amm' \<and> amm_state amm' = state_into_u64 s' \<and>
    monitor_next (amm_reset_flag amm = reset_flag_into_u64 ResetYes) s s' \<and>
    amm_status amm = status_into_u64 status \<and>
    (amm_reset_flag amm = reset_flag_into_u64 ResetYes \<or> amm_order_num amm = 0 \<or> orderbook_permission status) \<and>
    amm_market_program amm = openbook_program_id \<and> moved amm amm' \<and>
    cpis w' = cpis w @ cs \<and> list_all monitor_call cs"
proof -
  obtain M s s' status amm' w1 where M: "monitor_parse_accounts accounts = Done M" and
    f: "amm_state amm = state_into_u64 s" "amm_state amm' = state_into_u64 s'"
    "monitor_next (amm_reset_flag amm = reset_flag_into_u64 ResetYes) s s'"
    "amm_status amm = status_into_u64 status"
    "amm_reset_flag amm = reset_flag_into_u64 ResetYes \<or> amm_order_num amm = 0 \<or> orderbook_permission status"
    "amm_market_program amm = openbook_program_id" "phase_ok R pid M amm w amm' w1"
    "w' = amm_store (mo_amm M) amm' w1"
    using monitor_step_effects [OF assms] by blast
  have "wf_amm amm'"
    using f(7) moved_inv(1) [of amm amm'] amm_load_wf [OF assms(2)] by (simp add: phase_ok_def)
  then have "amm_load w' (accounts ! 3) = Done amm'"
    using monitor_parse_Done [OF M] by (simp add: f(8) amm_load_store)
  moreover have "cpis w' = cpis w1" by (simp add: f(8) amm_store_def)
  ultimately show ?thesis using f(1-7) unfolding phase_ok_def by metis
qed

text \<open>
  C37: a monitor step is a step of the machine of the pool's orders, and nothing more. Whoever
  sends it, it makes no call but those that place, cancel and settle the pool's orders on an
  OpenBook market, and it changes of the pool only that state, the reset flag, the order ids
  and the record of the profit, of which what is owed does not fall: shares, vaults, fees,
  parameters and status stay. Unless it clears a raised flag, a pool with orders moves only when its status is open to the order book.
\<close>

theorem process_monitor_step_refines:
  assumes "process_monitor_step R pid accounts monitor w = Done w'"
    and "amm_load w (accounts ! 3) = Done amm"
  shows "\<exists>s s' status amm' cs. amm_state amm = state_into_u64 s \<and>
    amm_load w' (accounts ! 3) = Done amm' \<and> amm_state amm' = state_into_u64 s' \<and>
    monitor_next (amm_reset_flag amm = reset_flag_into_u64 ResetYes) s s' \<and>
    amm_status amm = status_into_u64 status \<and>
    (amm_reset_flag amm = reset_flag_into_u64 ResetYes \<or> amm_order_num amm = 0 \<or> orderbook_permission status) \<and>
    amm_market_program amm = openbook_program_id \<and> moved amm amm' \<and>
    cpis w' = cpis w @ cs \<and> list_all monitor_call cs"
  by (rule monitor_step_keeps [OF assms])

text \<open>
  C38: every step of the monitor keeps the plan sound. If the target orders hold a plan that does
  not cross and that the pool can pay for, or none, they still do after the step, whichever
  state the pool was in; the other programs are assumed not to write accounts of this one.
\<close>

theorem process_monitor_step_plan_invariant:
  assumes "process_monitor_step R pid accounts monitor w = Done w'"
    and "amm_load w (accounts ! 3) = Done amm" and "target_orders_load w (accounts ! 6) = Done t"
    and "plan_inv amm t" and "plan_params amm" and "cpi_isolated R pid"
  shows "\<exists>amm' t'. amm_load w' (accounts ! 3) = Done amm' \<and>
    target_orders_load w' (accounts ! 6) = Done t' \<and> plan_inv amm' t' \<and> plan_params amm'"
proof -
  obtain M amm' w1 where M: "monitor_parse_accounts accounts = Done M" and
    ok: "phase_ok R pid M amm w amm' w1" and w': "w' = amm_store (mo_amm M) amm' w1"
    using monitor_step_effects [OF assms(1,2)] by blast
  note parse = monitor_parse_Done [OF M]
  have m: "moved amm amm'" using ok by (simp add: phase_ok_def)
  then have "wf_amm amm'" using moved_inv(1) amm_load_wf [OF assms(2)] by simp
  then have l: "amm_load w' (accounts ! 3) = Done amm'"
    using parse by (simp add: w' amm_load_store)
  obtain t' where t': "target_orders_load w1 (accounts ! 6) = Done t'" "plan_inv amm t'"
    using ok assms(3-6) parse unfolding phase_ok_def by metis
  have "ai_key (accounts ! 3) \<noteq> ai_key (accounts ! 6)"
    by (rule different_structs [OF assms(2,3)])
  then have "target_orders_load w' (accounts ! 6) = Done t'"
    using t'(1) parse by (simp add: w' target_orders_load_cast amm_store_def acc_of_store_other)
  then show ?thesis
    using l t'(2) moved_inv(3,4) [OF m] assms(5) by auto
qed

section \<open>A run\<close>

text \<open>A pool open to the order book, in the planning state, and a step of its monitor.\<close>

definition sample_book_amm :: amm_info where
  "sample_book_amm = sample_amm\<lparr>amm_status := 5, amm_reset_flag := 1, amm_state := 3,
     amm_market_program := openbook_program_id\<rparr>"

definition sample_book_world :: world where
  "sample_book_world = \<lparr>ledger = sample_ledger(100 :=
     \<lparr>acc_owner = 7, acc_lamports = 1, acc_data = amm_bytes sample_book_amm\<rparr>), cpis = []\<rparr>"

definition sample_monitor_infos :: "account_info list" where
  "sample_monitor_infos = map sample_info
     [1, 5, 4, 100, 50, 101, 102, 104, 105, openbook_program_id, 106, 122, 123, 124, 126, 125, 120, 121]"

definition sample_monitor :: monitor_step_instruction where
  "sample_monitor = \<lparr>plan_order_limit = 1, place_order_limit = 1, cancel_order_limit = 1\<rparr>"

lemma sample_book_plan:
  "case do_plan_orderbook 1 1030 4095 sample_book_amm sample_target of
     Done (a, t) \<Rightarrow> a = sample_book_amm \<and> plan_orders_cur t = 1 | _ \<Rightarrow> False"
  by code_simp

lemma sample_book_loads:
  "amm_load sample_book_world (sample_info 100) = Done sample_book_amm"
  "target_orders_load sample_book_world (sample_info 102) = Done sample_target"
proof -
  have "wf_amm sample_book_amm" by (simp add: sample_book_amm_def wf_amm_def sample_amm_def sample_state_data_def)
  then show "amm_load sample_book_world (sample_info 100) = Done sample_book_amm"
    by (intro amm_load_bytes) (simp_all add: acc_of_def sample_book_world_def)
  show "target_orders_load sample_book_world (sample_info 102) = Done sample_target"
    by (intro target_orders_load_bytes) (simp_all add: acc_of_def sample_book_world_def)
qed

lemma sample_book_hyps:
  "plan_inv sample_book_amm sample_target" "plan_params sample_book_amm" "cpi_isolated sample_runtime 7"
proof -
  show "plan_inv sample_book_amm sample_target" by (simp add: plan_inv_def sample_target_def)
  show "plan_params sample_book_amm" by code_simp
  show "cpi_isolated sample_runtime 7" by (simp add: cpi_isolated_def)
qed

lemma sample_monitor_parse: "monitor_parse_accounts sample_monitor_infos =
    Done (sample_monitor_accounts)"
  by (simp add: monitor_parse_accounts_def sample_monitor_infos_def sample_monitor_accounts_def)

lemma sample_monitor_run:
  "\<exists>w'. process_monitor_step sample_runtime 7 sample_monitor_infos sample_monitor sample_book_world = Done w'"
proof -
  let ?R = sample_runtime and ?M = sample_monitor_accounts and ?w = sample_book_world and ?amm = sample_book_amm
  have f: "amm_status ?amm = 5" "amm_state ?amm = 3" "amm_nonce ?amm = 254" "amm_reset_flag ?amm = 1"
    "amm_market_program ?amm = openbook_program_id" "amm_market ?amm = 106" "amm_open_orders ?amm = 101"
    "amm_coin_vault ?amm = 104" "amm_pc_vault ?amm = 105" "amm_target_orders ?amm = 102"
    "min_size ?amm = 1" "amm_order_num ?amm = 7" "amm_state_data ?amm = sample_state_data"
    by (simp_all add: sample_book_amm_def) (simp_all add: sample_amm_def)
  have w: "acc_owner (ledger ?w 100) = 7" "acc_owner (ledger ?w 102) = 7"
    "ledger ?w 104 = sample_ledger 104" "ledger ?w 105 = sample_ledger 105"
    "length (acc_data (ledger ?w 100)) = amm_SIZE" "length (acc_data (ledger ?w 102)) = target_orders_SIZE"
    using sample_book_loads by (auto simp: amm_load_def target_orders_load_def acc_of_def split: if_splits)
      (simp_all add: sample_book_world_def)
  have l: "amm_load_mut_checked ?w (sample_info 100) 7 = Done ?amm"
    using w sample_book_loads(1) by (simp add: amm_load_mut_checked_def acc_of_def f)
  have c: "monitor_check ?R 7 ?amm ?M ?w = Done ()"
    by (simp add: monitor_check_def check_accounts_def f authority_id_def acc_of_def w check_srm_token_def check_referrer_pc_def)
       (simp add: sample_runtime_def)
  have v: "parse_vaults ?R ?M ?w = Done (1000, 4000)"
    using sample_unpack_pc [OF w(4)] w(3)
    by (simp add: parse_vaults_def unpack_token_account_def acc_of_def)
       (simp add: sample_runtime_def sample_token_unpack_def)
  have t: "parse_target ?R 7 ?M ?w = Done sample_target"
    using sample_book_loads(2) w
    by (simp add: parse_target_def target_orders_load_mut_checked_def acc_of_def)
       (simp add: sample_target_def sample_runtime_def)
  obtain ms oo where o: "load_serum_market_order ?R ?w (sample_info 106) (sample_info 101) (sample_info 50) ?amm False =
      Done (ms, oo)" "native_pc_total oo = 70" "native_coin_total oo = 40"
    by (simp add: load_serum_market_order_def) (simp add: sample_runtime_def f)
  have ev: "apply_event [101, 0, 0, 0] \<lparr>ev_owner = [101, 0, 0, 0], ev_as_view = Done (Fill Ask True 10 25)\<rparr>
      (70, 40) = Done (95, 30)"
    by code_simp
  have "calc_exact_vault_in_serum ?R ?w oo ms (sample_info 125) (sample_info 101) = Done (95, 30)"
    by (simp add: calc_exact_vault_in_serum_def o) (simp add: sample_runtime_def ev)
  then have tot: "parse_totals ?R ?amm ?M 1000 4000 ms oo ?w = Done (1030, 4095)"
    by (simp add: parse_totals_def calc_total_without_take_pnl_def f sample_state_data_def checked_add_def checked_sub_def)
  obtain t' where p: "do_plan_orderbook 1 1030 4095 ?amm sample_target = Done (?amm, t')"
    using sample_book_plan by (auto split: outcome.splits)
  have s: "status_from_u64 5 = Done OrderBookOnly" "state_from_u64 3 = Done PlanOrdersState"
    by code_simp+
  show ?thesis
    by (simp add: process_monitor_step_def sample_monitor_parse l c acc_of_def w f s monitor_state_def
        monitor_plan_def v t o(1) tot p sample_monitor_def)
qed

theorem process_monitor_step_refines_witness:
  "\<exists>w' amm'. process_monitor_step sample_runtime 7 sample_monitor_infos sample_monitor sample_book_world = Done w' \<and>
     amm_load w' (sample_info 100) = Done amm' \<and> lp_amount amm' = 2000 \<and> amm_status amm' = 5"
proof -
  obtain w' where r: "process_monitor_step sample_runtime 7 sample_monitor_infos sample_monitor sample_book_world = Done w'"
    using sample_monitor_run by blast
  have i: "sample_monitor_infos ! 3 = sample_info 100" by (simp add: sample_monitor_infos_def)
  from process_monitor_step_refines [OF r, unfolded i, OF sample_book_loads(1)]
  obtain amm' where "amm_load w' (sample_info 100) = Done amm'" "moved sample_book_amm amm'" by blast
  then show ?thesis
    using r moved_fields(1) [of sample_book_amm amm'] moved_fields(26) [of sample_book_amm amm']
    by (auto simp: sample_book_amm_def)
qed

theorem process_monitor_step_plan_invariant_witness:
  "\<exists>w' amm' t'. process_monitor_step sample_runtime 7 sample_monitor_infos sample_monitor sample_book_world = Done w' \<and>
     amm_load w' (sample_info 100) = Done amm' \<and> target_orders_load w' (sample_info 102) = Done t' \<and> plan_inv amm' t'"
proof -
  obtain w' where r: "process_monitor_step sample_runtime 7 sample_monitor_infos sample_monitor sample_book_world = Done w'"
    using sample_monitor_run by blast
  have i: "sample_monitor_infos ! 3 = sample_info 100" "sample_monitor_infos ! 6 = sample_info 102"
    by (simp_all add: sample_monitor_infos_def)
  show ?thesis
    using process_monitor_step_plan_invariant [OF r, unfolded i, OF sample_book_loads sample_book_hyps] r by blast
qed

end
