(* ===== verification/Simulate.thy ===== *)
theory Simulate
  imports Swap Migrate Monitor
begin

text \<open>
  The read-only instructions of \<open>program/src/processor.rs\<close>: \<open>process_simulate_info\<close> and the four
  functions it calls, which compute what a client asks for and log it as JSON. The model
  gives the value that is logged; serialisation and the log are left out. A key's text form
  is the runtime's \<open>rt_key_string\<close>.
\<close>

section \<open>What is reported\<close>

record get_pool_data =
  pd_status :: u64
  pd_coin_decimals :: u64
  pd_pc_decimals :: u64
  pd_lp_decimals :: u64
  pd_pool_pc_amount :: u64
  pd_pool_coin_amount :: u64
  pd_pnl_pc_amount :: u64
  pd_pnl_coin_amount :: u64
  pd_pool_lp_supply :: u64
  pd_pool_open_time :: u64
  pd_amm_id :: string

record get_swap_base_in_data =
  si_pool_data :: get_pool_data
  si_amount_in :: u64
  si_minimum_amount_out :: u64
  si_price_impact :: u64

record get_swap_base_out_data =
  so_pool_data :: get_pool_data
  so_max_amount_in :: u64
  so_amount_out :: u64
  so_price_impact :: u64

record run_crank_data =
  rc_status :: u64
  rc_state :: u64
  rc_run_crank :: bool

text \<open>The derived defaults.\<close>

definition default_pool_data :: get_pool_data where
  "default_pool_data = \<lparr>pd_status = 0, pd_coin_decimals = 0, pd_pc_decimals = 0, pd_lp_decimals = 0,
     pd_pool_pc_amount = 0, pd_pool_coin_amount = 0, pd_pnl_pc_amount = 0, pd_pnl_coin_amount = 0,
     pd_pool_lp_supply = 0, pd_pool_open_time = 0, pd_amm_id = ''''\<rparr>"

section \<open>The pool\<close>

text \<open>With a ninth account, the profit's reference amounts are reported, else zeros.\<close>

definition simulate_target ::
  "runtime \<Rightarrow> pubkey \<Rightarrow> account_info list \<Rightarrow> amm_info \<Rightarrow> world \<Rightarrow> (u64 \<times> u64) outcome" where
  "simulate_target R program_id accounts amm w =
     (if length accounts = 8 + 1 then
        if ai_key (accounts ! 8) \<noteq> amm_target_orders amm then err InvalidTargetOrders
        else
          and_then (target_orders_load_checked R w (accounts ! 8) program_id (ai_key (accounts ! 0)))
            (\<lambda>target. migrate_pnl_amounts target amm)
      else Done (0, 0))"

definition readonly_accounts :: "account_info list \<Rightarrow> unit outcome" where
  "readonly_accounts infos = map_outcome_list (\<lambda>i _. check_account_readonly i) infos ()"

definition simulate_pool_info ::
  "runtime \<Rightarrow> pubkey \<Rightarrow> account_info list \<Rightarrow> world \<Rightarrow> get_pool_data outcome" where
  "simulate_pool_info R program_id accounts w =
     and_then (need_accounts 8 accounts) (\<lambda>_.
     let amm_acc = accounts ! 0; authority_acc = accounts ! 1; open_orders_acc = accounts ! 2;
         coin_vault_acc = accounts ! 3; pc_vault_acc = accounts ! 4; lp_mint_acc = accounts ! 5;
         market_acc = accounts ! 6; event_queue_acc = accounts ! 7 in
     and_then (amm_load_checked w amm_acc program_id) (\<lambda>amm.
     and_then (authority_id R program_id AUTHORITY_AMM (as_u8 (amm_nonce amm))) (\<lambda>authority.
     and_then (readonly_accounts [amm_acc, open_orders_acc, coin_vault_acc, pc_vault_acc, lp_mint_acc,
       market_acc, event_queue_acc]) (\<lambda>_.
     if ai_key authority_acc \<noteq> authority then err InvalidProgramAddress
     else if ai_key coin_vault_acc \<noteq> amm_coin_vault amm then err InvalidCoinVault
     else if ai_key pc_vault_acc \<noteq> amm_pc_vault amm then err InvalidPCVault
     else if ai_key lp_mint_acc \<noteq> amm_lp_mint amm then err InvalidPoolMint
     else if ai_key open_orders_acc \<noteq> amm_open_orders amm then err InvalidOpenOrders
     else if ai_key market_acc \<noteq> amm_market amm then err InvalidMarket
     else
     and_then (simulate_target R program_id accounts amm w) (\<lambda>(pnl_pc_amount, pnl_coin_amount).
     and_then (unpack_token_account R w coin_vault_acc (rt_spl_token_id R)) (\<lambda>coin_vault.
     and_then (unpack_token_account R w pc_vault_acc (rt_spl_token_id R)) (\<lambda>pc_vault.
     and_then (unpack_mint R w lp_mint_acc (rt_spl_token_id R)) (\<lambda>lp_mint.
     and_then (load_serum_market_order R w market_acc open_orders_acc authority_acc amm False) (\<lambda>(ms, oo).
     if coin_mint ms \<noteq> rt_aligned R (ta_mint coin_vault) then err InvalidCoinMint
     else if pc_mint ms \<noteq> rt_aligned R (ta_mint pc_vault) then err InvalidPCMint
     else
     and_then (calc_total_without_take_pnl R w (ta_amount pc_vault) (ta_amount coin_vault) oo amm ms
       event_queue_acc open_orders_acc) (\<lambda>(total_pc, total_coin).
       Done \<lparr>pd_status = amm_status amm, pd_coin_decimals = coin_decimals amm,
         pd_pc_decimals = pc_decimals amm, pd_lp_decimals = widen (mint_decimals lp_mint),
         pd_pool_pc_amount = total_pc, pd_pool_coin_amount = total_coin,
         pd_pnl_pc_amount = pnl_pc_amount, pd_pnl_coin_amount = pnl_coin_amount,
         pd_pool_lp_supply = lp_amount amm, pd_pool_open_time = pool_open_time (amm_state_data amm),
         pd_amm_id = rt_key_string R (ai_key amm_acc)\<rparr>))))))))))"

section \<open>Swaps\<close>

record simulate_accounts =
  sm_amm :: account_info
  sm_authority :: account_info
  sm_open_orders :: account_info
  sm_target_orders :: account_info
  sm_coin_vault :: account_info
  sm_pc_vault :: account_info
  sm_lp_mint :: account_info
  sm_market_program :: account_info
  sm_market :: account_info
  sm_event_queue :: account_info
  sm_user_source :: account_info
  sm_user_destination :: account_info
  sm_user_owner :: account_info

definition simulate_parse_accounts :: "account_info list \<Rightarrow> simulate_accounts outcome" where
  "simulate_parse_accounts accounts =
     and_then (need_accounts 13 accounts) (\<lambda>_.
       Done \<lparr>sm_amm = accounts ! 0,
         sm_authority = accounts ! 1,
         sm_open_orders = accounts ! 2,
         sm_target_orders = accounts ! 3,
         sm_coin_vault = accounts ! 4,
         sm_pc_vault = accounts ! 5,
         sm_lp_mint = accounts ! 6,
         sm_market_program = accounts ! 7,
         sm_market = accounts ! 8,
         sm_event_queue = accounts ! 9,
         sm_user_source = accounts ! 10,
         sm_user_destination = accounts ! 11,
         sm_user_owner = accounts ! 12\<rparr>)"

definition simulate_readonly :: "simulate_accounts \<Rightarrow> unit outcome" where
  "simulate_readonly A =
     readonly_accounts [sm_amm A, sm_open_orders A, sm_target_orders A, sm_coin_vault A, sm_pc_vault A,
       sm_lp_mint A, sm_market A, sm_event_queue A, sm_user_source A, sm_user_destination A,
       sm_user_owner A]"

text \<open>The checks of both simulations, up to the tokens of the four accounts and the totals.\<close>

definition simulate_check ::
  "runtime \<Rightarrow> pubkey \<Rightarrow> simulate_accounts \<Rightarrow> world \<Rightarrow> amm_info outcome" where
  "simulate_check R program_id A w =
     (if \<not> is_signer (sm_user_owner A) then err InvalidSignAccount
      else
      and_then (amm_load_checked w (sm_amm A) program_id) (\<lambda>amm.
      and_then (status_from_u64 (amm_status amm)) (\<lambda>status.
      if \<not> swap_permission status then err InvalidStatus
      else
      and_then (authority_id R program_id AUTHORITY_AMM (as_u8 (amm_nonce amm))) (\<lambda>authority.
      if ai_key (sm_authority A) \<noteq> authority then err InvalidProgramAddress
      else if ai_key (sm_coin_vault A) \<noteq> amm_coin_vault amm then err InvalidCoinVault
      else if ai_key (sm_pc_vault A) \<noteq> amm_pc_vault amm then err InvalidPCVault
      else if ai_key (sm_open_orders A) \<noteq> amm_open_orders amm then err InvalidOpenOrders
      else if ai_key (sm_target_orders A) \<noteq> amm_target_orders amm then err InvalidTargetOrders
      else if ai_key (sm_lp_mint A) \<noteq> amm_lp_mint amm then err InvalidPoolMint
      else if ai_key (sm_market_program A) \<noteq> amm_market_program amm then err InvalidMarketProgram
      else if ai_key (sm_market A) \<noteq> amm_market amm then err InvalidMarket
      else if ai_key (sm_user_source A) = amm_pc_vault amm \<or>
              ai_key (sm_user_source A) = amm_coin_vault amm then err InvalidInput
      else if ai_key (sm_user_destination A) = amm_pc_vault amm \<or>
              ai_key (sm_user_destination A) = amm_coin_vault amm then err InvalidInput
      else Done amm))))"

text \<open>The direction, from the mints; other mints are an invalid input here.\<close>

definition simulate_direction :: "swap_tokens \<Rightarrow> swap_direction outcome" where
  "simulate_direction T =
     (if ta_mint (tk_user_source T) = ta_mint (tk_coin_vault T) \<and>
         ta_mint (tk_user_destination T) = ta_mint (tk_pc_vault T) then Done Coin2PC
      else if ta_mint (tk_user_source T) = ta_mint (tk_pc_vault T) \<and>
         ta_mint (tk_user_destination T) = ta_mint (tk_coin_vault T) then Done PC2Coin
      else err InvalidInput)"

definition simulate_totals ::
  "runtime \<Rightarrow> simulate_accounts \<Rightarrow> amm_info \<Rightarrow> world \<Rightarrow> (swap_direction \<times> get_pool_data) outcome" where
  "simulate_totals R A amm w =
     (let token_id = rt_spl_token_id R in
      and_then (load_serum_market_order R w (sm_market A) (sm_open_orders A) (sm_authority A) amm False)
        (\<lambda>(ms, oo).
      and_then (unpack_token_account R w (sm_coin_vault A) token_id) (\<lambda>coin_vault.
      and_then (unpack_token_account R w (sm_pc_vault A) token_id) (\<lambda>pc_vault.
      and_then (unpack_mint R w (sm_lp_mint A) token_id) (\<lambda>lp_mint.
      and_then (unpack_token_account R w (sm_user_source A) token_id) (\<lambda>user_source.
      and_then (unpack_token_account R w (sm_user_destination A) token_id) (\<lambda>user_destination.
      and_then (simulate_direction \<lparr>tk_coin_vault = coin_vault, tk_pc_vault = pc_vault,
          tk_user_source = user_source, tk_user_destination = user_destination\<rparr>) (\<lambda>direction.
      and_then (calc_total_without_take_pnl R w (ta_amount pc_vault) (ta_amount coin_vault) oo amm ms
        (sm_event_queue A) (sm_open_orders A)) (\<lambda>(total_pc, total_coin).
        Done (direction, default_pool_data\<lparr>pd_status := amm_status amm,
          pd_coin_decimals := coin_decimals amm, pd_pc_decimals := pc_decimals amm,
          pd_lp_decimals := widen (mint_decimals lp_mint), pd_pool_lp_supply := lp_amount amm,
          pd_pool_open_time := pool_open_time (amm_state_data amm),
          pd_pool_pc_amount := total_pc, pd_pool_coin_amount := total_coin,
          pd_amm_id := rt_key_string R (ai_key (sm_amm A))\<rparr>))))))))))"

text \<open>
  How far the price moves, in millionths of it. Both prices are whole numbers, pc per coin
  rounded down.
\<close>

fun price_impact :: "swap_direction \<Rightarrow> u64 \<Rightarrow> u64 \<Rightarrow> u64 \<Rightarrow> u64 \<Rightarrow> u64 option" where
  "price_impact Coin2PC total_pc total_coin in_amount out_amount =
     do {
       token_pc_after_swap \<leftarrow> checked_sub total_pc out_amount;
       token_coin_after_swap \<leftarrow> checked_add total_coin in_amount;
       swap_price_before \<leftarrow> checked_div total_pc total_coin;
       swap_price_after \<leftarrow> checked_div token_pc_after_swap token_coin_after_swap;
       d \<leftarrow> checked_sub swap_price_before swap_price_after;
       m \<leftarrow> checked_mul d 1000000;
       checked_div m swap_price_before
     }"
| "price_impact PC2Coin total_pc total_coin in_amount out_amount =
     do {
       token_pc_after_swap \<leftarrow> checked_add total_pc in_amount;
       token_coin_after_swap \<leftarrow> checked_sub total_coin out_amount;
       swap_price_before \<leftarrow> checked_div total_pc total_coin;
       swap_price_after \<leftarrow> checked_div token_pc_after_swap token_coin_after_swap;
       d \<leftarrow> checked_sub swap_price_after swap_price_before;
       m \<leftarrow> checked_mul d 1000000;
       checked_div m swap_price_before
     }"

definition simulate_in_quote :: "fees \<Rightarrow> u64 \<Rightarrow> u64 \<Rightarrow> u64 \<Rightarrow> swap_direction \<Rightarrow> u64 option" where
  "simulate_in_quote f amount total_pc total_coin direction =
     do {
       m \<leftarrow> checked_mul (widen amount :: u128) (widen (swap_fee_numerator f));
       (swap_fee, _) \<leftarrow> checked_ceil_div m (widen (swap_fee_denominator f));
       swap_in_after_deduct_fee \<leftarrow> checked_sub (widen amount) swap_fee;
       out \<leftarrow> swap_token_amount_base_in swap_in_after_deduct_fee (widen total_pc) (widen total_coin) direction;
       narrow out
     }"

definition simulate_out_quote :: "fees \<Rightarrow> u64 \<Rightarrow> u64 \<Rightarrow> u64 \<Rightarrow> swap_direction \<Rightarrow> u64 option" where
  "simulate_out_quote f amount total_pc total_coin direction =
     do {
       before \<leftarrow> swap_token_amount_base_out (widen amount) (widen total_pc) (widen total_coin) direction;
       m \<leftarrow> checked_mul before (widen (swap_fee_denominator f));
       d \<leftarrow> checked_sub (swap_fee_denominator f) (swap_fee_numerator f);
       (after_fee, _) \<leftarrow> checked_ceil_div m (widen d);
       narrow after_fee
     }"

definition simulate_swap_base_in ::
  "runtime \<Rightarrow> pubkey \<Rightarrow> account_info list \<Rightarrow> simulate_instruction \<Rightarrow> world \<Rightarrow> get_swap_base_in_data outcome"
  where
  "simulate_swap_base_in R program_id accounts simulate w =
     and_then (simulate_parse_accounts accounts) (\<lambda>A.
     and_then (simulate_readonly A) (\<lambda>_.
     case swap_base_in_value simulate of
       None \<Rightarrow> Done \<lparr>si_pool_data = default_pool_data, si_amount_in = 0, si_minimum_amount_out = 0,
         si_price_impact = 0\<rparr>
     | Some swap \<Rightarrow>
         and_then (simulate_check R program_id A w) (\<lambda>amm.
         and_then (simulate_totals R A amm w) (\<lambda>(direction, pool_data).
         let pc = pd_pool_pc_amount pool_data; coin = pd_pool_coin_amount pool_data in
         and_then (unwrap (simulate_in_quote (amm_fees amm) (amount_in swap) pc coin direction)) (\<lambda>out.
         and_then (unwrap (price_impact direction pc coin (amount_in swap) out)) (\<lambda>impact.
           Done \<lparr>si_pool_data = pool_data, si_amount_in = amount_in swap, si_minimum_amount_out = out,
             si_price_impact = impact\<rparr>))))))"

definition simulate_swap_base_out ::
  "runtime \<Rightarrow> pubkey \<Rightarrow> account_info list \<Rightarrow> simulate_instruction \<Rightarrow> world \<Rightarrow> get_swap_base_out_data outcome"
  where
  "simulate_swap_base_out R program_id accounts simulate w =
     and_then (simulate_parse_accounts accounts) (\<lambda>A.
     and_then (simulate_readonly A) (\<lambda>_.
     case swap_base_out_value simulate of
       None \<Rightarrow> Done \<lparr>so_pool_data = default_pool_data, so_max_amount_in = 0, so_amount_out = 0,
         so_price_impact = 0\<rparr>
     | Some swap \<Rightarrow>
         and_then (simulate_check R program_id A w) (\<lambda>amm.
         and_then (simulate_totals R A amm w) (\<lambda>(direction, pool_data).
         let pc = pd_pool_pc_amount pool_data; coin = pd_pool_coin_amount pool_data in
         and_then (unwrap (simulate_out_quote (amm_fees amm) (amount_out swap) pc coin direction)) (\<lambda>i.
         and_then (unwrap (price_impact direction pc coin i (amount_out swap))) (\<lambda>impact.
           Done \<lparr>so_pool_data = pool_data, so_max_amount_in = i, so_amount_out = amount_out swap,
             so_price_impact = impact\<rparr>))))))"

section \<open>Whether the monitor has something to do\<close>

record crank_accounts =
  ck_token_program :: account_info
  ck_clock :: account_info
  ck_amm :: account_info
  ck_authority :: account_info
  ck_open_orders :: account_info
  ck_target_orders :: account_info
  ck_coin_vault :: account_info
  ck_pc_vault :: account_info
  ck_market_program :: account_info
  ck_market :: account_info
  ck_bids :: account_info
  ck_asks :: account_info
  ck_event_queue :: account_info

definition crank_parse_accounts :: "account_info list \<Rightarrow> crank_accounts outcome" where
  "crank_parse_accounts accounts =
     and_then (need_accounts 13 accounts) (\<lambda>_.
       Done \<lparr>ck_token_program = accounts ! 0,
         ck_clock = accounts ! 1,
         ck_amm = accounts ! 2,
         ck_authority = accounts ! 3,
         ck_open_orders = accounts ! 4,
         ck_target_orders = accounts ! 5,
         ck_coin_vault = accounts ! 6,
         ck_pc_vault = accounts ! 7,
         ck_market_program = accounts ! 8,
         ck_market = accounts ! 9,
         ck_bids = accounts ! 10,
         ck_asks = accounts ! 11,
         ck_event_queue = accounts ! 12\<rparr>)"

text \<open>
  The two states that read the market: vaults, target orders, open orders and totals, then the
  totals at the pool's own precision and the pool's orders. The idle state reads its orders
  before the totals, the cancelling state after them.
\<close>

definition crank_load ::
  "runtime \<Rightarrow> pubkey \<Rightarrow> crank_accounts \<Rightarrow> amm_info \<Rightarrow> world \<Rightarrow>
   (u64 \<times> u64 \<times> target_orders \<times> market_state \<times> open_orders) outcome" where
  "crank_load R program_id A amm w =
     (let token_id = ai_key (ck_token_program A) in
      and_then (unpack_token_account R w (ck_coin_vault A) token_id) (\<lambda>coin_vault.
      and_then (unpack_token_account R w (ck_pc_vault A) token_id) (\<lambda>pc_vault.
      and_then (target_orders_load_checked R w (ck_target_orders A) program_id (ai_key (ck_amm A))) (\<lambda>target.
      and_then (load_serum_market_order R w (ck_market A) (ck_open_orders A) (ck_authority A) amm False)
        (\<lambda>(ms, oo).
        Done (ta_amount coin_vault, ta_amount pc_vault, target, ms, oo))))))"

definition crank_xy ::
  "runtime \<Rightarrow> crank_accounts \<Rightarrow> amm_info \<Rightarrow> u64 \<Rightarrow> u64 \<Rightarrow> market_state \<Rightarrow> open_orders \<Rightarrow> world \<Rightarrow>
   (u128 \<times> u128) outcome" where
  "crank_xy R A amm coin_amount pc_amount ms oo w =
     and_then (calc_total_without_take_pnl R w pc_amount coin_amount oo amm ms (ck_event_queue A)
       (ck_open_orders A)) (\<lambda>(total_pc, total_coin).
     and_then (unwrap (normalize_decimal_v2 total_pc (pc_decimals amm) (sys_decimal_value amm))) (\<lambda>x.
     and_then (unwrap (normalize_decimal_v2 total_coin (coin_decimals amm) (sys_decimal_value amm))) (\<lambda>y.
       Done (x, y))))"

text \<open>Whether the product fell below the one the profit was last taken at, with no order out.\<close>

definition crank_lost ::
  "u128 \<Rightarrow> u128 \<Rightarrow> leaf_node list \<Rightarrow> leaf_node list \<Rightarrow> target_orders \<Rightarrow> bool option" where
  "crank_lost x y bids asks target =
     do {
       k \<leftarrow> checked_mul x y;
       calc_k \<leftarrow> checked_mul (calc_pnl_x target) (calc_pnl_y target);
       Some (k < calc_k \<and> bids = [] \<and> asks = [])
     }"

definition crank_idle ::
  "runtime \<Rightarrow> pubkey \<Rightarrow> crank_accounts \<Rightarrow> amm_info \<Rightarrow> world \<Rightarrow> bool outcome" where
  "crank_idle R program_id A amm w =
     and_then (crank_load R program_id A amm w) (\<lambda>(coin_amount, pc_amount, target, ms, oo).
     and_then (load_amm_orders R w ms oo (ck_bids A) (ck_asks A)) (\<lambda>(bids, asks).
     and_then (crank_xy R A amm coin_amount pc_amount ms oo w) (\<lambda>(x, y).
     and_then (unwrap (crank_lost x y bids asks target)) (\<lambda>lost.
     and_then (unwrap (idle_price x y amm)) (\<lambda>p.
     and_then (unwrap (narrow p)) (\<lambda>cur_price :: u64.
     and_then (unwrap (price_in_range amm (widen cur_price))) (\<lambda>in_range.
       Done (needs_plan x y bids asks target \<and> \<not> lost \<and> in_range))))))))"

definition crank_cancel_all ::
  "runtime \<Rightarrow> pubkey \<Rightarrow> crank_accounts \<Rightarrow> amm_info \<Rightarrow> world \<Rightarrow> bool outcome" where
  "crank_cancel_all R program_id A amm w =
     and_then (crank_load R program_id A amm w) (\<lambda>(coin_amount, pc_amount, target, ms, oo).
     and_then (crank_xy R A amm coin_amount pc_amount ms oo w) (\<lambda>(x, y).
     and_then (load_amm_orders R w ms oo (ck_bids A) (ck_asks A)) (\<lambda>(bids, asks).
     and_then (unwrap (crank_lost x y bids asks target)) (\<lambda>lost.
       Done (\<not> (count_zeros (oo_free_slot_bits oo) > 100 \<and> bids = [] \<and> asks = []) \<and> \<not> lost)))))"

definition simulate_run_crank ::
  "runtime \<Rightarrow> pubkey \<Rightarrow> account_info list \<Rightarrow> world \<Rightarrow> run_crank_data outcome" where
  "simulate_run_crank R program_id accounts w =
     and_then (crank_parse_accounts accounts) (\<lambda>A.
     and_then (readonly_accounts [ck_amm A, ck_open_orders A, ck_target_orders A, ck_coin_vault A,
       ck_pc_vault A, ck_market A, ck_bids A, ck_asks A, ck_event_queue A]) (\<lambda>_.
     and_then (amm_load_checked w (ck_amm A) program_id) (\<lambda>amm.
     and_then (check_accounts R program_id amm (ck_amm A) (ck_token_program A) (ck_clock A)
       (ck_market_program A) (ck_authority A) (ck_market A) (ck_open_orders A) (ck_coin_vault A)
       (ck_pc_vault A) (ck_target_orders A) None None w) (\<lambda>_.
     and_then (status_from_u64 (amm_status amm)) (\<lambda>status.
     and_then (state_from_u64 (amm_state amm)) (\<lambda>state.
     and_then
       (if amm_reset_flag amm = reset_flag_into_u64 ResetYes then Done True
        else if amm_order_num amm = 0 then Done False
        else if status = Initialized \<or> status = OrderBookOnly then
          (case state of
             IdleState \<Rightarrow> crank_idle R program_id A amm w
           | CancelAllOrdersState \<Rightarrow> crank_cancel_all R program_id A amm w
           | PlanOrdersState \<Rightarrow> Done True
           | CancelOrderState \<Rightarrow> Done True
           | PlaceOrdersState \<Rightarrow> Done True
           | PurgeOrderState \<Rightarrow> Done True
           | InvlidState \<Rightarrow> Done False)
        else Done False) (\<lambda>run.
       Done \<lparr>rc_status = amm_status amm, rc_state = amm_state amm, rc_run_crank = run\<rparr>)))))))"

text \<open>Every failure of a simulation is unwrapped; the data is logged and nothing is written.\<close>

definition process_simulate_info ::
  "runtime \<Rightarrow> pubkey \<Rightarrow> account_info list \<Rightarrow> simulate_instruction \<Rightarrow> world \<Rightarrow> world outcome" where
  "process_simulate_info R program_id accounts simulate w =
     and_then (simulate_from_u64 (widen (sim_param simulate))) (\<lambda>param.
     case param of
       PoolInfo \<Rightarrow> and_then (unwrap_result (simulate_pool_info R program_id accounts w)) (\<lambda>_. Done w)
     | RunCrankInfo \<Rightarrow> and_then (unwrap_result (simulate_run_crank R program_id accounts w)) (\<lambda>_. Done w)
     | SwapBaseInInfo \<Rightarrow>
         and_then (unwrap_result (simulate_swap_base_in R program_id accounts simulate w)) (\<lambda>_. Done w)
     | SwapBaseOutInfo \<Rightarrow>
         and_then (unwrap_result (simulate_swap_base_out R program_id accounts simulate w)) (\<lambda>_. Done w))"

section \<open>A simulated swap and the swap\<close>

lemma simulate_in_quote_swap:
  "swap_in_quote f a pc coin d = Done (fee, out) \<Longrightarrow> unwrap (simulate_in_quote f a pc coin d) = Done out"
  by (auto simp: simulate_in_quote_def swap_in_quote_def unwrap_Done bind_eq_Some_conv)

lemma simulate_out_quote_swap:
  "swap_out_quote f a pc coin d = Done (i, fee) \<Longrightarrow> unwrap (simulate_out_quote f a pc coin d) = Done i"
  by (auto simp: simulate_out_quote_def swap_out_quote_def unwrap_Done bind_eq_Some_conv)

text \<open>
  A price below one pc per coin rounds to zero, and the division by it panics: a simulation
  returns only for a pool with at least as many units of pc as of coin.
\<close>

lemma price_impact_Some:
  assumes "price_impact d pc coin i out = Some p"
  shows "uint coin \<le> uint pc"
proof -
  obtain q :: u64 where "uint q = uint pc div uint coin" "uint q \<noteq> 0"
    using assms by (cases d) (auto simp: bind_eq_Some_conv checked_arith)
  then show ?thesis
    by (metis div_pos_pos_trivial linorder_not_le uint_ge_0)
qed

text \<open>The accounts of the simulation are those of the swap.\<close>

definition same_swap_keys :: "simulate_accounts \<Rightarrow> swap_accounts \<Rightarrow> bool" where
  "same_swap_keys S A \<longleftrightarrow>
     ai_key (sm_amm S) = ai_key (sw_amm A) \<and> ai_key (sm_authority S) = ai_key (sw_authority A) \<and>
     ai_key (sm_open_orders S) = ai_key (sw_open_orders A) \<and>
     ai_key (sm_coin_vault S) = ai_key (sw_coin_vault A) \<and>
     ai_key (sm_pc_vault S) = ai_key (sw_pc_vault A) \<and> ai_key (sm_market S) = ai_key (sw_market A) \<and>
     ai_key (sm_event_queue S) = ai_key (sw_event_queue A) \<and>
     ai_key (sm_user_source S) = ai_key (sw_user_source A) \<and>
     ai_key (sm_user_destination S) = ai_key (sw_user_destination A)"

definition nothing_on_market :: "runtime \<Rightarrow> simulate_accounts \<Rightarrow> amm_info \<Rightarrow> world \<Rightarrow> bool" where
  "nothing_on_market R S amm w \<longleftrightarrow>
     (case load_serum_market_order R w (sm_market S) (sm_open_orders S) (sm_authority S) amm False of
        Done (ms, oo) \<Rightarrow>
          calc_exact_vault_in_serum R w oo ms (sm_event_queue S) (sm_open_orders S) = Done (0, 0)
      | _ \<Rightarrow> False)"

lemma unpack_key:
  "ai_key a = ai_key b \<Longrightarrow> unpack_token_account R w a t = unpack_token_account R w b t"
  by (simp add: unpack_token_account_def acc_of_def cong: if_cong)

lemma load_order_key:
  "ai_key m = ai_key m' \<Longrightarrow> ai_key oo = ai_key oo' \<Longrightarrow> ai_key a = ai_key a' \<Longrightarrow>
     load_serum_market_order R w m oo a amm f = load_serum_market_order R w m' oo' a' amm f"
  unfolding load_serum_market_order_def acc_of_def by (simp cong: if_cong)

lemma exact_key:
  "ai_key q = ai_key q' \<Longrightarrow> ai_key o1 = ai_key o2 \<Longrightarrow>
     calc_exact_vault_in_serum R w oo ms q o1 = calc_exact_vault_in_serum R w oo ms q' o2"
  unfolding calc_exact_vault_in_serum_def acc_of_def by simp

lemma total_key:
  "ai_key q = ai_key q' \<Longrightarrow> ai_key o1 = ai_key o2 \<Longrightarrow>
     calc_total_without_take_pnl R w pc coin oo amm ms q o1 =
     calc_total_without_take_pnl R w pc coin oo amm ms q' o2"
  unfolding calc_total_without_take_pnl_def using exact_key [of q q' o1 o2] by simp

lemma loads_status:
  "load_serum_market_order R w m oa a (amm\<lparr>amm_status := s\<rparr>) f = load_serum_market_order R w m oa a amm f"
  "calc_total_without_take_pnl R w pc coin oo' (amm\<lparr>amm_status := s\<rparr>) ms q o1 =
     calc_total_without_take_pnl R w pc coin oo' amm ms q o1"
  "calc_total_without_take_pnl_no_orderbook pc coin (amm\<lparr>amm_status := s\<rparr>) =
     calc_total_without_take_pnl_no_orderbook pc coin amm"
  by (simp_all add: load_serum_market_order_def calc_total_without_take_pnl_def
      calc_total_without_take_pnl_no_orderbook_def cong: if_cong)

lemma checked_add_0: "checked_add a 0 = Some a"
  by (simp add: checked_add_def)

lemma total_no_orderbook:
  "calc_exact_vault_in_serum R w oo ms q o1 = Done (0, 0) \<Longrightarrow>
     calc_total_without_take_pnl R w pc coin oo amm ms q o1 =
     calc_total_without_take_pnl_no_orderbook pc coin amm"
  unfolding calc_total_without_take_pnl_def calc_total_without_take_pnl_no_orderbook_def
  by (simp only: and_then.simps prod.case checked_add_0 ok_or_simps(1))

lemma choose_Done:
  "(if a then Done x else if b then Done y else err e) = Done d \<Longrightarrow>
     (if a then Done x else if b then Done y else err e') = Done d"
  by (cases a; cases b) simp_all

lemma simulate_direction_swap:
  "simulate_direction T = Done d \<Longrightarrow> swap_direction_of T = Done d"
  unfolding simulate_direction_def swap_direction_of_def by (rule choose_Done)

text \<open>
  Direction and totals of the two agree when the swap reads the order book too, or when nothing
  of the pool is on the market.
\<close>

lemma simulate_totals_swap:
  assumes sim: "simulate_totals R S amm w = Done (d, pd)"
    and keys: "same_swap_keys S A"
    and T: "swap_check R pid A amm w = Done T"
    and st: "swap_status R amm = Done amm1"
    and t: "swap_calc_totals R A amm1 enable T w = Done t"
    and book: "enable \<or> nothing_on_market R S amm w"
  shows "swap_direction_of T = Done d" and "st_pc t = pd_pool_pc_amount pd" and "st_coin t = pd_pool_coin_amount pd"
proof -
  obtain s where amm1: "amm1 = amm\<lparr>amm_status := s\<rparr>" using swap_status_fields [OF st] by blast
  obtain ms oo cv pv us ud pc coin where
    l: "load_serum_market_order R w (sm_market S) (sm_open_orders S) (sm_authority S) amm False = Done (ms, oo)" and
    u: "unpack_token_account R w (sm_coin_vault S) (rt_spl_token_id R) = Done cv"
      "unpack_token_account R w (sm_pc_vault S) (rt_spl_token_id R) = Done pv"
      "unpack_token_account R w (sm_user_source S) (rt_spl_token_id R) = Done us"
      "unpack_token_account R w (sm_user_destination S) (rt_spl_token_id R) = Done ud" and
    d: "simulate_direction \<lparr>tk_coin_vault = cv, tk_pc_vault = pv, tk_user_source = us,
      tk_user_destination = ud\<rparr> = Done d" and
    c: "calc_total_without_take_pnl R w (ta_amount pv) (ta_amount cv) oo amm ms (sm_event_queue S)
      (sm_open_orders S) = Done (pc, coin)" and
    pd: "pd_pool_pc_amount pd = pc" "pd_pool_coin_amount pd = coin"
    using sim by (auto simp: simulate_totals_def and_then_Done Let_def)
  have k: "ai_key (sm_market S) = ai_key (sw_market A)" "ai_key (sm_open_orders S) = ai_key (sw_open_orders A)"
    "ai_key (sm_authority S) = ai_key (sw_authority A)" "ai_key (sm_event_queue S) = ai_key (sw_event_queue A)"
    "ai_key (sm_coin_vault S) = ai_key (sw_coin_vault A)" "ai_key (sm_pc_vault S) = ai_key (sw_pc_vault A)"
    "ai_key (sm_user_source S) = ai_key (sw_user_source A)"
    "ai_key (sm_user_destination S) = ai_key (sw_user_destination A)"
    using keys unfolding same_swap_keys_def by blast+
  have "unpack_token_account R w (sw_coin_vault A) (rt_spl_token_id R) = Done cv"
    "unpack_token_account R w (sw_pc_vault A) (rt_spl_token_id R) = Done pv"
    "unpack_token_account R w (sw_user_source A) (rt_spl_token_id R) = Done us"
    "unpack_token_account R w (sw_user_destination A) (rt_spl_token_id R) = Done ud"
    using u by (simp_all only: unpack_key [OF k(5)] unpack_key [OF k(6)] unpack_key [OF k(7)] unpack_key [OF k(8)])
  moreover have "ai_key (sw_token_program A) = rt_spl_token_id R"
    using T by (auto simp: swap_check_def split: if_splits)
  ultimately have T_eq: "T = \<lparr>tk_coin_vault = cv, tk_pc_vault = pv, tk_user_source = us, tk_user_destination = ud\<rparr>"
    using T by (simp add: swap_check_def and_then_Done Let_def split: if_splits)
  show "swap_direction_of T = Done d"
    using simulate_direction_swap [OF d] by (simp add: T_eq)
  have "st_pc t = pc \<and> st_coin t = coin"
  proof (cases enable)
    case True
    have "load_serum_market_order R w (sw_market A) (sw_open_orders A) (sw_authority A) amm False = Done (ms, oo)"
      using l by (simp only: load_order_key [OF k(1-3)])
    moreover have "calc_total_without_take_pnl R w (ta_amount pv) (ta_amount cv) oo amm ms (sw_event_queue A)
      (sw_open_orders A) = Done (pc, coin)"
      using c by (simp only: total_key [OF k(4,2)])
    ultimately show ?thesis
      using t True unfolding swap_calc_totals_def T_eq amm1 loads_status
      by (clarsimp simp: and_then_Done split: if_splits)
  next
    case False
    then have "calc_exact_vault_in_serum R w oo ms (sm_event_queue S) (sm_open_orders S) = Done (0, 0)"
      using book l by (simp add: nothing_on_market_def)
    then have "calc_total_without_take_pnl_no_orderbook (ta_amount pv) (ta_amount cv) amm = Done (pc, coin)"
      using c total_no_orderbook by metis
    then show ?thesis
      using t False
      by (auto simp: swap_calc_totals_def and_then_Done T_eq amm1 loads_status)
  qed
  then show "st_pc t = pd_pool_pc_amount pd" "st_coin t = pd_pool_coin_amount pd" by (simp_all add: pd)
qed

lemma simulate_check_load:
  "simulate_check R pid S w = Done amm \<Longrightarrow> amm_load w (sm_amm S) = Done amm"
  by (auto simp: simulate_check_def and_then_Done amm_load_checked_def split: if_splits)

lemma simulate_swap_base_in_Done:
  assumes "simulate_swap_base_in R pid accounts simulate w = Done D"
    and "swap_base_in_value simulate = Some s" and "simulate_parse_accounts accounts = Done S"
  shows "\<exists>amm d. amm_load w (sm_amm S) = Done amm \<and> simulate_totals R S amm w = Done (d, si_pool_data D) \<and>
    unwrap (simulate_in_quote (amm_fees amm) (amount_in s) (pd_pool_pc_amount (si_pool_data D))
      (pd_pool_coin_amount (si_pool_data D)) d) = Done (si_minimum_amount_out D) \<and>
    uint (pd_pool_coin_amount (si_pool_data D)) \<le> uint (pd_pool_pc_amount (si_pool_data D))"
  using assms
  by (auto simp: simulate_swap_base_in_def and_then_Done Let_def dest!: simulate_check_load price_impact_Some)

lemma simulate_swap_base_out_Done:
  assumes "simulate_swap_base_out R pid accounts simulate w = Done D"
    and "swap_base_out_value simulate = Some s" and "simulate_parse_accounts accounts = Done S"
  shows "\<exists>amm d. amm_load w (sm_amm S) = Done amm \<and> simulate_totals R S amm w = Done (d, so_pool_data D) \<and>
    unwrap (simulate_out_quote (amm_fees amm) (amount_out s) (pd_pool_pc_amount (so_pool_data D))
      (pd_pool_coin_amount (so_pool_data D)) d) = Done (so_max_amount_in D) \<and>
    uint (pd_pool_coin_amount (so_pool_data D)) \<le> uint (pd_pool_pc_amount (so_pool_data D))"
  using assms
  by (auto simp: simulate_swap_base_out_def and_then_Done Let_def dest!: simulate_check_load price_impact_Some)

text \<open>The pool of both is the same, and the swap reads the order book when its status says so.\<close>

lemma same_pool_of_keys:
  assumes "same_swap_keys S A" and "swap_parse_accounts accounts = Done A"
    and "amm_load w (accounts ! 1) = Done amm" and "amm_load w (sm_amm S) = Done amm'"
  shows "amm' = amm"
proof -
  have "ai_key (sm_amm S) = ai_key (accounts ! 1)"
    using assms(1) swap_parse_amm [OF assms(2)] by (simp add: same_swap_keys_def)
  then show ?thesis
    using assms(3,4) unfolding amm_load_def acc_of_def by (simp split: if_splits)
qed

lemma book_of_status:
  assumes "amm_status amm = status_into_u64 Initialized \<or> m"
    and "status_from_u64 (amm_status amm) = Done status" and "enable = orderbook_permission status"
  shows "enable \<or> m"
  using assms by (auto simp: status_from_u64_def)

text \<open>
  C39: the simulation of a swap by input says what the swap will pay. If both succeed on the same
  accounts for the same input, the swap pays out exactly the reported minimum, at the
  reported reserves. This needs a pool whose status makes the swap read the order book, or
  nothing of the pool on the market: for other statuses the simulation counts what is on the
  market and the swap does not. A simulation returns only for a pool with at least as many
  units of pc as of coin, because it divides by a price in whole units.
\<close>

theorem simulate_swap_base_in_correct:
  assumes "simulate_swap_base_in R pid sim_accounts simulate w = Done D"
    and "swap_base_in_value simulate = Some s"
    and "process_swap_base_in R pid accounts swap w = Done w'"
    and "amount_in swap = amount_in s"
    and "simulate_parse_accounts sim_accounts = Done S" and "swap_parse_accounts accounts = Done A"
    and "same_swap_keys S A" and "amm_load w (accounts ! 1) = Done amm"
    and "amm_status amm = status_into_u64 Initialized \<or> nothing_on_market R S amm w"
    and "swap_fee_numerator (amm_fees amm) \<le> swap_fee_denominator (amm_fees amm)"
  shows "\<exists>amm' enable t d fee.
    swap_result A amm' enable t d (amount_in s) (si_minimum_amount_out D) (uint (fee :: u128)) w w' \<and>
    st_pc t = pd_pool_pc_amount (si_pool_data D) \<and> st_coin t = pd_pool_coin_amount (si_pool_data D) \<and>
    uint (st_coin t) \<le> uint (st_pc t)"
proof -
  obtain amm0 d where l: "amm_load w (sm_amm S) = Done amm0" and
    tot: "simulate_totals R S amm0 w = Done (d, si_pool_data D)" and
    q: "unwrap (simulate_in_quote (amm_fees amm0) (amount_in s) (pd_pool_pc_amount (si_pool_data D))
      (pd_pool_coin_amount (si_pool_data D)) d) = Done (si_minimum_amount_out D)" and
    le: "uint (pd_pool_coin_amount (si_pool_data D)) \<le> uint (pd_pool_pc_amount (si_pool_data D))"
    using simulate_swap_base_in_Done [OF assms(1,2,5)] by blast
  have same: "amm0 = amm" by (rule same_pool_of_keys [OF assms(7,6,8) l])
  obtain A' T t d' fee out amm1 enable status where
    A': "swap_parse_accounts accounts = Done A'" and T: "swap_check R pid A' amm w = Done T" and
    st: "swap_status R amm = Done amm1" and t: "swap_calc_totals R A' amm1 enable T w = Done t" and
    d: "swap_direction_of T = Done d'" and
    qs: "swap_in_quote (amm_fees amm) (amount_in swap) (st_pc t) (st_coin t) d' = Done (fee, out)" and
    e: "status_from_u64 (amm_status amm) = Done status" "enable = orderbook_permission status" and
    res: "swap_result A' amm1 enable t d' (amount_in swap) out (uint fee) w w'"
    using process_swap_base_in_effects [OF assms(3,8,10)] by blast
  have A: "A' = A" using A' assms(6) by simp
  note agree = simulate_totals_swap [OF tot [unfolded same] assms(7) T [unfolded A] st t [unfolded A]
    book_of_status [OF assms(9) e]]
  have "out = si_minimum_amount_out D"
    using q simulate_in_quote_swap [OF qs] d agree assms(4) by (auto simp: same)
  then show ?thesis
    using res agree(2,3) le assms(4) unfolding A
    by (intro exI [of _ amm1] exI [of _ enable] exI [of _ t] exI [of _ d'] exI [of _ fee]) simp
qed

text \<open>A pool with nothing on the market, and its accounts opened for reading only.\<close>

definition sample_quiet_runtime :: runtime where
  "sample_quiet_runtime = sample_runtime\<lparr>rt_open_orders_load := (\<lambda>_ _ _ _ _. Done sample_empty_open_orders),
     rt_event_queue := (\<lambda>_ _ _. Done [])\<rparr>"

definition sample_readonly :: "pubkey \<Rightarrow> account_info" where
  "sample_readonly k = \<lparr>ai_key = k, is_signer = True, is_writable = False\<rparr>"

definition sample_simulate_accounts :: "account_info list" where
  "sample_simulate_accounts = map sample_readonly [100, 50, 101, 102, 104, 105, 103, 112, 106, 122, 107, 108, 110]"

definition sample_simulate :: simulate_instruction where
  "sample_simulate = \<lparr>sim_param = 1, swap_base_in_value = Some \<lparr>amount_in = 400, minimum_amount_out = 0\<rparr>,
     swap_base_out_value = None\<rparr>"

lemma sample_quiet_simps:
  "rt_spl_token_id sample_quiet_runtime = 1" "rt_create_program_address sample_quiet_runtime s k = Some 50"
  "rt_clock sample_quiet_runtime = Done \<lparr>clk_epoch = 700, clk_unix_timestamp = 1000\<rparr>"
  "unpack_token_account sample_quiet_runtime w i t = unpack_token_account sample_runtime w i t"
  "unpack_mint sample_quiet_runtime w i t = unpack_mint sample_runtime w i t"
  "rt_key_string sample_quiet_runtime k = ''key''"
  "invoke_signed sample_quiet_runtime ix a sd w = invoke_signed sample_runtime ix a sd w"
  by (simp_all add: sample_quiet_runtime_def unpack_token_account_def unpack_mint_def invoke_signed_def)
     (simp add: sample_runtime_def)

lemma sample_readonly_simps:
  "ai_key (sample_readonly k) = k" "is_signer (sample_readonly k)" "\<not> is_writable (sample_readonly k)"
  "unpack_token_account sample_runtime w (sample_readonly k) t = unpack_token_account sample_runtime w (sample_info k) t"
  "unpack_mint sample_runtime w (sample_readonly k) t = unpack_mint sample_runtime w (sample_info k) t"
  "amm_load_checked w (sample_readonly k) p = amm_load_mut_checked w (sample_info k) p"
  "amm_load w (sample_readonly k) = amm_load w (sample_info k)"
  by (simp_all add: sample_readonly_def sample_info_def unpack_token_account_def unpack_mint_def acc_of_def
      amm_load_checked_def amm_load_mut_checked_def amm_load_def)

lemma sample_quiet_market:
  "load_serum_market_order sample_quiet_runtime w (sample_readonly 106) (sample_readonly 101) (sample_readonly 50)
     sample_amm False =
   Done (\<lparr>coin_mint = [201, 0, 0, 0], pc_mint = [202, 0, 0, 0], ms_coin_lot_size = 1, ms_pc_lot_size = 1\<rparr>,
     sample_empty_open_orders)"
  by (simp add: load_serum_market_order_def sample_quiet_runtime_def sample_readonly_simps)
     (simp add: sample_runtime_def sample_empty_open_orders_def sample_readonly_simps)

lemma sample_quiet_exact:
  "calc_exact_vault_in_serum sample_quiet_runtime w sample_empty_open_orders ms q oa = Done (0, 0)"
  by (simp add: calc_exact_vault_in_serum_def sample_quiet_runtime_def)
     (simp add: sample_empty_open_orders_def)

lemma sample_simulate_run:
  "\<exists>D. simulate_swap_base_in sample_quiet_runtime 7 sample_simulate_accounts sample_simulate sample_world = Done D \<and>
     si_minimum_amount_out D = 1140"
proof -
  have q: "unwrap (simulate_in_quote sample_fees 400 4000 1000 Coin2PC) = Done 1140"
    by (rule simulate_in_quote_swap [OF sample_swap_in_quote])
  have i: "unwrap (price_impact Coin2PC 4000 1000 400 1140) = Done 500000" by code_simp
  have t: "calc_total_without_take_pnl sample_quiet_runtime w 4000 1000 sample_empty_open_orders sample_amm ms q oa =
      Done (4000, 1000)" for w ms q oa
    by (simp add: total_no_orderbook [OF sample_quiet_exact] calc_total_without_take_pnl_no_orderbook_def
        checked_sub_def sample_state_data_def)
  show ?thesis
    by (simp add: simulate_swap_base_in_def simulate_parse_accounts_def need_accounts_def
        sample_simulate_accounts_def simulate_readonly_def readonly_accounts_def check_account_readonly_def
        sample_readonly_simps sample_simulate_def simulate_check_def status_from_u64_def authority_id_def
        sample_quiet_simps simulate_totals_def sample_quiet_market sample_unpack_mint simulate_direction_def t q i
        Let_def del: price_impact.simps)
qed

lemma sample_quiet_swap_run:
  "\<exists>w'. process_swap_base_in sample_quiet_runtime 7 sample_swap_accounts
     \<lparr>amount_in = 400, minimum_amount_out = 1140\<rparr> sample_world = Done w'"
  by (simp add: process_swap_base_in_def sample_swap_simps sample_swap_in_quote swap_in_coin_to_pc_def
      sample_quiet_simps)

theorem simulate_swap_base_in_correct_witness:
  "\<exists>w' A amm enable t d fee. process_swap_base_in sample_quiet_runtime 7 sample_swap_accounts
      \<lparr>amount_in = 400, minimum_amount_out = 1140\<rparr> sample_world = Done w' \<and>
    swap_result A amm enable t d 400 1140 (uint (fee :: u128)) sample_world w'"
proof -
  obtain D where D: "simulate_swap_base_in sample_quiet_runtime 7 sample_simulate_accounts sample_simulate
      sample_world = Done D" "si_minimum_amount_out D = 1140"
    using sample_simulate_run by blast
  obtain w' where run: "process_swap_base_in sample_quiet_runtime 7 sample_swap_accounts
      \<lparr>amount_in = 400, minimum_amount_out = 1140\<rparr> sample_world = Done w'"
    using sample_quiet_swap_run by blast
  obtain A where A: "swap_parse_accounts sample_swap_accounts = Done A"
    by (simp add: swap_parse_accounts_def sample_swap_accounts_def)
  obtain S where S: "simulate_parse_accounts sample_simulate_accounts = Done S"
    by (simp add: simulate_parse_accounts_def sample_simulate_accounts_def need_accounts_def)
  have k: "same_swap_keys S A"
    using A S by (auto simp: same_swap_keys_def swap_parse_accounts_def sample_swap_accounts_def
        simulate_parse_accounts_def sample_simulate_accounts_def need_accounts_def sample_readonly_simps)
  have n: "nothing_on_market sample_quiet_runtime S sample_amm sample_world"
    using S by (auto simp: nothing_on_market_def simulate_parse_accounts_def sample_simulate_accounts_def
        need_accounts_def sample_quiet_market sample_quiet_exact)
  have f: "swap_base_in_value sample_simulate = Some \<lparr>amount_in = 400, minimum_amount_out = 0\<rparr>"
    "amm_load sample_world (sample_swap_accounts ! 1) = Done sample_amm"
    "swap_fee_numerator (amm_fees sample_amm) \<le> swap_fee_denominator (amm_fees sample_amm)"
    by (simp_all add: sample_simulate_def sample_swap_accounts_def sample_fees_def)
  show ?thesis
    using simulate_swap_base_in_correct [OF D(1) f(1) run _ S A k f(2) _ f(3)] n D(2) run by auto blast
qed

text \<open>The same for a swap by output: it takes exactly the reported maximum.\<close>

theorem simulate_swap_base_out_correct:
  assumes "simulate_swap_base_out R pid sim_accounts simulate w = Done D"
    and "swap_base_out_value simulate = Some s"
    and "process_swap_base_out R pid accounts swap w = Done w'"
    and "amount_out swap = amount_out s"
    and "simulate_parse_accounts sim_accounts = Done S" and "swap_parse_accounts accounts = Done A"
    and "same_swap_keys S A" and "amm_load w (accounts ! 1) = Done amm"
    and "amm_status amm = status_into_u64 Initialized \<or> nothing_on_market R S amm w"
  shows "\<exists>amm' enable t d fee.
    swap_result A amm' enable t d (so_max_amount_in D) (amount_out s) (uint (fee :: u64)) w w' \<and>
    st_pc t = pd_pool_pc_amount (so_pool_data D) \<and> st_coin t = pd_pool_coin_amount (so_pool_data D) \<and>
    uint (st_coin t) \<le> uint (st_pc t)"
proof -
  obtain amm0 d where l: "amm_load w (sm_amm S) = Done amm0" and
    tot: "simulate_totals R S amm0 w = Done (d, so_pool_data D)" and
    q: "unwrap (simulate_out_quote (amm_fees amm0) (amount_out s) (pd_pool_pc_amount (so_pool_data D))
      (pd_pool_coin_amount (so_pool_data D)) d) = Done (so_max_amount_in D)" and
    le: "uint (pd_pool_coin_amount (so_pool_data D)) \<le> uint (pd_pool_pc_amount (so_pool_data D))"
    using simulate_swap_base_out_Done [OF assms(1,2,5)] by blast
  have same: "amm0 = amm" by (rule same_pool_of_keys [OF assms(7,6,8) l])
  obtain A' T t d' input fee amm1 enable status where
    A': "swap_parse_accounts accounts = Done A'" and T: "swap_check R pid A' amm w = Done T" and
    st: "swap_status R amm = Done amm1" and t: "swap_calc_totals R A' amm1 enable T w = Done t" and
    d: "swap_direction_of T = Done d'" and
    qs: "swap_out_quote (amm_fees amm) (amount_out swap) (st_pc t) (st_coin t) d' = Done (input, fee)" and
    e: "status_from_u64 (amm_status amm) = Done status" "enable = orderbook_permission status" and
    res: "swap_result A' amm1 enable t d' input (amount_out swap) (uint fee) w w'"
    using process_swap_base_out_effects [OF assms(3,8)] by blast
  have A: "A' = A" using A' assms(6) by simp
  note agree = simulate_totals_swap [OF tot [unfolded same] assms(7) T [unfolded A] st t [unfolded A]
    book_of_status [OF assms(9) e]]
  have "input = so_max_amount_in D"
    using q simulate_out_quote_swap [OF qs] d agree assms(4) by (auto simp: same)
  then show ?thesis
    using res agree(2,3) le assms(4) unfolding A
    by (intro exI [of _ amm1] exI [of _ enable] exI [of _ t] exI [of _ d'] exI [of _ fee]) simp
qed

section \<open>The monitor's simulation and the monitor\<close>

text \<open>The accounts the simulation reads are those of the monitor.\<close>

definition same_crank_keys :: "crank_accounts \<Rightarrow> monitor_accounts \<Rightarrow> bool" where
  "same_crank_keys C M \<longleftrightarrow>
     ai_key (ck_token_program C) = ai_key (mo_token_program M) \<and> ai_key (ck_amm C) = ai_key (mo_amm M) \<and>
     ai_key (ck_authority C) = ai_key (mo_authority M) \<and>
     ai_key (ck_open_orders C) = ai_key (mo_open_orders M) \<and>
     ai_key (ck_target_orders C) = ai_key (mo_target_orders M) \<and>
     ai_key (ck_coin_vault C) = ai_key (mo_coin_vault M) \<and> ai_key (ck_pc_vault C) = ai_key (mo_pc_vault M) \<and>
     ai_key (ck_market C) = ai_key (mo_market M) \<and> ai_key (ck_bids C) = ai_key (mo_bids M) \<and>
     ai_key (ck_asks C) = ai_key (mo_asks M) \<and> ai_key (ck_event_queue C) = ai_key (mo_event_queue M)"

lemma load_key: "ai_key a = ai_key b \<Longrightarrow> amm_load w a = amm_load w b"
  unfolding amm_load_def acc_of_def by simp

lemma load_orders_key:
  "ai_key b = ai_key b' \<Longrightarrow> ai_key a = ai_key a' \<Longrightarrow>
     load_amm_orders R w ms oa b a = load_amm_orders R w ms oa b' a'"
  unfolding load_amm_orders_def acc_of_def by simp

lemma target_key:
  "ai_key i = ai_key i' \<Longrightarrow>
     target_orders_load_checked R w i pid own = target_orders_load_mut_checked R w i' pid own"
  unfolding target_orders_load_checked_def target_orders_load_mut_checked_def target_orders_load_def acc_of_def
  by (simp cong: if_cong)

text \<open>The totals, the orders and the target orders of the idle state, read by both.\<close>

lemma crank_idle_reads:
  assumes "crank_idle R pid C amm w = Done run" and "same_crank_keys C M"
    and "monitor_idle R pid M amm w = Done (amm', w')"
  shows "\<exists>total_coin total_pc bids asks target target' x y lost in_range.
    do_idle_state R total_coin total_pc bids asks amm target = Done (amm', target') \<and>
    normalize_decimal_v2 total_pc (pc_decimals amm) (sys_decimal_value amm) = Some x \<and>
    normalize_decimal_v2 total_coin (coin_decimals amm) (sys_decimal_value amm) = Some y \<and>
    crank_lost x y bids asks target = Some lost \<and>
    (\<exists>p (q :: u64). idle_price x y amm = Some p \<and> narrow p = Some q \<and>
       price_in_range amm (widen q) = Some in_range) \<and>
    run = (needs_plan x y bids asks target \<and> \<not> lost \<and> in_range)"
proof -
  obtain coin_amount pc_amount target ms oo bids asks x y lost p q in_range where
    l: "crank_load R pid C amm w = Done (coin_amount, pc_amount, target, ms, oo)" and
    o: "load_amm_orders R w ms oo (ck_bids C) (ck_asks C) = Done (bids, asks)" and
    xy: "crank_xy R C amm coin_amount pc_amount ms oo w = Done (x, y)" and
    r: "crank_lost x y bids asks target = Some lost" "idle_price x y amm = Some p"
      "narrow p = Some (q :: u64)" "price_in_range amm (widen q) = Some in_range"
      "run = (needs_plan x y bids asks target \<and> \<not> lost \<and> in_range)"
    using assms(1)
    by (simp only: crank_idle_def and_then_Done split_paired_Ex unwrap_Done prod.case outcome.inject) blast
  obtain cv pv where
    u: "unpack_token_account R w (ck_coin_vault C) (ai_key (ck_token_program C)) = Done cv"
      "unpack_token_account R w (ck_pc_vault C) (ai_key (ck_token_program C)) = Done pv"
      "target_orders_load_checked R w (ck_target_orders C) pid (ai_key (ck_amm C)) = Done target"
      "load_serum_market_order R w (ck_market C) (ck_open_orders C) (ck_authority C) amm False = Done (ms, oo)"
      "coin_amount = ta_amount cv" "pc_amount = ta_amount pv"
    using l by (auto simp: crank_load_def and_then_Done Let_def)
  obtain total_pc total_coin where
    t: "calc_total_without_take_pnl R w pc_amount coin_amount oo amm ms (ck_event_queue C) (ck_open_orders C)
        = Done (total_pc, total_coin)"
      "normalize_decimal_v2 total_pc (pc_decimals amm) (sys_decimal_value amm) = Some x"
      "normalize_decimal_v2 total_coin (coin_decimals amm) (sys_decimal_value amm) = Some y"
    using xy by (auto simp: crank_xy_def and_then_Done)
  have k: "ai_key (ck_token_program C) = ai_key (mo_token_program M)" "ai_key (ck_amm C) = ai_key (mo_amm M)"
    "ai_key (ck_market C) = ai_key (mo_market M)" "ai_key (ck_open_orders C) = ai_key (mo_open_orders M)"
    "ai_key (ck_authority C) = ai_key (mo_authority M)" "ai_key (ck_target_orders C) = ai_key (mo_target_orders M)"
    "ai_key (ck_coin_vault C) = ai_key (mo_coin_vault M)" "ai_key (ck_pc_vault C) = ai_key (mo_pc_vault M)"
    "ai_key (ck_bids C) = ai_key (mo_bids M)" "ai_key (ck_asks C) = ai_key (mo_asks M)"
    "ai_key (ck_event_queue C) = ai_key (mo_event_queue M)"
    using assms(2) unfolding same_crank_keys_def by blast+
  note u' = u(1-4) [unfolded k(1,2) unpack_key [OF k(7)] unpack_key [OF k(8)] target_key [OF k(6)]
    load_order_key [OF k(3-5)]]
  note o' = o [unfolded load_orders_key [OF k(9,10)]]
  note t' = t(1) [unfolded total_key [OF k(11,4)] u(5,6)]
  have "parse_vaults R M w = Done (ta_amount cv, ta_amount pv)"
    using u'(1,2) by (simp add: parse_vaults_def)
  moreover have "parse_target R pid M w = Done target"
    using u'(3) by (simp add: parse_target_def)
  moreover have "parse_orders R amm M False w = Done (ms, oo, bids, asks)"
    using u'(4) o' by (simp add: parse_orders_def)
  moreover have "parse_totals R amm M (ta_amount cv) (ta_amount pv) ms oo w = Done (total_coin, total_pc)"
    using t' by (simp add: parse_totals_def)
  ultimately obtain target' where
    "do_idle_state R total_coin total_pc bids asks amm target = Done (amm', target')"
    using assms(3) by (auto simp: monitor_idle_def and_then_Done)
  then show ?thesis using t(2,3) r by blast
qed

lemma idle_pnl_state:
  assumes "idle_pnl R total_coin total_pc x y amm target = Done (amm', target')"
    and "crank_lost x y bids asks target = Some lost"
  shows "amm_state amm' = state_into_u64 CancelAllOrdersState \<or> amm_state amm' = amm_state amm \<and> \<not> lost"
proof -
  obtain k calc_k where k: "checked_mul x y = Some k"
    "checked_mul (calc_pnl_x target) (calc_pnl_y target) = Some calc_k"
    and lost: "lost = (k < calc_k \<and> bids = [] \<and> asks = [])"
    using assms(2) by (auto simp: crank_lost_def bind_eq_Some_conv)
  show ?thesis
  proof (cases "k < calc_k")
    case True
    then show ?thesis
      using assms(1) k by (auto simp: idle_pnl_def simp del: state_into_u64.simps)
  next
    case False
    then obtain r where r: "calc_take_pnl R target amm total_pc total_coin (widen x) (widen y) = Done r"
      and "amm' = pr_amm r"
      using assms(1) k by (auto simp: idle_pnl_def and_then_Done split: if_splits)
    then show ?thesis
      using calc_take_pnl_moved(2) [OF r] False lost by simp
  qed
qed

lemma price_in_range_state: "price_in_range (amm\<lparr>amm_state := s\<rparr>) p = price_in_range amm p"
  "idle_price x y (amm\<lparr>amm_state := s\<rparr>) = idle_price x y amm"
  by (simp_all add: price_in_range_def idle_price_def)

lemma crank_lost_cur:
  "crank_lost x y bids asks (if c then target\<lparr>plan_orders_cur := n\<rparr> else target) = crank_lost x y bids asks target"
  by (simp add: crank_lost_def)

text \<open>What the idle state does, over what the simulation saw.\<close>

lemma do_idle_state_moves:
  assumes "do_idle_state R total_coin total_pc bids asks amm target = Done (amm', target')"
    and "normalize_decimal_v2 total_pc (pc_decimals amm) (sys_decimal_value amm) = Some x"
    and "normalize_decimal_v2 total_coin (coin_decimals amm) (sys_decimal_value amm) = Some y"
    and "crank_lost x y bids asks target = Some lost" and "idle_price x y amm = Some p"
    and "narrow p = Some (q :: u64)" and "price_in_range amm (widen q) = Some in_range"
  shows "amm_state amm' = state_into_u64 CancelAllOrdersState \<or>
    amm_state amm' = (if needs_plan x y bids asks target \<and> in_range then state_into_u64 PlanOrdersState
      else state_into_u64 IdleState) \<and> \<not> lost"
proof -
  have w: "widen q = p" using assms(6) by (auto simp: narrow_Some word_uint_eq_iff)
  obtain amm2 where pnl: "idle_pnl R total_coin total_pc x y amm2
      (if needs_plan x y bids asks target then target\<lparr>plan_orders_cur := 0\<rparr> else target) = Done (amm', target')"
    and amm2: "amm_state amm2 \<in> {state_into_u64 IdleState, state_into_u64 CancelAllOrdersState} \<or> in_range"
      "in_range \<Longrightarrow> amm_state amm2 = (if needs_plan x y bids asks target then state_into_u64 PlanOrdersState
        else state_into_u64 IdleState)"
    using assms(1-3,5,7) unfolding w
    by (cases "needs_plan x y bids asks target"; cases in_range)
       (auto simp: do_idle_state_def price_in_range_state simp del: state_into_u64.simps split: if_splits)
  show ?thesis
    using idle_pnl_state [OF pnl, of bids asks lost] assms(4) amm2
    by (auto simp: crank_lost_cur simp del: state_into_u64.simps)
qed

text \<open>A step of the monitor from the idle state.\<close>

lemma monitor_step_idle:
  assumes "process_monitor_step R pid accounts monitor w = Done w'" and "monitor_parse_accounts accounts = Done M"
    and "amm_load w (accounts ! 3) = Done amm" and "amm_state amm = state_into_u64 IdleState"
    and "amm_reset_flag amm \<noteq> reset_flag_into_u64 ResetYes" and "amm_order_num amm \<noteq> 0"
  shows "\<exists>status amm' w1. status_from_u64 (amm_status amm) = Done status \<and>
    (status = Initialized \<or> status = OrderBookOnly) \<and>
    monitor_idle R pid M amm w = Done (amm', w1) \<and> amm_load w' (accounts ! 3) = Done amm'"
proof -
  note parse = monitor_parse_Done [OF assms(2)]
  have st: "state_from_u64 (amm_state amm) = Done IdleState" by (simp add: assms(4) state_from_u64_def)
  obtain status amm' w1 where s: "status_from_u64 (amm_status amm) = Done status"
    "status = Initialized \<or> status = OrderBookOnly"
    and i: "monitor_idle R pid M amm w = Done (amm', w1)" and w': "w' = amm_store (mo_amm M) amm' w1"
    using assms(1,3) parse
    by (auto simp: process_monitor_step_def and_then_Done assms(2,5,6) amm_load_mut_checked_Done st
        monitor_state_def simp del: reset_flag_into_u64.simps split: if_splits)
  have "phase_ok R pid M amm w amm' w1"
    using idle_phase.phase_keeps i by blast
  then have "wf_amm amm'"
    using moved_inv(1) [of amm amm'] amm_load_wf [OF assms(3)] by (simp add: phase_ok_def)
  then show ?thesis
    using s i parse w' amm_load_store by metis
qed

text \<open>
  C40: the advice to run the monitor is right about the idle state. On a pool that is idle and
  has orders to keep, a monitor step on the same accounts that succeeds leaves the idle
  state whenever the simulation advised to run it, towards a plan or towards cancelling, and
  it goes on to plan only when the simulation advised it.
\<close>

theorem simulate_run_crank_correct:
  assumes "simulate_run_crank R pid crank_accs w = Done D"
    and "process_monitor_step R pid accounts monitor w = Done w'"
    and "crank_parse_accounts crank_accs = Done C" and "monitor_parse_accounts accounts = Done M"
    and "same_crank_keys C M" and "amm_load w (accounts ! 3) = Done amm"
    and "amm_state amm = state_into_u64 IdleState"
    and "amm_reset_flag amm \<noteq> reset_flag_into_u64 ResetYes" and "amm_order_num amm \<noteq> 0"
  shows "\<exists>amm'. amm_load w' (accounts ! 3) = Done amm' \<and>
    (rc_run_crank D \<longrightarrow>
      amm_state amm' \<in> {state_into_u64 PlanOrdersState, state_into_u64 CancelAllOrdersState}) \<and>
    (amm_state amm' = state_into_u64 PlanOrdersState \<longrightarrow> rc_run_crank D)"
proof -
  obtain status amm' w1 where st: "status_from_u64 (amm_status amm) = Done status"
    "status = Initialized \<or> status = OrderBookOnly" and
    i: "monitor_idle R pid M amm w = Done (amm', w1)" and l: "amm_load w' (accounts ! 3) = Done amm'"
    using monitor_step_idle [OF assms(2,4,6-9)] by blast
  have key: "ai_key (ck_amm C) = ai_key (accounts ! 3)"
    using assms(5) monitor_parse_Done [OF assms(4)] by (simp add: same_crank_keys_def)
  have same: "amm_load w (ck_amm C) = Done amm"
    using assms(6) by (simp only: load_key [OF key])
  have ids: "state_from_u64 (amm_state amm) = Done IdleState" by (simp add: assms(7) state_from_u64_def)
  have "crank_idle R pid C amm w = Done (rc_run_crank D)"
    using assms(1) same st(2)
    by (auto simp: simulate_run_crank_def and_then_Done assms(3,8,9) amm_load_checked_def ids st(1)
        simp del: reset_flag_into_u64.simps split: if_splits)
  from crank_idle_reads [OF this assms(5) i] obtain total_coin total_pc bids asks target target' x y lost in_range p and q :: u64 where
    d: "do_idle_state R total_coin total_pc bids asks amm target = Done (amm', target')" and
    r: "normalize_decimal_v2 total_pc (pc_decimals amm) (sys_decimal_value amm) = Some x"
      "normalize_decimal_v2 total_coin (coin_decimals amm) (sys_decimal_value amm) = Some y"
      "crank_lost x y bids asks target = Some lost" "idle_price x y amm = Some p" "narrow p = Some q"
      "price_in_range amm (widen q) = Some in_range" and
    run: "rc_run_crank D = (needs_plan x y bids asks target \<and> \<not> lost \<and> in_range)"
    by (elim exE conjE) (rule that; assumption)
  then show ?thesis
    using do_idle_state_moves [OF d r] l by (auto simp: run split: if_splits)
qed

text \<open>An idle pool without orders, to be planned.\<close>

definition sample_idle_amm :: amm_info where
  "sample_idle_amm = sample_book_amm\<lparr>amm_state := 1\<rparr>"

definition sample_idle_world :: world where
  "sample_idle_world = \<lparr>ledger = sample_ledger(100 :=
     \<lparr>acc_owner = 7, acc_lamports = 1, acc_data = amm_bytes sample_idle_amm\<rparr>), cpis = []\<rparr>"

definition sample_crank_accounts :: "account_info list" where
  "sample_crank_accounts = map sample_readonly
     [1, 4, 100, 50, 101, 102, 104, 105, openbook_program_id, 106, 120, 121, 125]"

lemma sample_idle_simps:
  "amm_status sample_idle_amm = 5" "amm_state sample_idle_amm = 1" "amm_nonce sample_idle_amm = 254"
  "amm_reset_flag sample_idle_amm = 1" "amm_market_program sample_idle_amm = openbook_program_id"
  "amm_market sample_idle_amm = 106" "amm_open_orders sample_idle_amm = 101"
  "amm_coin_vault sample_idle_amm = 104" "amm_pc_vault sample_idle_amm = 105"
  "amm_target_orders sample_idle_amm = 102" "min_size sample_idle_amm = 1" "amm_order_num sample_idle_amm = 7"
  "amm_state_data sample_idle_amm = sample_state_data" "amm_fees sample_idle_amm = sample_fees"
  "pc_decimals sample_idle_amm = 0" "coin_decimals sample_idle_amm = 0" "sys_decimal_value sample_idle_amm = 1"
  by (simp_all add: sample_idle_amm_def sample_book_amm_def) (simp_all add: sample_amm_def)

lemma sample_idle_loads:
  "amm_load sample_idle_world (sample_info 100) = Done sample_idle_amm"
  "target_orders_load sample_idle_world (sample_info 102) = Done sample_target"
proof -
  have "wf_amm sample_idle_amm"
    by (simp add: sample_idle_amm_def sample_book_amm_def wf_amm_def sample_amm_def sample_state_data_def)
  then show "amm_load sample_idle_world (sample_info 100) = Done sample_idle_amm"
    by (intro amm_load_bytes) (simp_all add: acc_of_def sample_idle_world_def)
  show "target_orders_load sample_idle_world (sample_info 102) = Done sample_target"
    by (intro target_orders_load_bytes) (simp_all add: acc_of_def sample_idle_world_def)
qed

lemma sample_idle_reads:
  "load_serum_market_order sample_quiet_runtime w (sample_info 106) (sample_info 101) (sample_info 50)
     sample_idle_amm False =
   Done (\<lparr>coin_mint = [201, 0, 0, 0], pc_mint = [202, 0, 0, 0], ms_coin_lot_size = 1, ms_pc_lot_size = 1\<rparr>,
     sample_empty_open_orders)"
  "load_amm_orders sample_quiet_runtime w ms sample_empty_open_orders b a = Done ([], [])"
  "calc_total_without_take_pnl sample_quiet_runtime w 4000 1000 sample_empty_open_orders sample_idle_amm ms q oa =
     Done (4000, 1000)"
proof -
  show "load_serum_market_order sample_quiet_runtime w (sample_info 106) (sample_info 101) (sample_info 50)
     sample_idle_amm False =
   Done (\<lparr>coin_mint = [201, 0, 0, 0], pc_mint = [202, 0, 0, 0], ms_coin_lot_size = 1, ms_pc_lot_size = 1\<rparr>,
     sample_empty_open_orders)"
    by (simp add: load_serum_market_order_def sample_quiet_runtime_def sample_idle_simps)
       (simp add: sample_runtime_def sample_empty_open_orders_def sample_idle_simps)
  show "load_amm_orders sample_quiet_runtime w ms sample_empty_open_orders b a = Done ([], [])"
    using sample_no_orders [of sample_empty_open_orders]
    by (simp add: load_amm_orders_def sample_quiet_runtime_def)
       (simp add: sample_runtime_def sample_empty_open_orders_def)
  show "calc_total_without_take_pnl sample_quiet_runtime w 4000 1000 sample_empty_open_orders sample_idle_amm ms q oa =
      Done (4000, 1000)"
    by (simp add: total_no_orderbook [OF sample_quiet_exact] calc_total_without_take_pnl_no_orderbook_def
        checked_sub_def sample_state_data_def sample_idle_simps)
qed

lemma sample_idle_pnl:
  "calc_take_pnl sample_quiet_runtime sample_target (sample_idle_amm\<lparr>amm_state := 3\<rparr>) 4000 1000 4000 1000 =
     Done \<lparr>pr_delta_x = 0, pr_delta_y = 0, pr_amm = sample_idle_amm\<lparr>amm_state := 3\<rparr>, pr_total_pc = 4000,
       pr_total_coin = 1000\<rparr>"
proof -
  let ?a = "sample_idle_amm\<lparr>amm_state := 3\<rparr>"
  have s: "pc_decimals ?a = 0" "coin_decimals ?a = 0" "sys_decimal_value ?a = 1" "amm_fees ?a = sample_fees"
    by (simp_all add: sample_idle_simps)
  have r: "rt_integer_sqrt_U256 sample_quiet_runtime 16000000 = 4000"
    using sample_root by (simp add: sample_quiet_runtime_def)
  have k: "pnl_products sample_target ?a 4000 1000 = Some (4000000, 4000000)"
    unfolding pnl_products_def sample_target_simps s by code_simp
  have x: "calc_x_power (widen (4000 :: u128)) (widen (1000 :: u128)) 4000 1000 = Some 16000000"
    by code_simp
  have "calc_pnl_amounts sample_quiet_runtime sample_target ?a 4000 1000 =
     Some \<lparr>pa_delta_x = 0, pa_delta_y = 0, pa_diff_pc = 0, pa_diff_coin = 0, pa_pc_pnl = 0, pa_coin_pnl = 0\<rparr>"
    unfolding calc_pnl_amounts_def sample_target_simps s x bind.simps Let_def r by code_simp
  then show ?thesis by (simp add: calc_take_pnl_def k apply_pnl_def)
qed

lemma sample_idle_state:
  "do_idle_state sample_quiet_runtime 1000 4000 [] [] sample_idle_amm sample_target =
     Done (sample_idle_amm\<lparr>amm_state := 3\<rparr>, sample_target\<lparr>plan_orders_cur := 0\<rparr>)"
proof -
  have p: "idle_price 4000 1000 (sample_idle_amm\<lparr>amm_state := 3\<rparr>) = Some 4"
    "price_in_range (sample_idle_amm\<lparr>amm_state := 3\<rparr>) 4 = Some True"
    "checked_mul (4000 :: u128) 1000 = Some 4000000"
    by code_simp+
  have "calc_pnl_amounts R (t\<lparr>plan_orders_cur := 0\<rparr>) a x y = calc_pnl_amounts R t a x y" for R t a x y
    by (simp add: calc_pnl_amounts_def)
  then have t: "calc_take_pnl sample_quiet_runtime (sample_target\<lparr>plan_orders_cur := 0\<rparr>) a pc coin x y =
      calc_take_pnl sample_quiet_runtime sample_target a pc coin x y" for a pc coin x y
    by (simp add: calc_take_pnl_def pnl_products_def cong: if_cong)
  show ?thesis
    by (simp add: do_idle_state_def sample_idle_simps sample_normalize needs_plan_def p idle_pnl_def t
        sample_idle_pnl)
qed

lemma sample_idle_run:
  "\<exists>w'. process_monitor_step sample_quiet_runtime 7 sample_monitor_infos sample_monitor sample_idle_world = Done w'"
  and sample_crank_run:
  "\<exists>D. simulate_run_crank sample_quiet_runtime 7 sample_crank_accounts sample_idle_world = Done D \<and> rc_run_crank D"
proof -
  let ?R = sample_quiet_runtime and ?M = sample_monitor_accounts and ?w = sample_idle_world and ?amm = sample_idle_amm
  note f = sample_idle_simps
  have w: "acc_owner (ledger ?w 100) = 7" "acc_owner (ledger ?w 102) = 7"
    "ledger ?w 104 = sample_ledger 104" "ledger ?w 105 = sample_ledger 105"
    "length (acc_data (ledger ?w 100)) = amm_SIZE" "length (acc_data (ledger ?w 102)) = target_orders_SIZE"
    using sample_idle_loads by (auto simp: amm_load_def target_orders_load_def acc_of_def split: if_splits)
      (simp_all add: sample_idle_world_def)
  have l: "amm_load_mut_checked ?w (sample_info 100) 7 = Done ?amm"
    using w sample_idle_loads(1) by (simp add: amm_load_mut_checked_def acc_of_def f)
  have clk: "rt_clock_id ?R = 4" by (simp add: sample_quiet_runtime_def sample_runtime_def)
  have c: "monitor_check ?R 7 ?amm ?M ?w = Done ()"
    by (simp add: monitor_check_def check_accounts_def f authority_id_def acc_of_def w check_srm_token_def
        check_referrer_pc_def sample_quiet_simps clk)
  have u: "unpack_token_account sample_runtime ?w (sample_info 104) 1 = Done (sample_token 201 50 1000)"
    "unpack_token_account sample_runtime ?w (sample_info 105) 1 = Done (sample_token 202 50 4000)"
    using sample_unpack_pc [OF w(4)] w(3)
    by (simp_all add: unpack_token_account_def acc_of_def) (simp add: sample_runtime_def sample_token_unpack_def)
  have t: "target_orders_load_mut_checked ?R ?w (sample_info 102) 7 100 = Done sample_target"
    using sample_idle_loads(2) w
    by (simp add: target_orders_load_mut_checked_def acc_of_def)
       (simp add: sample_target_def sample_quiet_runtime_def sample_runtime_def)
  have s: "status_from_u64 5 = Done OrderBookOnly" "state_from_u64 1 = Done IdleState"
    by code_simp+
  show "\<exists>w'. process_monitor_step ?R 7 sample_monitor_infos sample_monitor ?w = Done w'"
    by (simp add: process_monitor_step_def sample_monitor_parse l c acc_of_def w f s monitor_state_def
        monitor_idle_def parse_vaults_def parse_target_def parse_orders_def parse_totals_def
        sample_quiet_simps u t sample_idle_reads sample_idle_state)
  have p: "idle_price 4000 1000 ?amm = Some 4" "price_in_range ?amm 4 = Some True"
    "(narrow (4 :: u128) :: u64 option) = Some 4" "(widen (4 :: u64) :: u128) = 4"
    "crank_lost 4000 1000 [] [] sample_target = Some False"
    by code_simp+
  have k: "target_orders_load_checked ?R ?w (sample_readonly 102) 7 100 = Done sample_target"
    "load_serum_market_order ?R ?w (sample_readonly 106) (sample_readonly 101) (sample_readonly 50) ?amm False =
      Done (\<lparr>coin_mint = [201, 0, 0, 0], pc_mint = [202, 0, 0, 0], ms_coin_lot_size = 1, ms_pc_lot_size = 1\<rparr>,
        sample_empty_open_orders)"
    using t sample_idle_reads(1) target_key [of "sample_readonly 102" "sample_info 102"]
      load_order_key [of "sample_readonly 106" "sample_info 106" "sample_readonly 101" "sample_info 101"
        "sample_readonly 50" "sample_info 50"]
    by (simp_all add: sample_readonly_simps)
  show "\<exists>D. simulate_run_crank ?R 7 sample_crank_accounts ?w = Done D \<and> rc_run_crank D"
    by (simp add: simulate_run_crank_def crank_parse_accounts_def need_accounts_def sample_crank_accounts_def
        readonly_accounts_def check_account_readonly_def sample_readonly_simps l check_accounts_def f
        authority_id_def acc_of_def w check_srm_token_def check_referrer_pc_def sample_quiet_simps clk s
        crank_idle_def crank_load_def u k sample_idle_reads crank_xy_def sample_normalize p needs_plan_def)
qed

theorem simulate_run_crank_correct_witness:
  "\<exists>w' amm'. process_monitor_step sample_quiet_runtime 7 sample_monitor_infos sample_monitor
      sample_idle_world = Done w' \<and> amm_load w' (sample_info 100) = Done amm' \<and> amm_state amm' \<in> {2, 3}"
proof -
  obtain w' where r: "process_monitor_step sample_quiet_runtime 7 sample_monitor_infos sample_monitor
      sample_idle_world = Done w'"
    using sample_idle_run by blast
  obtain D where D: "simulate_run_crank sample_quiet_runtime 7 sample_crank_accounts sample_idle_world = Done D"
    "rc_run_crank D"
    using sample_crank_run by blast
  obtain C where C: "crank_parse_accounts sample_crank_accounts = Done C"
    by (simp add: crank_parse_accounts_def sample_crank_accounts_def need_accounts_def)
  have k: "same_crank_keys C sample_monitor_accounts"
    using C by (auto simp: crank_parse_accounts_def sample_crank_accounts_def need_accounts_def
        same_crank_keys_def sample_readonly_simps)
  have i: "sample_monitor_infos ! 3 = sample_info 100" by (simp add: sample_monitor_infos_def)
  have h: "amm_load sample_idle_world (sample_monitor_infos ! 3) = Done sample_idle_amm"
    "amm_state sample_idle_amm = state_into_u64 IdleState"
    "amm_reset_flag sample_idle_amm \<noteq> reset_flag_into_u64 ResetYes" "amm_order_num sample_idle_amm \<noteq> 0"
    by (simp_all add: i sample_idle_loads sample_idle_simps)
  show ?thesis
    using simulate_run_crank_correct [OF D(1) r C sample_monitor_parse k h] D(2) r by (auto simp: i)
qed

end
