(* ===== verification/Deposit.thy ===== *)
theory Deposit
  imports Pnl
begin

text \<open>
  \<open>process_deposit\<close> of \<open>program/src/processor.rs\<close>: accounts, checks, totals of the pool, the
  amounts to deduct and the shares to mint, the three token calls, and the update of the
  pool and of its target orders.
\<close>

record deposit_accounts =
  dp_token_program :: account_info
  dp_amm :: account_info
  dp_authority :: account_info
  dp_open_orders :: account_info
  dp_target_orders :: account_info
  dp_lp_mint :: account_info
  dp_coin_vault :: account_info
  dp_pc_vault :: account_info
  dp_market :: account_info
  dp_source_coin :: account_info
  dp_source_pc :: account_info
  dp_dest_lp :: account_info
  dp_source_owner :: account_info
  dp_event_queue :: account_info

definition deposit_parse_accounts :: "account_info list \<Rightarrow> deposit_accounts outcome" where
  "deposit_parse_accounts accounts =
     (if length accounts \<noteq> 14 \<and> length accounts \<noteq> 14 + 1 then err WrongAccountsNumber
      else Done \<lparr>dp_token_program = accounts ! 0,
        dp_amm = accounts ! 1,
        dp_authority = accounts ! 2,
        dp_open_orders = accounts ! 3,
        dp_target_orders = accounts ! 4,
        dp_lp_mint = accounts ! 5,
        dp_coin_vault = accounts ! 6,
        dp_pc_vault = accounts ! 7,
        dp_market = accounts ! 8,
        dp_source_coin = accounts ! 9,
        dp_source_pc = accounts ! 10,
        dp_dest_lp = accounts ! 11,
        dp_source_owner = accounts ! 12,
        dp_event_queue = accounts ! 13\<rparr>)"

record deposit_state =
  ds_coin_vault :: token_account
  ds_pc_vault :: token_account
  ds_source_coin :: token_account
  ds_source_pc :: token_account
  ds_target :: target_orders
  ds_orderbook :: bool

definition deposit_check ::
  "runtime \<Rightarrow> pubkey \<Rightarrow> deposit_accounts \<Rightarrow> amm_info \<Rightarrow> deposit_instruction \<Rightarrow> world \<Rightarrow>
   deposit_state outcome" where
  "deposit_check R program_id A amm deposit w =
     (if max_coin_amount deposit = 0 \<or> max_pc_amount deposit = 0 then err InvalidInput
      else if \<not> is_signer (dp_source_owner A) then err InvalidSignAccount
      else and_then (status_from_u64 (amm_status amm)) (\<lambda>status.
        if \<not> deposit_permission status then err InvalidStatus
        else and_then (authority_id R program_id AUTHORITY_AMM (as_u8 (amm_nonce amm))) (\<lambda>authority.
          if ai_key (dp_authority A) \<noteq> authority then err InvalidProgramAddress
          else if ai_key (dp_token_program A) \<noteq> rt_spl_token_id R then err InvalidSplTokenProgram
          else if ai_key (dp_coin_vault A) \<noteq> amm_coin_vault amm \<or>
                  ai_key (dp_source_coin A) = amm_coin_vault amm then err InvalidCoinVault
          else if ai_key (dp_pc_vault A) \<noteq> amm_pc_vault amm \<or>
                  ai_key (dp_source_pc A) = amm_pc_vault amm then err InvalidPCVault
          else if ai_key (dp_lp_mint A) \<noteq> amm_lp_mint amm then err InvalidPoolMint
          else if ai_key (dp_target_orders A) \<noteq> amm_target_orders amm then err InvalidTargetOrders
          else
            let token_id = ai_key (dp_token_program A) in
            and_then (unpack_token_account R w (dp_coin_vault A) token_id) (\<lambda>coin_vault.
            and_then (unpack_token_account R w (dp_pc_vault A) token_id) (\<lambda>pc_vault.
            and_then (unpack_token_account R w (dp_source_coin A) token_id) (\<lambda>source_coin.
            and_then (unpack_token_account R w (dp_source_pc A) token_id) (\<lambda>source_pc.
            and_then (target_orders_load_mut_checked R w (dp_target_orders A) program_id
              (ai_key (dp_amm A))) (\<lambda>target.
              Done \<lparr>ds_coin_vault = coin_vault, ds_pc_vault = pc_vault,
                ds_source_coin = source_coin, ds_source_pc = source_pc, ds_target = target,
                ds_orderbook = orderbook_permission status\<rparr>))))))))"

definition deposit_totals ::
  "runtime \<Rightarrow> deposit_accounts \<Rightarrow> amm_info \<Rightarrow> deposit_state \<Rightarrow> world \<Rightarrow> (u64 \<times> u64) outcome" where
  "deposit_totals R A amm s w =
     (if ds_orderbook s then
        (if ai_key (dp_market A) \<noteq> amm_market amm then err InvalidMarket
         else if ai_key (dp_open_orders A) \<noteq> amm_open_orders amm then err InvalidOpenOrders
         else
           and_then (load_serum_market_order R w (dp_market A) (dp_open_orders A) (dp_authority A)
             amm False) (\<lambda>(ms, oo).
             if coin_mint ms \<noteq> rt_aligned R (ta_mint (ds_coin_vault s)) \<or>
                coin_mint ms \<noteq> rt_aligned R (ta_mint (ds_source_coin s)) then err InvalidCoinMint
             else if pc_mint ms \<noteq> rt_aligned R (ta_mint (ds_pc_vault s)) \<or>
                pc_mint ms \<noteq> rt_aligned R (ta_mint (ds_source_pc s)) then err InvalidPCMint
             else calc_total_without_take_pnl R w (ta_amount (ds_pc_vault s))
               (ta_amount (ds_coin_vault s)) oo amm ms (dp_event_queue A) (dp_open_orders A)))
      else calc_total_without_take_pnl_no_orderbook (ta_amount (ds_pc_vault s))
        (ta_amount (ds_coin_vault s)) amm)"

text \<open>The check of \<open>other_amount_min\<close> on the side that is not the base.\<close>

definition below_min :: "u64 \<Rightarrow> u64 option \<Rightarrow> bool" where
  "below_min amount m = (case m of None \<Rightarrow> False | Some v \<Rightarrow> amount < v)"

text \<open>Coin and pc to deduct, shares to mint.\<close>

definition deposit_quote ::
  "deposit_instruction \<Rightarrow> u64 \<Rightarrow> u64 \<Rightarrow> u64 \<Rightarrow> (u64 \<times> u64 \<times> u64) outcome" where
  "deposit_quote deposit lp total_pc total_coin =
     (let invariant = \<lparr>it_token_coin = total_coin, it_token_pc = total_pc\<rparr> in
      if base_side deposit = 0 then
        and_then (exchange_coin_to_pc invariant (max_coin_amount deposit) Ceiling) (\<lambda>pc_opt.
        and_then (ok_or CalculationExRateFailure pc_opt) (\<lambda>deduct_pc.
        let deduct_coin = max_coin_amount deposit in
        if deduct_pc > max_pc_amount deposit then err ExceededSlippage
        else if below_min deduct_pc (other_amount_min deposit) then err ExceededSlippage
        else
          and_then (exchange_token_to_pool \<lparr>ip_token_input = deduct_coin, ip_token_total = total_coin\<rparr>
            lp Floor) (\<lambda>lp_opt.
          and_then (ok_or CalculationExRateFailure lp_opt) (\<lambda>mint_lp.
            Done (deduct_coin, deduct_pc, mint_lp)))))
      else
        and_then (exchange_pc_to_coin invariant (max_pc_amount deposit) Ceiling) (\<lambda>coin_opt.
        and_then (ok_or CalculationExRateFailure coin_opt) (\<lambda>deduct_coin.
        let deduct_pc = max_pc_amount deposit in
        if deduct_coin > max_coin_amount deposit then err ExceededSlippage
        else if below_min deduct_coin (other_amount_min deposit) then err ExceededSlippage
        else
          and_then (exchange_token_to_pool \<lparr>ip_token_input = deduct_pc, ip_token_total = total_pc\<rparr>
            lp Floor) (\<lambda>lp_opt.
          and_then (ok_or CalculationExRateFailure lp_opt) (\<lambda>mint_lp.
            Done (deduct_coin, deduct_pc, mint_lp))))))"

definition deposit_transfers ::
  "runtime \<Rightarrow> deposit_accounts \<Rightarrow> amm_info \<Rightarrow> u64 \<Rightarrow> u64 \<Rightarrow> u64 \<Rightarrow> world \<Rightarrow> world outcome" where
  "deposit_transfers R A amm deduct_coin deduct_pc mint_lp w =
     and_then (token_transfer R (dp_token_program A) (dp_source_coin A) (dp_coin_vault A)
       (dp_source_owner A) deduct_coin w) (\<lambda>w1.
     and_then (token_transfer R (dp_token_program A) (dp_source_pc A) (dp_pc_vault A)
       (dp_source_owner A) deduct_pc w1) (\<lambda>w2.
       token_mint_to R (dp_token_program A) (dp_lp_mint A) (dp_dest_lp A) (dp_authority A)
         AUTHORITY_AMM (as_u8 (amm_nonce amm)) mint_lp w2))"

text \<open>\<open>calc_pnl_x\<close> and \<open>calc_pnl_y\<close> after the deposit: the normalised totals with what came in
  and without what was set aside.\<close>

definition deposit_calc_pnl :: "u128 \<Rightarrow> u64 \<Rightarrow> u64 \<Rightarrow> u64 \<Rightarrow> u128 \<Rightarrow> u128 option" where
  "deposit_calc_pnl x1 amount dec sys delta =
     do {
       n \<leftarrow> normalize_decimal_v2 amount dec sys;
       a \<leftarrow> checked_add x1 n;
       checked_sub a delta
     }"

definition process_deposit ::
  "runtime \<Rightarrow> pubkey \<Rightarrow> account_info list \<Rightarrow> deposit_instruction \<Rightarrow> world \<Rightarrow> world outcome" where
  "process_deposit R program_id accounts deposit w =
     and_then (deposit_parse_accounts accounts) (\<lambda>A.
     and_then (amm_load_mut_checked w (dp_amm A) program_id) (\<lambda>amm0.
     and_then (deposit_check R program_id A amm0 deposit w) (\<lambda>s.
     and_then (deposit_totals R A amm0 s w) (\<lambda>(total_pc, total_coin).
     and_then (unwrap (normalize_decimal_v2 total_pc (pc_decimals amm0) (sys_decimal_value amm0))) (\<lambda>x1.
     and_then (unwrap (normalize_decimal_v2 total_coin (coin_decimals amm0) (sys_decimal_value amm0))) (\<lambda>y1.
     and_then (calc_take_pnl R (ds_target s) amm0 total_pc total_coin (widen x1) (widen y1)) (\<lambda>r.
     let amm = pr_amm r in
     if lp_amount amm = 0 then err NotAllowZeroLP
     else
       and_then (deposit_quote deposit (lp_amount amm) (pr_total_pc r) (pr_total_coin r))
         (\<lambda>(deduct_coin, deduct_pc, mint_lp).
       if deduct_coin > ta_amount (ds_source_coin s) \<or> deduct_pc > ta_amount (ds_source_pc s)
       then err InsufficientFunds
       else if mint_lp = 0 \<or> deduct_coin = 0 \<or> deduct_pc = 0 then err InvalidInput
       else
         and_then (deposit_transfers R A amm deduct_coin deduct_pc mint_lp w) (\<lambda>w1.
         and_then (unwrap (checked_add (lp_amount amm) mint_lp)) (\<lambda>lp.
         and_then (unwrap (deposit_calc_pnl x1 deduct_pc (pc_decimals amm) (sys_decimal_value amm)
           (pr_delta_x r))) (\<lambda>x.
         and_then (unwrap (deposit_calc_pnl y1 deduct_coin (coin_decimals amm) (sys_decimal_value amm)
           (pr_delta_y r))) (\<lambda>y.
         and_then (rt_clock R) (\<lambda>clock.
           Done (amm_store (dp_amm A) (amm\<lparr>lp_amount := lp, recent_epoch := clk_epoch clock\<rparr>)
             (target_orders_store (dp_target_orders A)
               ((ds_target s)\<lparr>calc_pnl_x := x, calc_pnl_y := y\<rparr>) w1)))))))))))))))"

section \<open>Proportionality of a deposit\<close>

text \<open>A share bought against one token at the ratio of the other is covered by either.\<close>

lemma covered_by_other:
  fixes l tc lp c tp p :: int
  assumes "l * tc \<le> lp * c" and "c * tp \<le> p * tc" and "0 < tc" and "0 \<le> tp" and "0 \<le> lp"
  shows "l * tp \<le> lp * p"
proof -
  have "l * tc * tp \<le> lp * c * tp" using assms by (intro mult_right_mono) auto
  also have "\<dots> \<le> lp * (p * tc)"
    using mult_left_mono [OF assms(2,5)] by (simp add: mult.assoc)
  finally have "(l * tp) * tc \<le> (lp * p) * tc" by (simp add: algebra_simps)
  then show ?thesis using assms(3) by (simp add: mult_le_cancel_right)
qed

lemma deposit_quote_facts:
  assumes "deposit_quote deposit lp total_pc total_coin = Done (c, p, l)"
    and "c \<noteq> 0" and "p \<noteq> 0"
  shows "uint l * uint total_coin \<le> uint lp * uint c" and "uint l * uint total_pc \<le> uint lp * uint p"
    and "c \<le> max_coin_amount deposit" and "p \<le> max_pc_amount deposit"
    and "0 < uint total_coin" and "0 < uint total_pc"
    and "uint c * uint total_pc < uint p * uint total_coin + uint total_pc"
    and "uint p * uint total_coin < uint c * uint total_pc + uint total_coin"
proof -
  have "uint l * uint total_coin \<le> uint lp * uint c \<and> uint l * uint total_pc \<le> uint lp * uint p \<and>
    c \<le> max_coin_amount deposit \<and> p \<le> max_pc_amount deposit \<and>
    0 < uint total_coin \<and> 0 < uint total_pc \<and>
    uint c * uint total_pc < uint p * uint total_coin + uint total_pc \<and>
    uint p * uint total_coin < uint c * uint total_pc + uint total_coin"
  proof (cases "base_side deposit = 0")
    case True
    then have e: "mul_div_ceil c total_pc total_coin = Some p" "mul_div_floor lp c total_coin = Some l"
      and b: "c = max_coin_amount deposit" "p \<le> max_pc_amount deposit"
      using assms(1) by (auto simp: deposit_quote_def and_then_Done exchange_Done Let_def not_less)
    have t: "0 < uint total_pc"
    proof (rule ccontr)
      assume "\<not> 0 < uint total_pc"
      then have "uint total_pc = 0" using uint_ge_0 [of total_pc] by linarith
      then have "uint p * uint total_coin < uint total_coin"
        using mul_div_ceil_Some(3) [OF e(1)] by simp
      then have "uint p < 1"
        using mul_div_ceil_Some(1) [OF e(1)] by (simp add: mult_less_cancel_right2)
      then show False using uint_pos [OF assms(3)] by simp
    qed
    show ?thesis
      using mul_div_ceil_Some [OF e(1)] mul_div_floor_Some(3) [OF e(2)] assms(3) b t
        covered_by_other [OF mul_div_floor_Some(3) [OF e(2)] mul_div_ceil_Some(2) [OF e(1) assms(3)]]
      by simp
  next
    case False
    then have e: "mul_div_ceil p total_coin total_pc = Some c" "mul_div_floor lp p total_pc = Some l"
      and b: "p = max_pc_amount deposit" "c \<le> max_coin_amount deposit"
      using assms(1) by (auto simp: deposit_quote_def and_then_Done exchange_Done Let_def not_less)
    have t: "0 < uint total_coin"
    proof (rule ccontr)
      assume "\<not> 0 < uint total_coin"
      then have "uint total_coin = 0" using uint_ge_0 [of total_coin] by linarith
      then have "uint c * uint total_pc < uint total_pc"
        using mul_div_ceil_Some(3) [OF e(1)] by simp
      then have "uint c < 1"
        using mul_div_ceil_Some(1) [OF e(1)] by (simp add: mult_less_cancel_right2)
      then show False using uint_pos [OF assms(2)] by simp
    qed
    show ?thesis
      using mul_div_ceil_Some [OF e(1)] mul_div_floor_Some(3) [OF e(2)] assms(2) b t
        covered_by_other [OF mul_div_floor_Some(3) [OF e(2)] mul_div_ceil_Some(2) [OF e(1) assms(2)]]
      by simp
  qed
  then show "uint l * uint total_coin \<le> uint lp * uint c" "uint l * uint total_pc \<le> uint lp * uint p"
    "c \<le> max_coin_amount deposit" "p \<le> max_pc_amount deposit" "0 < uint total_coin"
    "0 < uint total_pc" "uint c * uint total_pc < uint p * uint total_coin + uint total_pc"
    "uint p * uint total_coin < uint c * uint total_pc + uint total_coin"
    by blast+
qed

lemma deposit_quote_min:
  "deposit_quote deposit lp total_pc total_coin = Done (c, p, l) \<Longrightarrow>
     \<not> below_min (if base_side deposit = 0 then p else c) (other_amount_min deposit)"
  by (auto simp: deposit_quote_def and_then_Done exchange_Done Let_def split: if_splits)

text \<open>
  C12: the amounts of a deposit are within the two maxima, the other side is not below its
  minimum, and both are proportional to the pool up to one unit of the side that is not the
  base. The shares minted are covered by either token: the pool's coin and its pc per share
  do not fall, so nobody else is diluted.
\<close>

theorem deposit_quote_correct:
  assumes "deposit_quote deposit lp total_pc total_coin = Done (c, p, l)"
    and "c \<noteq> 0" and "p \<noteq> 0"
  shows "c \<le> max_coin_amount deposit \<and> p \<le> max_pc_amount deposit \<and>
    \<not> below_min (if base_side deposit = 0 then p else c) (other_amount_min deposit) \<and>
    uint total_coin * (uint lp + uint l) \<le> (uint total_coin + uint c) * uint lp \<and>
    uint total_pc * (uint lp + uint l) \<le> (uint total_pc + uint p) * uint lp \<and>
    uint c * uint total_pc < uint p * uint total_coin + uint total_pc \<and>
    uint p * uint total_coin < uint c * uint total_pc + uint total_coin"
  using deposit_quote_facts [OF assms] deposit_quote_min [OF assms(1)] by (simp add: algebra_simps)

definition sample_deposit :: deposit_instruction where
  "sample_deposit = \<lparr>max_coin_amount = 101, max_pc_amount = 500, base_side = 0,
     other_amount_min = Some 400\<rparr>"

lemma sample_deposit_quote: "deposit_quote sample_deposit 2000 4000 1000 = Done (101, 404, 202)"
  unfolding sample_deposit_def by code_simp

theorem deposit_quote_correct_witness:
  "deposit_quote sample_deposit 2000 4000 1000 = Done (101, 404, 202) \<and>
   uint (1000 :: u64) * (uint (2000 :: u64) + uint (202 :: u64)) \<le>
     (uint (1000 :: u64) + uint (101 :: u64)) * uint (2000 :: u64)"
  using deposit_quote_correct [OF sample_deposit_quote] sample_deposit_quote by simp

section \<open>The handler\<close>

lemma deposit_parse_amm:
  "deposit_parse_accounts accounts = Done A \<Longrightarrow>
     dp_amm A = accounts ! 1 \<and> dp_target_orders A = accounts ! 4"
  by (auto simp: deposit_parse_accounts_def split: if_splits)

lemma deposit_transfers_cpis:
  "deposit_transfers R A amm c p l w = Done w' \<Longrightarrow>
     cpis w' = cpis w @
       [user_transfer (dp_token_program A) (dp_source_coin A) (dp_coin_vault A) (dp_source_owner A) c,
        user_transfer (dp_token_program A) (dp_source_pc A) (dp_pc_vault A) (dp_source_owner A) p,
        pool_mint (dp_token_program A) (dp_lp_mint A) (dp_dest_lp A) (dp_authority A)
          (as_u8 (amm_nonce amm)) l]"
  by (auto simp: deposit_transfers_def and_then_Done dest!: token_call_cpis)

lemma deposit_check_Done:
  assumes "deposit_check R pid A amm deposit w = Done s"
  shows "is_signer (dp_source_owner A)"
    and "\<exists>status. status_from_u64 (amm_status amm) = Done status \<and> deposit_permission status"
    and "target_orders_load w (dp_target_orders A) = Done (ds_target s)"
    and "ai_key (dp_coin_vault A) = amm_coin_vault amm" and "ai_key (dp_pc_vault A) = amm_pc_vault amm"
  using assms
  by (auto simp: deposit_check_def and_then_Done Let_def target_orders_load_mut_checked_Done)

lemma deposit_calc_pnl_Some:
  "deposit_calc_pnl x1 amount dec sys delta = Some x \<Longrightarrow>
     \<exists>n. normalize_decimal_v2 amount dec sys = Some n \<and> uint x = uint x1 + uint n - uint delta"
  by (auto simp: deposit_calc_pnl_def bind_eq_Some_conv checked_arith)

lemma process_deposit_effects:
  assumes "process_deposit R pid accounts deposit w = Done w'"
    and "amm_load w (accounts ! 1) = Done amm0"
  shows "\<exists>A s pc coin x1 y1 r c p l lp epoch x y.
    deposit_parse_accounts accounts = Done A \<and> is_signer (dp_source_owner A) \<and>
    (\<exists>status. status_from_u64 (amm_status amm0) = Done status \<and> deposit_permission status) \<and>
    deposit_check R pid A amm0 deposit w = Done s \<and>
    deposit_totals R A amm0 s w = Done (pc, coin) \<and>
    normalize_decimal_v2 pc (pc_decimals amm0) (sys_decimal_value amm0) = Some x1 \<and>
    normalize_decimal_v2 coin (coin_decimals amm0) (sys_decimal_value amm0) = Some y1 \<and>
    calc_take_pnl R (ds_target s) amm0 pc coin (widen (x1 :: u128)) (widen (y1 :: u128)) = Done r \<and>
    deposit_quote deposit (lp_amount amm0) (pr_total_pc r) (pr_total_coin r) = Done (c, p, l) \<and>
    c \<noteq> 0 \<and> p \<noteq> 0 \<and> l \<noteq> 0 \<and> c \<le> ta_amount (ds_source_coin s) \<and> p \<le> ta_amount (ds_source_pc s) \<and>
    cpis w' = cpis w @
      [user_transfer (dp_token_program A) (dp_source_coin A) (dp_coin_vault A) (dp_source_owner A) c,
       user_transfer (dp_token_program A) (dp_source_pc A) (dp_pc_vault A) (dp_source_owner A) p,
       pool_mint (dp_token_program A) (dp_lp_mint A) (dp_dest_lp A) (dp_authority A)
         (as_u8 (amm_nonce amm0)) l] \<and>
    amm_load w' (dp_amm A) = Done ((pr_amm r)\<lparr>lp_amount := lp, recent_epoch := epoch\<rparr>) \<and>
    uint lp = uint (lp_amount amm0) + uint l \<and>
    (\<exists>sd. pr_amm r = amm0\<lparr>amm_state_data := sd\<rparr>) \<and>
    (\<exists>clock. rt_clock R = Done clock \<and> epoch = clk_epoch clock) \<and>
    target_orders_load w' (dp_target_orders A) = Done ((ds_target s)\<lparr>calc_pnl_x := x, calc_pnl_y := y\<rparr>) \<and>
    (\<exists>n. normalize_decimal_v2 p (pc_decimals amm0) (sys_decimal_value amm0) = Some n \<and>
       uint x = uint x1 + uint n - uint (pr_delta_x r)) \<and>
    (\<exists>n. normalize_decimal_v2 c (coin_decimals amm0) (sys_decimal_value amm0) = Some n \<and>
       uint y = uint y1 + uint n - uint (pr_delta_y r))"
proof -
  obtain A s pc coin x1 y1 r c p l w1 lp x y clock where
    A: "deposit_parse_accounts accounts = Done A" and
    l0: "amm_load_mut_checked w (dp_amm A) pid = Done amm0" and
    s: "deposit_check R pid A amm0 deposit w = Done s" and
    tot: "deposit_totals R A amm0 s w = Done (pc, coin)" and
    n: "normalize_decimal_v2 pc (pc_decimals amm0) (sys_decimal_value amm0) = Some x1"
      "normalize_decimal_v2 coin (coin_decimals amm0) (sys_decimal_value amm0) = Some y1" and
    r: "calc_take_pnl R (ds_target s) amm0 pc coin (widen (x1 :: u128)) (widen (y1 :: u128)) = Done r" and
    q: "deposit_quote deposit (lp_amount (pr_amm r)) (pr_total_pc r) (pr_total_coin r) = Done (c, p, l)" and
    f: "c \<le> ta_amount (ds_source_coin s)" "p \<le> ta_amount (ds_source_pc s)" "l \<noteq> 0" "c \<noteq> 0" "p \<noteq> 0" and
    t: "deposit_transfers R A (pr_amm r) c p l w = Done w1" and
    lp: "uint lp = uint (lp_amount (pr_amm r)) + uint l" and
    x: "deposit_calc_pnl x1 p (pc_decimals (pr_amm r)) (sys_decimal_value (pr_amm r)) (pr_delta_x r) = Some x" and
    y: "deposit_calc_pnl y1 c (coin_decimals (pr_amm r)) (sys_decimal_value (pr_amm r)) (pr_delta_y r) = Some y" and
    clock: "rt_clock R = Done clock" and
    w': "w' = amm_store (dp_amm A) ((pr_amm r)\<lparr>lp_amount := lp, recent_epoch := clk_epoch (clock :: clock)\<rparr>)
      (target_orders_store (dp_target_orders A) ((ds_target s)\<lparr>calc_pnl_x := x, calc_pnl_y := y\<rparr>) w1)"
    using assms
    by (auto simp: process_deposit_def and_then_Done Let_def not_less amm_load_mut_checked_Done
        deposit_parse_amm checked_add_Some)
  have load: "amm_load w (dp_amm A) = Done amm0"
    using l0 by (simp add: amm_load_mut_checked_Done)
  note chk = deposit_check_Done [OF s]
  obtain sd where sd: "pr_amm r = amm0\<lparr>amm_state_data := sd\<rparr>"
    "sd_padding sd = sd_padding (amm_state_data amm0)"
    using calc_take_pnl_totals(5) [OF r] by blast
  have "wf_amm ((pr_amm r)\<lparr>lp_amount := lp, recent_epoch := clk_epoch clock\<rparr>)"
    using amm_load_wf [OF load] sd by (simp add: wf_amm_def)
  moreover have "wf_target_orders ((ds_target s)\<lparr>calc_pnl_x := x, calc_pnl_y := y\<rparr>)"
    using target_orders_load_wf [OF chk(3)] by (simp add: wf_target_orders_def)
  ultimately have "amm_load w' (dp_amm A) = Done ((pr_amm r)\<lparr>lp_amount := lp, recent_epoch := clk_epoch clock\<rparr>)"
    "target_orders_load w' (dp_target_orders A) = Done ((ds_target s)\<lparr>calc_pnl_x := x, calc_pnl_y := y\<rparr>)"
    and calls: "cpis w' = cpis w1"
    unfolding w' using load_stores different_structs [OF load chk(3)] by blast+
  moreover have same: "lp_amount (pr_amm r) = lp_amount amm0" "amm_nonce (pr_amm r) = amm_nonce amm0"
    "pc_decimals (pr_amm r) = pc_decimals amm0" "coin_decimals (pr_amm r) = coin_decimals amm0"
    "sys_decimal_value (pr_amm r) = sys_decimal_value amm0"
    using sd by simp_all
  moreover have "\<exists>sd. pr_amm r = amm0\<lparr>amm_state_data := sd\<rparr>"
    using sd(1) by blast
  moreover note A s tot n r f chk(1,2) clock deposit_calc_pnl_Some [OF x, unfolded same]
    deposit_calc_pnl_Some [OF y, unfolded same] q [unfolded same] lp [unfolded same]
    deposit_transfers_cpis [OF t, unfolded same, folded calls]
  ultimately show ?thesis
    by blast
qed

text \<open>
  C3: a deposit that succeeds is signed by the owner of the source accounts on a pool whose
  status permits it, moves exactly the coin and the pc of the quote into the pool's two
  vaults and mints exactly the quoted shares, in this order; all three are positive and the
  user has them. The stored pool counts the new shares, the profit that \<open>calc_take_pnl\<close> set
  aside and the epoch of the clock, and is otherwise as before. The stored target orders hold
  the normalised totals before the deposit, plus the normalised amounts that came in, less
  what was set aside, and are otherwise as before.
\<close>

theorem process_deposit_correct:
  assumes "process_deposit R pid accounts deposit w = Done w'"
    and "amm_load w (accounts ! 1) = Done amm0"
  shows "\<exists>A s pc coin x1 y1 r c p l lp epoch x y.
    deposit_parse_accounts accounts = Done A \<and> is_signer (dp_source_owner A) \<and>
    (\<exists>status. status_from_u64 (amm_status amm0) = Done status \<and> deposit_permission status) \<and>
    deposit_check R pid A amm0 deposit w = Done s \<and>
    deposit_totals R A amm0 s w = Done (pc, coin) \<and>
    normalize_decimal_v2 pc (pc_decimals amm0) (sys_decimal_value amm0) = Some x1 \<and>
    normalize_decimal_v2 coin (coin_decimals amm0) (sys_decimal_value amm0) = Some y1 \<and>
    calc_take_pnl R (ds_target s) amm0 pc coin (widen (x1 :: u128)) (widen (y1 :: u128)) = Done r \<and>
    deposit_quote deposit (lp_amount amm0) (pr_total_pc r) (pr_total_coin r) = Done (c, p, l) \<and>
    c \<noteq> 0 \<and> p \<noteq> 0 \<and> l \<noteq> 0 \<and> c \<le> ta_amount (ds_source_coin s) \<and> p \<le> ta_amount (ds_source_pc s) \<and>
    cpis w' = cpis w @
      [user_transfer (dp_token_program A) (dp_source_coin A) (dp_coin_vault A) (dp_source_owner A) c,
       user_transfer (dp_token_program A) (dp_source_pc A) (dp_pc_vault A) (dp_source_owner A) p,
       pool_mint (dp_token_program A) (dp_lp_mint A) (dp_dest_lp A) (dp_authority A)
         (as_u8 (amm_nonce amm0)) l] \<and>
    amm_load w' (dp_amm A) = Done ((pr_amm r)\<lparr>lp_amount := lp, recent_epoch := epoch\<rparr>) \<and>
    uint lp = uint (lp_amount amm0) + uint l \<and>
    (\<exists>sd. pr_amm r = amm0\<lparr>amm_state_data := sd\<rparr>) \<and>
    (\<exists>clock. rt_clock R = Done clock \<and> epoch = clk_epoch clock) \<and>
    target_orders_load w' (dp_target_orders A) = Done ((ds_target s)\<lparr>calc_pnl_x := x, calc_pnl_y := y\<rparr>) \<and>
    (\<exists>n. normalize_decimal_v2 p (pc_decimals amm0) (sys_decimal_value amm0) = Some n \<and>
       uint x = uint x1 + uint n - uint (pr_delta_x r)) \<and>
    (\<exists>n. normalize_decimal_v2 c (coin_decimals amm0) (sys_decimal_value amm0) = Some n \<and>
       uint y = uint y1 + uint n - uint (pr_delta_y r))"
  by (rule process_deposit_effects [OF assms])

definition sample_deposit_accounts :: "account_info list" where
  "sample_deposit_accounts = map sample_info
     [1, 100, 50, 101, 102, 103, 104, 105, 106, 107, 108, 109, 110, 111]"

lemma sample_deposit_run:
  "\<exists>w'. process_deposit sample_runtime 7 sample_deposit_accounts sample_deposit sample_world = Done w'"
  by (simp add: process_deposit_def and_then_Done deposit_parse_accounts_def
      sample_deposit_accounts_def deposit_check_def sample_deposit_def [THEN arg_cong [of _ _ max_coin_amount]]
      sample_deposit_def [THEN arg_cong [of _ _ max_pc_amount]]
      status_from_u64_def authority_id_def deposit_totals_def
      calc_total_without_take_pnl_no_orderbook_def checked_sub_def sample_state_data_def
      sample_normalize sample_calc_take_pnl sample_deposit_quote deposit_transfers_def
      token_transfer_def token_mint_to_def checked_add_def deposit_calc_pnl_def widen_def)

theorem process_deposit_correct_witness:
  "\<exists>w' A c p l. process_deposit sample_runtime 7 sample_deposit_accounts sample_deposit sample_world = Done w' \<and>
     deposit_parse_accounts sample_deposit_accounts = Done A \<and> c \<noteq> 0 \<and> p \<noteq> 0 \<and> l \<noteq> 0 \<and>
     cpis w' =
      [user_transfer (dp_token_program A) (dp_source_coin A) (dp_coin_vault A) (dp_source_owner A) c,
       user_transfer (dp_token_program A) (dp_source_pc A) (dp_pc_vault A) (dp_source_owner A) p,
       pool_mint (dp_token_program A) (dp_lp_mint A) (dp_dest_lp A) (dp_authority A) (as_u8 254) l]"
proof -
  obtain w' where run: "process_deposit sample_runtime 7 sample_deposit_accounts sample_deposit
      sample_world = Done w'"
    using sample_deposit_run by blast
  have "amm_load sample_world (sample_deposit_accounts ! 1) = Done sample_amm"
    by (simp add: sample_deposit_accounts_def)
  moreover have "cpis sample_world = []" "amm_nonce sample_amm = 254"
    by (simp_all add: sample_world_def)
  ultimately show ?thesis
    using process_deposit_correct [OF run, of sample_amm] run by auto
qed

end
