(* ===== verification/Withdraw.thy ===== *)
theory Withdraw
  imports Pnl
begin

text \<open>
  \<open>process_withdraw\<close> and \<open>process_withdrawpnl\<close> of \<open>program/src/processor.rs\<close>: redeeming
  shares of the pool, and paying out the profit set aside for the pool's owner.
\<close>

section \<open>Withdrawal: accounts and checks\<close>

record withdraw_accounts =
  wd_token_program :: account_info
  wd_amm :: account_info
  wd_authority :: account_info
  wd_open_orders :: account_info
  wd_target_orders :: account_info
  wd_lp_mint :: account_info
  wd_coin_vault :: account_info
  wd_pc_vault :: account_info
  wd_market_program :: account_info
  wd_market :: account_info
  wd_market_coin_vault :: account_info
  wd_market_pc_vault :: account_info
  wd_vault_signer :: account_info
  wd_source_lp :: account_info
  wd_dest_coin :: account_info
  wd_dest_pc :: account_info
  wd_source_owner :: account_info
  wd_event_queue :: account_info
  wd_bids :: account_info
  wd_asks :: account_info
  wd_referrer :: "account_info option"

definition withdraw_parse_accounts :: "account_info list \<Rightarrow> withdraw_accounts outcome" where
  "withdraw_parse_accounts accounts =
     (if length accounts \<noteq> 20 \<and> length accounts \<noteq> 20 + 1 \<and> length accounts \<noteq> 20 + 2 \<and>
         length accounts \<noteq> 20 + 3
      then err WrongAccountsNumber
      else let k = (if length accounts = 20 + 2 \<or> length accounts = 20 + 3 then 10 else 8) in
        Done \<lparr>wd_token_program = accounts ! 0,
          wd_amm = accounts ! 1,
          wd_authority = accounts ! 2,
          wd_open_orders = accounts ! 3,
          wd_target_orders = accounts ! 4,
          wd_lp_mint = accounts ! 5,
          wd_coin_vault = accounts ! 6,
          wd_pc_vault = accounts ! 7,
          wd_market_program = accounts ! k,
          wd_market = accounts ! (k + 1),
          wd_market_coin_vault = accounts ! (k + 2),
          wd_market_pc_vault = accounts ! (k + 3),
          wd_vault_signer = accounts ! (k + 4),
          wd_source_lp = accounts ! (k + 5),
          wd_dest_coin = accounts ! (k + 6),
          wd_dest_pc = accounts ! (k + 7),
          wd_source_owner = accounts ! (k + 8),
          wd_event_queue = accounts ! (k + 9),
          wd_bids = accounts ! (k + 10),
          wd_asks = accounts ! (k + 11),
          wd_referrer = (if length accounts = 20 + 1 \<or> length accounts = 20 + 3
                         then Some (accounts ! (k + 12)) else None)\<rparr>)"

text \<open>A given referrer's account other than the default key must belong to the known wallet.\<close>

definition check_referrer :: "runtime \<Rightarrow> withdraw_accounts \<Rightarrow> world \<Rightarrow> unit outcome" where
  "check_referrer R A w =
     (case wd_referrer A of
        None \<Rightarrow> Done ()
      | Some ref \<Rightarrow>
          if ai_key ref \<noteq> default_pubkey then
            and_then (unpack_token_account R w ref (ai_key (wd_token_program A))) (\<lambda>token.
              if ta_owner token \<noteq> referrer_pc_wallet_id then err InvalidOwner else Done ())
          else Done ())"

record withdraw_state =
  ws_coin_vault :: token_account
  ws_pc_vault :: token_account
  ws_dest_coin :: token_account
  ws_dest_pc :: token_account
  ws_source_lp :: token_account
  ws_orderbook :: bool

definition withdraw_check ::
  "runtime \<Rightarrow> pubkey \<Rightarrow> withdraw_accounts \<Rightarrow> amm_info \<Rightarrow> withdraw_instruction \<Rightarrow> world \<Rightarrow>
   withdraw_state outcome" where
  "withdraw_check R program_id A amm withdraw w =
     and_then (status_from_u64 (amm_status amm)) (\<lambda>status.
     if \<not> withdraw_permission status then err InvalidStatus
     else and_then (authority_id R program_id AUTHORITY_AMM (as_u8 (amm_nonce amm))) (\<lambda>authority.
       if ai_key (wd_authority A) \<noteq> authority then err InvalidProgramAddress
       else if ai_key (wd_token_program A) \<noteq> rt_spl_token_id R then err InvalidSplTokenProgram
       else if ai_key (wd_coin_vault A) \<noteq> amm_coin_vault amm \<or>
               ai_key (wd_dest_coin A) = amm_coin_vault amm then err InvalidCoinVault
       else if ai_key (wd_pc_vault A) \<noteq> amm_pc_vault amm \<or>
               ai_key (wd_dest_pc A) = amm_pc_vault amm then err InvalidPCVault
       else if ai_key (wd_target_orders A) \<noteq> amm_target_orders amm then err InvalidTargetOrders
       else if ai_key (wd_lp_mint A) \<noteq> amm_lp_mint amm then err InvalidPoolMint
       else
         let token_id = ai_key (wd_token_program A) in
         and_then (unpack_token_account R w (wd_coin_vault A) token_id) (\<lambda>coin_vault.
         and_then (unpack_token_account R w (wd_pc_vault A) token_id) (\<lambda>pc_vault.
         and_then (unpack_token_account R w (wd_dest_coin A) token_id) (\<lambda>dest_coin.
         and_then (unpack_token_account R w (wd_dest_pc A) token_id) (\<lambda>dest_pc.
         and_then (unpack_mint R w (wd_lp_mint A) token_id) (\<lambda>lp_mint.
         and_then (unpack_token_account R w (wd_source_lp A) token_id) (\<lambda>source_lp.
           if ta_mint source_lp \<noteq> ai_key (wd_lp_mint A) then err InvalidTokenLP
           else if withdraw_amount withdraw > ta_amount source_lp then err InsufficientFunds
           else if withdraw_amount withdraw > mint_supply lp_mint \<or>
                   withdraw_amount withdraw \<ge> lp_amount amm then err NotAllowZeroLP
           else Done \<lparr>ws_coin_vault = coin_vault, ws_pc_vault = pc_vault, ws_dest_coin = dest_coin,
             ws_dest_pc = dest_pc, ws_source_lp = source_lp,
             ws_orderbook = orderbook_permission status\<rparr>))))))))"

text \<open>
  With orders on the market the handler cancels all of them and settles, and then computes the
  totals from the amounts and the open orders it had loaded before.
\<close>

definition withdraw_totals ::
  "runtime \<Rightarrow> withdraw_accounts \<Rightarrow> amm_info \<Rightarrow> withdraw_state \<Rightarrow> world \<Rightarrow>
   ((u64 \<times> u64) \<times> world) outcome" where
  "withdraw_totals R A amm s w =
     (if ws_orderbook s then
        (if ai_key (wd_market A) \<noteq> amm_market amm then err InvalidMarket
         else if ai_key (wd_market_program A) \<noteq> amm_market_program amm then err InvalidMarketProgram
         else if ai_key (wd_open_orders A) \<noteq> amm_open_orders amm then err InvalidOpenOrders
         else
           and_then (load_serum_market_order R w (wd_market A) (wd_open_orders A) (wd_authority A)
             amm False) (\<lambda>(ms, oo).
           and_then (load_amm_orders R w ms oo (wd_bids A) (wd_asks A)) (\<lambda>(bids, asks).
           and_then (both_side_batches bids asks) (\<lambda>batches.
           and_then (cancel_batches R (wd_market_program A) (wd_market A) (wd_bids A) (wd_asks A)
             (wd_open_orders A) (wd_authority A) (wd_event_queue A) (as_u8 (amm_nonce amm)) batches w)
             (\<lambda>w1.
           and_then (invoke_dex_settle_funds R (wd_market_program A) (wd_market A) (wd_open_orders A)
             (wd_authority A) (wd_market_coin_vault A) (wd_market_pc_vault A) (wd_coin_vault A)
             (wd_pc_vault A) (wd_vault_signer A) (wd_token_program A)
             (Some (case wd_referrer A of None \<Rightarrow> wd_pc_vault A | Some ref \<Rightarrow> ref))
             AUTHORITY_AMM (as_u8 (amm_nonce amm)) w1) (\<lambda>w2.
             if coin_mint ms \<noteq> rt_aligned R (ta_mint (ws_coin_vault s)) \<or>
                coin_mint ms \<noteq> rt_aligned R (ta_mint (ws_dest_coin s)) then err InvalidCoinMint
             else if pc_mint ms \<noteq> rt_aligned R (ta_mint (ws_pc_vault s)) \<or>
                pc_mint ms \<noteq> rt_aligned R (ta_mint (ws_dest_pc s)) then err InvalidPCMint
             else and_then (calc_total_without_take_pnl R w2 (ta_amount (ws_pc_vault s))
               (ta_amount (ws_coin_vault s)) oo amm ms (wd_event_queue A) (wd_open_orders A)) (\<lambda>totals.
                 Done (totals, w2))))))))
      else and_then (calc_total_without_take_pnl_no_orderbook (ta_amount (ws_pc_vault s))
        (ta_amount (ws_coin_vault s)) amm) (\<lambda>totals. Done (totals, w)))"

section \<open>Withdrawal: amounts and effects\<close>

text \<open>Coin and pc for the shares, both rounded down.\<close>

definition withdraw_quote :: "u64 \<Rightarrow> u64 \<Rightarrow> u64 \<Rightarrow> u64 \<Rightarrow> (u64 \<times> u64) outcome" where
  "withdraw_quote amount lp total_pc total_coin =
     (let invariant = \<lparr>ip_token_input = amount, ip_token_total = lp\<rparr> in
      and_then (exchange_pool_to_token invariant total_coin Floor) (\<lambda>coin_opt.
      and_then (ok_or CalculationExRateFailure coin_opt) (\<lambda>coin_amount.
      and_then (exchange_pool_to_token invariant total_pc Floor) (\<lambda>pc_opt.
      and_then (ok_or CalculationExRateFailure pc_opt) (\<lambda>pc_amount.
        Done (coin_amount, pc_amount))))))"

definition below_both_min :: "u64 option \<Rightarrow> u64 option \<Rightarrow> u64 \<Rightarrow> u64 \<Rightarrow> bool" where
  "below_both_min min_coin min_pc coin_amount pc_amount =
     (case (min_coin, min_pc) of
        (Some c, Some p) \<Rightarrow> c > coin_amount \<or> p > pc_amount
      | _ \<Rightarrow> False)"

definition withdraw_transfers ::
  "runtime \<Rightarrow> withdraw_accounts \<Rightarrow> amm_info \<Rightarrow> u64 \<Rightarrow> u64 \<Rightarrow> u64 \<Rightarrow> world \<Rightarrow> world outcome" where
  "withdraw_transfers R A amm coin_amount pc_amount amount w =
     and_then (token_transfer_with_authority R (wd_token_program A) (wd_coin_vault A) (wd_dest_coin A)
       (wd_authority A) AUTHORITY_AMM (as_u8 (amm_nonce amm)) coin_amount w) (\<lambda>w1.
     and_then (token_transfer_with_authority R (wd_token_program A) (wd_pc_vault A) (wd_dest_pc A)
       (wd_authority A) AUTHORITY_AMM (as_u8 (amm_nonce amm)) pc_amount w1) (\<lambda>w2.
       token_burn R (wd_token_program A) (wd_source_lp A) (wd_lp_mint A) (wd_source_owner A) amount w2))"

definition withdraw_calc_pnl :: "u128 \<Rightarrow> u64 \<Rightarrow> u64 \<Rightarrow> u64 \<Rightarrow> u128 \<Rightarrow> u128 option" where
  "withdraw_calc_pnl x1 amount dec sys delta =
     do {
       n \<leftarrow> normalize_decimal_v2 amount dec sys;
       a \<leftarrow> checked_sub x1 n;
       checked_sub a delta
     }"

definition withdraw_take_pnl ::
  "runtime \<Rightarrow> target_orders \<Rightarrow> amm_info \<Rightarrow> u64 \<Rightarrow> u64 \<Rightarrow> u128 \<Rightarrow> u128 \<Rightarrow> pnl_result outcome" where
  "withdraw_take_pnl R target amm total_pc total_coin x1 y1 =
     (if amm_status amm \<noteq> status_into_u64 WithdrawOnly
      then calc_take_pnl R target amm total_pc total_coin (widen x1) (widen y1)
      else Done \<lparr>pr_delta_x = 0, pr_delta_y = 0, pr_amm = amm, pr_total_pc = total_pc,
        pr_total_coin = total_coin\<rparr>)"

definition process_withdraw ::
  "runtime \<Rightarrow> pubkey \<Rightarrow> account_info list \<Rightarrow> withdraw_instruction \<Rightarrow> world \<Rightarrow> world outcome" where
  "process_withdraw R program_id accounts withdraw w =
     and_then (withdraw_parse_accounts accounts) (\<lambda>A.
     and_then (check_referrer R A w) (\<lambda>_.
     if \<not> is_signer (wd_source_owner A) then err InvalidSignAccount
     else
     and_then (amm_load_mut_checked w (wd_amm A) program_id) (\<lambda>amm0.
     and_then (target_orders_load_mut_checked R w (wd_target_orders A) program_id (ai_key (wd_amm A)))
       (\<lambda>target.
     and_then (withdraw_check R program_id A amm0 withdraw w) (\<lambda>s.
     and_then (withdraw_totals R A amm0 s w) (\<lambda>((total_pc, total_coin), w1).
     and_then (unwrap (normalize_decimal_v2 total_pc (pc_decimals amm0) (sys_decimal_value amm0))) (\<lambda>x1.
     and_then (unwrap (normalize_decimal_v2 total_coin (coin_decimals amm0) (sys_decimal_value amm0))) (\<lambda>y1.
     and_then (withdraw_take_pnl R target amm0 total_pc total_coin x1 y1) (\<lambda>r.
     let amm = pr_amm r in
     and_then (withdraw_quote (withdraw_amount withdraw) (lp_amount amm) (pr_total_pc r)
       (pr_total_coin r)) (\<lambda>(coin_amount, pc_amount).
     if withdraw_amount withdraw = 0 \<or> coin_amount = 0 \<or> pc_amount = 0 then err InvalidInput
     else if coin_amount < ta_amount (ws_coin_vault s) \<and> pc_amount < ta_amount (ws_pc_vault s) then
       (if below_both_min (min_coin_amount withdraw) (min_pc_amount withdraw) coin_amount pc_amount
        then err ExceededSlippage
        else
          and_then (withdraw_transfers R A amm coin_amount pc_amount (withdraw_amount withdraw) w1) (\<lambda>w2.
          and_then (unwrap (checked_sub (lp_amount amm) (withdraw_amount withdraw))) (\<lambda>lp.
          and_then (unwrap (withdraw_calc_pnl x1 pc_amount (pc_decimals amm) (sys_decimal_value amm)
            (pr_delta_x r))) (\<lambda>x.
          and_then (unwrap (withdraw_calc_pnl y1 coin_amount (coin_decimals amm) (sys_decimal_value amm)
            (pr_delta_y r))) (\<lambda>y.
          and_then (rt_clock R) (\<lambda>clock.
            Done (amm_store (wd_amm A) (amm\<lparr>lp_amount := lp, recent_epoch := clk_epoch clock\<rparr>)
              (target_orders_store (wd_target_orders A)
                (target\<lparr>calc_pnl_x := x, calc_pnl_y := y\<rparr>) w2))))))))
     else err TakePnlError))))))))))"

section \<open>Withdrawal of the owner's profit\<close>

record pnl_accounts =
  pn_token_program :: account_info
  pn_amm :: account_info
  pn_config :: account_info
  pn_authority :: account_info
  pn_open_orders :: account_info
  pn_coin_vault :: account_info
  pn_pc_vault :: account_info
  pn_user_coin :: account_info
  pn_user_pc :: account_info
  pn_owner :: account_info
  pn_target_orders :: account_info
  pn_market_program :: account_info
  pn_market :: account_info
  pn_event_queue :: account_info
  pn_referrer :: "account_info option"

definition withdrawpnl_parse_accounts :: "account_info list \<Rightarrow> pnl_accounts outcome" where
  "withdrawpnl_parse_accounts accounts =
     (if length accounts \<noteq> 17 \<and> length accounts \<noteq> 17 + 1 then err WrongAccountsNumber
      else Done \<lparr>pn_token_program = accounts ! 0,
        pn_amm = accounts ! 1,
        pn_config = accounts ! 2,
        pn_authority = accounts ! 3,
        pn_open_orders = accounts ! 4,
        pn_coin_vault = accounts ! 5,
        pn_pc_vault = accounts ! 6,
        pn_user_coin = accounts ! 7,
        pn_user_pc = accounts ! 8,
        pn_owner = accounts ! 9,
        pn_target_orders = accounts ! 10,
        pn_market_program = accounts ! 11,
        pn_market = accounts ! 12,
        pn_event_queue = accounts ! 13,
        pn_referrer = (if length accounts = 17 + 1 then Some (accounts ! 17) else None)\<rparr>)"

definition withdrawpnl_referrer :: "runtime \<Rightarrow> pnl_accounts \<Rightarrow> world \<Rightarrow> unit outcome" where
  "withdrawpnl_referrer R A w =
     (case pn_referrer A of
        None \<Rightarrow> Done ()
      | Some ref \<Rightarrow>
          and_then (unpack_token_account R w ref (ai_key (pn_token_program A))) (\<lambda>token.
            if ta_owner token \<noteq> referrer_pc_wallet_id then err InvalidOwner else Done ()))"

text \<open>The config account must be the program's derived address, owned by the program.\<close>

definition config_address_ok :: "runtime \<Rightarrow> pubkey \<Rightarrow> account_info \<Rightarrow> world \<Rightarrow> bool" where
  "config_address_ok R program_id config_info w \<longleftrightarrow>
     fst (rt_find_program_address R [AMM_CONFIG_SEED] program_id) = ai_key config_info \<and>
     acc_owner (acc_of w config_info) = program_id"

record pnl_state =
  ps_coin_vault :: token_account
  ps_pc_vault :: token_account
  ps_user_coin :: token_account
  ps_user_pc :: token_account
  ps_target :: target_orders
  ps_orderbook :: bool

definition withdrawpnl_check ::
  "runtime \<Rightarrow> pubkey \<Rightarrow> pnl_accounts \<Rightarrow> amm_info \<Rightarrow> world \<Rightarrow> pnl_state outcome" where
  "withdrawpnl_check R program_id A amm w =
     and_then (authority_id R program_id AUTHORITY_AMM (as_u8 (amm_nonce amm))) (\<lambda>authority.
     if ai_key (pn_authority A) \<noteq> authority then err InvalidProgramAddress
     else if acc_owner (acc_of w (pn_amm A)) \<noteq> program_id then err InvalidOwner
     else and_then (status_from_u64 (amm_status amm)) (\<lambda>status.
     if \<not> config_address_ok R program_id (pn_config A) w then err InvalidConfigAccount
     else and_then (config_load_checked w (pn_config A) program_id) (\<lambda>config.
     if \<not> is_signer (pn_owner A) \<or>
        ai_key (pn_owner A) \<noteq> amm_owner_id \<and> ai_key (pn_owner A) \<noteq> pnl_owner config
     then err InvalidSignAccount
     else if amm_status amm = status_into_u64 Uninitialized then err InvalidStatus
     else if ai_key (pn_market A) \<noteq> amm_market amm then err InvalidMarket
     else if ai_key (pn_coin_vault A) \<noteq> amm_coin_vault amm then err InvalidCoinVault
     else if ai_key (pn_pc_vault A) \<noteq> amm_pc_vault amm then err InvalidPCVault
     else if ai_key (pn_token_program A) \<noteq> rt_spl_token_id R then err InvalidSplTokenProgram
     else if ai_key (pn_market_program A) \<noteq> amm_market_program amm then err InvalidMarketProgram
     else if ai_key (pn_open_orders A) \<noteq> amm_open_orders amm then err InvalidOpenOrders
     else if ai_key (pn_target_orders A) \<noteq> amm_target_orders amm then err InvalidTargetOrders
     else
       let token_id = ai_key (pn_token_program A) in
       and_then (unpack_token_account R w (pn_coin_vault A) token_id) (\<lambda>coin_vault.
       and_then (unpack_token_account R w (pn_pc_vault A) token_id) (\<lambda>pc_vault.
       and_then (unpack_token_account R w (pn_user_coin A) token_id) (\<lambda>user_coin.
       and_then (unpack_token_account R w (pn_user_pc A) token_id) (\<lambda>user_pc.
       and_then (target_orders_load_mut_checked R w (pn_target_orders A) program_id (ai_key (pn_amm A)))
         (\<lambda>target.
         if ta_mint coin_vault \<noteq> coin_vault_mint amm \<or> ta_mint user_coin \<noteq> coin_vault_mint amm
         then err InvalidCoinMint
         else if ta_mint pc_vault \<noteq> pc_vault_mint amm \<or> ta_mint user_pc \<noteq> pc_vault_mint amm
         then err InvalidPCMint
         else Done \<lparr>ps_coin_vault = coin_vault, ps_pc_vault = pc_vault, ps_user_coin = user_coin,
           ps_user_pc = user_pc, ps_target = target,
           ps_orderbook = orderbook_permission status\<rparr>))))))))"

definition withdrawpnl_totals ::
  "runtime \<Rightarrow> pnl_accounts \<Rightarrow> amm_info \<Rightarrow> pnl_state \<Rightarrow> world \<Rightarrow> (u64 \<times> u64) outcome" where
  "withdrawpnl_totals R A amm s w =
     (if ps_orderbook s then
        (if ai_key (pn_market A) \<noteq> amm_market amm then err InvalidMarket
         else if ai_key (pn_open_orders A) \<noteq> amm_open_orders amm then err InvalidOpenOrders
         else
           and_then (load_serum_market_order R w (pn_market A) (pn_open_orders A) (pn_authority A)
             amm False) (\<lambda>(ms, oo).
             if coin_mint ms \<noteq> rt_aligned R (ta_mint (ps_coin_vault s)) \<or>
                coin_mint ms \<noteq> rt_aligned R (ta_mint (ps_user_coin s)) then err InvalidCoinMint
             else if pc_mint ms \<noteq> rt_aligned R (ta_mint (ps_pc_vault s)) \<or>
                pc_mint ms \<noteq> rt_aligned R (ta_mint (ps_user_pc s)) then err InvalidPCMint
             else calc_total_without_take_pnl R w (ta_amount (ps_pc_vault s))
               (ta_amount (ps_coin_vault s)) oo amm ms (pn_event_queue A) (pn_open_orders A)))
      else calc_total_without_take_pnl_no_orderbook (ta_amount (ps_pc_vault s))
        (ta_amount (ps_coin_vault s)) amm)"

definition process_withdrawpnl ::
  "runtime \<Rightarrow> pubkey \<Rightarrow> account_info list \<Rightarrow> world \<Rightarrow> world outcome" where
  "process_withdrawpnl R program_id accounts w =
     and_then (withdrawpnl_parse_accounts accounts) (\<lambda>A.
     and_then (withdrawpnl_referrer R A w) (\<lambda>_.
     and_then (amm_load_mut_checked w (pn_amm A) program_id) (\<lambda>amm0.
     and_then (withdrawpnl_check R program_id A amm0 w) (\<lambda>s.
     and_then (withdrawpnl_totals R A amm0 s w) (\<lambda>(total_pc, total_coin).
     and_then (unwrap (normalize_decimal_v2 total_pc (pc_decimals amm0) (sys_decimal_value amm0))) (\<lambda>x1.
     and_then (unwrap (normalize_decimal_v2 total_coin (coin_decimals amm0) (sys_decimal_value amm0))) (\<lambda>y1.
     and_then (calc_take_pnl R (ps_target s) amm0 total_pc total_coin (widen x1) (widen y1)) (\<lambda>r.
     let amm = pr_amm r; sd = amm_state_data amm in
     if need_take_pnl_coin sd \<le> ta_amount (ps_coin_vault s) \<and>
        need_take_pnl_pc sd \<le> ta_amount (ps_pc_vault s) then
       and_then (token_transfer_with_authority R (pn_token_program A) (pn_coin_vault A) (pn_user_coin A)
         (pn_authority A) AUTHORITY_AMM (as_u8 (amm_nonce amm)) (need_take_pnl_coin sd) w) (\<lambda>w1.
       and_then (token_transfer_with_authority R (pn_token_program A) (pn_pc_vault A) (pn_user_pc A)
         (pn_authority A) AUTHORITY_AMM (as_u8 (amm_nonce amm)) (need_take_pnl_pc sd) w1) (\<lambda>w2.
       and_then (unwrap (checked_sub x1 (pr_delta_x r))) (\<lambda>x.
       and_then (unwrap (checked_sub y1 (pr_delta_y r))) (\<lambda>y.
       and_then (rt_clock R) (\<lambda>clock.
         Done (amm_store (pn_amm A)
           (amm\<lparr>amm_state_data := sd\<lparr>need_take_pnl_coin := 0, need_take_pnl_pc := 0\<rparr>,
             recent_epoch := clk_epoch clock\<rparr>)
           (target_orders_store (pn_target_orders A)
             ((ps_target s)\<lparr>calc_pnl_x := x, calc_pnl_y := y\<rparr>) w2)))))))
     else err TakePnlError))))))))"

section \<open>A redemption is covered by the shares it burns\<close>

lemma withdraw_quote_facts:
  assumes "withdraw_quote amount lp total_pc total_coin = Done (c, p)"
  shows "uint c * uint lp \<le> uint total_coin * uint amount"
    and "uint p * uint lp \<le> uint total_pc * uint amount"
    and "0 < uint lp"
    and "uint total_coin * uint amount < (uint c + 1) * uint lp"
    and "uint total_pc * uint amount < (uint p + 1) * uint lp"
proof -
  have e: "mul_div_floor total_coin amount lp = Some c" "mul_div_floor total_pc amount lp = Some p"
    using assms by (auto simp: withdraw_quote_def and_then_Done exchange_Done Let_def)
  note c = mul_div_floor_Some [OF e(1)] and p = mul_div_floor_Some [OF e(2)]
  show "uint c * uint lp \<le> uint total_coin * uint amount"
    "uint p * uint lp \<le> uint total_pc * uint amount" "0 < uint lp"
    using c p by blast+
  have "a < (a div b + 1) * b" if "0 < b" for a b :: int
    using that by (rule int_divmodE [of b a]) (simp add: algebra_simps)
  then show "uint total_coin * uint amount < (uint c + 1) * uint lp"
    "uint total_pc * uint amount < (uint p + 1) * uint lp"
    using c p by metis+
qed

text \<open>
  C13: a withdrawal pays each token pro rata, rounded down by less than one unit, so what
  stays per remaining share does not fall in either token; redeeming fewer shares than
  exist never pays more than the totals.
\<close>

theorem withdraw_quote_correct:
  assumes "withdraw_quote amount lp total_pc total_coin = Done (c, p)"
  shows "uint total_coin * (uint lp - uint amount) \<le> (uint total_coin - uint c) * uint lp \<and>
    uint total_pc * (uint lp - uint amount) \<le> (uint total_pc - uint p) * uint lp \<and>
    uint total_coin * uint amount < (uint c + 1) * uint lp \<and>
    uint total_pc * uint amount < (uint p + 1) * uint lp \<and>
    (uint amount \<le> uint lp \<longrightarrow> uint c \<le> uint total_coin \<and> uint p \<le> uint total_pc)"
proof -
  note f = withdraw_quote_facts [OF assms]
  have "uint c \<le> uint total_coin \<and> uint p \<le> uint total_pc" if "uint amount \<le> uint lp"
  proof -
    have "uint c * uint lp \<le> uint total_coin * uint lp"
      using f(1) mult_left_mono [OF that, of "uint total_coin"] by simp
    moreover have "uint p * uint lp \<le> uint total_pc * uint lp"
      using f(2) mult_left_mono [OF that, of "uint total_pc"] by simp
    ultimately show ?thesis using f(3) by (simp add: mult_le_cancel_right)
  qed
  then show ?thesis using f by (simp add: algebra_simps)
qed

lemma sample_withdraw_quote: "withdraw_quote 101 2000 4000 1000 = Done (50, 202)"
  by code_simp

theorem withdraw_quote_correct_witness:
  "withdraw_quote 101 2000 4000 1000 = Done (50, 202) \<and> (1000 :: int) * (2000 - 101) \<le> (1000 - 50) * 2000"
  using withdraw_quote_correct [OF sample_withdraw_quote] sample_withdraw_quote by simp

section \<open>The handlers\<close>

lemma withdraw_parse_amm:
  "withdraw_parse_accounts accounts = Done A \<Longrightarrow>
     wd_amm A = accounts ! 1 \<and> wd_target_orders A = accounts ! 4"
  by (auto simp: withdraw_parse_accounts_def Let_def split: if_splits)

lemma withdraw_transfers_cpis:
  "withdraw_transfers R A amm c p l w = Done w' \<Longrightarrow>
     cpis w' = cpis w @
       [pool_transfer (wd_token_program A) (wd_coin_vault A) (wd_dest_coin A) (wd_authority A)
          (as_u8 (amm_nonce amm)) c,
        pool_transfer (wd_token_program A) (wd_pc_vault A) (wd_dest_pc A) (wd_authority A)
          (as_u8 (amm_nonce amm)) p,
        user_burn (wd_token_program A) (wd_source_lp A) (wd_lp_mint A) (wd_source_owner A) l]"
  by (auto simp: withdraw_transfers_def and_then_Done dest!: token_call_cpis)

lemma withdraw_check_Done:
  assumes "withdraw_check R pid A amm withdraw w = Done s"
  shows "\<exists>status. status_from_u64 (amm_status amm) = Done status \<and> withdraw_permission status"
    and "withdraw_amount withdraw \<le> ta_amount (ws_source_lp s)"
    and "withdraw_amount withdraw < lp_amount amm"
    and "ta_mint (ws_source_lp s) = ai_key (wd_lp_mint A)"
  using assms by (auto simp: withdraw_check_def and_then_Done Let_def not_less not_le)

lemma withdraw_totals_cpis:
  assumes "withdraw_totals R A amm s w = Done (totals, w1)"
  shows "\<exists>pre. cpis w1 = cpis w @ pre \<and> (\<forall>c\<in>set pre. market_call c) \<and>
    (\<not> ws_orderbook s \<longrightarrow> pre = [])"
proof (cases "ws_orderbook s")
  case True
  then obtain batches w2 ref where
    c: "cancel_batches R (wd_market_program A) (wd_market A) (wd_bids A) (wd_asks A)
      (wd_open_orders A) (wd_authority A) (wd_event_queue A) (as_u8 (amm_nonce amm)) batches w = Done w2"
    and f: "invoke_dex_settle_funds R (wd_market_program A) (wd_market A) (wd_open_orders A)
      (wd_authority A) (wd_market_coin_vault A) (wd_market_pc_vault A) (wd_coin_vault A)
      (wd_pc_vault A) (wd_vault_signer A) (wd_token_program A) ref
      AUTHORITY_AMM (as_u8 (amm_nonce amm)) w2 = Done w1"
    using assms by (auto simp: withdraw_totals_def and_then_Done)
  show ?thesis
    using True cancel_batches_cpis [OF c] f
    by (auto simp: invoke_dex_settle_funds_def market_call_def dest!: invoke_signed_cpis)
next
  case False
  then show ?thesis
    using assms by (auto simp: withdraw_totals_def and_then_Done)
qed

lemma withdraw_take_pnl_fields:
  assumes "withdraw_take_pnl R target amm pc coin x1 y1 = Done r"
  shows "\<exists>sd. pr_amm r = amm\<lparr>amm_state_data := sd\<rparr> \<and> sd_padding sd = sd_padding (amm_state_data amm)"
proof (cases "amm_status amm \<noteq> status_into_u64 WithdrawOnly")
  case True
  then show ?thesis
    using assms calc_take_pnl_totals(5) by (simp add: withdraw_take_pnl_def)
next
  case False
  then have "pr_amm r = amm\<lparr>amm_state_data := amm_state_data amm\<rparr>"
    using assms by (auto simp: withdraw_take_pnl_def)
  then show ?thesis by blast
qed

lemma process_withdraw_effects:
  assumes "process_withdraw R pid accounts withdraw w = Done w'"
    and "amm_load w (accounts ! 1) = Done amm0"
  shows "\<exists>A s pc coin r w1 x1 y1 c p lp epoch pre x y target.
    withdraw_parse_accounts accounts = Done A \<and> is_signer (wd_source_owner A) \<and>
    (\<exists>status. status_from_u64 (amm_status amm0) = Done status \<and> withdraw_permission status) \<and>
    withdraw_check R pid A amm0 withdraw w = Done s \<and>
    withdraw_totals R A amm0 s w = Done ((pc, coin), w1) \<and>
    target_orders_load w (wd_target_orders A) = Done target \<and>
    withdraw_take_pnl R target amm0 pc coin x1 y1 = Done r \<and>
    withdraw_quote (withdraw_amount withdraw) (lp_amount amm0) (pr_total_pc r) (pr_total_coin r) =
      Done (c, p) \<and>
    \<not> below_both_min (min_coin_amount withdraw) (min_pc_amount withdraw) c p \<and>
    0 < uint (withdraw_amount withdraw) \<and> c \<noteq> 0 \<and> p \<noteq> 0 \<and>
    withdraw_amount withdraw \<le> ta_amount (ws_source_lp s) \<and>
    c < ta_amount (ws_coin_vault s) \<and> p < ta_amount (ws_pc_vault s) \<and>
    cpis w' = cpis w @ pre @
      [pool_transfer (wd_token_program A) (wd_coin_vault A) (wd_dest_coin A) (wd_authority A)
         (as_u8 (amm_nonce amm0)) c,
       pool_transfer (wd_token_program A) (wd_pc_vault A) (wd_dest_pc A) (wd_authority A)
         (as_u8 (amm_nonce amm0)) p,
       user_burn (wd_token_program A) (wd_source_lp A) (wd_lp_mint A) (wd_source_owner A)
         (withdraw_amount withdraw)] \<and>
    cpis w1 = cpis w @ pre \<and> (\<forall>c\<in>set pre. market_call c) \<and> (\<not> ws_orderbook s \<longrightarrow> pre = []) \<and>
    amm_load w' (wd_amm A) = Done ((pr_amm r)\<lparr>lp_amount := lp, recent_epoch := epoch\<rparr>) \<and>
    uint lp = uint (lp_amount amm0) - uint (withdraw_amount withdraw) \<and> 0 < uint lp \<and>
    (\<exists>sd. pr_amm r = amm0\<lparr>amm_state_data := sd\<rparr>) \<and>
    target_orders_load w' (wd_target_orders A) = Done (target\<lparr>calc_pnl_x := x, calc_pnl_y := y\<rparr>)"
proof -
  obtain A s pc coin w1 x1 y1 target r c p w2 lp x y clock amm where
    A: "withdraw_parse_accounts accounts = Done A" and
    sig: "is_signer (wd_source_owner A)" and
    l0: "amm_load_mut_checked w (wd_amm A) pid = Done amm" and
    tl: "target_orders_load_mut_checked R w (wd_target_orders A) pid (ai_key (wd_amm A)) = Done target" and
    s: "withdraw_check R pid A amm withdraw w = Done s" and
    tot: "withdraw_totals R A amm s w = Done ((pc, coin), w1)" and
    r: "withdraw_take_pnl R target amm pc coin x1 y1 = Done r" and
    q: "withdraw_quote (withdraw_amount withdraw) (lp_amount (pr_amm r)) (pr_total_pc r)
      (pr_total_coin r) = Done (c, p)" and
    f: "withdraw_amount withdraw \<noteq> 0" "c \<noteq> 0" "p \<noteq> 0" "c < ta_amount (ws_coin_vault s)"
      "p < ta_amount (ws_pc_vault s)" and
    min: "\<not> below_both_min (min_coin_amount withdraw) (min_pc_amount withdraw) c p" and
    t: "withdraw_transfers R A (pr_amm r) c p (withdraw_amount withdraw) w1 = Done w2" and
    lp: "checked_sub (lp_amount (pr_amm r)) (withdraw_amount withdraw) = Some lp" and
    w': "w' = amm_store (wd_amm A) ((pr_amm r)\<lparr>lp_amount := lp, recent_epoch := clk_epoch (clock :: clock)\<rparr>)
      (target_orders_store (wd_target_orders A) (target\<lparr>calc_pnl_x := x, calc_pnl_y := y\<rparr>) w2)"
    using assms(1)
    by (auto simp: process_withdraw_def and_then_Done Let_def split: if_splits)
  have same0: "amm = amm0"
    using l0 assms(2) withdraw_parse_amm [OF A] by (simp add: amm_load_mut_checked_Done)
  note l0 = l0 [unfolded same0] and s = s [unfolded same0] and tot = tot [unfolded same0]
    and r = r [unfolded same0] and lp = lp [unfolded checked_sub_Some]
    and tl = tl [unfolded target_orders_load_mut_checked_Done, THEN conjunct2, THEN conjunct1]
  have load: "amm_load w (wd_amm A) = Done amm0"
    using l0 by (simp add: amm_load_mut_checked_Done)
  note chk = withdraw_check_Done [OF s]
  obtain sd where sd: "pr_amm r = amm0\<lparr>amm_state_data := sd\<rparr>"
    "sd_padding sd = sd_padding (amm_state_data amm0)"
    using withdraw_take_pnl_fields [OF r] by blast
  have "wf_amm ((pr_amm r)\<lparr>lp_amount := lp, recent_epoch := clk_epoch clock\<rparr>)"
    using amm_load_wf [OF load] sd by (simp add: wf_amm_def)
  moreover have "wf_target_orders (target\<lparr>calc_pnl_x := x, calc_pnl_y := y\<rparr>)"
    using target_orders_load_wf [OF tl] by (simp add: wf_target_orders_def)
  ultimately have "amm_load w' (wd_amm A) = Done ((pr_amm r)\<lparr>lp_amount := lp, recent_epoch := clk_epoch clock\<rparr>)"
    "target_orders_load w' (wd_target_orders A) = Done (target\<lparr>calc_pnl_x := x, calc_pnl_y := y\<rparr>)"
    and calls: "cpis w' = cpis w2"
    unfolding w' using load_stores different_structs [OF load tl] by blast+
  moreover have same: "lp_amount (pr_amm r) = lp_amount amm0" "amm_nonce (pr_amm r) = amm_nonce amm0"
    using sd by simp_all
  moreover have "\<exists>sd. pr_amm r = amm0\<lparr>amm_state_data := sd\<rparr>"
    using sd(1) by blast
  moreover obtain pre where "cpis w1 = cpis w @ pre" and "\<forall>c\<in>set pre. market_call c"
    and "\<not> ws_orderbook s \<longrightarrow> pre = []"
    using withdraw_totals_cpis [OF tot] by blast
  moreover have "cpis w' = cpis w1 @
      [pool_transfer (wd_token_program A) (wd_coin_vault A) (wd_dest_coin A) (wd_authority A)
         (as_u8 (amm_nonce amm0)) c,
       pool_transfer (wd_token_program A) (wd_pc_vault A) (wd_dest_pc A) (wd_authority A)
         (as_u8 (amm_nonce amm0)) p,
       user_burn (wd_token_program A) (wd_source_lp A) (wd_lp_mint A) (wd_source_owner A)
         (withdraw_amount withdraw)]"
    using withdraw_transfers_cpis [OF t] calls same by simp
  moreover have "0 < uint lp" "0 < uint (withdraw_amount withdraw)"
    using chk(3) lp same uint_pos [OF f(1)] by (simp_all add: word_less_def)
  moreover note A sig s tl tot r f min chk(1,2) q [unfolded same] lp [unfolded same]
  ultimately show ?thesis
    by (metis append_assoc)
qed

text \<open>
  C4: a withdrawal that succeeds is signed by the owner of the shares on a pool whose status
  permits it, keeps both lower bounds where both are given, and burns fewer shares than the
  pool counts and no more than the account holds.
  After the calls that take the pool's orders off the market, if it has any, come exactly
  the two transfers of the quoted amounts out of the vaults, either below the vault's
  balance, and the burn of the shares. The stored pool counts that many shares fewer.
\<close>

theorem process_withdraw_correct:
  assumes "process_withdraw R pid accounts withdraw w = Done w'"
    and "amm_load w (accounts ! 1) = Done amm0"
  shows "\<exists>A s pc coin r w1 x1 y1 c p lp epoch pre x y target.
    withdraw_parse_accounts accounts = Done A \<and> is_signer (wd_source_owner A) \<and>
    (\<exists>status. status_from_u64 (amm_status amm0) = Done status \<and> withdraw_permission status) \<and>
    withdraw_check R pid A amm0 withdraw w = Done s \<and>
    withdraw_totals R A amm0 s w = Done ((pc, coin), w1) \<and>
    target_orders_load w (wd_target_orders A) = Done target \<and>
    withdraw_take_pnl R target amm0 pc coin x1 y1 = Done r \<and>
    withdraw_quote (withdraw_amount withdraw) (lp_amount amm0) (pr_total_pc r) (pr_total_coin r) =
      Done (c, p) \<and>
    \<not> below_both_min (min_coin_amount withdraw) (min_pc_amount withdraw) c p \<and>
    0 < uint (withdraw_amount withdraw) \<and> c \<noteq> 0 \<and> p \<noteq> 0 \<and>
    withdraw_amount withdraw \<le> ta_amount (ws_source_lp s) \<and>
    c < ta_amount (ws_coin_vault s) \<and> p < ta_amount (ws_pc_vault s) \<and>
    cpis w' = cpis w @ pre @
      [pool_transfer (wd_token_program A) (wd_coin_vault A) (wd_dest_coin A) (wd_authority A)
         (as_u8 (amm_nonce amm0)) c,
       pool_transfer (wd_token_program A) (wd_pc_vault A) (wd_dest_pc A) (wd_authority A)
         (as_u8 (amm_nonce amm0)) p,
       user_burn (wd_token_program A) (wd_source_lp A) (wd_lp_mint A) (wd_source_owner A)
         (withdraw_amount withdraw)] \<and>
    cpis w1 = cpis w @ pre \<and> (\<forall>c\<in>set pre. market_call c) \<and> (\<not> ws_orderbook s \<longrightarrow> pre = []) \<and>
    amm_load w' (wd_amm A) = Done ((pr_amm r)\<lparr>lp_amount := lp, recent_epoch := epoch\<rparr>) \<and>
    uint lp = uint (lp_amount amm0) - uint (withdraw_amount withdraw) \<and> 0 < uint lp \<and>
    (\<exists>sd. pr_amm r = amm0\<lparr>amm_state_data := sd\<rparr>) \<and>
    target_orders_load w' (wd_target_orders A) = Done (target\<lparr>calc_pnl_x := x, calc_pnl_y := y\<rparr>)"
  by (rule process_withdraw_effects [OF assms])

definition sample_withdraw :: withdraw_instruction where
  "sample_withdraw = \<lparr>withdraw_amount = 101, min_coin_amount = None, min_pc_amount = None\<rparr>"

definition sample_withdraw_accounts :: "account_info list" where
  "sample_withdraw_accounts = map sample_info
     [1, 100, 50, 101, 102, 103, 104, 105, 112, 106, 122, 123, 124, 109, 107, 108, 110, 125, 120, 121]"

lemma sample_withdraw_run:
  "\<exists>w'. process_withdraw sample_runtime 7 sample_withdraw_accounts sample_withdraw sample_world = Done w'"
  by (simp add: process_withdraw_def and_then_Done withdraw_parse_accounts_def
      sample_withdraw_accounts_def withdraw_check_def sample_withdraw_def check_referrer_def
      status_from_u64_def authority_id_def withdraw_totals_def withdraw_take_pnl_def
      calc_total_without_take_pnl_no_orderbook_def checked_sub_def sample_state_data_def
      sample_unpack_mint sample_normalize sample_calc_take_pnl sample_withdraw_quote withdraw_transfers_def
      token_burn_def token_transfer_with_authority_def withdraw_calc_pnl_def widen_def below_both_min_def)

theorem process_withdraw_correct_witness:
  "\<exists>w' A c p pre lp epoch amm. process_withdraw sample_runtime 7 sample_withdraw_accounts sample_withdraw
       sample_world = Done w' \<and>
     withdraw_parse_accounts sample_withdraw_accounts = Done A \<and> c \<noteq> 0 \<and> p \<noteq> 0 \<and>
     cpis w' = pre @
      [pool_transfer (wd_token_program A) (wd_coin_vault A) (wd_dest_coin A) (wd_authority A) (as_u8 254) c,
       pool_transfer (wd_token_program A) (wd_pc_vault A) (wd_dest_pc A) (wd_authority A) (as_u8 254) p,
       user_burn (wd_token_program A) (wd_source_lp A) (wd_lp_mint A) (wd_source_owner A) 101] \<and>
     amm_load w' (wd_amm A) = Done (amm\<lparr>lp_amount := lp, recent_epoch := epoch\<rparr>) \<and> uint lp = 1899"
proof -
  obtain w' where run: "process_withdraw sample_runtime 7 sample_withdraw_accounts sample_withdraw
      sample_world = Done w'"
    using sample_withdraw_run by blast
  have "amm_load sample_world (sample_withdraw_accounts ! 1) = Done sample_amm"
    by (simp add: sample_withdraw_accounts_def)
  moreover have "cpis sample_world = []" "withdraw_amount sample_withdraw = 101"
    by (simp_all add: sample_world_def sample_withdraw_def)
  ultimately show ?thesis
    using process_withdraw_correct [OF run, of sample_amm] run
    by (simp only: sample_amm_simps append.simps) fastforce
qed

lemma withdrawpnl_parse_amm:
  "withdrawpnl_parse_accounts accounts = Done A \<Longrightarrow>
     pn_amm A = accounts ! 1 \<and> pn_target_orders A = accounts ! 10"
  by (auto simp: withdrawpnl_parse_accounts_def split: if_splits)

text \<open>Who may take the profit: the fixed admin key or the owner named in the program's config.\<close>

lemma withdrawpnl_check_Done:
  assumes "withdrawpnl_check R pid A amm w = Done s"
  shows "is_signer (pn_owner A)"
    and "\<exists>config. config_load_checked w (pn_config A) pid = Done config \<and>
      (ai_key (pn_owner A) = amm_owner_id \<or> ai_key (pn_owner A) = pnl_owner config)"
    and "target_orders_load w (pn_target_orders A) = Done (ps_target s)"
    and "fst (rt_find_program_address R [AMM_CONFIG_SEED] pid) = ai_key (pn_config A)"
  using assms
  by (auto simp: withdrawpnl_check_def and_then_Done Let_def target_orders_load_mut_checked_Done
      config_address_ok_def)

lemma process_withdrawpnl_effects:
  assumes "process_withdrawpnl R pid accounts w = Done w'"
    and "amm_load w (accounts ! 1) = Done amm0"
  shows "\<exists>A s pc coin r x1 y1 config c p sd epoch x y.
    withdrawpnl_parse_accounts accounts = Done A \<and> is_signer (pn_owner A) \<and>
    config_load_checked w (pn_config A) pid = Done config \<and>
    fst (rt_find_program_address R [AMM_CONFIG_SEED] pid) = ai_key (pn_config A) \<and>
    (ai_key (pn_owner A) = amm_owner_id \<or> ai_key (pn_owner A) = pnl_owner config) \<and>
    withdrawpnl_check R pid A amm0 w = Done s \<and>
    withdrawpnl_totals R A amm0 s w = Done (pc, coin) \<and>
    calc_take_pnl R (ps_target s) amm0 pc coin (widen (x1 :: u128)) (widen (y1 :: u128)) = Done r \<and>
    uint p = uint (need_take_pnl_pc (amm_state_data amm0)) + (uint pc - uint (pr_total_pc r)) \<and>
    uint c = uint (need_take_pnl_coin (amm_state_data amm0)) + (uint coin - uint (pr_total_coin r)) \<and>
    c \<le> ta_amount (ps_coin_vault s) \<and> p \<le> ta_amount (ps_pc_vault s) \<and>
    cpis w' = cpis w @
      [pool_transfer (pn_token_program A) (pn_coin_vault A) (pn_user_coin A) (pn_authority A)
         (as_u8 (amm_nonce amm0)) c,
       pool_transfer (pn_token_program A) (pn_pc_vault A) (pn_user_pc A) (pn_authority A)
         (as_u8 (amm_nonce amm0)) p] \<and>
    amm_load w' (pn_amm A) = Done (amm0\<lparr>amm_state_data := sd, recent_epoch := epoch\<rparr>) \<and>
    need_take_pnl_coin sd = 0 \<and> need_take_pnl_pc sd = 0 \<and>
    target_orders_load w' (pn_target_orders A) = Done ((ps_target s)\<lparr>calc_pnl_x := x, calc_pnl_y := y\<rparr>)"
proof -
  obtain A s pc coin x1 y1 r w1 w2 x y clock amm where
    A: "withdrawpnl_parse_accounts accounts = Done A" and
    l0: "amm_load_mut_checked w (pn_amm A) pid = Done amm" and
    s: "withdrawpnl_check R pid A amm w = Done s" and
    tot: "withdrawpnl_totals R A amm s w = Done (pc, coin)" and
    r: "calc_take_pnl R (ps_target s) amm pc coin (widen (x1 :: u128)) (widen (y1 :: u128)) = Done r" and
    f: "need_take_pnl_coin (amm_state_data (pr_amm r)) \<le> ta_amount (ps_coin_vault s)"
      "need_take_pnl_pc (amm_state_data (pr_amm r)) \<le> ta_amount (ps_pc_vault s)" and
    t: "token_transfer_with_authority R (pn_token_program A) (pn_coin_vault A) (pn_user_coin A)
         (pn_authority A) AUTHORITY_AMM (as_u8 (amm_nonce (pr_amm r)))
         (need_take_pnl_coin (amm_state_data (pr_amm r))) w = Done w1"
      "token_transfer_with_authority R (pn_token_program A) (pn_pc_vault A) (pn_user_pc A)
         (pn_authority A) AUTHORITY_AMM (as_u8 (amm_nonce (pr_amm r)))
         (need_take_pnl_pc (amm_state_data (pr_amm r))) w1 = Done w2" and
    w': "w' = amm_store (pn_amm A)
      ((pr_amm r)\<lparr>amm_state_data := (amm_state_data (pr_amm r))\<lparr>need_take_pnl_coin := 0, need_take_pnl_pc := 0\<rparr>,
        recent_epoch := clk_epoch (clock :: clock)\<rparr>)
      (target_orders_store (pn_target_orders A) ((ps_target s)\<lparr>calc_pnl_x := x, calc_pnl_y := y\<rparr>) w2)"
    using assms(1)
    by (auto simp: process_withdrawpnl_def and_then_Done Let_def split: if_splits)
  have same0: "amm = amm0"
    using l0 assms(2) withdrawpnl_parse_amm [OF A] by (simp add: amm_load_mut_checked_Done)
  note l0 = l0 [unfolded same0] and s = s [unfolded same0] and tot = tot [unfolded same0]
    and r = r [unfolded same0]
  have load: "amm_load w (pn_amm A) = Done amm0"
    using l0 by (simp add: amm_load_mut_checked_Done)
  note chk = withdrawpnl_check_Done [OF s] and sums = calc_take_pnl_totals [OF r]
  obtain sd where sd: "pr_amm r = amm0\<lparr>amm_state_data := sd\<rparr>"
    "sd_padding sd = sd_padding (amm_state_data amm0)"
    using sums(5) by blast
  define sd' where "sd' = sd\<lparr>need_take_pnl_coin := 0, need_take_pnl_pc := 0\<rparr>"
  have "wf_amm (amm0\<lparr>amm_state_data := sd', recent_epoch := clk_epoch clock\<rparr>)"
    using amm_load_wf [OF load] sd by (simp add: wf_amm_def sd'_def)
  moreover have "wf_target_orders ((ps_target s)\<lparr>calc_pnl_x := x, calc_pnl_y := y\<rparr>)"
    using target_orders_load_wf [OF chk(3)] by (simp add: wf_target_orders_def)
  moreover have "w' = amm_store (pn_amm A) (amm0\<lparr>amm_state_data := sd', recent_epoch := clk_epoch clock\<rparr>)
      (target_orders_store (pn_target_orders A) ((ps_target s)\<lparr>calc_pnl_x := x, calc_pnl_y := y\<rparr>) w2)"
    unfolding w' sd(1) sd'_def by simp
  ultimately have "amm_load w' (pn_amm A) = Done (amm0\<lparr>amm_state_data := sd', recent_epoch := clk_epoch clock\<rparr>)"
    "target_orders_load w' (pn_target_orders A) = Done ((ps_target s)\<lparr>calc_pnl_x := x, calc_pnl_y := y\<rparr>)"
    and calls: "cpis w' = cpis w2"
    using load_stores different_structs [OF load chk(3)] by blast+
  moreover have "cpis w' = cpis w @
      [pool_transfer (pn_token_program A) (pn_coin_vault A) (pn_user_coin A) (pn_authority A)
         (as_u8 (amm_nonce amm0)) (need_take_pnl_coin (amm_state_data (pr_amm r))),
       pool_transfer (pn_token_program A) (pn_pc_vault A) (pn_user_pc A) (pn_authority A)
         (as_u8 (amm_nonce amm0)) (need_take_pnl_pc (amm_state_data (pr_amm r)))]"
    using t sd(1) unfolding calls by (auto dest!: token_call_cpis)
  moreover have "need_take_pnl_coin sd' = 0" "need_take_pnl_pc sd' = 0"
    by (simp_all add: sd'_def)
  moreover have "uint (need_take_pnl_pc (amm_state_data (pr_amm r))) =
      uint (need_take_pnl_pc (amm_state_data amm0)) + (uint pc - uint (pr_total_pc r))"
    "uint (need_take_pnl_coin (amm_state_data (pr_amm r))) =
      uint (need_take_pnl_coin (amm_state_data amm0)) + (uint coin - uint (pr_total_coin r))"
    using sums(1,2) by simp_all
  moreover note A s tot r f chk(1,2,4)
  ultimately show ?thesis
    by metis
qed

text \<open>
  C11: the profit is paid only to a signature of the admin key or of the config's owner, with
  the config at the program's derived address. The two transfers pay exactly what is owed
  after this call's share is set aside, which is what was owed before plus what left the
  totals; the vaults cover both, and the stored pool owes nothing afterwards and keeps its
  shares.
\<close>

theorem process_withdrawpnl_correct:
  assumes "process_withdrawpnl R pid accounts w = Done w'"
    and "amm_load w (accounts ! 1) = Done amm0"
  shows "\<exists>A s pc coin r x1 y1 config c p sd epoch x y.
    withdrawpnl_parse_accounts accounts = Done A \<and> is_signer (pn_owner A) \<and>
    config_load_checked w (pn_config A) pid = Done config \<and>
    fst (rt_find_program_address R [AMM_CONFIG_SEED] pid) = ai_key (pn_config A) \<and>
    (ai_key (pn_owner A) = amm_owner_id \<or> ai_key (pn_owner A) = pnl_owner config) \<and>
    withdrawpnl_check R pid A amm0 w = Done s \<and>
    withdrawpnl_totals R A amm0 s w = Done (pc, coin) \<and>
    calc_take_pnl R (ps_target s) amm0 pc coin (widen (x1 :: u128)) (widen (y1 :: u128)) = Done r \<and>
    uint p = uint (need_take_pnl_pc (amm_state_data amm0)) + (uint pc - uint (pr_total_pc r)) \<and>
    uint c = uint (need_take_pnl_coin (amm_state_data amm0)) + (uint coin - uint (pr_total_coin r)) \<and>
    c \<le> ta_amount (ps_coin_vault s) \<and> p \<le> ta_amount (ps_pc_vault s) \<and>
    cpis w' = cpis w @
      [pool_transfer (pn_token_program A) (pn_coin_vault A) (pn_user_coin A) (pn_authority A)
         (as_u8 (amm_nonce amm0)) c,
       pool_transfer (pn_token_program A) (pn_pc_vault A) (pn_user_pc A) (pn_authority A)
         (as_u8 (amm_nonce amm0)) p] \<and>
    amm_load w' (pn_amm A) = Done (amm0\<lparr>amm_state_data := sd, recent_epoch := epoch\<rparr>) \<and>
    need_take_pnl_coin sd = 0 \<and> need_take_pnl_pc sd = 0 \<and>
    target_orders_load w' (pn_target_orders A) = Done ((ps_target s)\<lparr>calc_pnl_x := x, calc_pnl_y := y\<rparr>)"
  by (rule process_withdrawpnl_effects [OF assms])

definition sample_pnl_accounts :: "account_info list" where
  "sample_pnl_accounts = map sample_info
     [1, 100, 60, 50, 101, 104, 105, 107, 108, 110, 102, 112, 106, 125, 122, 123, 124]"

lemma sample_withdrawpnl_run:
  "\<exists>w'. process_withdrawpnl sample_runtime 7 sample_pnl_accounts sample_world = Done w'"
  by (simp add: process_withdrawpnl_def and_then_Done withdrawpnl_parse_accounts_def
      sample_pnl_accounts_def withdrawpnl_check_def withdrawpnl_referrer_def config_address_ok_def
      sample_config_def [THEN arg_cong [of _ _ pnl_owner]]
      status_from_u64_def authority_id_def withdrawpnl_totals_def
      calc_total_without_take_pnl_no_orderbook_def checked_sub_def sample_state_data_def
      sample_normalize sample_calc_take_pnl token_transfer_with_authority_def widen_def)

theorem process_withdrawpnl_correct_witness:
  "\<exists>w' A c p sd epoch. process_withdrawpnl sample_runtime 7 sample_pnl_accounts sample_world = Done w' \<and>
     withdrawpnl_parse_accounts sample_pnl_accounts = Done A \<and>
     cpis w' =
      [pool_transfer (pn_token_program A) (pn_coin_vault A) (pn_user_coin A) (pn_authority A) (as_u8 254) c,
       pool_transfer (pn_token_program A) (pn_pc_vault A) (pn_user_pc A) (pn_authority A) (as_u8 254) p] \<and>
     amm_load w' (pn_amm A) = Done (sample_amm\<lparr>amm_state_data := sd, recent_epoch := epoch\<rparr>) \<and>
     need_take_pnl_coin sd = 0 \<and> need_take_pnl_pc sd = 0"
proof -
  obtain w' where run: "process_withdrawpnl sample_runtime 7 sample_pnl_accounts sample_world = Done w'"
    using sample_withdrawpnl_run by blast
  have "amm_load sample_world (sample_pnl_accounts ! 1) = Done sample_amm"
    by (simp add: sample_pnl_accounts_def)
  moreover have "cpis sample_world = []"
    by (simp add: sample_world_def)
  ultimately show ?thesis
    using process_withdrawpnl_correct [OF run, of sample_amm] run
    by (simp only: sample_amm_simps append.simps) fastforce
qed

end
