(* ===== verification/Pool.thy ===== *)
theory Pool
  imports Swap Deposit Withdraw
begin

text \<open>
  An abstract pool: its two totals and its shares. Its steps are the quotes of the program, and
  no sequence of steps lowers the value of a share: \<open>pc \<cdot> coin / shares\<^sup>2\<close> never falls. A step
  may be labelled with the instruction that asks for it and the fees of the pool; theory
  \<open>Trades\<close> refines the four trading handlers to the labelled steps.
\<close>

section \<open>The abstract pool\<close>

record pool =
  pool_pc :: int
  pool_coin :: int
  pool_lp :: int

definition live :: "pool \<Rightarrow> bool" where
  "live s \<longleftrightarrow> 0 < pool_pc s \<and> 0 < pool_coin s \<and> 0 < pool_lp s"

text \<open>The value of a share squared does not fall, without division.\<close>

definition value_kept :: "pool \<Rightarrow> pool \<Rightarrow> bool" where
  "value_kept s s' \<longleftrightarrow>
     pool_pc s * pool_coin s * (pool_lp s' * pool_lp s') \<le>
     pool_pc s' * pool_coin s' * (pool_lp s * pool_lp s)"

definition pool_of :: "u64 \<Rightarrow> u64 \<Rightarrow> u64 \<Rightarrow> pool" where
  "pool_of pc coin lp = \<lparr>pool_pc = uint pc, pool_coin = uint coin, pool_lp = uint lp\<rparr>"

fun traded :: "swap_direction \<Rightarrow> u64 \<Rightarrow> u64 \<Rightarrow> pool \<Rightarrow> pool" where
  "traded Coin2PC i out s = s\<lparr>pool_coin := pool_coin s + uint i, pool_pc := pool_pc s - uint out\<rparr>"
| "traded PC2Coin i out s = s\<lparr>pool_pc := pool_pc s + uint i, pool_coin := pool_coin s - uint out\<rparr>"

inductive pool_step :: "pool \<Rightarrow> pool \<Rightarrow> bool" where
  Deposited: "deposit_quote deposit lp pc coin = Done (c, p, l) \<Longrightarrow> c \<noteq> 0 \<Longrightarrow> p \<noteq> 0 \<Longrightarrow>
    pool_step (pool_of pc coin lp)
      \<lparr>pool_pc = uint pc + uint p, pool_coin = uint coin + uint c, pool_lp = uint lp + uint l\<rparr>"
| Withdrawn: "withdraw_quote amount lp pc coin = Done (c, p) \<Longrightarrow> amount < lp \<Longrightarrow>
    pool_step (pool_of pc coin lp)
      \<lparr>pool_pc = uint pc - uint p, pool_coin = uint coin - uint c, pool_lp = uint lp - uint amount\<rparr>"
| SwappedIn: "swap_in_quote f amount pc coin d = Done (fee, out) \<Longrightarrow>
    swap_fee_numerator f \<le> swap_fee_denominator f \<Longrightarrow> out < reserve_out d pc coin \<Longrightarrow>
    pool_step (pool_of pc coin lp) (traded d amount out (pool_of pc coin lp))"
| SwappedOut: "swap_out_quote f amount pc coin d = Done (input, fee) \<Longrightarrow> input \<noteq> 0 \<Longrightarrow>
    pool_step (pool_of pc coin lp) (traded d input amount (pool_of pc coin lp))"

text \<open>
  The step that an instruction asks for, on a pool with given fees: its amounts are the quote's
  for the amounts in the instruction, none is zero, and the limits in the instruction hold.
\<close>

inductive trade_step :: "fees \<Rightarrow> amm_instruction \<Rightarrow> pool \<Rightarrow> pool \<Rightarrow> bool" for f where
  deposit_step: "deposit_quote deposit lp pc coin = Done (c, p, l) \<Longrightarrow> c \<noteq> 0 \<Longrightarrow> p \<noteq> 0 \<Longrightarrow> l \<noteq> 0 \<Longrightarrow>
    c \<le> max_coin_amount deposit \<Longrightarrow> p \<le> max_pc_amount deposit \<Longrightarrow>
    trade_step f (Deposit deposit) (pool_of pc coin lp)
      \<lparr>pool_pc = uint pc + uint p, pool_coin = uint coin + uint c, pool_lp = uint lp + uint l\<rparr>"
| withdraw_step: "withdraw_quote (withdraw_amount withdraw) lp pc coin = Done (c, p) \<Longrightarrow>
    withdraw_amount withdraw \<noteq> 0 \<Longrightarrow> c \<noteq> 0 \<Longrightarrow> p \<noteq> 0 \<Longrightarrow> withdraw_amount withdraw < lp \<Longrightarrow>
    \<not> below_both_min (min_coin_amount withdraw) (min_pc_amount withdraw) c p \<Longrightarrow>
    trade_step f (Withdraw withdraw) (pool_of pc coin lp)
      \<lparr>pool_pc = uint pc - uint p, pool_coin = uint coin - uint c,
       pool_lp = uint lp - uint (withdraw_amount withdraw)\<rparr>"
| swap_in_step: "swap_in_quote f (amount_in swap) pc coin d = Done (fee, out) \<Longrightarrow>
    amount_in swap \<noteq> 0 \<Longrightarrow> out \<noteq> 0 \<Longrightarrow> minimum_amount_out swap \<le> out \<Longrightarrow>
    out < reserve_out d pc coin \<Longrightarrow>
    trade_step f (SwapBaseIn swap) (pool_of pc coin lp) (traded d (amount_in swap) out (pool_of pc coin lp))"
| swap_out_step: "swap_out_quote f (amount_out swap') pc coin d = Done (input, fee') \<Longrightarrow>
    input \<noteq> 0 \<Longrightarrow> amount_out swap' \<noteq> 0 \<Longrightarrow> input \<le> max_amount_in swap' \<Longrightarrow>
    trade_step f (SwapBaseOut swap') (pool_of pc coin lp)
      (traded d input (amount_out swap') (pool_of pc coin lp))"

lemma trade_step_pool_step:
  assumes "trade_step f i s s'" and "swap_fee_numerator f \<le> swap_fee_denominator f"
  shows "pool_step s s'"
  using assms by (induction rule: trade_step.induct) (auto intro: pool_step.intros)

section \<open>Every step keeps the value of a share\<close>

lemma value_kept_trans:
  assumes "value_kept s t" and "value_kept t u" and "live s" and "live t" and "live u"
  shows "value_kept s u"
proof -
  have "0 < pool_lp t * pool_lp t" "0 \<le> pool_lp u * pool_lp u" "0 \<le> pool_lp s * pool_lp s"
    using assms(3-5) by (simp_all add: live_def)
  note m = this
  have "(pool_pc s * pool_coin s * (pool_lp t * pool_lp t)) * (pool_lp u * pool_lp u) \<le>
      (pool_pc t * pool_coin t * (pool_lp s * pool_lp s)) * (pool_lp u * pool_lp u)"
    using assms(1) m(2) unfolding value_kept_def by (rule mult_right_mono)
  also have "\<dots> = (pool_pc t * pool_coin t * (pool_lp u * pool_lp u)) * (pool_lp s * pool_lp s)"
    by (simp add: ac_simps)
  also have "\<dots> \<le> (pool_pc u * pool_coin u * (pool_lp t * pool_lp t)) * (pool_lp s * pool_lp s)"
    using assms(2) m(3) unfolding value_kept_def by (rule mult_right_mono)
  finally have "(pool_pc s * pool_coin s * (pool_lp u * pool_lp u)) * (pool_lp t * pool_lp t) \<le>
      (pool_pc u * pool_coin u * (pool_lp s * pool_lp s)) * (pool_lp t * pool_lp t)"
    by (simp add: ac_simps)
  then show ?thesis
    using m(1) unfolding value_kept_def by (simp add: mult_le_cancel_right)
qed

lemma value_kept_pro_rata:
  assumes "pool_pc s * pool_lp s' \<le> pool_pc s' * pool_lp s"
    and "pool_coin s * pool_lp s' \<le> pool_coin s' * pool_lp s"
    and "live s" and "live s'"
  shows "value_kept s s'"
proof -
  have "(pool_pc s * pool_lp s') * (pool_coin s * pool_lp s') \<le>
      (pool_pc s' * pool_lp s) * (pool_coin s' * pool_lp s)"
    using assms(3,4) by (intro mult_mono assms(1,2)) (simp_all add: live_def)
  then show ?thesis
    unfolding value_kept_def by (simp add: ac_simps)
qed

lemma value_kept_trade:
  assumes "uint (reserve_in d pc coin) * uint (reserve_out d pc coin) \<le>
      (uint (reserve_in d pc coin) + uint i) * (uint (reserve_out d pc coin) - uint out)"
  shows "value_kept (pool_of pc coin lp) (traded d i out (pool_of pc coin lp))"
proof -
  have "uint pc * uint coin \<le> pool_pc (traded d i out (pool_of pc coin lp)) *
      pool_coin (traded d i out (pool_of pc coin lp))"
    using assms by (cases d) (simp_all add: pool_of_def ac_simps)
  moreover have "pool_lp (traded d i out (pool_of pc coin lp)) = uint lp"
    by (cases d) (simp_all add: pool_of_def)
  ultimately show ?thesis
    by (simp add: value_kept_def pool_of_def mult_right_mono)
qed

lemma live_traded:
  "live (pool_of pc coin lp) \<Longrightarrow> out < reserve_out d pc coin \<Longrightarrow>
     live (traded d i out (pool_of pc coin lp))"
  by (cases d) (auto simp: live_def pool_of_def word_less_def add_pos_nonneg)

lemma withdraw_leaves:
  assumes "withdraw_quote amount lp pc coin = Done (c, p)" and "amount < lp"
    and "0 < uint pc" and "0 < uint coin"
  shows "uint c < uint coin \<and> uint p < uint pc"
proof -
  note f = withdraw_quote_facts [OF assms(1)]
  have "x < t" if "x * uint lp \<le> t * uint amount" "0 < t" for x t
  proof -
    have "x * uint lp < t * uint lp"
      using that(1) mult_strict_left_mono [OF assms(2) [unfolded word_less_def] that(2)]
      by (rule le_less_trans)
    then show "x < t" using f(3) by (simp add: mult_less_cancel_right)
  qed
  then show ?thesis using f(1,2) assms(3,4) by blast
qed

lemma step_keeps:
  assumes "pool_step s s'" and "live s"
  shows "live s' \<and> value_kept s s'"
  using assms
proof (induction rule: pool_step.induct)
  case (Deposited deposit lp pc coin c p l)
  note f = deposit_quote_facts [OF Deposited(1-3)]
  have "live \<lparr>pool_pc = uint pc + uint p, pool_coin = uint coin + uint c, pool_lp = uint lp + uint l\<rparr>"
    using Deposited(4) by (simp add: live_def pool_of_def add_pos_nonneg)
  then show ?case
    using value_kept_pro_rata [OF _ _ Deposited(4)] f(1,2) by (simp add: pool_of_def algebra_simps)
next
  case (Withdrawn amount lp pc coin c p)
  note f = withdraw_quote_facts [OF Withdrawn(1)]
  have "uint c < uint coin \<and> uint p < uint pc"
    using withdraw_leaves [OF Withdrawn(1,2)] Withdrawn(3) by (simp add: live_def pool_of_def)
  then have "live \<lparr>pool_pc = uint pc - uint p, pool_coin = uint coin - uint c, pool_lp = uint lp - uint amount\<rparr>"
    using Withdrawn(2) by (simp add: live_def word_less_def)
  then show ?case
    using value_kept_pro_rata [OF _ _ Withdrawn(3)] f(1,2) by (simp add: pool_of_def algebra_simps)
next
  case (SwappedIn f amount pc coin d fee out lp)
  then show ?case
    using live_traded value_kept_trade swap_in_quote_facts [OF SwappedIn(1,2)] by blast
next
  case (SwappedOut f amount pc coin d input fee lp)
  note q = swap_out_quote_facts [OF SwappedOut(1,2)]
  have "uint (reserve_in d pc coin) * uint (reserve_out d pc coin) \<le>
      (uint (reserve_in d pc coin) + uint input) * (uint (reserve_out d pc coin) - uint amount)"
    using q by (smt (verit) mult_right_mono uint_ge_0)
  then show ?case
    using live_traded [OF SwappedOut(3)] value_kept_trade q by (simp add: word_less_def)
qed

lemma trade_keeps:
  assumes "trade_step f i s s'" and "swap_fee_numerator f \<le> swap_fee_denominator f" and "live s"
  shows "live s' \<and> value_kept s s'"
  using step_keeps [OF trade_step_pool_step [OF assms(1,2)] assms(3)] .

text \<open>The steps of a pool, any number of them.\<close>

lemma steps_keep:
  assumes "pool_step\<^sup>*\<^sup>* s s'" and "live s"
  shows "live s' \<and> value_kept s s'"
  using assms
proof (induction rule: rtranclp_induct)
  case base
  then show ?case by (simp add: value_kept_def)
next
  case (step t u)
  then show ?case
    using step_keeps value_kept_trans by blast
qed

section \<open>The value of a share\<close>

text \<open>
  C30: no sequence of deposits, withdrawals and swaps, whatever their amounts, lowers the value
  of a share of a pool with tokens and shares, measured as \<open>pc \<cdot> coin / shares\<^sup>2\<close>, and none
  takes its last token or share: no trader gains at the other holders' expense.
\<close>

theorem pool_share_value:
  assumes "pool_step\<^sup>*\<^sup>* s s'" and "live s"
  shows "live s' \<and> pool_pc s * pool_coin s * (pool_lp s' * pool_lp s') \<le>
    pool_pc s' * pool_coin s' * (pool_lp s * pool_lp s)"
  using steps_keep [OF assms] by (simp add: value_kept_def)

text \<open>A deposit of 101 coin and 404 pc, then a swap of 400 coin.\<close>

lemma sample_pool_run:
  "pool_step\<^sup>*\<^sup>* (pool_of 4000 1000 2000) \<lparr>pool_pc = 3233, pool_coin = 1501, pool_lp = 2202\<rparr>"
proof -
  have q: "swap_in_quote sample_fees 400 4404 1101 Coin2PC = Done (1, 1171)" by code_simp
  have f: "swap_fee_numerator sample_fees \<le> swap_fee_denominator sample_fees" by code_simp
  have "pool_step (pool_of 4000 1000 2000) (pool_of 4404 1101 2202)"
    using Deposited [OF sample_deposit_quote] by (simp add: pool_of_def)
  moreover have "pool_step (pool_of 4404 1101 2202) (traded Coin2PC 400 1171 (pool_of 4404 1101 2202))"
    by (rule SwappedIn [OF q f]) simp
  ultimately show ?thesis
    by (simp add: pool_of_def)
qed

theorem pool_share_value_witness:
  "(4000 :: int) * 1000 * (2202 * 2202) \<le> 3233 * 1501 * (2000 * 2000)"
  using pool_share_value [OF sample_pool_run] by (simp add: live_def pool_of_def)

end
