(* ===== verification/Persist.thy ===== *)
theory Persist
  imports Simulate Initialize Pool
begin

text \<open>
  What every instruction keeps of every pool of the program. A handler does two things to the
  ledger: it calls other programs, which do not write this program's accounts, and it
  writes the structs it loaded back to their accounts. The locale \<open>pool_safe\<close> states what
  follows for the pools; each handler of \<open>program/src/processor.rs\<close> is an instance of it.
\<close>

section \<open>Calls\<close>

inductive calls :: "runtime \<Rightarrow> world \<Rightarrow> world \<Rightarrow> bool" for R where
  calls_none: "calls R w w"
| calls_more: "calls R w w1 \<Longrightarrow> invoke_signed R ix accts seeds w1 = Done w2 \<Longrightarrow> calls R w w2"

lemma calls_one: "invoke_signed R ix accts seeds w = Done w' \<Longrightarrow> calls R w w'"
  by (rule calls_more [OF calls_none])

lemma calls_trans:
  assumes "calls R w1 w2" and "calls R w w1"
  shows "calls R w w2"
  using assms by (induction rule: calls.induct) (auto intro: calls_more)

lemma invoker_calls:
  "create_ata_spl_token R a1 a2 a3 a4 a5 a6 a7 w = Done w' \<Longrightarrow> calls R w w'"
  "token_burn R a1 a2 a3 a4 n w = Done w' \<Longrightarrow> calls R w w'"
  "token_mint_to R a1 a2 a3 a4 seed nonce n w = Done w' \<Longrightarrow> calls R w w'"
  "token_transfer R a1 a2 a3 a4 n w = Done w' \<Longrightarrow> calls R w w'"
  "token_transfer_with_authority R a1 a2 a3 a4 seed nonce n w = Done w' \<Longrightarrow> calls R w w'"
  "invoke_dex_init_open_orders R a1 a2 a3 a4 a5 seed nonce w = Done w' \<Longrightarrow> calls R w w'"
  "invoke_dex_cancel_orders_by_client_order_ids R a1 a2 a3 a4 a5 a6 a7 seed nonce ids w = Done w' \<Longrightarrow> calls R w w'"
  "invoke_dex_settle_funds R a1 a2 a3 a4 a5 a6 a7 a8 a9 a10 ref seed nonce w = Done w' \<Longrightarrow> calls R w w'"
  by (simp_all add: invoker_defs calls_one)

lemma cancel_batches_only_calls:
  "cancel_batches R dex m b a oo auth q nonce batches w = Done w' \<Longrightarrow> calls R w w'"
  unfolding cancel_batches_def
proof (induction batches arbitrary: w)
  case Nil
  then show ?case by (simp add: calls_none)
next
  case (Cons ids batches)
  then show ?case by (auto simp: and_then_Done intro: calls_trans dest: invoker_calls(7))
qed

text \<open>The parts of the handlers that only call.\<close>

named_theorems only_calls

lemmas [only_calls] = invoker_calls calls_one cancel_batches_only_calls

lemma do_cancel_only_calls [only_calls]:
  "do_cancel_amm_orders R amm auth oo mp m b a q w = Done w' \<Longrightarrow> calls R w w'"
  by (auto simp: do_cancel_amm_orders_def and_then_Done dest: only_calls)

lemma deposit_only_calls [only_calls]:
  "deposit_transfers R A amm c p l w = Done w' \<Longrightarrow> calls R w w'"
  by (auto simp: deposit_transfers_def and_then_Done dest!: only_calls intro: calls_trans)

lemma withdraw_only_calls [only_calls]:
  "withdraw_transfers R A amm c p l w = Done w' \<Longrightarrow> calls R w w'"
  by (auto simp: withdraw_transfers_def and_then_Done dest!: only_calls intro: calls_trans)

lemma withdraw_totals_only_calls [only_calls]:
  "withdraw_totals R A amm s w = Done (totals, w') \<Longrightarrow> calls R w w'"
  by (auto simp: withdraw_totals_def and_then_Done calls_none split: if_splits
      dest!: only_calls intro: calls_trans)

lemma swap_only_calls [only_calls]:
  "swap_transfers R A vi vo amm i out w = Done w' \<Longrightarrow> calls R w w'"
  "swap_free_funds R A cv amm os b w = Done w' \<Longrightarrow> calls R w w'"
  by (auto simp: swap_transfers_def swap_free_funds_def and_then_Done calls_none split: if_splits
      dest!: only_calls intro: calls_trans)

lemma swap_leg_only_calls [only_calls]:
  "swap_in_coin_to_pc R A amm e T t i out fee w = Done (amm', w') \<Longrightarrow> calls R w w'"
  "swap_in_pc_to_coin R A amm e T t i out fee w = Done (amm', w') \<Longrightarrow> calls R w w'"
  "swap_out_coin_to_pc R A amm e T t i out fee' w = Done (amm', w') \<Longrightarrow> calls R w w'"
  "swap_out_pc_to_coin R A amm e T t i out fee' w = Done (amm', w') \<Longrightarrow> calls R w w'"
  by (auto simp: swap_in_coin_to_pc_def swap_in_pc_to_coin_def swap_out_coin_to_pc_def
      swap_out_pc_to_coin_def and_then_Done split: if_splits dest!: only_calls intro: calls_trans)

lemma set_params_only_calls [only_calls]:
  "set_params_clear_market R A amm w = Done w' \<Longrightarrow> calls R w w'"
  by (auto simp: set_params_clear_market_def and_then_Done dest!: only_calls intro: calls_trans)

lemma create_only_calls [only_calls]:
  "create_associated R e pid own m a u s rent seed n w = Done w' \<Longrightarrow> calls R w w'"
  by (auto simp: create_associated_def Let_def and_then_Done split: prod.splits if_splits
      dest!: only_calls intro: calls_trans)

lemma generate_only_calls [only_calls]:
  "generate_amm_associated_account R pid own m a u s rent seed n w = Done w' \<Longrightarrow> calls R w w'"
  "generate_amm_associated_spl_token R pid sid m a tm u s rent sp ow seed w = Done w' \<Longrightarrow> calls R w w'"
  "generate_amm_associated_spl_mint R pid sid m a u s rent sp ow seed d w = Done w' \<Longrightarrow> calls R w w'"
  by (auto simp: generate_amm_associated_account_def generate_amm_associated_spl_token_def
      generate_amm_associated_spl_mint_def and_then_Done dest!: only_calls intro: calls_trans)

lemma init_only_calls [only_calls]:
  "init_charge_fee R A config w = Done w' \<Longrightarrow> calls R w w'"
  "init_fund_vaults R A init w = Done w' \<Longrightarrow> calls R w w'"
  by (auto simp: init_charge_fee_def init_fund_vaults_def and_then_Done calls_none split: if_splits
      dest!: only_calls intro: calls_trans)

lemma init_create_only_calls [only_calls]:
  "init_create_accounts R pid A init m w = Done w' \<Longrightarrow> calls R w w'"
  by (auto simp: init_create_accounts_def Let_def and_then_Done dest!: only_calls) (meson calls_trans)

lemma migrate_only_calls [only_calls]:
  "migrate_leave R A amm w = Done (ms, w') \<Longrightarrow> calls R w w'"
  "migrate_enter R pid A amm w = Done (ms, w') \<Longrightarrow> calls R w w'"
  by (auto simp: migrate_leave_def migrate_enter_def and_then_Done split: if_splits
      dest!: only_calls intro: calls_trans)

lemma send_order_only_calls [only_calls]:
  "send_order R M nonce new_order sd payer p q mx cid w = Done w' \<Longrightarrow> calls R w w'"
  by (auto simp: send_order_def invoke_dex_new_order_v3_def invoke_dex_replace_order_by_client_id_def
      split: if_splits dest!: calls_one)

lemma place_order_only_calls [only_calls]:
  "place_order R M sd payer p q mx amm ids rep num w = Done (amm', ids', rep', num', w') \<Longrightarrow> calls R w w'"
  by (auto simp: place_order_def and_then_Done split: prod.splits dest!: only_calls)

lemma place_one_only_calls [only_calls]:
  "place_bid R M i st = Done (stop, st') \<Longrightarrow> calls R (ps_world st) (ps_world st')"
  "place_ask R M i st = Done (stop, st') \<Longrightarrow> calls R (ps_world st) (ps_world st')"
  by (auto simp: place_bid_def place_ask_def Let_def and_then_Done calls_none split: if_splits
      dest!: only_calls)

lemma place_step_only_calls [only_calls]:
  "place_step R M i st = Done (stop, st') \<Longrightarrow> calls R (ps_world st) (ps_world st')"
  by (auto simp: place_step_def place_reload_def Let_def and_then_Done split: if_splits
      dest!: only_calls intro: calls_trans)

lemma place_loop_only_calls [only_calls]:
  "place_loop R M is st = Done (stop, st') \<Longrightarrow> calls R (ps_world st) (ps_world st')"
proof (induction "is" arbitrary: st)
  case Nil
  then show ?case by (auto intro: calls_none)
next
  case (Cons i "is")
  then show ?case
    by (auto simp: and_then_Done split: if_splits dest!: only_calls intro: calls_trans)
qed

lemma do_place_only_calls [only_calls]:
  assumes "do_place_orders R M limit oo bids asks tc tp cv pv amm t w = Done (amm', t', w')"
  shows "calls R w w'"
  using assms
proof (cases rule: do_place_cases)
  case (moved s)
  then show ?thesis by (simp add: calls_none)
next
  case (placed x y num st r)
  obtain stop st' where r: "r = (stop, st')" by (cases r)
  have "ps_world st = w" using placed(2) by (auto simp: place_start_def and_then_Done)
  then show ?thesis
    using place_loop_only_calls [OF placed(3) [unfolded r]] place_finish_Done(1) [OF placed(4) [unfolded r]]
    by simp
qed

lemma cancel_calls_only_calls [only_calls]: "cancel_calls R M amm batches w = Done w' \<Longrightarrow> calls R w w'"
  by (simp add: cancel_calls_def cancel_batches_only_calls)

lemma do_purge_only_calls [only_calls]:
  "do_purge_orders R M bids asks amm t w = Done (amm', w') \<Longrightarrow> calls R w w'"
  by (erule do_purge_cases) (auto simp: calls_none dest: only_calls)

lemma do_cancel_all_only_calls [only_calls]:
  "do_cancel_all_orders_state R M oo bids asks amm t w = Done (amm', t', w') \<Longrightarrow> calls R w w'"
  by (erule do_cancel_all_cases) (auto simp: calls_none split: if_splits dest!: only_calls intro: calls_trans)

section \<open>Accounts that calls keep\<close>

lemma calls_keep:
  assumes "calls R w w'" and "cpi_isolated R pid"
  shows "keeps_account pid k w w'"
  using assms
proof (induction rule: calls.induct)
  case (calls_none w)
  then show ?case by (simp add: keeps_account_def)
next
  case (calls_more w w1 ix accts seeds w2)
  then show ?case using keeps_account_trans invoke_signed_keeps by blast
qed

text \<open>The initialised pool at an address.\<close>

definition pool_at :: "pubkey \<Rightarrow> ledger \<Rightarrow> pubkey \<Rightarrow> amm_info option" where
  "pool_at pid l k =
     (if acc_owner (l k) = pid \<and> length (acc_data (l k)) = amm_SIZE \<and>
         amm_status (fst (get_amm (acc_data (l k)))) \<noteq> status_into_u64 Uninitialized
      then Some (fst (get_amm (acc_data (l k)))) else None)"

lemma pool_at_loaded:
  "amm_load_mut_checked w info pid = Done a \<Longrightarrow> pool_at pid (ledger w) (ai_key info) = Some a"
  by (auto simp: amm_load_mut_checked_Done pool_at_def amm_load_def acc_of_def split: if_splits)

lemma pool_at_SomeD:
  "pool_at pid l k = Some a \<Longrightarrow>
     acc_owner (l k) = pid \<and> length (acc_data (l k)) = amm_SIZE \<and> a = fst (get_amm (acc_data (l k))) \<and>
     amm_status a \<noteq> 0"
  by (auto simp: pool_at_def split: if_splits)

lemma pool_at_kept:
  "keeps_account pid k w w' \<Longrightarrow> pool_at pid (ledger w) k = Some a \<Longrightarrow> pool_at pid (ledger w') k = Some a"
  by (auto simp: pool_at_def keeps_account_def split: if_splits)

definition keeps_pools :: "pubkey \<Rightarrow> world \<Rightarrow> world \<Rightarrow> bool" where
  "keeps_pools pid w w' \<longleftrightarrow>
     (\<forall>k a. pool_at pid (ledger w) k = Some a \<longrightarrow> pool_at pid (ledger w') k = Some a)"

lemma keeps_pools_trans: "keeps_pools pid w w1 \<Longrightarrow> keeps_pools pid w1 w2 \<Longrightarrow> keeps_pools pid w w2"
  by (simp add: keeps_pools_def)

lemma calls_keep_pools: "calls R w w' \<Longrightarrow> cpi_isolated R pid \<Longrightarrow> keeps_pools pid w w'"
  using calls_keep pool_at_kept unfolding keeps_pools_def by blast

text \<open>A struct written to an account that holds no pool.\<close>

lemma store_keeps_pools:
  "pool_at pid (ledger w) (ai_key info) = None \<Longrightarrow> keeps_pools pid w (store info bs w)"
  by (auto simp: keeps_pools_def store_def pool_at_def acc_of_def split: if_splits)

lemma pool_at_size: "length (acc_data (l k)) \<noteq> amm_SIZE \<Longrightarrow> pool_at pid l k = None"
  by (simp add: pool_at_def)

lemma target_store_keeps_pools:
  assumes "target_orders_load_mut_checked R w it pid own = Done t"
    and "calls R w w1" and "cpi_isolated R pid"
  shows "keeps_pools pid w (target_orders_store it t' w1)"
proof -
  have "acc_owner (ledger w (ai_key it)) = pid" and "length (acc_data (ledger w (ai_key it))) \<noteq> amm_SIZE"
    using assms(1)
    by (auto simp: target_orders_load_mut_checked_Done target_orders_load_def acc_of_def amm_SIZE_def
        target_orders_SIZE_def split: if_splits)
  then have "length (acc_data (ledger w1 (ai_key it))) \<noteq> amm_SIZE"
    using calls_keep [OF assms(2,3), of "ai_key it"] by (simp add: keeps_account_def)
  then have "keeps_pools pid w1 (target_orders_store it t' w1)"
    unfolding target_orders_store_def by (intro store_keeps_pools pool_at_size)
  with calls_keep_pools [OF assms(2,3)] show ?thesis by (rule keeps_pools_trans)
qed

lemma config_store_keeps_pools:
  assumes "config_load_mut_checked w info pid = Done c"
  shows "keeps_pools pid w (config_store info c' w)"
proof -
  have "length (acc_data (ledger w (ai_key info))) \<noteq> amm_SIZE"
    using assms by (auto simp: config_load_mut_checked_def acc_of_def amm_SIZE_def config_SIZE_def
        split: if_splits)
  then show ?thesis
    unfolding config_store_def by (intro store_keeps_pools pool_at_size)
qed

section \<open>How a pool evolves\<close>

text \<open>
  What no instruction changes of a pool that exists: its vaults, mints, target orders and the
  seed of its authority. And what every instruction keeps: a valid status, a valid state of
  the order book machine, parameters in their ranges.
\<close>

definition evolves :: "amm_info \<Rightarrow> amm_info \<Rightarrow> bool" where
  "evolves a b \<longleftrightarrow>
     amm_coin_vault b = amm_coin_vault a \<and> amm_pc_vault b = amm_pc_vault a \<and>
     coin_vault_mint b = coin_vault_mint a \<and> pc_vault_mint b = pc_vault_mint a \<and>
     amm_lp_mint b = amm_lp_mint a \<and> amm_target_orders b = amm_target_orders a \<and>
     as_u8 (amm_nonce b) = as_u8 (amm_nonce a) \<and>
     (valid_status (amm_status a) \<longrightarrow> valid_status (amm_status b)) \<and>
     (valid_state (amm_state a) \<longrightarrow> valid_state (amm_state b)) \<and>
     (params_ok a \<longrightarrow> params_ok b)"

lemma evolves_refl: "evolves a a"
  by (simp add: evolves_def)

lemma evolves_trans: "evolves a b \<Longrightarrow> evolves b c \<Longrightarrow> evolves a c"
  by (simp add: evolves_def)

definition pools_evolve :: "pubkey \<Rightarrow> ledger \<Rightarrow> ledger \<Rightarrow> bool" where
  "pools_evolve pid l l' \<longleftrightarrow>
     (\<forall>k a. pool_at pid l k = Some a \<longrightarrow> (\<exists>b. pool_at pid l' k = Some b \<and> evolves a b))"

lemma pools_evolve_trans: "pools_evolve pid l l1 \<Longrightarrow> pools_evolve pid l1 l2 \<Longrightarrow> pools_evolve pid l l2"
  unfolding pools_evolve_def using evolves_trans by meson

lemma keeps_evolve: "keeps_pools pid w w' \<Longrightarrow> pools_evolve pid (ledger w) (ledger w')"
  using evolves_refl unfolding keeps_pools_def pools_evolve_def by blast

lemma store_evolves:
  assumes "pool_at pid (ledger w) (ai_key ia) = Some a" and "keeps_pools pid w w1"
    and "amm_load (amm_store ia x w1) ia = Done b" and "evolves a b" and "amm_status b \<noteq> 0"
  shows "pools_evolve pid (ledger w) (ledger (amm_store ia x w1))"
  unfolding pools_evolve_def
proof (intro allI impI)
  fix k c
  assume c: "pool_at pid (ledger w) k = Some c"
  then have c1: "pool_at pid (ledger w1) k = Some c" using assms(2) by (simp add: keeps_pools_def)
  show "\<exists>b'. pool_at pid (ledger (amm_store ia x w1)) k = Some b' \<and> evolves c b'"
  proof (cases "k = ai_key ia")
    case True
    then have "c = a" using c assms(1) by simp
    moreover have "pool_at pid (ledger (amm_store ia x w1)) k = Some b"
      using assms(3,5) pool_at_SomeD [OF c1] True
      by (auto simp: pool_at_def amm_load_def acc_of_def amm_store_def store_def split: if_splits)
    ultimately show ?thesis using assms(4) by blast
  next
    case False
    then have "pool_at pid (ledger (amm_store ia x w1)) k = Some c"
      using c1 by (auto simp: pool_at_def amm_store_def store_def split: if_splits)
    then show ?thesis using evolves_refl by blast
  qed
qed

lemma amm_store_evolves:
  assumes "pool_at pid (ledger w) (ai_key ia) = Some a" and "keeps_pools pid w w1"
    and "evolves a b" and "wf_amm b" and "amm_status b \<noteq> 0"
  shows "pools_evolve pid (ledger w) (ledger (amm_store ia b w1))"
  by (rule store_evolves [OF assms(1,2) amm_load_store [OF assms(4)] assms(3,5)])

text \<open>The end of a handler that writes its pool, and its target orders before it.\<close>

lemma stores_evolve:
  assumes "cpi_isolated R pid" and "amm_load_mut_checked w ia pid = Done a"
    and "target_orders_load_mut_checked R w it pid own = Done t" and "calls R w w1"
    and "evolves a b" and "wf_amm b" and "amm_status b \<noteq> 0"
  shows "pools_evolve pid (ledger w) (ledger (amm_store ia b (target_orders_store it t' w1)))"
  by (rule amm_store_evolves [OF pool_at_loaded [OF assms(2)]
        target_store_keeps_pools [OF assms(3,4,1)] assms(5-7)])

locale pool_safe =
  fixes run :: "runtime \<Rightarrow> pubkey \<Rightarrow> account_info list \<Rightarrow> 'ins \<Rightarrow> world \<Rightarrow> world outcome"
  assumes run_evolves: "cpi_isolated R pid \<Longrightarrow> run R pid accounts ins w = Done w' \<Longrightarrow>
    pools_evolve pid (ledger w) (ledger w')"
begin

lemma run_keeps_pool:
  assumes "cpi_isolated R pid" and "run R pid accounts ins w = Done w'"
    and "pool_at pid (ledger w) k = Some a"
  shows "\<exists>b. pool_at pid (ledger w') k = Some b \<and> evolves a b"
  using run_evolves [OF assms(1,2)] assms(3) by (simp add: pools_evolve_def)

end

section \<open>The handlers\<close>

lemma deposit_check_target:
  "deposit_check R pid A amm deposit w = Done s \<Longrightarrow>
     target_orders_load_mut_checked R w (dp_target_orders A) pid (ai_key (dp_amm A)) = Done (ds_target s)"
  by (auto simp: deposit_check_def and_then_Done Let_def)

lemma loaded_pool:
  "amm_load_mut_checked w info pid = Done a \<Longrightarrow> wf_amm a \<and> amm_status a \<noteq> 0"
  by (auto simp: amm_load_mut_checked_Done dest: amm_load_wf)

lemmas kept_defs = evolves_def params_ok_def wf_amm_def

interpretation deposit_safe: pool_safe process_deposit
proof unfold_locales
  fix R pid accounts ins w w'
  assume iso: "cpi_isolated R pid" and "process_deposit R pid accounts ins w = Done w'"
  then obtain A amm s pc coin r c p l w1 lp x y and e :: u64 and u v :: u128 where
    ld: "amm_load_mut_checked w (dp_amm A) pid = Done amm" and
    s: "deposit_check R pid A amm ins w = Done s" and
    r: "calc_take_pnl R (ds_target s) amm pc coin (widen u) (widen v) = Done r" and
    t: "deposit_transfers R A (pr_amm r) c p l w = Done w1" and
    w': "w' = amm_store (dp_amm A) ((pr_amm r)\<lparr>lp_amount := lp, recent_epoch := e\<rparr>)
      (target_orders_store (dp_target_orders A) ((ds_target s)\<lparr>calc_pnl_x := x, calc_pnl_y := y\<rparr>) w1)"
    by (auto simp: process_deposit_def and_then_Done Let_def split: if_splits)
  obtain sd where sd: "pr_amm r = amm\<lparr>amm_state_data := sd\<rparr>" "sd_padding sd = sd_padding (amm_state_data amm)"
    using calc_take_pnl_totals(5) [OF r] by blast
  show "pools_evolve pid (ledger w) (ledger w')"
    unfolding w'
    by (rule stores_evolve [OF iso ld deposit_check_target [OF s] deposit_only_calls [OF t]])
       (use loaded_pool [OF ld] in \<open>simp_all add: sd kept_defs\<close>)
qed

interpretation withdraw_safe: pool_safe process_withdraw
proof unfold_locales
  fix R pid accounts ins w w'
  assume iso: "cpi_isolated R pid" and "process_withdraw R pid accounts ins w = Done w'"
  then obtain A amm target s pc coin u v r c p w1 w2 lp x y and e :: u64 where
    ld: "amm_load_mut_checked w (wd_amm A) pid = Done amm" and
    lt: "target_orders_load_mut_checked R w (wd_target_orders A) pid (ai_key (wd_amm A)) = Done target" and
    tot: "withdraw_totals R A amm s w = Done ((pc, coin), w1)" and
    r: "withdraw_take_pnl R target amm pc coin u v = Done r" and
    t: "withdraw_transfers R A (pr_amm r) c p (withdraw_amount ins) w1 = Done w2" and
    w': "w' = amm_store (wd_amm A) ((pr_amm r)\<lparr>lp_amount := lp, recent_epoch := e\<rparr>)
      (target_orders_store (wd_target_orders A) (target\<lparr>calc_pnl_x := x, calc_pnl_y := y\<rparr>) w2)"
    by (auto simp: process_withdraw_def and_then_Done Let_def split: if_splits)
  obtain sd where sd: "pr_amm r = amm\<lparr>amm_state_data := sd\<rparr>" "sd_padding sd = sd_padding (amm_state_data amm)"
    using withdraw_take_pnl_fields [OF r] by blast
  show "pools_evolve pid (ledger w) (ledger w')"
    unfolding w'
    by (rule stores_evolve [OF iso ld lt calls_trans [OF withdraw_only_calls [OF t]
          withdraw_totals_only_calls [OF tot]]])
       (use loaded_pool [OF ld] in \<open>simp_all add: sd kept_defs\<close>)
qed

lemma withdrawpnl_check_target:
  "withdrawpnl_check R pid A amm w = Done s \<Longrightarrow>
     target_orders_load_mut_checked R w (pn_target_orders A) pid (ai_key (pn_amm A)) = Done (ps_target s)"
  by (auto simp: withdrawpnl_check_def and_then_Done Let_def)

interpretation withdrawpnl_safe: pool_safe "\<lambda>R pid accounts (_ :: unit). process_withdrawpnl R pid accounts"
proof unfold_locales
  fix R pid accounts w w'
  assume iso: "cpi_isolated R pid" and "process_withdrawpnl R pid accounts w = Done w'"
  then obtain A amm s pc coin r w1 w2 sd' x y and e :: u64 and u v :: u128 where
    ld: "amm_load_mut_checked w (pn_amm A) pid = Done amm" and
    s: "withdrawpnl_check R pid A amm w = Done s" and
    r: "calc_take_pnl R (ps_target s) amm pc coin (widen u) (widen v) = Done r" and
    t: "token_transfer_with_authority R (pn_token_program A) (pn_coin_vault A) (pn_user_coin A)
         (pn_authority A) AUTHORITY_AMM (as_u8 (amm_nonce (pr_amm r)))
         (need_take_pnl_coin (amm_state_data (pr_amm r))) w = Done w1"
      "token_transfer_with_authority R (pn_token_program A) (pn_pc_vault A) (pn_user_pc A)
         (pn_authority A) AUTHORITY_AMM (as_u8 (amm_nonce (pr_amm r)))
         (need_take_pnl_pc (amm_state_data (pr_amm r))) w1 = Done w2" and
    w': "w' = amm_store (pn_amm A) ((pr_amm r)\<lparr>amm_state_data := (amm_state_data (pr_amm r))
        \<lparr>need_take_pnl_coin := 0, need_take_pnl_pc := 0\<rparr>, recent_epoch := e\<rparr>)
      (target_orders_store (pn_target_orders A) ((ps_target s)\<lparr>calc_pnl_x := x, calc_pnl_y := y\<rparr>) w2)"
    by (auto simp: process_withdrawpnl_def and_then_Done Let_def split: if_splits)
  obtain sd where sd: "pr_amm r = amm\<lparr>amm_state_data := sd\<rparr>" "sd_padding sd = sd_padding (amm_state_data amm)"
    using calc_take_pnl_totals(5) [OF r] by blast
  show "pools_evolve pid (ledger w) (ledger w')"
    unfolding w'
    by (rule stores_evolve [OF iso ld withdrawpnl_check_target [OF s]
          calls_trans [OF invoker_calls(5) [OF t(2)] invoker_calls(5) [OF t(1)]]])
       (use loaded_pool [OF ld] in \<open>simp_all add: sd kept_defs\<close>)
qed

subsection \<open>Swaps\<close>

lemma swap_status_evolves:
  "swap_status R a = Done b \<Longrightarrow> evolves a b \<and> (amm_status a \<noteq> 0 \<longrightarrow> amm_status b \<noteq> 0) \<and> wf_amm b = wf_amm a"
  by (auto simp: swap_status_def and_then_Done evolves_refl kept_defs valid_status_def split: if_splits)

lemma swap_finish_evolves:
  assumes "cpi_isolated R pid" and "amm_load_mut_checked w (sw_amm A) pid = Done a"
    and "swap_status R a = Done b" and "b' = b\<lparr>amm_state_data := sd\<rparr>"
    and "sd_padding sd = sd_padding (amm_state_data b)"
    and "calls R w w1" and "swap_finish R A b' w1 = Done w'"
  shows "pools_evolve pid (ledger w) (ledger w')"
proof -
  obtain e where w': "w' = amm_store (sw_amm A) (b'\<lparr>recent_epoch := e\<rparr>) w1"
    using assms(7) by (auto simp: swap_finish_def and_then_Done)
  have "evolves b (b'\<lparr>recent_epoch := e\<rparr>)" by (simp add: assms(4) kept_defs)
  with swap_status_evolves [OF assms(3)] have "evolves a (b'\<lparr>recent_epoch := e\<rparr>)"
    using evolves_trans by blast
  then show ?thesis
    unfolding w'
    by (rule amm_store_evolves [OF pool_at_loaded [OF assms(2)] calls_keep_pools [OF assms(6,1)]])
       (use loaded_pool [OF assms(2)] swap_status_evolves [OF assms(3)] assms(5) in
         \<open>simp_all add: assms(4) wf_amm_def\<close>)
qed

lemmas legs_effect = in_coin.leg_effects(3) in_pc.leg_effects(3) out_coin.leg_effects(3) out_pc.leg_effects(3)

interpretation swap_in_safe: pool_safe process_swap_base_in
proof unfold_locales
  fix R pid accounts ins w w'
  assume iso: "cpi_isolated R pid" and "process_swap_base_in R pid accounts ins w = Done w'"
  then obtain A amm0 amm e T t d out fee amm1 w1 where
    ld: "amm_load_mut_checked w (sw_amm A) pid = Done amm0" and
    st: "swap_status R amm0 = Done amm" and
    leg: "(case d of
        Coin2PC \<Rightarrow> swap_in_coin_to_pc R A amm e T t (amount_in ins) out fee w
      | PC2Coin \<Rightarrow> swap_in_pc_to_coin R A amm e T t (amount_in ins) out fee w) = Done (amm1, w1)" and
    fin: "swap_finish R A amm1 w1 = Done w'"
    by (auto simp: process_swap_base_in_def and_then_Done Let_def split: if_splits)
  have "calls R w w1"
    using leg by (auto split: swap_direction.splits dest: only_calls)
  moreover obtain sd where "amm1 = amm\<lparr>amm_state_data := sd\<rparr>" "sd_padding sd = sd_padding (amm_state_data amm)"
    using leg legs_effect(1,2) by (auto split: swap_direction.splits) metis+
  ultimately show "pools_evolve pid (ledger w) (ledger w')"
    using swap_finish_evolves [OF iso ld st _ _ _ fin] by blast
qed

interpretation swap_out_safe: pool_safe process_swap_base_out
proof unfold_locales
  fix R pid accounts ins w w'
  assume iso: "cpi_isolated R pid" and "process_swap_base_out R pid accounts ins w = Done w'"
  then obtain A amm0 amm e T t d i fee amm1 w1 where
    ld: "amm_load_mut_checked w (sw_amm A) pid = Done amm0" and
    st: "swap_status R amm0 = Done amm" and
    leg: "(case d of
        Coin2PC \<Rightarrow> swap_out_coin_to_pc R A amm e T t i (amount_out ins) fee w
      | PC2Coin \<Rightarrow> swap_out_pc_to_coin R A amm e T t i (amount_out ins) fee w) = Done (amm1, w1)" and
    fin: "swap_finish R A amm1 w1 = Done w'"
    by (auto simp: process_swap_base_out_def and_then_Done Let_def split: if_splits)
  have "calls R w w1"
    using leg by (auto split: swap_direction.splits dest: only_calls)
  moreover obtain sd where "amm1 = amm\<lparr>amm_state_data := sd\<rparr>" "sd_padding sd = sd_padding (amm_state_data amm)"
    using leg legs_effect(3,4) by (auto split: swap_direction.splits) metis+
  ultimately show "pools_evolve pid (ledger w) (ledger w')"
    using swap_finish_evolves [OF iso ld st _ _ _ fin] by blast
qed

subsection \<open>Administration\<close>

lemma apply_param_keeps_pools:
  assumes "apply_param R pid A rest amm sp w = Done (amm', v, w')" and "cpi_isolated R pid"
  shows "keeps_pools pid w w'"
proof -
  obtain p where "set_param p R pid A rest amm sp w = Done (amm', v, w')"
    using assms(1) by (auto simp: apply_param_def and_then_Done)
  then have "w' = w \<or> (\<exists>t t'. target_orders_load_mut_checked R w (sp_target_orders A) pid (ai_key (sp_amm A)) = Done t \<and>
      w' = target_orders_store (sp_target_orders A) t' w)"
    by (cases p) (auto simp: set_param_simps split: if_splits)
  then show ?thesis
    using target_store_keeps_pools [OF _ calls_none assms(2)] calls_keep_pools [OF calls_none assms(2)]
    by blast
qed

lemma apply_param_evolves:
  assumes "apply_param R pid A rest amm sp w = Done (amm', v, w')"
  shows "evolves amm (amm'\<lparr>amm_state := state_into_u64 CancelAllOrdersState,
      amm_reset_flag := f, recent_epoch := e\<rparr>)"
    and "amm_status amm \<noteq> 0 \<Longrightarrow> amm_status amm' \<noteq> 0"
proof -
  have "valid_status (amm_status amm')" if "valid_status (amm_status amm)"
    using apply_param_status [OF assms] that by metis
  moreover have "params_ok (amm'\<lparr>amm_state := s, amm_reset_flag := f, recent_epoch := e\<rparr>)"
    if "params_ok amm" for s
    using apply_param_ok [OF assms that] by (simp add: params_ok_def)
  ultimately show "evolves amm (amm'\<lparr>amm_state := state_into_u64 CancelAllOrdersState,
      amm_reset_flag := f, recent_epoch := e\<rparr>)"
    using apply_param_Done [OF assms] by (simp add: evolves_def same_pool_def valid_state_def)
  show "amm_status amm' \<noteq> 0" if "amm_status amm \<noteq> 0"
    using apply_param_status [OF assms] that by (cases "amm_status amm' = amm_status amm") (auto simp: valid_status_def)
qed

interpretation set_params_safe: pool_safe process_set_params
proof unfold_locales
  fix R pid accounts ins w w'
  assume iso: "cpi_isolated R pid" and "process_set_params R pid accounts ins w = Done w'"
  then obtain A amm w1 amm1 w2 and e :: u64 where
    ld: "amm_load_mut_checked w (sp_amm A) pid = Done amm" and
    m: "set_params_clear_market R A amm w = Done w1" and
    p: "apply_param R pid A (drop 16 accounts) amm ins w1 = Done (amm1, True, w2)" and
    w': "w' = amm_store (sp_amm A) (amm1\<lparr>amm_state := state_into_u64 CancelAllOrdersState,
      amm_reset_flag := reset_flag_into_u64 ResetYes, recent_epoch := e\<rparr>) w2"
    by (auto simp: process_set_params_def and_then_Done split: if_splits)
  have "keeps_pools pid w w2"
    using keeps_pools_trans [OF calls_keep_pools [OF set_params_only_calls [OF m] iso]
        apply_param_keeps_pools [OF p iso]] .
  then show "pools_evolve pid (ledger w) (ledger w')"
    unfolding w'
    by (rule amm_store_evolves [OF pool_at_loaded [OF ld] _ apply_param_evolves(1) [OF p]])
       (use loaded_pool [OF ld] apply_param_Done [OF p] apply_param_evolves(2) [OF p] in
         \<open>simp_all add: wf_amm_def\<close>)
qed

lemma only_calls_evolve:
  "calls R w w' \<Longrightarrow> cpi_isolated R pid \<Longrightarrow> pools_evolve pid (ledger w) (ledger w')"
  by (rule keeps_evolve [OF calls_keep_pools])

interpretation admin_cancel_safe: pool_safe process_admin_cancel_orders
proof unfold_locales
  fix R pid accounts ins w w'
  assume iso: "cpi_isolated R pid" and "process_admin_cancel_orders R pid accounts ins w = Done w'"
  then have "calls R w w'"
    by (auto simp: process_admin_cancel_orders_def and_then_Done split: if_splits
        dest!: only_calls intro: calls_trans)
  then show "pools_evolve pid (ledger w) (ledger w')" using iso by (rule only_calls_evolve)
qed

interpretation withdraw_srm_safe: pool_safe process_withdraw_srm
proof unfold_locales
  fix R pid accounts ins w w'
  assume iso: "cpi_isolated R pid" and "process_withdraw_srm R pid accounts ins w = Done w'"
  then have "calls R w w'"
    by (auto simp: process_withdraw_srm_def and_then_Done Let_def dest!: only_calls)
  then show "pools_evolve pid (ledger w) (ledger w')" using iso by (rule only_calls_evolve)
qed

interpretation create_config_safe:
  pool_safe "\<lambda>R pid accounts (_ :: unit). process_create_config R pid accounts"
proof unfold_locales
  fix R pid accounts w w'
  assume iso: "cpi_isolated R pid" and "process_create_config R pid accounts w = Done w'"
  then have "\<exists>w3 c c'. calls R w w3 \<and> config_load_mut_checked w3 (accounts ! 1) pid = Done c \<and>
      w' = config_store (accounts ! 1) c' w3"
    by (auto simp: process_create_config_def and_then_Done Let_def calls_none split: prod.splits if_splits
        dest!: calls_one intro: calls_trans) (blast intro: calls_trans)
  then obtain w3 c c' where "calls R w w3"
    and l: "config_load_mut_checked w3 (accounts ! 1) pid = Done c"
    and w': "w' = config_store (accounts ! 1) c' w3"
    by blast
  then show "pools_evolve pid (ledger w) (ledger w')"
    unfolding w'
    using keeps_evolve keeps_pools_trans calls_keep_pools [OF _ iso] config_store_keeps_pools [OF l] by blast
qed

interpretation update_config_safe: pool_safe process_update_config
proof unfold_locales
  fix R pid accounts ins w w'
  assume "process_update_config R pid accounts ins w = Done w'"
  then obtain c c' where "config_load_mut_checked w (accounts ! 1) pid = Done c"
    and "w' = config_store (accounts ! 1) c' w"
    by (auto simp: process_update_config_def and_then_Done Let_def)
  then show "pools_evolve pid (ledger w) (ledger w')"
    using keeps_evolve config_store_keeps_pools by blast
qed

subsection \<open>Migration\<close>

lemma migrate_pool_evolves:
  assumes "migrate_pool R A amm ms = Done b"
  shows "evolves amm (b\<lparr>recent_epoch := e\<rparr>)"
proof -
  note f = migrate_pool_Done [OF assms]
  have "amm_nonce b = widen (as_u8 (amm_nonce amm))" and "amm_state b = state_into_u64 IdleState"
    using assms by (auto simp: migrate_pool_def amm_initialize_def and_then_Done)
  moreover have "as_u8 (widen n) = n" for n :: u8
    by (rule bit_word_eqI) (simp add: as_u8_def widen_def bit_simps)
  ultimately show ?thesis
    using f(1,2,7) by (simp add: evolves_def same_holdings_def params_ok_def valid_status_def valid_state_def)
qed

interpretation migrate_safe:
  pool_safe "\<lambda>R pid accounts (_ :: unit). process_migrate_to_openbook R pid accounts"
proof unfold_locales
  fix R pid accounts w w'
  assume iso: "cpi_isolated R pid" and "process_migrate_to_openbook R pid accounts w = Done w'"
  then obtain A amm target ms w1 new_ms w2 b target' and e :: u64 where
    ld: "amm_load_mut_checked w (mg_amm A) pid = Done amm" and
    lt: "target_orders_load_mut_checked R w (mg_target_orders A) pid (ai_key (mg_amm A)) = Done target" and
    leave: "migrate_leave R A amm w = Done (ms, w1)" and
    enter: "migrate_enter R pid A amm w1 = Done (new_ms, w2)" and
    b: "migrate_pool R A amm new_ms = Done b" and
    w': "w' = amm_store (mg_amm A) (b\<lparr>recent_epoch := e\<rparr>)
      (target_orders_store (mg_target_orders A) target' w2)"
    by (auto simp: process_migrate_to_openbook_def and_then_Done)
  have "calls R w w2"
    using calls_trans [OF migrate_only_calls(2) [OF enter] migrate_only_calls(1) [OF leave]] .
  then show "pools_evolve pid (ledger w) (ledger w')"
    unfolding w'
    by (rule stores_evolve [OF iso ld lt _ migrate_pool_evolves [OF b]])
       (use migrate_pool_Done(3,7) [OF b] in \<open>simp_all add: wf_amm_def\<close>)
qed

subsection \<open>The monitor\<close>

lemma parse_target_loaded:
  "parse_target R pid M w = Done t \<Longrightarrow>
     target_orders_load_mut_checked R w (mo_target_orders M) pid (ai_key (mo_amm M)) = Done t"
  by (simp add: parse_target_def)

text \<open>A phase calls and writes the target orders it loaded.\<close>

lemma target_phase:
  assumes "parse_target R pid M w = Done t" and "calls R w w1" and "cpi_isolated R pid"
  shows "keeps_pools pid w (target_orders_store (mo_target_orders M) t' w1)"
  by (rule target_store_keeps_pools [OF parse_target_loaded [OF assms(1)] assms(2,3)])

lemma monitor_cancel_all_keeps_pools:
  assumes "monitor_cancel_all R pid M amm w = Done (amm', w')" and "cpi_isolated R pid"
  shows "keeps_pools pid w w'"
  using monitor_cancel_all_Done [OF assms(1)] target_phase [OF _ do_cancel_all_only_calls assms(2)] by blast

lemma monitor_state_keeps_pools:
  assumes "monitor_state R pid M monitor s amm w = Done (amm', w')" and iso: "cpi_isolated R pid"
  shows "keeps_pools pid w w'"
proof (cases s)
  case IdleState
  then have "monitor_idle R pid M amm w = Done (amm', w')" using assms(1) by (simp add: monitor_state_def)
  then show ?thesis using monitor_idle_Done target_phase [OF _ calls_none iso] by blast
next
  case CancelAllOrdersState
  then show ?thesis
    using assms(1) monitor_cancel_all_keeps_pools [OF _ iso] by (simp add: monitor_state_def)
next
  case PlanOrdersState
  then have "monitor_plan R pid M (plan_order_limit monitor) amm w = Done (amm', w')"
    using assms(1) by (simp add: monitor_state_def)
  then obtain t t' where "parse_target R pid M w = Done t"
    and "w' = target_orders_store (mo_target_orders M) t' w"
    by (auto simp: monitor_plan_def and_then_Done)
  then show ?thesis using target_phase [OF _ calls_none iso] by blast
next
  case CancelOrderState
  then have "w' = w" using assms(1) by (auto simp: monitor_state_def monitor_cancel_def and_then_Done)
  then show ?thesis using calls_keep_pools [OF calls_none iso] by simp
next
  case PlaceOrdersState
  then have "monitor_place R pid M (place_order_limit monitor) amm w = Done (amm', w')"
    using assms(1) by (simp add: monitor_state_def)
  from monitor_place_Done [OF this] show ?thesis
    using target_phase [OF _ do_place_only_calls iso] by blast
next
  case PurgeOrderState
  then obtain bids asks t where "do_purge_orders R M bids asks amm t w = Done (amm', w')"
    using assms(1) by (auto simp: monitor_state_def monitor_purge_def and_then_Done)
  then show ?thesis using calls_keep_pools [OF do_purge_only_calls iso] by blast
next
  case InvlidState
  then have "w' = w" using assms(1) by (simp add: monitor_state_def)
  then show ?thesis using calls_keep_pools [OF calls_none iso] by simp
qed

lemma moved_evolves:
  assumes "moved a b" and "amm_state b = state_into_u64 s"
  shows "evolves a b"
  using moved_inv(2) [OF assms(1)] assms(2)
  by (cases s) (simp_all add: evolves_def moved_fields [OF assms(1)] valid_state_def)

interpretation monitor_safe: pool_safe process_monitor_step
proof unfold_locales
  fix R pid accounts monitor w w'
  assume iso: "cpi_isolated R pid" and run: "process_monitor_step R pid accounts monitor w = Done w'"
  from run have "\<exists>M amm state amm' w1. monitor_parse_accounts accounts = Done M \<and>
      amm_load_mut_checked w (mo_amm M) pid = Done amm \<and>
      (monitor_cancel_all R pid M amm w = Done (amm', w1) \<or> w1 = w \<or>
       monitor_state R pid M monitor state amm w = Done (amm', w1)) \<and>
      w' = amm_store (mo_amm M) amm' w1"
    unfolding process_monitor_step_def
    by (auto simp: and_then_Done split: if_splits simp del: state_into_u64.simps reset_flag_into_u64.simps)
  then obtain M amm state amm' w1 where
    M: "monitor_parse_accounts accounts = Done M" and
    ld: "amm_load_mut_checked w (mo_amm M) pid = Done amm" and
    step: "monitor_cancel_all R pid M amm w = Done (amm', w1) \<or> w1 = w \<or>
      monitor_state R pid M monitor state amm w = Done (amm', w1)" and
    w': "w' = amm_store (mo_amm M) amm' w1"
    by blast
  have parse: "accounts ! 3 = mo_amm M" using monitor_parse_Done [OF M] by simp
  have l: "amm_load w (mo_amm M) = Done amm" using ld by (simp add: amm_load_mut_checked_Done)
  obtain s b where b: "amm_load w' (mo_amm M) = Done b" "amm_state b = state_into_u64 s" "moved amm b"
    using monitor_step_keeps [OF run, unfolded parse, OF l] by blast
  have "keeps_pools pid w w1"
    using step monitor_cancel_all_keeps_pools [OF _ iso] monitor_state_keeps_pools [OF _ iso]
      calls_keep_pools [OF calls_none iso] by blast
  then show "pools_evolve pid (ledger w) (ledger w')"
    unfolding w'
    by (rule store_evolves [OF pool_at_loaded [OF ld] _ b(1) [unfolded w'] moved_evolves [OF b(3,2)]])
       (use loaded_pool [OF ld] in \<open>simp add: moved_fields(1) [OF b(3)]\<close>)
qed

subsection \<open>Creation and simulation\<close>

lemma process_initialize2_parts:
  assumes "process_initialize2 R pid accounts ins w = Done w'"
  obtains A config m w1 w2 w3 amm0 user_lp w4 b t t' where
    "init_charge_fee R A config w = Done w1" "init_create_accounts R pid A ins m w1 = Done w2"
    "init_fund_vaults R A ins w2 = Done w3" "amm_load w3 (in_amm A) = Done amm0" "amm_status amm0 = 0"
    "token_mint_to R (in_token_program A) (in_lp_mint A) (in_user_lp A) (in_authority A)
       AUTHORITY_AMM (init2_nonce ins) user_lp w3 = Done w4"
    "target_orders_load w4 (in_target_orders A) = Done t"
    "w' = amm_store (in_amm A) b (target_orders_store (in_target_orders A) t' w4)"
  using assms
  unfolding process_initialize2_def and_then_Done Let_def split_paired_Ex prod.case if_err_Done
    outcome.inject status_into_u64.simps not_not
  by (elim exE conjE) (rule that; (assumption | erule sym | simp))

interpretation initialize_safe: pool_safe process_initialize2
proof unfold_locales
  fix R pid accounts ins w w'
  assume iso: "cpi_isolated R pid" and run: "process_initialize2 R pid accounts ins w = Done w'"
  obtain A config m w1 w2 w3 amm0 user_lp w4 b t t' where
    c: "init_charge_fee R A config w = Done w1" "init_create_accounts R pid A ins m w1 = Done w2"
      "init_fund_vaults R A ins w2 = Done w3" and
    l0: "amm_load w3 (in_amm A) = Done amm0" "amm_status amm0 = 0" and
    mint: "token_mint_to R (in_token_program A) (in_lp_mint A) (in_user_lp A) (in_authority A)
       AUTHORITY_AMM (init2_nonce ins) user_lp w3 = Done w4" and
    lt: "target_orders_load w4 (in_target_orders A) = Done t" and
    w': "w' = amm_store (in_amm A) b (target_orders_store (in_target_orders A) t' w4)"
    by (rule process_initialize2_parts [OF run])
  have c3: "calls R w w3" 
    using calls_trans [OF calls_trans [OF init_only_calls(2) [OF c(3)] init_create_only_calls [OF c(2)]]
        init_only_calls(1) [OF c(1)]] .
  have c4: "calls R w w4" using calls_trans [OF invoker_calls(3) [OF mint] c3] .
  show "pools_evolve pid (ledger w) (ledger w')"
    unfolding pools_evolve_def
  proof (intro allI impI)
    fix k a
    assume a: "pool_at pid (ledger w) k = Some a"
    have a3: "pool_at pid (ledger w3) k = Some a" and a4: "pool_at pid (ledger w4) k = Some a"
      using a calls_keep_pools [OF c3 iso] calls_keep_pools [OF c4 iso] by (simp_all add: keeps_pools_def)
    have "k \<noteq> ai_key (in_amm A)"
      using l0 pool_at_SomeD [OF a3] by (auto simp: amm_load_def acc_of_def split: if_splits)
    moreover have "k \<noteq> ai_key (in_target_orders A)"
      using lt pool_at_SomeD [OF a4]
      by (auto simp: target_orders_load_def acc_of_def amm_SIZE_def target_orders_SIZE_def split: if_splits)
    ultimately have "ledger w' k = ledger w4 k"
      by (simp add: w' amm_store_def target_orders_store_def store_def)
    then have "pool_at pid (ledger w') k = Some a" using a4 by (auto simp: pool_at_def split: if_splits)
    then show "\<exists>b. pool_at pid (ledger w') k = Some b \<and> evolves a b" using evolves_refl by blast
  qed
qed

lemma simulate_same: "process_simulate_info R pid accounts ins w = Done w' \<Longrightarrow> w' = w"
  by (auto simp: process_simulate_info_def and_then_Done split: simulate_params.splits)
     (metis simulate_params.exhaust)

interpretation simulate_safe: pool_safe process_simulate_info
  by unfold_locales (use only_calls_evolve [OF calls_none] simulate_same in blast)

end
