(* ===== verification/Trades.thy ===== *)
theory Trades
  imports Persist
begin

text \<open>
  The four trades as steps of the abstract pool of theory \<open>Pool\<close>. What a pool owns is counted on
  the ledger and on the market: the balances of its two vaults, with orders on the market what
  the market holds for it and the fills still in the event queue, less the profit that it owes
  its owner. A trade sets some profit aside and then moves the pool, its calls and its stored
  shares by the step that its instruction asks for. The locale \<open>pool_handler\<close> is this contract.
\<close>

section \<open>What a pool owns\<close>

text \<open>The tokens in an account of the token program.\<close>

definition balance :: "runtime \<Rightarrow> ledger \<Rightarrow> pubkey \<Rightarrow> int option" where
  "balance R l v =
     (if acc_owner (l v) = rt_spl_token_id R
      then map_option (\<lambda>t. uint (ta_amount t)) (rt_token_unpack R (acc_data (l v))) else None)"

lemma unpacked_balance:
  "unpack_token_account R w info (rt_spl_token_id R) = Done t \<Longrightarrow>
     balance R (ledger w) (ai_key info) = Some (uint (ta_amount t))"
  by (auto simp: unpack_token_account_Done balance_def acc_of_def)

text \<open>The pool keeps off the order book: its status does not permit orders.\<close>

definition off_market :: "amm_info \<Rightarrow> bool" where
  "off_market a \<longleftrightarrow> (\<exists>s. status_from_u64 (amm_status a) = Done s \<and> \<not> orderbook_permission s)"

lemma off_market_iff: "off_market a \<longleftrightarrow> amm_status a \<in> {0, 2, 3, 4, 6, 7}"
proof -
  have ex: "(\<exists>s. P s) \<longleftrightarrow> P Uninitialized \<or> P Initialized \<or> P Disabled \<or> P WithdrawOnly \<or>
      P LiquidityOnly \<or> P OrderBookOnly \<or> P SwapOnly \<or> P WaitingTrade" for P
    by (metis amm_status.exhaust)
  show ?thesis
    by (simp add: off_market_def status_from_Done ex)
qed

lemma off_market_status:
  "off_market a \<Longrightarrow> status_from_u64 (amm_status a) = Done s \<Longrightarrow> \<not> orderbook_permission s"
  by (auto simp: off_market_def)

text \<open>
  What the market holds for the pool: the balances of its open orders account, corrected by the
  fills of its orders that the event queue, as it is in the world \<open>wq\<close>, still has.
\<close>

definition market_holds :: "runtime \<Rightarrow> pubkey \<Rightarrow> world \<Rightarrow> world \<Rightarrow> amm_info \<Rightarrow> int \<Rightarrow> int \<Rightarrow> bool" where
  "market_holds R program_id w wq a pc coin \<longleftrightarrow>
     (\<exists>m o1 auth q ms oo evs. ai_key m = amm_market a \<and> ai_key o1 = amm_open_orders a \<and>
        authority_id R program_id AUTHORITY_AMM (as_u8 (amm_nonce a)) = Done (ai_key auth) \<and>
        load_serum_market_order R w m o1 auth a False = Done (ms, oo) \<and>
        rt_event_queue R ms (ai_key q) (acc_of wq q) = Done evs \<and>
        pc = uint (native_pc_total oo) + sum_list (map (pc_delta (rt_aligned R (amm_open_orders a))) evs) \<and>
        coin = uint (native_coin_total oo) + sum_list (map (coin_delta (rt_aligned R (amm_open_orders a))) evs))"

text \<open>
  The tokens and shares of the stored pool \<open>a\<close>, as integers: vaults and market, less the profit owed.
\<close>

definition owns :: "runtime \<Rightarrow> pubkey \<Rightarrow> world \<Rightarrow> world \<Rightarrow> amm_info \<Rightarrow> pool \<Rightarrow> bool" where
  "owns R program_id w wq a s \<longleftrightarrow>
     (\<exists>vp vc mp mc. balance R (ledger w) (amm_pc_vault a) = Some vp \<and>
        balance R (ledger w) (amm_coin_vault a) = Some vc \<and>
        (if off_market a then mp = 0 \<and> mc = 0 else market_holds R program_id w wq a mp mc) \<and>
        pool_pc s = vp + mp - uint (need_take_pnl_pc (amm_state_data a)) \<and>
        pool_coin s = vc + mc - uint (need_take_pnl_coin (amm_state_data a)) \<and>
        pool_lp s = uint (lp_amount a))"

text \<open>The totals that the handlers compute are what the pool owns.\<close>

lemma owns_off_market:
  assumes "calc_total_without_take_pnl_no_orderbook p c a = Done (pc, coin)" and "off_market a"
    and "balance R (ledger w) (amm_pc_vault a) = Some (uint p)"
    and "balance R (ledger w) (amm_coin_vault a) = Some (uint c)"
  shows "owns R pid w wq a (pool_of pc coin (lp_amount a))"
  using assms by (simp add: owns_def pool_of_def calc_total_no_orderbook_Done)

lemma owns_on_market:
  assumes "load_serum_market_order R w m o1 auth a False = Done (ms, oo)"
    and "calc_total_without_take_pnl R wq p c oo a ms q o1 = Done (pc, coin)"
    and "ai_key m = amm_market a" and "ai_key o1 = amm_open_orders a"
    and "authority_id R pid AUTHORITY_AMM (as_u8 (amm_nonce a)) = Done (ai_key auth)"
    and "\<not> off_market a"
    and "balance R (ledger w) (amm_pc_vault a) = Some (uint p)"
    and "balance R (ledger w) (amm_coin_vault a) = Some (uint c)"
  shows "owns R pid w wq a (pool_of pc coin (lp_amount a))"
proof -
  obtain evs where evs: "rt_event_queue R ms (ai_key q) (acc_of wq q) = Done evs"
    and t: "uint pc = uint p + uint (native_pc_total oo) +
        sum_list (map (pc_delta (rt_aligned R (amm_open_orders a))) evs) -
        uint (need_take_pnl_pc (amm_state_data a))"
      "uint coin = uint c + uint (native_coin_total oo) +
        sum_list (map (coin_delta (rt_aligned R (amm_open_orders a))) evs) -
        uint (need_take_pnl_coin (amm_state_data a))"
    using calc_total_without_take_pnl_facts [OF assms(2)] assms(4) by auto
  have "market_holds R pid w wq a
      (uint (native_pc_total oo) + sum_list (map (pc_delta (rt_aligned R (amm_open_orders a))) evs))
      (uint (native_coin_total oo) + sum_list (map (coin_delta (rt_aligned R (amm_open_orders a))) evs))"
    unfolding market_holds_def using assms(1,3-5) evs by blast
  then show ?thesis
    unfolding owns_def using assms(6-8) t
    by (intro exI conjI) (assumption | simp add: pool_of_def)+
qed

section \<open>What the calls of a handler move\<close>

text \<open>
  The tokens that token transfers bring into an account, less what they take out of it, and
  the shares minted less the shares burnt. Settlements of the market are not transfers: they
  turn what the market holds for the pool, which the totals count already, into vault
  balances.
\<close>

definition token_flow :: "pubkey \<Rightarrow> cpi \<Rightarrow> int" where
  "token_flow v c =
     (case cpi_ix c of
        SplTransfer _ src dst _ n \<Rightarrow>
          (if dst = v then uint n else 0) - (if src = v then uint n else 0)
      | _ \<Rightarrow> 0)"

definition share_flow :: "pubkey \<Rightarrow> cpi \<Rightarrow> int" where
  "share_flow m c =
     (case cpi_ix c of
        SplMintTo _ m' _ _ n \<Rightarrow> if m' = m then uint n else 0
      | SplBurn _ _ m' _ n \<Rightarrow> if m' = m then - uint n else 0
      | _ \<Rightarrow> 0)"

definition net :: "(cpi \<Rightarrow> int) \<Rightarrow> cpi list \<Rightarrow> int" where
  "net f cs = sum_list (map f cs)"

lemma net_simps [simp]:
  "net f [] = 0" "net f (c # cs) = f c + net f cs" "net f (cs @ ds) = net f cs + net f ds"
  by (simp_all add: net_def)

lemma flow_simps [simp]:
  "token_flow v (user_transfer tp src dst own n) =
     (if ai_key dst = v then uint n else 0) - (if ai_key src = v then uint n else 0)"
  "token_flow v (pool_transfer tp src dst auth nonce n) =
     (if ai_key dst = v then uint n else 0) - (if ai_key src = v then uint n else 0)"
  "token_flow v (pool_mint tp m dst auth nonce n) = 0"
  "token_flow v (user_burn tp acc m own n) = 0"
  "share_flow k (user_transfer tp src dst own n) = 0"
  "share_flow k (pool_transfer tp src dst auth nonce n) = 0"
  "share_flow k (pool_mint tp m dst auth nonce n) = (if ai_key m = k then uint n else 0)"
  "share_flow k (user_burn tp acc m own n) = (if ai_key m = k then - uint n else 0)"
  by (simp_all add: token_flow_def share_flow_def user_transfer_def pool_transfer_def
      pool_mint_def user_burn_def)

lemma market_calls_move_nothing:
  "list_all market_call cs \<Longrightarrow> net (token_flow v) cs = 0 \<and> net (share_flow k) cs = 0"
  by (induction cs) (auto simp: market_call_def token_flow_def share_flow_def split: cpi_data.splits)

section \<open>A trade as a step\<close>

fun is_trade :: "amm_instruction \<Rightarrow> bool" where
  "is_trade (Deposit _) = True"
| "is_trade (Withdraw _) = True"
| "is_trade (SwapBaseIn _) = True"
| "is_trade (SwapBaseOut _) = True"
| "is_trade _ = False"

fun is_swap :: "amm_instruction \<Rightarrow> bool" where
  "is_swap (SwapBaseIn _) = True"
| "is_swap (SwapBaseOut _) = True"
| "is_swap _ = False"

text \<open>
  The world whose event queue a trade reads: the one it starts from, or for a withdrawal the one
  after the calls that take the pool's orders off the market, which it makes first.
\<close>

fun queue_read :: "runtime \<Rightarrow> amm_instruction \<Rightarrow> world \<Rightarrow> world \<Rightarrow> world \<Rightarrow> bool" where
  "queue_read R (Withdraw _) w wq w' \<longleftrightarrow> calls R w wq \<and>
     (\<exists>pre post. cpis wq = cpis w @ pre \<and> list_all market_call pre \<and> cpis w' = cpis wq @ post)"
| "queue_read R _ w wq w' \<longleftrightarrow> wq = w"

text \<open>
  What is left of the pool \<open>s0\<close> when the profit owed rises from what \<open>a\<close> to what \<open>a'\<close> says. A swap
  sets nothing aside.
\<close>

definition set_aside :: "amm_instruction \<Rightarrow> amm_info \<Rightarrow> amm_info \<Rightarrow> pool \<Rightarrow> pool \<Rightarrow> bool" where
  "set_aside i a a' s0 s \<longleftrightarrow>
     pool_pc s + uint (need_take_pnl_pc (amm_state_data a')) =
       pool_pc s0 + uint (need_take_pnl_pc (amm_state_data a)) \<and>
     pool_coin s + uint (need_take_pnl_coin (amm_state_data a')) =
       pool_coin s0 + uint (need_take_pnl_coin (amm_state_data a)) \<and>
     pool_pc s \<le> pool_pc s0 \<and> pool_coin s \<le> pool_coin s0 \<and> pool_lp s = pool_lp s0 \<and>
     (is_swap i \<longrightarrow> s = s0)"

text \<open>The calls of a run move the difference of two pools, and the stored pool counts its shares.\<close>

definition pool_moved :: "account_info \<Rightarrow> amm_info \<Rightarrow> amm_info \<Rightarrow> world \<Rightarrow> world \<Rightarrow> pool \<Rightarrow> pool \<Rightarrow> bool" where
  "pool_moved info a a' w w' s s' \<longleftrightarrow>
     amm_load w' info = Done a' \<and> pool_lp s' = uint (lp_amount a') \<and>
     (\<exists>new. cpis w' = cpis w @ new \<and>
        pool_pc s' - pool_pc s = net (token_flow (amm_pc_vault a)) new \<and>
        pool_coin s' - pool_coin s = net (token_flow (amm_coin_vault a)) new \<and>
        pool_lp s' - pool_lp s = net (share_flow (amm_lp_mint a)) new)"

definition refines_step ::
  "runtime \<Rightarrow> pubkey \<Rightarrow> amm_instruction \<Rightarrow> account_info \<Rightarrow> amm_info \<Rightarrow> world \<Rightarrow> world \<Rightarrow> bool" where
  "refines_step R program_id i info a w w' \<longleftrightarrow>
     (\<exists>wq a' s0 s s'. queue_read R i w wq w' \<and> owns R program_id w wq a s0 \<and> set_aside i a a' s0 s \<and>
        trade_step (amm_fees a) i s s' \<and> pool_moved info a a' w w' s s')"

text \<open>The contract of a handler that trades with the pool, on pairwise distinct accounts.\<close>

locale pool_handler =
  fixes run :: "runtime \<Rightarrow> pubkey \<Rightarrow> account_info list \<Rightarrow> 'ins \<Rightarrow> world \<Rightarrow> world outcome"
    and label :: "'ins \<Rightarrow> amm_instruction"
  assumes run_refines: "run R pid accounts ins w = Done w' \<Longrightarrow>
    amm_load w (accounts ! 1) = Done amm \<Longrightarrow>
    swap_fee_numerator (amm_fees amm) \<le> swap_fee_denominator (amm_fees amm) \<Longrightarrow>
    distinct (map ai_key accounts) \<Longrightarrow> refines_step R pid (label ins) (accounts ! 1) amm w w'"
begin

lemma run_keeps_value:
  assumes "run R pid accounts ins w = Done w'" and "amm_load w (accounts ! 1) = Done amm"
    and "swap_fee_numerator (amm_fees amm) \<le> swap_fee_denominator (amm_fees amm)"
    and "distinct (map ai_key accounts)"
  shows "\<exists>wq a' s0 s s'. queue_read R (label ins) w wq w' \<and> owns R pid w wq amm s0 \<and>
    set_aside (label ins) amm a' s0 s \<and> trade_step (amm_fees amm) (label ins) s s' \<and>
    pool_moved (accounts ! 1) amm a' w w' s s' \<and> (live s \<longrightarrow> live s' \<and> value_kept s s')"
  using run_refines [OF assms] trade_keeps [OF _ assms(3)] unfolding refines_step_def by blast

end

lemma refines_stepI:
  assumes "queue_read R i w wq w'" and "owns R pid w wq a s0" and "set_aside i a a' s0 s"
    and "trade_step (amm_fees a) i s s'" and "pool_moved info a a' w w' s s'"
  shows "refines_step R pid i info a w w'"
  unfolding refines_step_def using assms by blast

lemma key_neq:
  "distinct (map ai_key xs) \<Longrightarrow> i < length xs \<Longrightarrow> j < length xs \<Longrightarrow> i \<noteq> j \<Longrightarrow>
     ai_key (xs ! i) \<noteq> ai_key (xs ! j)"
  by (metis length_map nth_eq_iff_index_eq nth_map)

lemma deposit_keys:
  assumes "deposit_parse_accounts accounts = Done A" and "distinct (map ai_key accounts)"
  shows "distinct (map ai_key [dp_coin_vault A, dp_pc_vault A, dp_source_coin A, dp_source_pc A])"
  using assms by (auto simp: deposit_parse_accounts_def key_neq split: if_splits)

lemma deposit_check_keys:
  "deposit_check R pid A amm deposit w = Done s \<Longrightarrow>
     ai_key (dp_coin_vault A) = amm_coin_vault amm \<and> ai_key (dp_pc_vault A) = amm_pc_vault amm \<and>
     ai_key (dp_lp_mint A) = amm_lp_mint amm"
  by (auto simp: deposit_check_def and_then_Done Let_def)

lemma withdraw_keys:
  assumes "withdraw_parse_accounts accounts = Done A" and "distinct (map ai_key accounts)"
  shows "distinct (map ai_key [wd_coin_vault A, wd_pc_vault A, wd_dest_coin A, wd_dest_pc A])"
  using assms by (auto simp: withdraw_parse_accounts_def Let_def key_neq split: if_splits)

lemma withdraw_check_keys:
  "withdraw_check R pid A amm withdraw w = Done s \<Longrightarrow>
     ai_key (wd_coin_vault A) = amm_coin_vault amm \<and> ai_key (wd_pc_vault A) = amm_pc_vault amm \<and>
     ai_key (wd_lp_mint A) = amm_lp_mint amm \<and> withdraw_amount withdraw < lp_amount amm"
  by (auto simp: withdraw_check_def and_then_Done Let_def)

lemma swap_keys:
  assumes "swap_parse_accounts accounts = Done A" and "distinct (map ai_key accounts)"
  shows "distinct (map ai_key [sw_coin_vault A, sw_pc_vault A, sw_user_source A, sw_user_destination A])"
  using assms by (auto simp: swap_parse_accounts_def Let_def key_neq split: if_splits)

lemma swap_check_keys:
  "swap_check R pid A amm w = Done T \<Longrightarrow>
     ai_key (sw_coin_vault A) = amm_coin_vault amm \<and> ai_key (sw_pc_vault A) = amm_pc_vault amm"
  by (auto simp: swap_check_def and_then_Done Let_def)

lemma withdraw_take_pnl_totals:
  assumes "withdraw_take_pnl R target amm pc coin x1 y1 = Done r"
  shows "uint (pr_total_pc r) + uint (need_take_pnl_pc (amm_state_data (pr_amm r))) =
      uint pc + uint (need_take_pnl_pc (amm_state_data amm))"
    and "uint (pr_total_coin r) + uint (need_take_pnl_coin (amm_state_data (pr_amm r))) =
      uint coin + uint (need_take_pnl_coin (amm_state_data amm))"
  using assms calc_take_pnl_totals(1,2) by (auto simp: withdraw_take_pnl_def split: if_splits)


section \<open>The four trades\<close>

text \<open>What the checks of a trade found out about the vaults and the market.\<close>

lemma deposit_check_owns:
  assumes "deposit_check R pid A amm deposit w = Done s"
  shows "balance R (ledger w) (amm_coin_vault amm) = Some (uint (ta_amount (ds_coin_vault s)))"
    and "balance R (ledger w) (amm_pc_vault amm) = Some (uint (ta_amount (ds_pc_vault s)))"
    and "ds_orderbook s \<longleftrightarrow> \<not> off_market amm"
    and "authority_id R pid AUTHORITY_AMM (as_u8 (amm_nonce amm)) = Done (ai_key (dp_authority A))"
  using assms off_market_status
  by (auto simp: deposit_check_def and_then_Done Let_def off_market_def split: if_splits dest!: unpacked_balance)

lemma withdraw_check_owns:
  assumes "withdraw_check R pid A amm withdraw w = Done s"
  shows "balance R (ledger w) (amm_coin_vault amm) = Some (uint (ta_amount (ws_coin_vault s)))"
    and "balance R (ledger w) (amm_pc_vault amm) = Some (uint (ta_amount (ws_pc_vault s)))"
    and "ws_orderbook s \<longleftrightarrow> \<not> off_market amm"
    and "authority_id R pid AUTHORITY_AMM (as_u8 (amm_nonce amm)) = Done (ai_key (wd_authority A))"
  using assms off_market_status
  by (auto simp: withdraw_check_def and_then_Done Let_def off_market_def split: if_splits dest!: unpacked_balance)

lemma swap_check_owns:
  assumes "swap_check R pid A amm w = Done T"
  shows "balance R (ledger w) (amm_coin_vault amm) = Some (uint (ta_amount (tk_coin_vault T)))"
    and "balance R (ledger w) (amm_pc_vault amm) = Some (uint (ta_amount (tk_pc_vault T)))"
    and "authority_id R pid AUTHORITY_AMM (as_u8 (amm_nonce amm)) = Done (ai_key (sw_authority A))"
  using assms by (auto simp: swap_check_def and_then_Done Let_def split: if_splits dest!: unpacked_balance)

lemma deposit_owns:
  assumes "deposit_check R pid A amm deposit w = Done s" and "deposit_totals R A amm s w = Done (pc, coin)"
  shows "owns R pid w w amm (pool_of pc coin (lp_amount amm))"
proof (cases "off_market amm")
  case True
  then show ?thesis
    using assms(2) deposit_check_owns [OF assms(1)] owns_off_market by (simp add: deposit_totals_def)
next
  case False
  then show ?thesis
    using assms(2) deposit_check_owns [OF assms(1)]
    by (auto simp: deposit_totals_def and_then_Done split: if_splits intro: owns_on_market)
qed

lemma withdraw_owns:
  assumes "withdraw_check R pid A amm withdraw w = Done s"
    and "withdraw_totals R A amm s w = Done ((pc, coin), w1)"
  shows "owns R pid w w1 amm (pool_of pc coin (lp_amount amm))"
proof (cases "off_market amm")
  case True
  then show ?thesis
    using assms(2) withdraw_check_owns [OF assms(1)] owns_off_market
    by (auto simp: withdraw_totals_def and_then_Done)
next
  case False
  then show ?thesis
    using assms(2) withdraw_check_owns [OF assms(1)]
    by (auto simp: withdraw_totals_def and_then_Done split: if_splits intro: owns_on_market)
qed

lemma swap_owns:
  assumes "swap_check R pid A amm0 w = Done T" and "swap_status R amm0 = Done amm"
    and "status_from_u64 (amm_status amm0) = Done status"
    and "swap_calc_totals R A amm (orderbook_permission status) T w = Done t"
  shows "owns R pid w w amm0 (pool_of (st_pc t) (st_coin t) (lp_amount amm0))"
proof -
  obtain st' where amm: "amm = amm0\<lparr>amm_status := st'\<rparr>"
    using swap_status_fields [OF assms(2)] by blast
  note f = swap_check_owns [OF assms(1)]
  show ?thesis
  proof (cases "off_market amm0")
    case True
    then show ?thesis
      using assms(4) off_market_status [OF True assms(3)] f owns_off_market
      by (auto simp: swap_calc_totals_def and_then_Done amm loads_status)
  next
    case False
    then have "orderbook_permission status"
      using assms(3) by (auto simp: off_market_def)
    then show ?thesis
      using assms(4) False f
      by (auto simp: swap_calc_totals_def and_then_Done amm loads_status split: if_splits
          intro: owns_on_market)
  qed
qed

lemma deposit_set_aside:
  assumes "calc_take_pnl R target amm pc coin x1 y1 = Done r"
    and "amm_state_data a' = amm_state_data (pr_amm r)"
  shows "set_aside (Deposit deposit) amm a' (pool_of pc coin lp) (pool_of (pr_total_pc r) (pr_total_coin r) lp)"
  using calc_take_pnl_totals(1-4) [OF assms(1)] assms(2) by (simp add: set_aside_def pool_of_def)

lemma withdraw_set_aside:
  assumes "withdraw_take_pnl R target amm pc coin x1 y1 = Done r"
    and "amm_state_data a' = amm_state_data (pr_amm r)"
  shows "set_aside (Withdraw withdraw) amm a' (pool_of pc coin lp) (pool_of (pr_total_pc r) (pr_total_coin r) lp)"
proof -
  have "uint (pr_total_pc r) \<le> uint pc" "uint (pr_total_coin r) \<le> uint coin"
    using assms(1) calc_take_pnl_totals(3,4) by (auto simp: withdraw_take_pnl_def split: if_splits)
  then show ?thesis
    using withdraw_take_pnl_totals [OF assms(1)] assms(2) by (simp add: set_aside_def pool_of_def)
qed

interpretation deposit: pool_handler process_deposit Deposit
proof unfold_locales
  fix R pid accounts w w' amm0 and deposit :: deposit_instruction
  assume run: "process_deposit R pid accounts deposit w = Done w'"
    and load: "amm_load w (accounts ! 1) = Done amm0" and dist: "distinct (map ai_key accounts)"
  obtain A s pc coin x1 y1 r c p l lp epoch where
    A: "deposit_parse_accounts accounts = Done A" and
    s: "deposit_check R pid A amm0 deposit w = Done s" and
    tot: "deposit_totals R A amm0 s w = Done (pc, coin)" and
    r: "calc_take_pnl R (ds_target s) amm0 pc coin (widen (x1 :: u128)) (widen (y1 :: u128)) = Done r" and
    q: "deposit_quote deposit (lp_amount amm0) (pr_total_pc (r :: pnl_result)) (pr_total_coin r) = Done (c, p, l)"
      "c \<noteq> 0" "p \<noteq> 0" "l \<noteq> 0" and
    calls: "cpis w' = cpis w @
      [user_transfer (dp_token_program A) (dp_source_coin A) (dp_coin_vault A) (dp_source_owner A) c,
       user_transfer (dp_token_program A) (dp_source_pc A) (dp_pc_vault A) (dp_source_owner A) p,
       pool_mint (dp_token_program A) (dp_lp_mint A) (dp_dest_lp A) (dp_authority A)
         (as_u8 (amm_nonce amm0)) l]" and
    amm': "amm_load w' (dp_amm A) = Done ((pr_amm r)\<lparr>lp_amount := lp, recent_epoch := epoch\<rparr>)" and
    lp: "uint lp = uint (lp_amount amm0) + uint l"
    using process_deposit_effects [OF run load] by blast
  let ?a = "(pr_amm r)\<lparr>lp_amount := lp, recent_epoch := epoch\<rparr>"
  let ?s = "pool_of (pr_total_pc r) (pr_total_coin r) (lp_amount amm0)"
  let ?s' = "\<lparr>pool_pc = uint (pr_total_pc r) + uint p, pool_coin = uint (pr_total_coin r) + uint c,
    pool_lp = uint (lp_amount amm0) + uint l\<rparr>"
  have "pool_moved (accounts ! 1) amm0 ?a w w' ?s ?s'"
    using deposit_keys [OF A dist] deposit_check_keys [OF s] amm' lp deposit_parse_amm [OF A]
    unfolding pool_moved_def calls by (auto simp: pool_of_def)
  moreover have "trade_step (amm_fees amm0) (Deposit deposit) ?s ?s'"
    using deposit_step [OF q] deposit_quote_facts(3,4) [OF q(1-3)] by blast
  moreover have "set_aside (Deposit deposit) amm0 ?a (pool_of pc coin (lp_amount amm0)) ?s"
    by (rule deposit_set_aside [OF r]) simp
  ultimately show "refines_step R pid (Deposit deposit) (accounts ! 1) amm0 w w'"
    by (intro refines_stepI [OF _ deposit_owns [OF s tot]]) simp_all
qed

interpretation withdraw: pool_handler process_withdraw Withdraw
proof unfold_locales
  fix R pid accounts w w' amm0 and withdraw :: withdraw_instruction
  assume run: "process_withdraw R pid accounts withdraw w = Done w'"
    and load: "amm_load w (accounts ! 1) = Done amm0" and dist: "distinct (map ai_key accounts)"
  let ?n = "withdraw_amount withdraw"
  obtain A s pc coin r w1 x1 y1 c p lp epoch pre target where
    A: "withdraw_parse_accounts accounts = Done A" and
    s: "withdraw_check R pid A amm0 withdraw w = Done s" and
    tot: "withdraw_totals R A amm0 s w = Done ((pc, coin), w1)" and
    r: "withdraw_take_pnl R target amm0 pc coin x1 y1 = Done r" and
    q: "withdraw_quote ?n (lp_amount amm0) (pr_total_pc r) (pr_total_coin r) = Done (c, p)"
      "\<not> below_both_min (min_coin_amount withdraw) (min_pc_amount withdraw) c p"
      "0 < uint ?n" "c \<noteq> 0" "p \<noteq> 0" and
    calls: "cpis w' = cpis w @ pre @
      [pool_transfer (wd_token_program A) (wd_coin_vault A) (wd_dest_coin A) (wd_authority A)
         (as_u8 (amm_nonce amm0)) c,
       pool_transfer (wd_token_program A) (wd_pc_vault A) (wd_dest_pc A) (wd_authority A)
         (as_u8 (amm_nonce amm0)) p,
       user_burn (wd_token_program A) (wd_source_lp A) (wd_lp_mint A) (wd_source_owner A) ?n]" and
    w1: "cpis w1 = cpis w @ pre" and pre: "\<forall>c\<in>set pre. market_call c" and
    amm': "amm_load w' (wd_amm A) = Done ((pr_amm r)\<lparr>lp_amount := lp, recent_epoch := epoch\<rparr>)" and
    lp: "uint lp = uint (lp_amount amm0) - uint ?n"
    using process_withdraw_effects [OF run load] by blast
  let ?a = "(pr_amm r)\<lparr>lp_amount := lp, recent_epoch := epoch\<rparr>"
  let ?s = "pool_of (pr_total_pc r) (pr_total_coin r) (lp_amount amm0)"
  let ?s' = "\<lparr>pool_pc = uint (pr_total_pc r) - uint p, pool_coin = uint (pr_total_coin r) - uint c,
    pool_lp = uint (lp_amount amm0) - uint ?n\<rparr>"
  note keys = withdraw_check_keys [OF s]
  have "net (token_flow v) pre = 0" "net (share_flow v) pre = 0" for v
    using market_calls_move_nothing pre by (simp_all add: list_all_iff)
  then have "pool_moved (accounts ! 1) amm0 ?a w w' ?s ?s'"
    using withdraw_keys [OF A dist] keys amm' lp withdraw_parse_amm [OF A]
    unfolding pool_moved_def calls by (auto simp: pool_of_def)
  moreover have "trade_step (amm_fees amm0) (Withdraw withdraw) ?s ?s'"
    using withdraw_step [OF q(1) _ q(4,5) _ q(2)] q(3) keys by fastforce
  moreover have "set_aside (Withdraw withdraw) amm0 ?a (pool_of pc coin (lp_amount amm0)) ?s"
    by (rule withdraw_set_aside [OF r]) simp
  moreover have "queue_read R (Withdraw withdraw) w w1 w'"
    using withdraw_totals_only_calls [OF tot] w1 pre calls by (auto simp: list_all_iff)
  ultimately show "refines_step R pid (Withdraw withdraw) (accounts ! 1) amm0 w w'"
    by (intro refines_stepI [OF _ withdraw_owns [OF s tot]])
qed

text \<open>Both swap handlers move the pool by their trade.\<close>

lemma swap_result_moves:
  assumes A: "swap_parse_accounts accounts = Done A" and dist: "distinct (map ai_key accounts)"
    and T: "swap_check R pid A amm0 w = Done T" and st: "swap_status R amm0 = Done amm"
    and status: "status_from_u64 (amm_status amm0) = Done status"
    and t: "swap_calc_totals R A amm (orderbook_permission status) T w = Done t"
    and res: "swap_result A amm e t d n out fee w w'"
    and stp: "trade_step (amm_fees amm0) i (pool_of (st_pc t) (st_coin t) (lp_amount amm0))
      (traded d n out (pool_of (st_pc t) (st_coin t) (lp_amount amm0)))"
    and i: "is_swap i"
  shows "refines_step R pid i (accounts ! 1) amm0 w w'"
proof -
  let ?s = "pool_of (st_pc t) (st_coin t) (lp_amount amm0)"
  obtain pre where calls: "cpis w' = cpis w @ pre @ swap_calls A amm d n out"
    and pre: "list_all market_call pre"
    using res unfolding swap_result_def by blast
  obtain st' where amm: "amm = amm0\<lparr>amm_status := st'\<rparr>"
    using swap_status_fields [OF st] by blast
  obtain sd epoch where a': "amm_load w' (sw_amm A) = Done (amm\<lparr>amm_state_data := sd, recent_epoch := epoch\<rparr>)"
    and owed: "need_take_pnl_pc sd = need_take_pnl_pc (amm_state_data amm)"
      "need_take_pnl_coin sd = need_take_pnl_coin (amm_state_data amm)"
    using res unfolding swap_result_def by blast
  let ?a = "amm\<lparr>amm_state_data := sd, recent_epoch := epoch\<rparr>"
  have "net (token_flow v) pre = 0" "net (share_flow v) pre = 0" for v
    using market_calls_move_nothing [OF pre] by simp_all
  moreover have "pool_pc (traded d n out ?s) - pool_pc ?s = net (token_flow (amm_pc_vault amm0)) (swap_calls A amm d n out)"
    "pool_coin (traded d n out ?s) - pool_coin ?s = net (token_flow (amm_coin_vault amm0)) (swap_calls A amm d n out)"
    "pool_lp (traded d n out ?s) - pool_lp ?s = net (share_flow (amm_lp_mint amm0)) (swap_calls A amm d n out)"
    using swap_keys [OF A dist] swap_check_keys [OF T]
    by (cases d; auto simp: swap_calls_def pool_of_def)+
  moreover have "pool_lp (traded d n out ?s) = uint (lp_amount ?a)"
    by (cases d) (simp_all add: pool_of_def amm)
  ultimately have "pool_moved (accounts ! 1) amm0 ?a w w' ?s (traded d n out ?s)"
    using a' swap_parse_amm [OF A] unfolding pool_moved_def calls
    by (intro conjI exI [of _ "pre @ swap_calls A amm d n out"]) simp_all
  moreover have "set_aside i amm0 ?a ?s ?s"
    by (simp add: set_aside_def owed amm)
  moreover have "queue_read R i w w w'" using i by (cases i) simp_all
  ultimately show ?thesis
    using refines_stepI [OF _ swap_owns [OF T st status t] _ stp] by blast
qed

interpretation swap_base_in: pool_handler process_swap_base_in SwapBaseIn
proof unfold_locales
  fix R pid accounts w w' amm0 and swap :: swap_instruction_base_in
  assume run: "process_swap_base_in R pid accounts swap w = Done w'"
    and load: "amm_load w (accounts ! 1) = Done amm0" and dist: "distinct (map ai_key accounts)"
    and fees: "swap_fee_numerator (amm_fees amm0) \<le> swap_fee_denominator (amm_fees amm0)"
  obtain A T t d fee out amm status where
    A: "swap_parse_accounts accounts = Done A" and T: "swap_check R pid A amm0 w = Done T"
    and st: "swap_status R amm0 = Done amm"
    and t: "swap_calc_totals R A amm (orderbook_permission status) T w = Done t"
    and q: "swap_in_quote (amm_fees amm0) (amount_in swap) (st_pc t) (st_coin t) d = Done (fee, out)"
    and min: "minimum_amount_out swap \<le> out"
    and status: "status_from_u64 (amm_status amm0) = Done status"
    and res: "swap_result A amm (orderbook_permission status) t d (amount_in swap) out (uint fee) w w'"
    using process_swap_base_in_effects [OF run load fees] by blast
  have "amount_in swap \<noteq> 0" "out \<noteq> 0" "out < reserve_out d (st_pc t) (st_coin t)"
    using res by (auto simp: swap_result_def word_less_def)
  then show "refines_step R pid (SwapBaseIn swap) (accounts ! 1) amm0 w w'"
    using swap_result_moves [OF A dist T st status t res] swap_in_step [OF q _ _ min] by simp
qed

interpretation swap_base_out: pool_handler process_swap_base_out SwapBaseOut
proof unfold_locales
  fix R pid accounts w w' amm0 and swap :: swap_instruction_base_out
  assume run: "process_swap_base_out R pid accounts swap w = Done w'"
    and load: "amm_load w (accounts ! 1) = Done amm0" and dist: "distinct (map ai_key accounts)"
  obtain A T t d fee input amm status where
    A: "swap_parse_accounts accounts = Done A" and T: "swap_check R pid A amm0 w = Done T"
    and st: "swap_status R amm0 = Done amm"
    and t: "swap_calc_totals R A amm (orderbook_permission status) T w = Done t"
    and q: "swap_out_quote (amm_fees amm0) (amount_out swap) (st_pc t) (st_coin t) d = Done (input, fee)"
    and max: "input \<le> max_amount_in swap"
    and status: "status_from_u64 (amm_status amm0) = Done status"
    and res: "swap_result A amm (orderbook_permission status) t d input (amount_out swap) (uint fee) w w'"
    using process_swap_base_out_effects [OF run load] by blast
  have "input \<noteq> 0" "amount_out swap \<noteq> 0"
    using res by (auto simp: swap_result_def)
  then show "refines_step R pid (SwapBaseOut swap) (accounts ! 1) amm0 w w'"
    using swap_result_moves [OF A dist T st status t res] swap_out_step [OF q _ _ max] by simp
qed

end
