(* ===== verification/Dispatch.thy ===== *)
theory Dispatch
  imports Trades
begin

text \<open>
  \<open>Processor::process\<close> of \<open>program/src/processor.rs\<close>: the instruction is unpacked from its bytes
  and its handler runs. Whatever holds of every handler holds of the program: who may run
  what, what a trade does to its pool, and what becomes of a pool over any sequence of
  transactions.
\<close>

section \<open>The program\<close>

text \<open>The two instructions of older versions are unimplemented and panic.\<close>

primrec dispatch ::
  "amm_instruction \<Rightarrow> runtime \<Rightarrow> pubkey \<Rightarrow> account_info list \<Rightarrow> world \<Rightarrow> world outcome" where
  "dispatch (PreInitialize _) R program_id accounts w = Panic"
| "dispatch (Initialize _) R program_id accounts w = Panic"
| "dispatch (Initialize2 init2) R program_id accounts w = process_initialize2 R program_id accounts init2 w"
| "dispatch (MonitorStep monitor) R program_id accounts w = process_monitor_step R program_id accounts monitor w"
| "dispatch (Deposit deposit) R program_id accounts w = process_deposit R program_id accounts deposit w"
| "dispatch (Withdraw withdraw) R program_id accounts w = process_withdraw R program_id accounts withdraw w"
| "dispatch MigrateToOpenBook R program_id accounts w = process_migrate_to_openbook R program_id accounts w"
| "dispatch (SetParams setparams) R program_id accounts w = process_set_params R program_id accounts setparams w"
| "dispatch WithdrawPnl R program_id accounts w = process_withdrawpnl R program_id accounts w"
| "dispatch (WithdrawSrm withdrawsrm) R program_id accounts w =
     process_withdraw_srm R program_id accounts withdrawsrm w"
| "dispatch (SwapBaseIn swap) R program_id accounts w = process_swap_base_in R program_id accounts swap w"
| "dispatch (SwapBaseOut swap) R program_id accounts w = process_swap_base_out R program_id accounts swap w"
| "dispatch (SimulateInfo simulate) R program_id accounts w =
     process_simulate_info R program_id accounts simulate w"
| "dispatch (AdminCancelOrders cancel) R program_id accounts w =
     process_admin_cancel_orders R program_id accounts cancel w"
| "dispatch CreateConfigAccount R program_id accounts w = process_create_config R program_id accounts w"
| "dispatch (UpdateConfigAccount config_args) R program_id accounts w =
     process_update_config R program_id accounts config_args w"

definition process ::
  "runtime \<Rightarrow> pubkey \<Rightarrow> account_info list \<Rightarrow> bytes \<Rightarrow> world \<Rightarrow> world outcome" where
  "process R program_id accounts input w =
     and_then (unpack input) (\<lambda>instruction. dispatch instruction R program_id accounts w)"

text \<open>The entry point prints an error and returns it; the printing is left out.\<close>

definition process_instruction ::
  "runtime \<Rightarrow> pubkey \<Rightarrow> account_info list \<Rightarrow> bytes \<Rightarrow> world \<Rightarrow> world outcome" where
  "process_instruction R program_id accounts instruction_data w =
     (case process R program_id accounts instruction_data w of
        Fail error \<Rightarrow> Fail error
      | result \<Rightarrow> result)"

lemma process_instruction_process [simp]: "process_instruction = process"
  by (intro ext) (simp add: process_instruction_def split: outcome.split)

lemma process_Done:
  "process R pid accounts input w = Done w' \<longleftrightarrow>
     (\<exists>i. unpack input = Done i \<and> dispatch i R pid accounts w = Done w')"
  by (simp add: process_def and_then_Done)

section \<open>Who may run what\<close>

text \<open>
  Whom the config grants an instruction beside the administrator; \<open>None\<close> where the instruction is
  open to all.
\<close>

primrec grants :: "amm_instruction \<Rightarrow> amm_config \<Rightarrow> pubkey set option" where
  "grants (PreInitialize _) c = None"
| "grants (Initialize _) c = None"
| "grants (Initialize2 _) c = None"
| "grants (MonitorStep _) c = None"
| "grants (Deposit _) c = None"
| "grants (Withdraw _) c = None"
| "grants MigrateToOpenBook c = Some {}"
| "grants (SetParams _) c = Some {}"
| "grants WithdrawPnl c = Some {pnl_owner c}"
| "grants (WithdrawSrm _) c = Some {}"
| "grants (SwapBaseIn _) c = None"
| "grants (SwapBaseOut _) c = None"
| "grants (SimulateInfo _) c = None"
| "grants (AdminCancelOrders _) c = Some {cancel_owner c}"
| "grants CreateConfigAccount c = Some {}"
| "grants (UpdateConfigAccount _) c = Some {}"

lemma withdrawpnl_parse_owner:
  "withdrawpnl_parse_accounts accounts = Done A \<Longrightarrow> pn_owner A \<in> set accounts"
  by (auto simp: withdrawpnl_parse_accounts_def split: if_splits)

interpretation withdrawpnl:
  privileged "\<lambda>R pid accounts (_ :: unit). process_withdrawpnl R pid accounts" "\<lambda>c. {pnl_owner c}"
proof unfold_locales
  fix R pid accounts w w'
  assume "process_withdrawpnl R pid accounts w = Done w'"
  then obtain A amm s where "withdrawpnl_parse_accounts accounts = Done A"
    and c: "withdrawpnl_check R pid A amm w = Done s"
    by (auto simp: process_withdrawpnl_def and_then_Done)
  then have "pn_owner A \<in> set accounts" by (simp add: withdrawpnl_parse_owner)
  moreover note withdrawpnl_check_Done [OF c]
  ultimately show "\<exists>a\<in>set accounts. is_signer a \<and>
      ai_key a \<in> insert amm_owner_id {pnl_owner (program_config R pid w)}"
    using config_load_checked_program [of w "pn_config A" pid _ R] by blast
qed

text \<open>
  C10: no transaction of the program uses a privilege without its signature. When an instruction
  that sets parameters, migrates a pool, takes profit or tokens out, cancels orders or
  touches the config succeeds, an account of the transaction signed it whose key is the
  administrator's, or the profit owner's or cancel owner's of the config that the program
  stored at its own derived address, for the two instructions they may run.
\<close>

theorem process_privileged:
  assumes "process R pid accounts input w = Done w'" and "unpack input = Done i"
    and "grants i (program_config R pid w) = Some K"
  shows "\<exists>a\<in>set accounts. is_signer a \<and> ai_key a \<in> insert amm_owner_id K"
proof -
  have run: "dispatch i R pid accounts w = Done w'"
    using assms(1,2) by (simp add: process_Done)
  show ?thesis
    using run assms(3)
    by (cases i)
       (auto dest!: set_params.signed withdraw_srm.signed create_config.signed update_config.signed
          admin_cancel.signed migrate.signed withdrawpnl.signed)
qed

definition sample_input :: bytes where
  "sample_input = [6, 3, 5, 0, 0, 0, 0, 0, 0, 0]"

lemma sample_input_unpacked: "unpack sample_input = Done (SetParams sample_set_depth)"
  by code_simp

lemma sample_process: "\<exists>w'. process sample_runtime 7 sample_set_params_accounts sample_input sample_world = Done w'"
  using sample_set_params_run by (simp add: process_Done sample_input_unpacked)

theorem process_privileged_witness:
  "\<exists>a\<in>set sample_set_params_accounts. is_signer a \<and> ai_key a \<in> {amm_owner_id}"
proof -
  obtain w' where "process sample_runtime 7 sample_set_params_accounts sample_input sample_world = Done w'"
    using sample_process by blast
  from process_privileged [OF this sample_input_unpacked, of "{}"] show ?thesis by simp
qed

section \<open>Trades\<close>

text \<open>
  C5: a trade that the program runs is the step of the abstract pool that its instruction asks
  for. Before it the abstract pool is what the stored pool really owns: the balances of its two
  vaults and, with orders on the market, what the market holds for it with the fills still in the
  event queue, less the profit it owes, and its shares. The trade sets aside the profit by which
  what the pool owes grows, a swap none. What is left takes the step that the
  program's quote gives for the amounts of the instruction and the pool's own fees, within the
  limits of the instruction; the calls made move exactly the step's amounts in and out of the
  two vaults and the mint, the stored pool counts the new shares, and the value of a share does
  not fall. The accounts of the transaction are pairwise distinct.
\<close>

theorem process_trade_refines:
  assumes "process R pid accounts input w = Done w'" and "unpack input = Done i" and "is_trade i"
    and "amm_load w (accounts ! 1) = Done amm"
    and "swap_fee_numerator (amm_fees amm) \<le> swap_fee_denominator (amm_fees amm)"
    and "distinct (map ai_key accounts)"
  shows "\<exists>wq a' s0 s s'. queue_read R i w wq w' \<and> owns R pid w wq amm s0 \<and>
    set_aside i amm a' s0 s \<and> trade_step (amm_fees amm) i s s' \<and>
    amm_load w' (accounts ! 1) = Done a' \<and> pool_lp s' = uint (lp_amount a') \<and>
    (\<exists>new. cpis w' = cpis w @ new \<and>
       pool_pc s' - pool_pc s = net (token_flow (amm_pc_vault amm)) new \<and>
       pool_coin s' - pool_coin s = net (token_flow (amm_coin_vault amm)) new \<and>
       pool_lp s' - pool_lp s = net (share_flow (amm_lp_mint amm)) new) \<and>
    (live s \<longrightarrow> live s' \<and> value_kept s s')"
proof -
  have run: "dispatch i R pid accounts w = Done w'"
    using assms(1,2) by (simp add: process_Done)
  show ?thesis
    using run assms(3)
      deposit.run_keeps_value [OF _ assms(4-6)] withdraw.run_keeps_value [OF _ assms(4-6)]
      swap_base_in.run_keeps_value [OF _ assms(4-6)] swap_base_out.run_keeps_value [OF _ assms(4-6)]
    unfolding pool_moved_def by (cases i) (simp_all only: dispatch.simps is_trade.simps simp_thms conj_assoc)
qed

text \<open>A swap of 400 coin for at least 1000 pc.\<close>

definition sample_trade :: bytes where
  "sample_trade = [9, 144, 1, 0, 0, 0, 0, 0, 0, 232, 3, 0, 0, 0, 0, 0, 0]"

lemma sample_trade_unpacked:
  "unpack sample_trade = Done (SwapBaseIn \<lparr>amount_in = 400, minimum_amount_out = 1000\<rparr>)"
  by code_simp

lemma sample_trade_distinct:
  "sample_swap_accounts ! 1 = sample_info 100" "distinct (map ai_key sample_swap_accounts)"
  "swap_fee_numerator (amm_fees sample_amm) \<le> swap_fee_denominator (amm_fees sample_amm)"
  by (simp_all add: sample_swap_accounts_def sample_fees_def)

lemma sample_owns:
  "owns sample_runtime 7 sample_world sample_world sample_amm s \<Longrightarrow> s = pool_of 4000 1000 2000"
  using unpacked_balance [of sample_runtime sample_world "sample_info 104"]
    unpacked_balance [of sample_runtime sample_world "sample_info 105"]
  by (auto simp: owns_def off_market_iff pool_of_def sample_state_data_def)

theorem process_trade_refines_witness:
  "\<exists>w' s'. process sample_runtime 7 sample_swap_accounts sample_trade sample_world = Done w' \<and>
     trade_step sample_fees (SwapBaseIn \<lparr>amount_in = 400, minimum_amount_out = 1000\<rparr>) (pool_of 4000 1000 2000) s' \<and>
     value_kept (pool_of 4000 1000 2000) s'"
proof -
  obtain w' where run: "process sample_runtime 7 sample_swap_accounts sample_trade sample_world = Done w'"
    using sample_swap_in_run by (auto simp: process_Done sample_trade_unpacked)
  have load: "amm_load sample_world (sample_swap_accounts ! 1) = Done sample_amm"
    unfolding sample_trade_distinct(1) by (rule sample_amm_load)
  obtain wq a' s0 s s' where q: "queue_read sample_runtime
        (SwapBaseIn \<lparr>amount_in = 400, minimum_amount_out = 1000\<rparr>) sample_world wq w'"
    and o: "owns sample_runtime 7 sample_world wq sample_amm s0"
    and a: "set_aside (SwapBaseIn \<lparr>amount_in = 400, minimum_amount_out = 1000\<rparr>) sample_amm a' s0 s"
    and st: "trade_step (amm_fees sample_amm) (SwapBaseIn \<lparr>amount_in = 400, minimum_amount_out = 1000\<rparr>) s s'"
    and v: "live s \<longrightarrow> live s' \<and> value_kept s s'"
    using process_trade_refines [OF run sample_trade_unpacked is_trade.simps(3) [THEN eqTrueE] load sample_trade_distinct(3,2)]
    by blast
  have "s = pool_of 4000 1000 2000"
    using q o a sample_owns by (simp add: set_aside_def)
  then show ?thesis
    using run st v by (intro exI [of _ w'] exI [of _ s']) (simp add: live_def pool_of_def)
qed

section \<open>The settlements of swaps\<close>

text \<open>The account that a swap gives a settlement as the market's coin vault.\<close>

definition settled_vault :: "amm_instruction \<Rightarrow> swap_direction \<Rightarrow> swap_accounts \<Rightarrow> account_info" where
  "settled_vault i d A =
     (case i of
        SwapBaseOut _ \<Rightarrow> (case d of Coin2PC \<Rightarrow> sw_market_coin_vault A | PC2Coin \<Rightarrow> sw_asks A)
      | _ \<Rightarrow> sw_market_coin_vault A)"

text \<open>The amount that the instruction itself states.\<close>

definition stated_amount :: "amm_instruction \<Rightarrow> u64 \<Rightarrow> u64 \<Rightarrow> bool" where
  "stated_amount i n out \<longleftrightarrow>
     (case i of SwapBaseIn swap \<Rightarrow> n = amount_in swap | SwapBaseOut swap \<Rightarrow> out = amount_out swap | _ \<Rightarrow> False)"

text \<open>
  C29: the settlements of the swaps. The calls a swap adds are market calls and then its two
  transfers. Among the market calls is one settlement if the status permits orders and the
  output exceeds what the paying vault holds, and none otherwise; of its accounts the one in the place of
  the market's coin vault is the market's coin vault, whichever the direction, in a swap by input, and
  in a swap by output that sells coin. In a swap by output that sells pc it is the account of the
  market's asks.
\<close>

theorem swap_settles_with_asks:
  assumes "process R pid accounts input w = Done w'" and "unpack input = Done i" and "is_swap i"
    and "amm_load w (accounts ! 1) = Done amm"
  shows "\<exists>A T d status n out pre.
    swap_parse_accounts accounts = Done A \<and> swap_check R pid A amm w = Done T \<and>
    swap_direction_of T = Done d \<and> status_from_u64 (amm_status amm) = Done status \<and> stated_amount i n out \<and>
    cpis w' = cpis w @ pre @ swap_calls A amm d n out \<and> list_all market_call pre \<and>
    settlements pre =
      (if orderbook_permission status \<and> ta_amount (reserve_out d (tk_pc_vault T) (tk_coin_vault T)) < out
       then [settlement_with A (settled_vault i d A)] else [])"
proof (cases i)
  case (SwapBaseIn swap)
  then have "process_swap_base_in R pid accounts swap w = Done w'"
    using assms(1,2) by (simp add: process_Done)
  then show ?thesis
    using swap_in_settles [OF _ assms(4)] SwapBaseIn
    unfolding swap_settles_def settled_vault_def stated_amount_def by fastforce
next
  case (SwapBaseOut swap)
  then have "process_swap_base_out R pid accounts swap w = Done w'"
    using assms(1,2) by (simp add: process_Done)
  then show ?thesis
    using swap_out_settles [OF _ assms(4)] SwapBaseOut
    unfolding swap_settles_def settled_vault_def stated_amount_def by fastforce
qed (use assms(3) in simp_all)

text \<open>A swap of at most 600 pc for 1100 coin, of which the vault holds 1000.\<close>

definition sample_deep_swap :: bytes where
  "sample_deep_swap = [11, 88, 2, 0, 0, 0, 0, 0, 0, 76, 4, 0, 0, 0, 0, 0, 0]"

lemma sample_deep_swap_unpacked:
  "unpack sample_deep_swap = Done (SwapBaseOut \<lparr>max_amount_in = 600, amount_out = 1100\<rparr>)"
  by code_simp

theorem swap_settles_with_asks_witness:
  "\<exists>w' A d n pre. process sample_deep_runtime 7 sample_deep_accounts sample_deep_swap sample_deep_world = Done w' \<and>
     swap_parse_accounts sample_deep_accounts = Done A \<and>
     cpis w' = pre @ swap_calls A sample_deep_amm d n 1100 \<and>
     settlements pre = [settlement_with A (sw_asks A)] \<and> ai_key (sw_asks A) = 121"
proof -
  obtain w' where run: "process sample_deep_runtime 7 sample_deep_accounts sample_deep_swap sample_deep_world = Done w'"
    using sample_deep_run by (auto simp: process_Done sample_deep_swap_unpacked)
  have load: "amm_load sample_deep_world (sample_deep_accounts ! 1) = Done sample_deep_amm"
    using sample_deep_load(1) by (simp add: sample_deep_accounts_def)
  obtain A T d status n out pre where f: "swap_parse_accounts sample_deep_accounts = Done A"
      "swap_check sample_deep_runtime 7 A sample_deep_amm sample_deep_world = Done T"
      "swap_direction_of T = Done d" "status_from_u64 (amm_status sample_deep_amm) = Done status"
      "stated_amount (SwapBaseOut \<lparr>max_amount_in = 600, amount_out = 1100\<rparr>) n out"
    and c: "cpis w' = cpis sample_deep_world @ pre @ swap_calls A sample_deep_amm d n out"
    and s: "settlements pre =
      (if orderbook_permission status \<and> ta_amount (reserve_out d (tk_pc_vault T) (tk_coin_vault T)) < out
       then [settlement_with A (settled_vault (SwapBaseOut \<lparr>max_amount_in = 600, amount_out = 1100\<rparr>) d A)] else [])"
    using swap_settles_with_asks [OF run sample_deep_swap_unpacked is_swap.simps(2) [THEN eqTrueE] load]
    by blast
  have A: "ai_key (sw_asks A) = 121"
    using f(1) by (auto simp: swap_parse_accounts_def sample_deep_accounts_def)
  have "d = PC2Coin \<and> ta_amount (tk_coin_vault T) = 1000"
    using f(1-3) by (auto simp: swap_parse_accounts_def sample_deep_accounts_def swap_check_def sample_deep_simps
        and_then_Done authority_id_def sample_deep_unpack swap_direction_of_def)
  moreover have "status = Initialized" "out = 1100"
    using f(4,5) by (simp_all add: sample_deep_simps status_from_u64_def stated_amount_def)
  ultimately have "settlements pre = [settlement_with A (sw_asks A)]" "cpis w' = pre @ swap_calls A sample_deep_amm d n 1100"
    using s c by (simp_all add: settled_vault_def sample_deep_world_def)
  then show ?thesis using run f(1) A by blast
qed

section \<open>Pools over time\<close>

interpretation program: pool_safe process
proof unfold_locales
  fix R pid accounts input w w'
  assume iso: "cpi_isolated R pid" and "process R pid accounts input w = Done w'"
  then obtain i where run: "dispatch i R pid accounts w = Done w'"
    by (auto simp: process_Done)
  show "pools_evolve pid (ledger w) (ledger w')"
    using run
      initialize_safe.run_evolves [OF iso] monitor_safe.run_evolves [OF iso] deposit_safe.run_evolves [OF iso]
      withdraw_safe.run_evolves [OF iso] migrate_safe.run_evolves [OF iso] set_params_safe.run_evolves [OF iso]
      withdrawpnl_safe.run_evolves [OF iso] withdraw_srm_safe.run_evolves [OF iso]
      swap_in_safe.run_evolves [OF iso] swap_out_safe.run_evolves [OF iso] simulate_safe.run_evolves [OF iso]
      admin_cancel_safe.run_evolves [OF iso] create_config_safe.run_evolves [OF iso]
      update_config_safe.run_evolves [OF iso]
    by (cases i) auto
qed

text \<open>
  The ledgers that follow a ledger: transactions of the program, at any time and with whatever
  the other programs then do, and transactions of others, which leave the data of this
  program's accounts alone. A failed transaction changes nothing.
\<close>

inductive later :: "pubkey \<Rightarrow> ledger \<Rightarrow> ledger \<Rightarrow> bool" for pid where
  now: "later pid l l"
| instruction: "later pid l l1 \<Longrightarrow> cpi_isolated R pid \<Longrightarrow>
    process R pid accounts input \<lparr>ledger = l1, cpis = []\<rparr> = Done w \<Longrightarrow> later pid l (ledger w)"
| others: "later pid l l1 \<Longrightarrow>
    (\<And>k. acc_owner (l1 k) = pid \<Longrightarrow> acc_owner (l2 k) = pid \<and> acc_data (l2 k) = acc_data (l1 k)) \<Longrightarrow>
    later pid l l2"

lemma later_evolves: "later pid l l' \<Longrightarrow> pools_evolve pid l l'"
proof (induction rule: later.induct)
  case (now l)
  then show ?case using evolves_refl unfolding pools_evolve_def by blast
next
  case (instruction l l1 R accounts input w)
  then show ?case using program.run_evolves [OF instruction.hyps(2,3)] pools_evolve_trans by simp
next
  case (others l l1 l2)
  have "pool_at pid l2 k = Some a" if "pool_at pid l1 k = Some a" for k a
    using others.hyps(2) [of k] pool_at_SomeD [OF that] that by (auto simp: pool_at_def split: if_splits)
  then have "pools_evolve pid l1 l2"
    using evolves_refl unfolding pools_evolve_def by blast
  then show ?case using others.IH pools_evolve_trans by blast
qed

text \<open>
  C8: a pool stays what it is. Once a pool stands at an address, then over any sequence of
  transactions of the program and of other programs, whoever sends them and whatever bytes
  they carry, an initialised pool stands there, with the same vaults, mints, target orders
  and authority; a valid status, a valid state and parameters in their ranges stay so.
\<close>

theorem pools_persist:
  assumes "later pid l l'" and "pool_at pid l k = Some a"
  shows "\<exists>b. pool_at pid l' k = Some b \<and>
    amm_coin_vault b = amm_coin_vault a \<and> amm_pc_vault b = amm_pc_vault a \<and>
    coin_vault_mint b = coin_vault_mint a \<and> pc_vault_mint b = pc_vault_mint a \<and>
    amm_lp_mint b = amm_lp_mint a \<and> amm_target_orders b = amm_target_orders a \<and>
    as_u8 (amm_nonce b) = as_u8 (amm_nonce a) \<and>
    (valid_status (amm_status a) \<longrightarrow> valid_status (amm_status b)) \<and>
    (valid_state (amm_state a) \<longrightarrow> valid_state (amm_state b)) \<and>
    (params_ok a \<longrightarrow> params_ok b)"
  using later_evolves [OF assms(1)] assms(2) unfolding pools_evolve_def evolves_def by blast

theorem pools_persist_witness:
  "\<exists>l' b. later 7 (ledger sample_world) l' \<and> pool_at 7 l' 100 = Some b \<and> params_ok b \<and>
     amm_coin_vault b = 104"
proof -
  obtain w' where run: "process sample_runtime 7 sample_swap_accounts sample_trade
      \<lparr>ledger = ledger sample_world, cpis = []\<rparr> = Done w'"
    using sample_swap_in_run by (auto simp: process_Done sample_trade_unpacked sample_world_def)
  have iso: "cpi_isolated sample_runtime 7"
    by (simp add: cpi_isolated_def sample_runtime_def)
  have l: "later 7 (ledger sample_world) (ledger w')"
    by (rule instruction [OF now iso run])
  have "amm_load_mut_checked sample_world (sample_info 100) 7 = Done sample_amm"
    by (simp add: amm_load_mut_checked_Done)
  from pool_at_loaded [OF this] have p: "pool_at 7 (ledger sample_world) 100 = Some sample_amm" by simp
  have "params_ok sample_amm" "amm_coin_vault sample_amm = 104"
    by (simp_all add: params_ok_def sample_amm_def sample_fees_def MAX_ORDER_LIMIT_def TEN_THOUSAND_def)
  then show ?thesis using pools_persist [OF l p] l by metis
qed

end
