(* ===== verification/Client.thy ===== *)
theory Client
  imports Dispatch
begin

text \<open>
  The functions of \<open>program/src/instruction.rs\<close> with which a client builds its instructions, and
  what the program makes of them. An instruction is the program's id, a list of account
  references and the packed bytes. Building and running fit when the bytes unpack to the
  arguments and the parser of the handler puts every account in its role, with its signer and
  writable flag. The functions are named as in the source with \<open>_ix\<close> appended, their arguments
  are in the source's order. The ids of the other programs and of the system's accounts are
  those of the runtime. At run time an account that is named twice has the union of its flags;
  \<open>infos\<close> is the case of accounts named once.
\<close>

section \<open>Instructions\<close>

record account_meta =
  am_pubkey :: pubkey
  am_is_signer :: bool
  am_is_writable :: bool

record instruction =
  ix_program_id :: pubkey
  ix_accounts :: "account_meta list"
  ix_data :: bytes

definition meta_new :: "pubkey \<Rightarrow> bool \<Rightarrow> account_meta" where
  "meta_new k signer = \<lparr>am_pubkey = k, am_is_signer = signer, am_is_writable = True\<rparr>"

definition meta_new_readonly :: "pubkey \<Rightarrow> bool \<Rightarrow> account_meta" where
  "meta_new_readonly k signer = \<lparr>am_pubkey = k, am_is_signer = signer, am_is_writable = False\<rparr>"

definition info_of :: "account_meta \<Rightarrow> account_info" where
  "info_of m = \<lparr>ai_key = am_pubkey m, is_signer = am_is_signer m, is_writable = am_is_writable m\<rparr>"

definition infos :: "account_meta list \<Rightarrow> account_info list" where
  "infos = map info_of"

text \<open>The end of every builder: the data is packed first, then the accounts follow.\<close>

definition build :: "pubkey \<Rightarrow> amm_instruction \<Rightarrow> account_meta list \<Rightarrow> instruction outcome" where
  "build amm_program i accounts =
     and_then (pack i) (\<lambda>bs. Done \<lparr>ix_program_id = amm_program, ix_accounts = accounts, ix_data = bs\<rparr>)"

section \<open>The builders\<close>

definition initialize2_ix ::
  "runtime \<Rightarrow> pubkey \<Rightarrow> pubkey \<Rightarrow> pubkey \<Rightarrow> pubkey \<Rightarrow> pubkey \<Rightarrow> pubkey \<Rightarrow> pubkey \<Rightarrow>
   pubkey \<Rightarrow> pubkey \<Rightarrow> pubkey \<Rightarrow> pubkey \<Rightarrow> pubkey \<Rightarrow> pubkey \<Rightarrow> pubkey \<Rightarrow> pubkey \<Rightarrow>
   pubkey \<Rightarrow> pubkey \<Rightarrow> pubkey \<Rightarrow> u8 \<Rightarrow> u64 \<Rightarrow> u64 \<Rightarrow> u64 \<Rightarrow> instruction outcome" where
  "initialize2_ix R amm_program_key pool_key authority_key open_orders_key lp_mint_key
   coin_mint_key pc_mint_key coin_vault_key pc_vault_key target_orders_key config_key
   create_fee_destination_key market_program_key market_key user_wallet_key user_token_coin_key
   user_token_pc_key user_token_lp_key nonce open_time pc_amount coin_amount =
     build amm_program_key (Initialize2 \<lparr>init2_nonce = nonce, init2_open_time = open_time, init_pc_amount = pc_amount,
         init_coin_amount = coin_amount\<rparr>)
      ([meta_new_readonly (rt_spl_token_id R) False, meta_new_readonly (rt_ata_program_id R) False,
        meta_new_readonly (rt_system_program_id R) False, meta_new_readonly (rt_rent_id R) False,
        meta_new pool_key False, meta_new_readonly authority_key False,
        meta_new open_orders_key False, meta_new lp_mint_key False,
        meta_new_readonly coin_mint_key False, meta_new_readonly pc_mint_key False,
        meta_new coin_vault_key False, meta_new pc_vault_key False,
        meta_new target_orders_key False, meta_new_readonly config_key False,
        meta_new create_fee_destination_key False, meta_new_readonly market_program_key False,
        meta_new_readonly market_key False, meta_new user_wallet_key True,
        meta_new user_token_coin_key False, meta_new user_token_pc_key False,
        meta_new user_token_lp_key False])"

definition deposit_ix ::
  "runtime \<Rightarrow> pubkey \<Rightarrow> pubkey \<Rightarrow> pubkey \<Rightarrow> pubkey \<Rightarrow> pubkey \<Rightarrow> pubkey \<Rightarrow> pubkey \<Rightarrow>
   pubkey \<Rightarrow> pubkey \<Rightarrow> pubkey \<Rightarrow> pubkey \<Rightarrow> pubkey \<Rightarrow> pubkey \<Rightarrow> pubkey \<Rightarrow> u64 \<Rightarrow>
   u64 \<Rightarrow> u64 \<Rightarrow> u64 option \<Rightarrow> instruction outcome" where
  "deposit_ix R amm_program_key pool_key authority_key open_orders_key target_orders_key
   lp_mint_key coin_vault_key pc_vault_key market_key event_queue_key user_token_coin_key
   user_token_pc_key user_token_lp_key user_owner_key max_coin max_pc side other_min =
     build amm_program_key (Deposit \<lparr>max_coin_amount = max_coin, max_pc_amount = max_pc, base_side = side,
         other_amount_min = other_min\<rparr>)
      ([meta_new_readonly (rt_spl_token_id R) False, meta_new pool_key False,
        meta_new_readonly authority_key False, meta_new_readonly open_orders_key False,
        meta_new target_orders_key False, meta_new lp_mint_key False,
        meta_new coin_vault_key False, meta_new pc_vault_key False,
        meta_new_readonly market_key False, meta_new user_token_coin_key False,
        meta_new user_token_pc_key False, meta_new user_token_lp_key False,
        meta_new_readonly user_owner_key True, meta_new_readonly event_queue_key False])"

definition withdraw_ix ::
  "runtime \<Rightarrow> pubkey \<Rightarrow> pubkey \<Rightarrow> pubkey \<Rightarrow> pubkey \<Rightarrow> pubkey \<Rightarrow> pubkey \<Rightarrow> pubkey \<Rightarrow>
   pubkey \<Rightarrow> pubkey \<Rightarrow> pubkey \<Rightarrow> pubkey \<Rightarrow> pubkey \<Rightarrow> pubkey \<Rightarrow> pubkey \<Rightarrow> pubkey \<Rightarrow>
   pubkey \<Rightarrow> pubkey \<Rightarrow> pubkey \<Rightarrow> pubkey \<Rightarrow> pubkey \<Rightarrow> pubkey option \<Rightarrow> u64 \<Rightarrow>
   u64 option \<Rightarrow> u64 option \<Rightarrow> instruction outcome" where
  "withdraw_ix R amm_program_key pool_key authority_key open_orders_key target_orders_key
   lp_mint_key coin_vault_key pc_vault_key market_program_key market_key market_coin_vault_key
   market_pc_vault_key vault_signer_key user_token_lp_key user_token_coin_key user_token_pc_key
   user_owner_key event_queue_key bids_key asks_key referrer_pc_account_key amount min_coin min_pc =
     build amm_program_key (Withdraw \<lparr>withdraw_amount = amount, min_coin_amount = min_coin, min_pc_amount = min_pc\<rparr>)
      ([meta_new_readonly (rt_spl_token_id R) False, meta_new pool_key False,
        meta_new_readonly authority_key False, meta_new open_orders_key False,
        meta_new target_orders_key False, meta_new lp_mint_key False,
        meta_new coin_vault_key False, meta_new pc_vault_key False,
        meta_new_readonly market_program_key False, meta_new market_key False,
        meta_new market_coin_vault_key False, meta_new market_pc_vault_key False,
        meta_new_readonly vault_signer_key False, meta_new user_token_lp_key False,
        meta_new user_token_coin_key False, meta_new user_token_pc_key False,
        meta_new_readonly user_owner_key True, meta_new event_queue_key False,
        meta_new bids_key False, meta_new asks_key False] @
       option_list (map_option (\<lambda>k. meta_new k False) referrer_pc_account_key))"

definition swap_base_in_ix ::
  "runtime \<Rightarrow> pubkey \<Rightarrow> pubkey \<Rightarrow> pubkey \<Rightarrow> pubkey \<Rightarrow> pubkey \<Rightarrow> pubkey \<Rightarrow> pubkey \<Rightarrow>
   pubkey \<Rightarrow> pubkey \<Rightarrow> pubkey \<Rightarrow> pubkey \<Rightarrow> pubkey \<Rightarrow> pubkey \<Rightarrow> pubkey \<Rightarrow> pubkey \<Rightarrow>
   pubkey \<Rightarrow> pubkey \<Rightarrow> u64 \<Rightarrow> u64 \<Rightarrow> instruction outcome" where
  "swap_base_in_ix R amm_program_key pool_key authority_key open_orders_key coin_vault_key
   pc_vault_key market_program_key market_key bids_key asks_key event_queue_key
   market_coin_vault_key market_pc_vault_key vault_signer_key user_token_source_key
   user_token_destination_key user_source_owner_key a_in min_out =
     build amm_program_key (SwapBaseIn \<lparr>amount_in = a_in, minimum_amount_out = min_out\<rparr>)
      ([meta_new_readonly (rt_spl_token_id R) False, meta_new pool_key False,
        meta_new_readonly authority_key False, meta_new open_orders_key False,
        meta_new coin_vault_key False, meta_new pc_vault_key False,
        meta_new_readonly market_program_key False, meta_new market_key False,
        meta_new bids_key False, meta_new asks_key False, meta_new event_queue_key False,
        meta_new market_coin_vault_key False, meta_new market_pc_vault_key False,
        meta_new_readonly vault_signer_key False, meta_new user_token_source_key False,
        meta_new user_token_destination_key False, meta_new_readonly user_source_owner_key True])"

definition swap_base_out_ix ::
  "runtime \<Rightarrow> pubkey \<Rightarrow> pubkey \<Rightarrow> pubkey \<Rightarrow> pubkey \<Rightarrow> pubkey \<Rightarrow> pubkey \<Rightarrow> pubkey \<Rightarrow>
   pubkey \<Rightarrow> pubkey \<Rightarrow> pubkey \<Rightarrow> pubkey \<Rightarrow> pubkey \<Rightarrow> pubkey \<Rightarrow> pubkey \<Rightarrow> pubkey \<Rightarrow>
   pubkey \<Rightarrow> pubkey \<Rightarrow> u64 \<Rightarrow> u64 \<Rightarrow> instruction outcome" where
  "swap_base_out_ix R amm_program_key pool_key authority_key open_orders_key coin_vault_key
   pc_vault_key market_program_key market_key bids_key asks_key event_queue_key
   market_coin_vault_key market_pc_vault_key vault_signer_key user_token_source_key
   user_token_destination_key user_source_owner_key max_in a_out =
     build amm_program_key (SwapBaseOut \<lparr>max_amount_in = max_in, amount_out = a_out\<rparr>)
      ([meta_new_readonly (rt_spl_token_id R) False, meta_new pool_key False,
        meta_new_readonly authority_key False, meta_new open_orders_key False,
        meta_new coin_vault_key False, meta_new pc_vault_key False,
        meta_new_readonly market_program_key False, meta_new market_key False,
        meta_new bids_key False, meta_new asks_key False, meta_new event_queue_key False,
        meta_new market_coin_vault_key False, meta_new market_pc_vault_key False,
        meta_new_readonly vault_signer_key False, meta_new user_token_source_key False,
        meta_new user_token_destination_key False, meta_new_readonly user_source_owner_key True])"

definition migrate_to_openbook_ix ::
  "runtime \<Rightarrow> pubkey \<Rightarrow> pubkey \<Rightarrow> pubkey \<Rightarrow> pubkey \<Rightarrow> pubkey \<Rightarrow> pubkey \<Rightarrow> pubkey \<Rightarrow>
   pubkey \<Rightarrow> pubkey \<Rightarrow> pubkey \<Rightarrow> pubkey \<Rightarrow> pubkey \<Rightarrow> pubkey \<Rightarrow> pubkey \<Rightarrow> pubkey \<Rightarrow>
   pubkey \<Rightarrow> pubkey \<Rightarrow> pubkey \<Rightarrow> pubkey \<Rightarrow> instruction outcome" where
  "migrate_to_openbook_ix R amm_program_key pool_key authority_key open_orders_key coin_vault_key
   pc_vault_key target_orders_key market_program_key market_key bids_key asks_key event_queue_key
   market_coin_vault_key market_pc_vault_key vault_signer_key new_amm_open_orders_key
   new_market_program_key new_market_key admin_key =
     build amm_program_key MigrateToOpenBook
      ([meta_new_readonly (rt_spl_token_id R) False,
        meta_new_readonly (rt_system_program_id R) False, meta_new_readonly (rt_rent_id R) False,
        meta_new pool_key False, meta_new_readonly authority_key False,
        meta_new open_orders_key False, meta_new coin_vault_key False, meta_new pc_vault_key False,
        meta_new target_orders_key False, meta_new_readonly market_program_key False,
        meta_new market_key False, meta_new bids_key False, meta_new asks_key False,
        meta_new event_queue_key False, meta_new market_coin_vault_key False,
        meta_new market_pc_vault_key False, meta_new_readonly vault_signer_key False,
        meta_new new_amm_open_orders_key False, meta_new_readonly new_market_program_key False,
        meta_new_readonly new_market_key False, meta_new admin_key True])"

definition withdrawpnl_ix ::
  "runtime \<Rightarrow> pubkey \<Rightarrow> pubkey \<Rightarrow> pubkey \<Rightarrow> pubkey \<Rightarrow> pubkey \<Rightarrow> pubkey \<Rightarrow> pubkey \<Rightarrow>
   pubkey \<Rightarrow> pubkey \<Rightarrow> pubkey \<Rightarrow> pubkey \<Rightarrow> pubkey \<Rightarrow> pubkey \<Rightarrow> pubkey \<Rightarrow> pubkey \<Rightarrow>
   pubkey \<Rightarrow> pubkey \<Rightarrow> instruction outcome" where
  "withdrawpnl_ix R amm_program_key pool_key config_key authority_key open_orders_key
   coin_vault_key pc_vault_key user_token_coin_key user_token_pc_key user_owner_key
   target_orders_key market_program_key market_key event_queue_key market_coin_vault_key
   market_pc_vault_key vault_signer_key =
     build amm_program_key WithdrawPnl
      ([meta_new_readonly (rt_spl_token_id R) False, meta_new pool_key False,
        meta_new_readonly config_key False, meta_new_readonly authority_key False,
        meta_new open_orders_key False, meta_new coin_vault_key False, meta_new pc_vault_key False,
        meta_new user_token_coin_key False, meta_new user_token_pc_key False,
        meta_new_readonly user_owner_key True, meta_new target_orders_key False,
        meta_new_readonly market_program_key False, meta_new market_key False,
        meta_new_readonly event_queue_key False, meta_new market_coin_vault_key False,
        meta_new market_pc_vault_key False, meta_new_readonly vault_signer_key False])"

definition set_params_ix ::
  "runtime \<Rightarrow> pubkey \<Rightarrow> pubkey \<Rightarrow> pubkey \<Rightarrow> pubkey \<Rightarrow> u8 \<Rightarrow> u64 option \<Rightarrow>
   pubkey option \<Rightarrow> pubkey \<Rightarrow> pubkey \<Rightarrow> pubkey \<Rightarrow> pubkey \<Rightarrow> pubkey \<Rightarrow> pubkey \<Rightarrow>
   pubkey \<Rightarrow> pubkey \<Rightarrow> pubkey \<Rightarrow> pubkey \<Rightarrow> pubkey \<Rightarrow> pubkey \<Rightarrow> pubkey option \<Rightarrow>
   fees option \<Rightarrow> last_order_distance option \<Rightarrow> instruction outcome" where
  "set_params_ix R amm_program_key pool_key authority_key admin_key param v new_key
   target_orders_key coin_vault_key pc_vault_key open_orders_key market_program_key market_key
   market_coin_vault_key market_pc_vault_key vault_signer_key event_queue_key bids_key asks_key
   new_amm_open_orders_key f distance =
     and_then (pack (SetParams \<lparr>sp_param = param, sp_value = v, sp_new_pubkey = new_key, sp_fees = f,
         sp_last_order_distance = distance\<rparr>)) (\<lambda>bs.
     and_then
       (if param = ucast (params_into_u64 UpdateOpenOrder) then
          and_then (unwrap new_amm_open_orders_key) (\<lambda>k. Done [meta_new_readonly k False])
        else Done []) (\<lambda>extra.
       Done \<lparr>ix_program_id = amm_program_key, ix_accounts =
       [meta_new_readonly (rt_spl_token_id R) False, meta_new pool_key False,
        meta_new_readonly authority_key False, meta_new open_orders_key False,
        meta_new target_orders_key False, meta_new coin_vault_key False,
        meta_new pc_vault_key False, meta_new_readonly market_program_key False,
        meta_new market_key False, meta_new market_coin_vault_key False,
        meta_new market_pc_vault_key False, meta_new_readonly vault_signer_key False,
        meta_new event_queue_key False, meta_new bids_key False, meta_new asks_key False,
        meta_new_readonly admin_key True] @ extra,
         ix_data = bs\<rparr>))"

definition monitor_step_ix ::
  "runtime \<Rightarrow> pubkey \<Rightarrow> pubkey \<Rightarrow> pubkey \<Rightarrow> pubkey \<Rightarrow> pubkey \<Rightarrow> pubkey \<Rightarrow> pubkey \<Rightarrow>
   pubkey option \<Rightarrow> pubkey \<Rightarrow> pubkey \<Rightarrow> pubkey \<Rightarrow> pubkey \<Rightarrow> pubkey \<Rightarrow> pubkey \<Rightarrow>
   pubkey \<Rightarrow> pubkey \<Rightarrow> pubkey \<Rightarrow> pubkey option \<Rightarrow> u16 \<Rightarrow> u16 \<Rightarrow> u16 \<Rightarrow> instruction outcome" where
  "monitor_step_ix R amm_program_key pool_key authority_key open_orders_key target_orders_key
   coin_vault_key pc_vault_key token_srm_key market_program_key market_key market_coin_vault_key
   market_pc_vault_key vault_signer_key request_queue_key event_queue_key bids_key asks_key
   referrer_token_pc_key plan_limit place_limit cancel =
     build amm_program_key (MonitorStep \<lparr>plan_order_limit = plan_limit, place_order_limit = place_limit,
         cancel_order_limit = cancel\<rparr>)
      ([meta_new_readonly (rt_spl_token_id R) False, meta_new_readonly (rt_rent_id R) False,
        meta_new_readonly (rt_clock_id R) False, meta_new pool_key False,
        meta_new_readonly authority_key False, meta_new open_orders_key False,
        meta_new target_orders_key False, meta_new coin_vault_key False,
        meta_new pc_vault_key False, meta_new_readonly market_program_key False,
        meta_new market_key False, meta_new market_coin_vault_key False,
        meta_new market_pc_vault_key False, meta_new_readonly vault_signer_key False,
        meta_new request_queue_key False, meta_new event_queue_key False, meta_new bids_key False,
        meta_new asks_key False] @
       (case token_srm_key of None \<Rightarrow> []
        | Some srm \<Rightarrow> meta_new srm False #
            option_list (map_option (\<lambda>k. meta_new k False) referrer_token_pc_key)))"

definition withdrawsrm_ix ::
  "runtime \<Rightarrow> pubkey \<Rightarrow> pubkey \<Rightarrow> pubkey \<Rightarrow> pubkey \<Rightarrow> pubkey \<Rightarrow> pubkey \<Rightarrow> u64 \<Rightarrow>
   instruction outcome" where
  "withdrawsrm_ix R amm_program_key pool_key authority_key admin_key token_srm_key
   dest_token_srm_key amount =
     build amm_program_key (WithdrawSrm \<lparr>srm_amount = amount\<rparr>)
      ([meta_new_readonly (rt_spl_token_id R) False, meta_new_readonly pool_key False,
        meta_new_readonly admin_key True, meta_new_readonly authority_key False,
        meta_new token_srm_key False, meta_new dest_token_srm_key False])"

definition simulate_get_pool_info_ix ::
  "pubkey \<Rightarrow> pubkey \<Rightarrow> pubkey \<Rightarrow> pubkey \<Rightarrow> pubkey \<Rightarrow> pubkey \<Rightarrow> pubkey \<Rightarrow> pubkey \<Rightarrow>
   pubkey \<Rightarrow> pubkey option \<Rightarrow> instruction outcome" where
  "simulate_get_pool_info_ix amm_program_key pool_key authority_key open_orders_key coin_vault_key
   pc_vault_key lp_mint_key market_key event_queue_key target_orders_key =
     build amm_program_key (SimulateInfo \<lparr>sim_param = ucast (simulate_into_u64 PoolInfo), swap_base_in_value = None,
         swap_base_out_value = None\<rparr>)
      ([meta_new_readonly pool_key False, meta_new_readonly authority_key False,
        meta_new_readonly open_orders_key False, meta_new_readonly coin_vault_key False,
        meta_new_readonly pc_vault_key False, meta_new_readonly lp_mint_key False,
        meta_new_readonly market_key False, meta_new_readonly event_queue_key False] @
       option_list (map_option (\<lambda>k. meta_new_readonly k False) target_orders_key))"

definition simulate_swap_base_in_ix ::
  "pubkey \<Rightarrow> pubkey \<Rightarrow> pubkey \<Rightarrow> pubkey \<Rightarrow> pubkey \<Rightarrow> pubkey \<Rightarrow> pubkey \<Rightarrow> pubkey \<Rightarrow>
   pubkey \<Rightarrow> pubkey \<Rightarrow> pubkey \<Rightarrow> pubkey \<Rightarrow> pubkey \<Rightarrow> pubkey \<Rightarrow> u64 \<Rightarrow> instruction outcome" where
  "simulate_swap_base_in_ix amm_program_key pool_key authority_key open_orders_key
   target_orders_key coin_vault_key pc_vault_key lp_mint_key market_program_key market_key
   event_queue_key user_token_source_key user_token_destination_key user_source_owner_key a_in =
     build amm_program_key (SimulateInfo \<lparr>sim_param = ucast (simulate_into_u64 SwapBaseInInfo),
         swap_base_in_value = Some \<lparr>amount_in = a_in, minimum_amount_out = 0\<rparr>, swap_base_out_value = None\<rparr>)
      ([meta_new_readonly pool_key False, meta_new_readonly authority_key False,
        meta_new_readonly open_orders_key False, meta_new_readonly target_orders_key False,
        meta_new_readonly coin_vault_key False, meta_new_readonly pc_vault_key False,
        meta_new_readonly lp_mint_key False, meta_new_readonly market_program_key False,
        meta_new_readonly market_key False, meta_new_readonly event_queue_key False,
        meta_new_readonly user_token_source_key False,
        meta_new_readonly user_token_destination_key False,
        meta_new_readonly user_source_owner_key True])"

definition simulate_swap_base_out_ix ::
  "pubkey \<Rightarrow> pubkey \<Rightarrow> pubkey \<Rightarrow> pubkey \<Rightarrow> pubkey \<Rightarrow> pubkey \<Rightarrow> pubkey \<Rightarrow> pubkey \<Rightarrow>
   pubkey \<Rightarrow> pubkey \<Rightarrow> pubkey \<Rightarrow> pubkey \<Rightarrow> pubkey \<Rightarrow> pubkey \<Rightarrow> u64 \<Rightarrow> instruction outcome" where
  "simulate_swap_base_out_ix amm_program_key pool_key authority_key open_orders_key
   target_orders_key coin_vault_key pc_vault_key lp_mint_key market_program_key market_key
   event_queue_key user_token_source_key user_token_destination_key user_source_owner_key a_out =
     build amm_program_key (SimulateInfo \<lparr>sim_param = ucast (simulate_into_u64 SwapBaseOutInfo), swap_base_in_value = None,
         swap_base_out_value = Some \<lparr>max_amount_in = 0, amount_out = a_out\<rparr>\<rparr>)
      ([meta_new_readonly pool_key False, meta_new_readonly authority_key False,
        meta_new_readonly open_orders_key False, meta_new_readonly target_orders_key False,
        meta_new_readonly coin_vault_key False, meta_new_readonly pc_vault_key False,
        meta_new_readonly lp_mint_key False, meta_new_readonly market_program_key False,
        meta_new_readonly market_key False, meta_new_readonly event_queue_key False,
        meta_new_readonly user_token_source_key False,
        meta_new_readonly user_token_destination_key False,
        meta_new_readonly user_source_owner_key True])"

definition simulate_run_crank_ix ::
  "runtime \<Rightarrow> pubkey \<Rightarrow> pubkey \<Rightarrow> pubkey \<Rightarrow> pubkey \<Rightarrow> pubkey \<Rightarrow> pubkey \<Rightarrow> pubkey \<Rightarrow>
   pubkey \<Rightarrow> pubkey \<Rightarrow> pubkey \<Rightarrow> pubkey \<Rightarrow> pubkey \<Rightarrow> instruction outcome" where
  "simulate_run_crank_ix R amm_program_key pool_key authority_key open_orders_key target_orders_key
   coin_vault_key pc_vault_key market_program_key market_key bids_key asks_key event_queue_key =
     build amm_program_key (SimulateInfo \<lparr>sim_param = ucast (simulate_into_u64 RunCrankInfo), swap_base_in_value = None,
         swap_base_out_value = None\<rparr>)
      ([meta_new_readonly (rt_spl_token_id R) False, meta_new_readonly (rt_clock_id R) False,
        meta_new_readonly pool_key False, meta_new_readonly authority_key False,
        meta_new_readonly open_orders_key False, meta_new_readonly target_orders_key False,
        meta_new_readonly coin_vault_key False, meta_new_readonly pc_vault_key False,
        meta_new_readonly market_program_key False, meta_new_readonly market_key False,
        meta_new_readonly bids_key False, meta_new_readonly asks_key False,
        meta_new_readonly event_queue_key False])"

definition admin_cancel_orders_ix ::
  "runtime \<Rightarrow> pubkey \<Rightarrow> pubkey \<Rightarrow> pubkey \<Rightarrow> pubkey \<Rightarrow> pubkey \<Rightarrow> pubkey \<Rightarrow> pubkey \<Rightarrow>
   pubkey \<Rightarrow> pubkey \<Rightarrow> pubkey \<Rightarrow> pubkey \<Rightarrow> pubkey \<Rightarrow> pubkey \<Rightarrow> pubkey \<Rightarrow> pubkey \<Rightarrow>
   pubkey \<Rightarrow> pubkey \<Rightarrow> pubkey option \<Rightarrow> pubkey option \<Rightarrow> u16 \<Rightarrow> instruction outcome" where
  "admin_cancel_orders_ix R amm_program_key pool_key authority_key open_orders_key
   target_orders_key coin_vault_key pc_vault_key cancel_owner_key config_key market_program_key
   market_key market_coin_vault_key market_pc_vault_key vault_signer_key event_queue_key bids_key
   asks_key token_srm_key referrer_token_pc_key cancel =
     build amm_program_key (AdminCancelOrders \<lparr>cancel_limit = cancel\<rparr>)
      ([meta_new_readonly (rt_spl_token_id R) False, meta_new_readonly pool_key False,
        meta_new_readonly authority_key False, meta_new open_orders_key False,
        meta_new target_orders_key False, meta_new coin_vault_key False,
        meta_new pc_vault_key False, meta_new_readonly cancel_owner_key True,
        meta_new config_key False, meta_new_readonly market_program_key False,
        meta_new market_key False, meta_new market_coin_vault_key False,
        meta_new market_pc_vault_key False, meta_new_readonly vault_signer_key False,
        meta_new event_queue_key False, meta_new bids_key False, meta_new asks_key False] @
       (case token_srm_key of None \<Rightarrow> []
        | Some srm \<Rightarrow> meta_new srm False #
            option_list (map_option (\<lambda>k. meta_new k False) referrer_token_pc_key)))"

definition create_config_account_ix ::
  "runtime \<Rightarrow> pubkey \<Rightarrow> pubkey \<Rightarrow> pubkey \<Rightarrow> pubkey \<Rightarrow> instruction outcome" where
  "create_config_account_ix R amm_program_key admin_key config_key pnl_owner_key =
     build amm_program_key CreateConfigAccount
      ([meta_new admin_key True, meta_new config_key False, meta_new_readonly pnl_owner_key False,
        meta_new_readonly (rt_system_program_id R) False, meta_new_readonly (rt_rent_id R) False])"

definition update_config_account_ix ::
  "pubkey \<Rightarrow> pubkey \<Rightarrow> pubkey \<Rightarrow> config_args \<Rightarrow> instruction outcome" where
  "update_config_account_ix amm_program_key admin_key config_key args =
     build amm_program_key (UpdateConfigAccount args)
      ([meta_new_readonly admin_key True, meta_new config_key False])"

section \<open>What reaches the program\<close>

text \<open>
  The instruction that the packed bytes carry: a single lower bound of a withdrawal is dropped,
  and so is every argument that the parameter does not select.
\<close>

definition wire_set_params :: "set_params_instruction \<Rightarrow> set_params_instruction" where
  "wire_set_params sp =
     (case params_from_u64 (widen (sp_param sp)) of
        Done AmmOwner \<Rightarrow> sp\<lparr>sp_value := None, sp_fees := None, sp_last_order_distance := None\<rparr>
      | Done ParamFees \<Rightarrow> sp\<lparr>sp_value := None, sp_new_pubkey := None, sp_last_order_distance := None\<rparr>
      | Done LastOrderDistance \<Rightarrow> sp\<lparr>sp_value := None, sp_new_pubkey := None, sp_fees := None\<rparr>
      | _ \<Rightarrow> sp\<lparr>sp_new_pubkey := None, sp_fees := None, sp_last_order_distance := None\<rparr>)"

definition wire_withdraw :: "withdraw_instruction \<Rightarrow> withdraw_instruction" where
  "wire_withdraw w =
     (if min_coin_amount w = None \<or> min_pc_amount w = None
      then w\<lparr>min_coin_amount := None, min_pc_amount := None\<rparr> else w)"

lemma pack_wire_withdraw:
  "\<exists>bs. pack (Withdraw w) = Done bs \<and> unpack bs = Done (Withdraw (wire_withdraw w))"
proof -
  have "pack (Withdraw (wire_withdraw w)) = pack (Withdraw w)"
    by (auto simp: wire_withdraw_def split: option.split)
  moreover have "canonical (Withdraw (wire_withdraw w))"
    by (auto simp: wire_withdraw_def)
  ultimately show ?thesis using unpack_canonical by metis
qed

lemma pack_wire_set_params:
  assumes "pack_set_params sp = Done bs"
  shows "unpack bs = Done (SetParams (wire_set_params sp))"
proof -
  obtain p where p: "params_from_u64 (widen (sp_param sp)) = Done p"
    using assms by (auto simp: pack_set_params_def and_then_Done)
  have "canonical_set_params (wire_set_params sp)" and "pack_set_params (wire_set_params sp) = Done bs"
    using assms p
    by (cases p; simp add: pack_set_params_def wire_set_params_def canonical_set_params_def split: option.splits)+
  then show ?thesis using unpack_canonical [of "SetParams (wire_set_params sp)"] by simp
qed

text \<open>
  A built instruction arrives: the program it names unpacks the data to the instruction, and the
  parser of the handler finds the accounts.
\<close>

definition arrives ::
  "instruction outcome \<Rightarrow> pubkey \<Rightarrow> amm_instruction \<Rightarrow> (account_info list \<Rightarrow> 'a outcome) \<Rightarrow> 'a \<Rightarrow> bool" where
  "arrives built amm_program i parse A \<longleftrightarrow>
     (\<exists>ix. built = Done ix \<and> ix_program_id ix = amm_program \<and> unpack (ix_data ix) = Done i \<and>
        parse (infos (ix_accounts ix)) = Done A)"

lemma arrives_build:
  assumes "\<exists>bs. pack i = Done bs \<and> unpack bs = Done j" and "parse (infos accounts) = Done A"
  shows "arrives (build amm_program i accounts) amm_program j parse A"
  using assms by (auto simp: arrives_def build_def)

lemma infos_simps [simp]: "infos [] = []" "infos (m # ms) = info_of m # infos ms" "infos (a @ b) = infos a @ infos b"
  by (simp_all add: infos_def)

lemma deposit_arrives:
  "arrives (deposit_ix R amm_program_key pool_key authority_key open_orders_key target_orders_key
       lp_mint_key coin_vault_key pc_vault_key market_key event_queue_key user_token_coin_key
       user_token_pc_key user_token_lp_key user_owner_key max_coin max_pc side other_min) amm_program_key
     (Deposit \<lparr>max_coin_amount = max_coin, max_pc_amount = max_pc, base_side = side,
         other_amount_min = other_min\<rparr>)
     deposit_parse_accounts
     \<lparr>dp_token_program = info_of (meta_new_readonly (rt_spl_token_id R) False),
       dp_amm = info_of (meta_new pool_key False),
       dp_authority = info_of (meta_new_readonly authority_key False),
       dp_open_orders = info_of (meta_new_readonly open_orders_key False),
       dp_target_orders = info_of (meta_new target_orders_key False),
       dp_lp_mint = info_of (meta_new lp_mint_key False),
       dp_coin_vault = info_of (meta_new coin_vault_key False),
       dp_pc_vault = info_of (meta_new pc_vault_key False),
       dp_market = info_of (meta_new_readonly market_key False),
       dp_source_coin = info_of (meta_new user_token_coin_key False),
       dp_source_pc = info_of (meta_new user_token_pc_key False),
       dp_dest_lp = info_of (meta_new user_token_lp_key False),
       dp_source_owner = info_of (meta_new_readonly user_owner_key True),
       dp_event_queue = info_of (meta_new_readonly event_queue_key False)\<rparr>"
  unfolding deposit_ix_def
  by (rule arrives_build [OF unpack_canonical])
     (auto simp: deposit_parse_accounts_def need_accounts_def Let_def split: option.split)

lemma swap_base_in_arrives:
  "arrives (swap_base_in_ix R amm_program_key pool_key authority_key open_orders_key coin_vault_key
       pc_vault_key market_program_key market_key bids_key asks_key event_queue_key
       market_coin_vault_key market_pc_vault_key vault_signer_key user_token_source_key
       user_token_destination_key user_source_owner_key a_in min_out) amm_program_key
     (SwapBaseIn \<lparr>amount_in = a_in, minimum_amount_out = min_out\<rparr>)
     swap_parse_accounts
     \<lparr>sw_token_program = info_of (meta_new_readonly (rt_spl_token_id R) False),
       sw_amm = info_of (meta_new pool_key False),
       sw_authority = info_of (meta_new_readonly authority_key False),
       sw_open_orders = info_of (meta_new open_orders_key False),
       sw_coin_vault = info_of (meta_new coin_vault_key False),
       sw_pc_vault = info_of (meta_new pc_vault_key False),
       sw_market_program = info_of (meta_new_readonly market_program_key False),
       sw_market = info_of (meta_new market_key False),
       sw_bids = info_of (meta_new bids_key False), sw_asks = info_of (meta_new asks_key False),
       sw_event_queue = info_of (meta_new event_queue_key False),
       sw_market_coin_vault = info_of (meta_new market_coin_vault_key False),
       sw_market_pc_vault = info_of (meta_new market_pc_vault_key False),
       sw_vault_signer = info_of (meta_new_readonly vault_signer_key False),
       sw_user_source = info_of (meta_new user_token_source_key False),
       sw_user_destination = info_of (meta_new user_token_destination_key False),
       sw_user_owner = info_of (meta_new_readonly user_source_owner_key True)\<rparr>"
  unfolding swap_base_in_ix_def
  by (rule arrives_build [OF unpack_canonical])
     (auto simp: swap_parse_accounts_def need_accounts_def Let_def split: option.split)

lemma swap_base_out_arrives:
  "arrives (swap_base_out_ix R amm_program_key pool_key authority_key open_orders_key coin_vault_key
       pc_vault_key market_program_key market_key bids_key asks_key event_queue_key
       market_coin_vault_key market_pc_vault_key vault_signer_key user_token_source_key
       user_token_destination_key user_source_owner_key max_in a_out) amm_program_key
     (SwapBaseOut \<lparr>max_amount_in = max_in, amount_out = a_out\<rparr>)
     swap_parse_accounts
     \<lparr>sw_token_program = info_of (meta_new_readonly (rt_spl_token_id R) False),
       sw_amm = info_of (meta_new pool_key False),
       sw_authority = info_of (meta_new_readonly authority_key False),
       sw_open_orders = info_of (meta_new open_orders_key False),
       sw_coin_vault = info_of (meta_new coin_vault_key False),
       sw_pc_vault = info_of (meta_new pc_vault_key False),
       sw_market_program = info_of (meta_new_readonly market_program_key False),
       sw_market = info_of (meta_new market_key False),
       sw_bids = info_of (meta_new bids_key False), sw_asks = info_of (meta_new asks_key False),
       sw_event_queue = info_of (meta_new event_queue_key False),
       sw_market_coin_vault = info_of (meta_new market_coin_vault_key False),
       sw_market_pc_vault = info_of (meta_new market_pc_vault_key False),
       sw_vault_signer = info_of (meta_new_readonly vault_signer_key False),
       sw_user_source = info_of (meta_new user_token_source_key False),
       sw_user_destination = info_of (meta_new user_token_destination_key False),
       sw_user_owner = info_of (meta_new_readonly user_source_owner_key True)\<rparr>"
  unfolding swap_base_out_ix_def
  by (rule arrives_build [OF unpack_canonical])
     (auto simp: swap_parse_accounts_def need_accounts_def Let_def split: option.split)

lemma initialize2_arrives:
  "arrives (initialize2_ix R amm_program_key pool_key authority_key open_orders_key lp_mint_key
       coin_mint_key pc_mint_key coin_vault_key pc_vault_key target_orders_key config_key
       create_fee_destination_key market_program_key market_key user_wallet_key user_token_coin_key
       user_token_pc_key user_token_lp_key nonce open_time pc_amount coin_amount) amm_program_key
     (Initialize2 \<lparr>init2_nonce = nonce, init2_open_time = open_time, init_pc_amount = pc_amount,
         init_coin_amount = coin_amount\<rparr>)
     init_parse_accounts
     \<lparr>in_token_program = info_of (meta_new_readonly (rt_spl_token_id R) False),
       in_ata_program = info_of (meta_new_readonly (rt_ata_program_id R) False),
       in_system_program = info_of (meta_new_readonly (rt_system_program_id R) False),
       in_rent = info_of (meta_new_readonly (rt_rent_id R) False),
       in_amm = info_of (meta_new pool_key False),
       in_authority = info_of (meta_new_readonly authority_key False),
       in_open_orders = info_of (meta_new open_orders_key False),
       in_lp_mint = info_of (meta_new lp_mint_key False),
       in_coin_mint = info_of (meta_new_readonly coin_mint_key False),
       in_pc_mint = info_of (meta_new_readonly pc_mint_key False),
       in_coin_vault = info_of (meta_new coin_vault_key False),
       in_pc_vault = info_of (meta_new pc_vault_key False),
       in_target_orders = info_of (meta_new target_orders_key False),
       in_config = info_of (meta_new_readonly config_key False),
       in_fee_destination = info_of (meta_new create_fee_destination_key False),
       in_market_program = info_of (meta_new_readonly market_program_key False),
       in_market = info_of (meta_new_readonly market_key False),
       in_user_wallet = info_of (meta_new user_wallet_key True),
       in_user_coin = info_of (meta_new user_token_coin_key False),
       in_user_pc = info_of (meta_new user_token_pc_key False),
       in_user_lp = info_of (meta_new user_token_lp_key False)\<rparr>"
  unfolding initialize2_ix_def
  by (rule arrives_build [OF unpack_canonical])
     (auto simp: init_parse_accounts_def need_accounts_def Let_def split: option.split)

lemma withdrawpnl_arrives:
  "arrives (withdrawpnl_ix R amm_program_key pool_key config_key authority_key open_orders_key
       coin_vault_key pc_vault_key user_token_coin_key user_token_pc_key user_owner_key
       target_orders_key market_program_key market_key event_queue_key market_coin_vault_key
       market_pc_vault_key vault_signer_key) amm_program_key
     WithdrawPnl
     withdrawpnl_parse_accounts
     \<lparr>pn_token_program = info_of (meta_new_readonly (rt_spl_token_id R) False),
       pn_amm = info_of (meta_new pool_key False),
       pn_config = info_of (meta_new_readonly config_key False),
       pn_authority = info_of (meta_new_readonly authority_key False),
       pn_open_orders = info_of (meta_new open_orders_key False),
       pn_coin_vault = info_of (meta_new coin_vault_key False),
       pn_pc_vault = info_of (meta_new pc_vault_key False),
       pn_user_coin = info_of (meta_new user_token_coin_key False),
       pn_user_pc = info_of (meta_new user_token_pc_key False),
       pn_owner = info_of (meta_new_readonly user_owner_key True),
       pn_target_orders = info_of (meta_new target_orders_key False),
       pn_market_program = info_of (meta_new_readonly market_program_key False),
       pn_market = info_of (meta_new market_key False),
       pn_event_queue = info_of (meta_new_readonly event_queue_key False), pn_referrer = None\<rparr>"
  unfolding withdrawpnl_ix_def
  by (rule arrives_build [OF unpack_canonical])
     (auto simp: withdrawpnl_parse_accounts_def need_accounts_def Let_def split: option.split)

lemma migrate_to_openbook_arrives:
  "arrives (migrate_to_openbook_ix R amm_program_key pool_key authority_key open_orders_key
       coin_vault_key pc_vault_key target_orders_key market_program_key market_key bids_key
       asks_key event_queue_key market_coin_vault_key market_pc_vault_key vault_signer_key
       new_amm_open_orders_key new_market_program_key new_market_key admin_key) amm_program_key
     MigrateToOpenBook
     migrate_parse_accounts
     \<lparr>mg_token_program = info_of (meta_new_readonly (rt_spl_token_id R) False),
       mg_system_program = info_of (meta_new_readonly (rt_system_program_id R) False),
       mg_rent = info_of (meta_new_readonly (rt_rent_id R) False),
       mg_amm = info_of (meta_new pool_key False),
       mg_authority = info_of (meta_new_readonly authority_key False),
       mg_open_orders = info_of (meta_new open_orders_key False),
       mg_coin_vault = info_of (meta_new coin_vault_key False),
       mg_pc_vault = info_of (meta_new pc_vault_key False),
       mg_target_orders = info_of (meta_new target_orders_key False),
       mg_market_program = info_of (meta_new_readonly market_program_key False),
       mg_market = info_of (meta_new market_key False),
       mg_bids = info_of (meta_new bids_key False), mg_asks = info_of (meta_new asks_key False),
       mg_event_queue = info_of (meta_new event_queue_key False),
       mg_market_coin_vault = info_of (meta_new market_coin_vault_key False),
       mg_market_pc_vault = info_of (meta_new market_pc_vault_key False),
       mg_vault_signer = info_of (meta_new_readonly vault_signer_key False),
       mg_new_open_orders = info_of (meta_new new_amm_open_orders_key False),
       mg_new_market_program = info_of (meta_new_readonly new_market_program_key False),
       mg_new_market = info_of (meta_new_readonly new_market_key False),
       mg_admin = info_of (meta_new admin_key True)\<rparr>"
  unfolding migrate_to_openbook_ix_def
  by (rule arrives_build [OF unpack_canonical])
     (auto simp: migrate_parse_accounts_def need_accounts_def Let_def split: option.split)

lemma monitor_step_arrives:
  "arrives (monitor_step_ix R amm_program_key pool_key authority_key open_orders_key target_orders_key
       coin_vault_key pc_vault_key token_srm_key market_program_key market_key
       market_coin_vault_key market_pc_vault_key vault_signer_key request_queue_key event_queue_key
       bids_key asks_key referrer_token_pc_key plan_limit place_limit cancel) amm_program_key
     (MonitorStep \<lparr>plan_order_limit = plan_limit, place_order_limit = place_limit,
         cancel_order_limit = cancel\<rparr>)
     monitor_parse_accounts
     \<lparr>mo_token_program = info_of (meta_new_readonly (rt_spl_token_id R) False),
       mo_rent = info_of (meta_new_readonly (rt_rent_id R) False),
       mo_clock = info_of (meta_new_readonly (rt_clock_id R) False),
       mo_amm = info_of (meta_new pool_key False),
       mo_authority = info_of (meta_new_readonly authority_key False),
       mo_open_orders = info_of (meta_new open_orders_key False),
       mo_target_orders = info_of (meta_new target_orders_key False),
       mo_coin_vault = info_of (meta_new coin_vault_key False),
       mo_pc_vault = info_of (meta_new pc_vault_key False),
       mo_market_program = info_of (meta_new_readonly market_program_key False),
       mo_market = info_of (meta_new market_key False),
       mo_market_coin_vault = info_of (meta_new market_coin_vault_key False),
       mo_market_pc_vault = info_of (meta_new market_pc_vault_key False),
       mo_vault_signer = info_of (meta_new_readonly vault_signer_key False),
       mo_request_queue = info_of (meta_new request_queue_key False),
       mo_event_queue = info_of (meta_new event_queue_key False),
       mo_bids = info_of (meta_new bids_key False), mo_asks = info_of (meta_new asks_key False),
       mo_srm_token = map_option (\<lambda>k. info_of (meta_new k False)) token_srm_key,
       mo_referrer = (if token_srm_key = None then None else map_option (\<lambda>k. info_of (meta_new k False)) referrer_token_pc_key)\<rparr>"
  unfolding monitor_step_ix_def
  by (rule arrives_build [OF unpack_canonical], simp)
     (cases token_srm_key; cases referrer_token_pc_key; simp add: monitor_parse_accounts_def)

lemma admin_cancel_orders_arrives:
  "arrives (admin_cancel_orders_ix R amm_program_key pool_key authority_key open_orders_key
       target_orders_key coin_vault_key pc_vault_key cancel_owner_key config_key market_program_key
       market_key market_coin_vault_key market_pc_vault_key vault_signer_key event_queue_key
       bids_key asks_key token_srm_key referrer_token_pc_key cancel) amm_program_key
     (AdminCancelOrders \<lparr>cancel_limit = cancel\<rparr>)
     admin_cancel_parse_accounts
     \<lparr>ac_token_program = info_of (meta_new_readonly (rt_spl_token_id R) False),
       ac_amm = info_of (meta_new_readonly pool_key False),
       ac_authority = info_of (meta_new_readonly authority_key False),
       ac_open_orders = info_of (meta_new open_orders_key False),
       ac_target_orders = info_of (meta_new target_orders_key False),
       ac_coin_vault = info_of (meta_new coin_vault_key False),
       ac_pc_vault = info_of (meta_new pc_vault_key False),
       ac_owner = info_of (meta_new_readonly cancel_owner_key True),
       ac_config = info_of (meta_new config_key False),
       ac_market_program = info_of (meta_new_readonly market_program_key False),
       ac_market = info_of (meta_new market_key False),
       ac_market_coin_vault = info_of (meta_new market_coin_vault_key False),
       ac_market_pc_vault = info_of (meta_new market_pc_vault_key False),
       ac_vault_signer = info_of (meta_new_readonly vault_signer_key False),
       ac_event_queue = info_of (meta_new event_queue_key False),
       ac_bids = info_of (meta_new bids_key False), ac_asks = info_of (meta_new asks_key False),
       ac_srm_token = map_option (\<lambda>k. info_of (meta_new k False)) token_srm_key,
       ac_referrer = (if token_srm_key = None then None else map_option (\<lambda>k. info_of (meta_new k False)) referrer_token_pc_key)\<rparr>"
  unfolding admin_cancel_orders_ix_def
  by (rule arrives_build [OF unpack_canonical], simp)
     (cases token_srm_key; cases referrer_token_pc_key; simp add: admin_cancel_parse_accounts_def)

lemma withdraw_arrives:
  "arrives (withdraw_ix R amm_program_key pool_key authority_key open_orders_key target_orders_key
       lp_mint_key coin_vault_key pc_vault_key market_program_key market_key market_coin_vault_key
       market_pc_vault_key vault_signer_key user_token_lp_key user_token_coin_key user_token_pc_key
       user_owner_key event_queue_key bids_key asks_key referrer_pc_account_key amount min_coin
       min_pc) amm_program_key
     (Withdraw (wire_withdraw \<lparr>withdraw_amount = amount, min_coin_amount = min_coin,
       min_pc_amount = min_pc\<rparr>))
     withdraw_parse_accounts
     \<lparr>wd_token_program = info_of (meta_new_readonly (rt_spl_token_id R) False),
       wd_amm = info_of (meta_new pool_key False),
       wd_authority = info_of (meta_new_readonly authority_key False),
       wd_open_orders = info_of (meta_new open_orders_key False),
       wd_target_orders = info_of (meta_new target_orders_key False),
       wd_lp_mint = info_of (meta_new lp_mint_key False),
       wd_coin_vault = info_of (meta_new coin_vault_key False),
       wd_pc_vault = info_of (meta_new pc_vault_key False),
       wd_market_program = info_of (meta_new_readonly market_program_key False),
       wd_market = info_of (meta_new market_key False),
       wd_market_coin_vault = info_of (meta_new market_coin_vault_key False),
       wd_market_pc_vault = info_of (meta_new market_pc_vault_key False),
       wd_vault_signer = info_of (meta_new_readonly vault_signer_key False),
       wd_source_lp = info_of (meta_new user_token_lp_key False),
       wd_dest_coin = info_of (meta_new user_token_coin_key False),
       wd_dest_pc = info_of (meta_new user_token_pc_key False),
       wd_source_owner = info_of (meta_new_readonly user_owner_key True),
       wd_event_queue = info_of (meta_new event_queue_key False),
       wd_bids = info_of (meta_new bids_key False), wd_asks = info_of (meta_new asks_key False),
       wd_referrer = map_option (\<lambda>k. info_of (meta_new k False)) referrer_pc_account_key\<rparr>"
  unfolding withdraw_ix_def
  by (rule arrives_build [OF pack_wire_withdraw])
     (cases referrer_pc_account_key; simp add: withdraw_parse_accounts_def)

lemma set_params_arrives:
  assumes "set_params_ix R amm_program_key pool_key authority_key admin_key param v new_key
       target_orders_key coin_vault_key pc_vault_key open_orders_key market_program_key market_key
       market_coin_vault_key market_pc_vault_key vault_signer_key event_queue_key bids_key asks_key
       new_amm_open_orders_key f distance = Done ix"
  shows
  "arrives (Done ix) amm_program_key
     (SetParams (wire_set_params \<lparr>sp_param = param, sp_value = v, sp_new_pubkey = new_key, sp_fees = f,
       sp_last_order_distance = distance\<rparr>))
     set_params_parse_accounts
     \<lparr>sp_token_program = info_of (meta_new_readonly (rt_spl_token_id R) False),
       sp_amm = info_of (meta_new pool_key False),
       sp_authority = info_of (meta_new_readonly authority_key False),
       sp_open_orders = info_of (meta_new open_orders_key False),
       sp_target_orders = info_of (meta_new target_orders_key False),
       sp_coin_vault = info_of (meta_new coin_vault_key False),
       sp_pc_vault = info_of (meta_new pc_vault_key False),
       sp_market_program = info_of (meta_new_readonly market_program_key False),
       sp_market = info_of (meta_new market_key False),
       sp_market_coin_vault = info_of (meta_new market_coin_vault_key False),
       sp_market_pc_vault = info_of (meta_new market_pc_vault_key False),
       sp_vault_signer = info_of (meta_new_readonly vault_signer_key False),
       sp_event_queue = info_of (meta_new event_queue_key False),
       sp_bids = info_of (meta_new bids_key False), sp_asks = info_of (meta_new asks_key False),
       sp_owner = info_of (meta_new_readonly admin_key True)\<rparr>"
  using assms
  by (auto simp: set_params_ix_def arrives_def and_then_Done set_params_parse_accounts_def need_accounts_def
      dest!: pack_wire_set_params)

lemma simulate_swap_base_in_arrives:
  "arrives (simulate_swap_base_in_ix amm_program_key pool_key authority_key open_orders_key
       target_orders_key coin_vault_key pc_vault_key lp_mint_key market_program_key market_key
       event_queue_key user_token_source_key user_token_destination_key user_source_owner_key a_in) amm_program_key
     (SimulateInfo \<lparr>sim_param = ucast (simulate_into_u64 SwapBaseInInfo),
         swap_base_in_value = Some \<lparr>amount_in = a_in, minimum_amount_out = 0\<rparr>, swap_base_out_value = None\<rparr>)
     simulate_parse_accounts
     \<lparr>sm_amm = info_of (meta_new_readonly pool_key False),
       sm_authority = info_of (meta_new_readonly authority_key False),
       sm_open_orders = info_of (meta_new_readonly open_orders_key False),
       sm_target_orders = info_of (meta_new_readonly target_orders_key False),
       sm_coin_vault = info_of (meta_new_readonly coin_vault_key False),
       sm_pc_vault = info_of (meta_new_readonly pc_vault_key False),
       sm_lp_mint = info_of (meta_new_readonly lp_mint_key False),
       sm_market_program = info_of (meta_new_readonly market_program_key False),
       sm_market = info_of (meta_new_readonly market_key False),
       sm_event_queue = info_of (meta_new_readonly event_queue_key False),
       sm_user_source = info_of (meta_new_readonly user_token_source_key False),
       sm_user_destination = info_of (meta_new_readonly user_token_destination_key False),
       sm_user_owner = info_of (meta_new_readonly user_source_owner_key True)\<rparr>"
  unfolding simulate_swap_base_in_ix_def
  by (rule arrives_build [OF unpack_canonical])
     (simp_all add: simulate_parse_accounts_def need_accounts_def canonical_simulate_def simulate_from_u64_def widen_def)

lemma simulate_swap_base_out_arrives:
  "arrives (simulate_swap_base_out_ix amm_program_key pool_key authority_key open_orders_key
       target_orders_key coin_vault_key pc_vault_key lp_mint_key market_program_key market_key
       event_queue_key user_token_source_key user_token_destination_key user_source_owner_key a_out) amm_program_key
     (SimulateInfo \<lparr>sim_param = ucast (simulate_into_u64 SwapBaseOutInfo), swap_base_in_value = None,
         swap_base_out_value = Some \<lparr>max_amount_in = 0, amount_out = a_out\<rparr>\<rparr>)
     simulate_parse_accounts
     \<lparr>sm_amm = info_of (meta_new_readonly pool_key False),
       sm_authority = info_of (meta_new_readonly authority_key False),
       sm_open_orders = info_of (meta_new_readonly open_orders_key False),
       sm_target_orders = info_of (meta_new_readonly target_orders_key False),
       sm_coin_vault = info_of (meta_new_readonly coin_vault_key False),
       sm_pc_vault = info_of (meta_new_readonly pc_vault_key False),
       sm_lp_mint = info_of (meta_new_readonly lp_mint_key False),
       sm_market_program = info_of (meta_new_readonly market_program_key False),
       sm_market = info_of (meta_new_readonly market_key False),
       sm_event_queue = info_of (meta_new_readonly event_queue_key False),
       sm_user_source = info_of (meta_new_readonly user_token_source_key False),
       sm_user_destination = info_of (meta_new_readonly user_token_destination_key False),
       sm_user_owner = info_of (meta_new_readonly user_source_owner_key True)\<rparr>"
  unfolding simulate_swap_base_out_ix_def
  by (rule arrives_build [OF unpack_canonical])
     (simp_all add: simulate_parse_accounts_def need_accounts_def canonical_simulate_def simulate_from_u64_def widen_def)

lemma simulate_run_crank_arrives:
  "arrives (simulate_run_crank_ix R amm_program_key pool_key authority_key open_orders_key
       target_orders_key coin_vault_key pc_vault_key market_program_key market_key bids_key
       asks_key event_queue_key) amm_program_key
     (SimulateInfo \<lparr>sim_param = ucast (simulate_into_u64 RunCrankInfo), swap_base_in_value = None,
         swap_base_out_value = None\<rparr>)
     crank_parse_accounts
     \<lparr>ck_token_program = info_of (meta_new_readonly (rt_spl_token_id R) False),
       ck_clock = info_of (meta_new_readonly (rt_clock_id R) False),
       ck_amm = info_of (meta_new_readonly pool_key False),
       ck_authority = info_of (meta_new_readonly authority_key False),
       ck_open_orders = info_of (meta_new_readonly open_orders_key False),
       ck_target_orders = info_of (meta_new_readonly target_orders_key False),
       ck_coin_vault = info_of (meta_new_readonly coin_vault_key False),
       ck_pc_vault = info_of (meta_new_readonly pc_vault_key False),
       ck_market_program = info_of (meta_new_readonly market_program_key False),
       ck_market = info_of (meta_new_readonly market_key False),
       ck_bids = info_of (meta_new_readonly bids_key False),
       ck_asks = info_of (meta_new_readonly asks_key False),
       ck_event_queue = info_of (meta_new_readonly event_queue_key False)\<rparr>"
  unfolding simulate_run_crank_ix_def
  by (rule arrives_build [OF unpack_canonical])
     (simp_all add: crank_parse_accounts_def need_accounts_def canonical_simulate_def simulate_from_u64_def widen_def)

text \<open>Where the handler reads its accounts by position, the list itself is what arrives.\<close>

lemma withdrawsrm_arrives:
  "arrives (withdrawsrm_ix R amm_program_key pool_key authority_key admin_key token_srm_key
       dest_token_srm_key amount) amm_program_key
     (WithdrawSrm \<lparr>srm_amount = amount\<rparr>) (\<lambda>accounts. and_then (need_accounts 6 accounts) (\<lambda>_. Done accounts))
     (infos [meta_new_readonly (rt_spl_token_id R) False, meta_new_readonly pool_key False,
       meta_new_readonly admin_key True, meta_new_readonly authority_key False,
       meta_new token_srm_key False, meta_new dest_token_srm_key False])"
  unfolding withdrawsrm_ix_def
  by (rule arrives_build [OF unpack_canonical], simp_all add: need_accounts_def)

lemma create_config_account_arrives:
  "arrives (create_config_account_ix R amm_program_key admin_key config_key pnl_owner_key) amm_program_key
     CreateConfigAccount (\<lambda>accounts. and_then (need_accounts 5 accounts) (\<lambda>_. Done accounts))
     (infos [meta_new admin_key True, meta_new config_key False, meta_new_readonly pnl_owner_key False,
       meta_new_readonly (rt_system_program_id R) False, meta_new_readonly (rt_rent_id R) False])"
  unfolding create_config_account_ix_def
  by (rule arrives_build [OF unpack_canonical], simp_all add: need_accounts_def)

lemma update_config_account_arrives:
  "canonical (UpdateConfigAccount args) \<Longrightarrow>
   arrives (update_config_account_ix amm_program_key admin_key config_key args) amm_program_key
     (UpdateConfigAccount args) (\<lambda>accounts. and_then (need_accounts 2 accounts) (\<lambda>_. Done accounts))
     (infos [meta_new_readonly admin_key True, meta_new config_key False])"
  unfolding update_config_account_ix_def
  by (rule arrives_build [OF unpack_canonical], simp_all add: need_accounts_def)

lemma simulate_get_pool_info_arrives:
  "arrives (simulate_get_pool_info_ix amm_program_key pool_key authority_key open_orders_key
       coin_vault_key pc_vault_key lp_mint_key market_key event_queue_key target_orders_key) amm_program_key
     (SimulateInfo \<lparr>sim_param = ucast (simulate_into_u64 PoolInfo), swap_base_in_value = None,
       swap_base_out_value = None\<rparr>)
     (\<lambda>accounts. and_then (need_accounts 8 accounts) (\<lambda>_. Done (take 8 accounts, if length accounts = 9 then Some (accounts ! 8) else None)))
     (infos [meta_new_readonly pool_key False, meta_new_readonly authority_key False,
        meta_new_readonly open_orders_key False, meta_new_readonly coin_vault_key False,
        meta_new_readonly pc_vault_key False, meta_new_readonly lp_mint_key False,
        meta_new_readonly market_key False, meta_new_readonly event_queue_key False],
      map_option (\<lambda>k. info_of (meta_new_readonly k False)) target_orders_key)"
  unfolding simulate_get_pool_info_ix_def
  by (rule arrives_build [OF unpack_canonical])
     (cases target_orders_key; simp add: canonical_simulate_def simulate_from_u64_def widen_def need_accounts_def)+

section \<open>Clients and handlers agree\<close>

text \<open>
  The trades that clients build are the trades that the program runs. The bytes of a deposit, a
  withdrawal or a swap unpack to the amounts the client gave, and the handler's parser finds
  every account it was given in its role, the owner as a signer, and writable the pool, its
  vaults and whatever else the handler changes. Of a withdrawal's two lower bounds a single
  one does not arrive.
\<close>

theorem client_trades_arrive:
  "arrives (deposit_ix R amm_program_key pool_key authority_key open_orders_key target_orders_key
       lp_mint_key coin_vault_key pc_vault_key market_key event_queue_key user_token_coin_key
       user_token_pc_key user_token_lp_key user_owner_key max_coin max_pc side other_min) amm_program_key
     (Deposit \<lparr>max_coin_amount = max_coin, max_pc_amount = max_pc, base_side = side,
         other_amount_min = other_min\<rparr>)
     deposit_parse_accounts
     \<lparr>dp_token_program = info_of (meta_new_readonly (rt_spl_token_id R) False),
       dp_amm = info_of (meta_new pool_key False),
       dp_authority = info_of (meta_new_readonly authority_key False),
       dp_open_orders = info_of (meta_new_readonly open_orders_key False),
       dp_target_orders = info_of (meta_new target_orders_key False),
       dp_lp_mint = info_of (meta_new lp_mint_key False),
       dp_coin_vault = info_of (meta_new coin_vault_key False),
       dp_pc_vault = info_of (meta_new pc_vault_key False),
       dp_market = info_of (meta_new_readonly market_key False),
       dp_source_coin = info_of (meta_new user_token_coin_key False),
       dp_source_pc = info_of (meta_new user_token_pc_key False),
       dp_dest_lp = info_of (meta_new user_token_lp_key False),
       dp_source_owner = info_of (meta_new_readonly user_owner_key True),
       dp_event_queue = info_of (meta_new_readonly event_queue_key False)\<rparr> \<and>
   arrives (withdraw_ix R amm_program_key pool_key authority_key open_orders_key target_orders_key
       lp_mint_key coin_vault_key pc_vault_key market_program_key market_key market_coin_vault_key
       market_pc_vault_key vault_signer_key user_token_lp_key user_token_coin_key user_token_pc_key
       user_owner_key event_queue_key bids_key asks_key referrer_pc_account_key amount min_coin
       min_pc) amm_program_key
     (Withdraw (wire_withdraw \<lparr>withdraw_amount = amount, min_coin_amount = min_coin,
       min_pc_amount = min_pc\<rparr>))
     withdraw_parse_accounts
     \<lparr>wd_token_program = info_of (meta_new_readonly (rt_spl_token_id R) False),
       wd_amm = info_of (meta_new pool_key False),
       wd_authority = info_of (meta_new_readonly authority_key False),
       wd_open_orders = info_of (meta_new open_orders_key False),
       wd_target_orders = info_of (meta_new target_orders_key False),
       wd_lp_mint = info_of (meta_new lp_mint_key False),
       wd_coin_vault = info_of (meta_new coin_vault_key False),
       wd_pc_vault = info_of (meta_new pc_vault_key False),
       wd_market_program = info_of (meta_new_readonly market_program_key False),
       wd_market = info_of (meta_new market_key False),
       wd_market_coin_vault = info_of (meta_new market_coin_vault_key False),
       wd_market_pc_vault = info_of (meta_new market_pc_vault_key False),
       wd_vault_signer = info_of (meta_new_readonly vault_signer_key False),
       wd_source_lp = info_of (meta_new user_token_lp_key False),
       wd_dest_coin = info_of (meta_new user_token_coin_key False),
       wd_dest_pc = info_of (meta_new user_token_pc_key False),
       wd_source_owner = info_of (meta_new_readonly user_owner_key True),
       wd_event_queue = info_of (meta_new event_queue_key False),
       wd_bids = info_of (meta_new bids_key False), wd_asks = info_of (meta_new asks_key False),
       wd_referrer = map_option (\<lambda>k. info_of (meta_new k False)) referrer_pc_account_key\<rparr> \<and>
   arrives (swap_base_in_ix R amm_program_key pool_key authority_key open_orders_key coin_vault_key
       pc_vault_key market_program_key market_key bids_key asks_key event_queue_key
       market_coin_vault_key market_pc_vault_key vault_signer_key user_token_source_key
       user_token_destination_key user_source_owner_key a_in min_out) amm_program_key
     (SwapBaseIn \<lparr>amount_in = a_in, minimum_amount_out = min_out\<rparr>)
     swap_parse_accounts
     \<lparr>sw_token_program = info_of (meta_new_readonly (rt_spl_token_id R) False),
       sw_amm = info_of (meta_new pool_key False),
       sw_authority = info_of (meta_new_readonly authority_key False),
       sw_open_orders = info_of (meta_new open_orders_key False),
       sw_coin_vault = info_of (meta_new coin_vault_key False),
       sw_pc_vault = info_of (meta_new pc_vault_key False),
       sw_market_program = info_of (meta_new_readonly market_program_key False),
       sw_market = info_of (meta_new market_key False),
       sw_bids = info_of (meta_new bids_key False), sw_asks = info_of (meta_new asks_key False),
       sw_event_queue = info_of (meta_new event_queue_key False),
       sw_market_coin_vault = info_of (meta_new market_coin_vault_key False),
       sw_market_pc_vault = info_of (meta_new market_pc_vault_key False),
       sw_vault_signer = info_of (meta_new_readonly vault_signer_key False),
       sw_user_source = info_of (meta_new user_token_source_key False),
       sw_user_destination = info_of (meta_new user_token_destination_key False),
       sw_user_owner = info_of (meta_new_readonly user_source_owner_key True)\<rparr> \<and>
   arrives (swap_base_out_ix R amm_program_key pool_key authority_key open_orders_key coin_vault_key
       pc_vault_key market_program_key market_key bids_key asks_key event_queue_key
       market_coin_vault_key market_pc_vault_key vault_signer_key user_token_source_key
       user_token_destination_key user_source_owner_key max_in a_out) amm_program_key
     (SwapBaseOut \<lparr>max_amount_in = max_in, amount_out = a_out\<rparr>)
     swap_parse_accounts
     \<lparr>sw_token_program = info_of (meta_new_readonly (rt_spl_token_id R) False),
       sw_amm = info_of (meta_new pool_key False),
       sw_authority = info_of (meta_new_readonly authority_key False),
       sw_open_orders = info_of (meta_new open_orders_key False),
       sw_coin_vault = info_of (meta_new coin_vault_key False),
       sw_pc_vault = info_of (meta_new pc_vault_key False),
       sw_market_program = info_of (meta_new_readonly market_program_key False),
       sw_market = info_of (meta_new market_key False),
       sw_bids = info_of (meta_new bids_key False), sw_asks = info_of (meta_new asks_key False),
       sw_event_queue = info_of (meta_new event_queue_key False),
       sw_market_coin_vault = info_of (meta_new market_coin_vault_key False),
       sw_market_pc_vault = info_of (meta_new market_pc_vault_key False),
       sw_vault_signer = info_of (meta_new_readonly vault_signer_key False),
       sw_user_source = info_of (meta_new user_token_source_key False),
       sw_user_destination = info_of (meta_new user_token_destination_key False),
       sw_user_owner = info_of (meta_new_readonly user_source_owner_key True)\<rparr>"
  by (intro conjI deposit_arrives withdraw_arrives swap_base_in_arrives swap_base_out_arrives)

text \<open>
  C25: so do the instructions of creators, keepers and administrators: what \<open>initialize2\<close>,
  \<open>monitor_step\<close>, \<open>admin_cancel_orders\<close>, \<open>withdrawpnl\<close> and \<open>migrate_to_openbook\<close> build is unpacked to
  its arguments and parsed into its roles. The optional accounts keep their places: a referrer
  counts only with an SRM account before it.
\<close>

theorem client_operations_arrive:
  "arrives (initialize2_ix R amm_program_key pool_key authority_key open_orders_key lp_mint_key
       coin_mint_key pc_mint_key coin_vault_key pc_vault_key target_orders_key config_key
       create_fee_destination_key market_program_key market_key user_wallet_key user_token_coin_key
       user_token_pc_key user_token_lp_key nonce open_time pc_amount coin_amount) amm_program_key
     (Initialize2 \<lparr>init2_nonce = nonce, init2_open_time = open_time, init_pc_amount = pc_amount,
         init_coin_amount = coin_amount\<rparr>)
     init_parse_accounts
     \<lparr>in_token_program = info_of (meta_new_readonly (rt_spl_token_id R) False),
       in_ata_program = info_of (meta_new_readonly (rt_ata_program_id R) False),
       in_system_program = info_of (meta_new_readonly (rt_system_program_id R) False),
       in_rent = info_of (meta_new_readonly (rt_rent_id R) False),
       in_amm = info_of (meta_new pool_key False),
       in_authority = info_of (meta_new_readonly authority_key False),
       in_open_orders = info_of (meta_new open_orders_key False),
       in_lp_mint = info_of (meta_new lp_mint_key False),
       in_coin_mint = info_of (meta_new_readonly coin_mint_key False),
       in_pc_mint = info_of (meta_new_readonly pc_mint_key False),
       in_coin_vault = info_of (meta_new coin_vault_key False),
       in_pc_vault = info_of (meta_new pc_vault_key False),
       in_target_orders = info_of (meta_new target_orders_key False),
       in_config = info_of (meta_new_readonly config_key False),
       in_fee_destination = info_of (meta_new create_fee_destination_key False),
       in_market_program = info_of (meta_new_readonly market_program_key False),
       in_market = info_of (meta_new_readonly market_key False),
       in_user_wallet = info_of (meta_new user_wallet_key True),
       in_user_coin = info_of (meta_new user_token_coin_key False),
       in_user_pc = info_of (meta_new user_token_pc_key False),
       in_user_lp = info_of (meta_new user_token_lp_key False)\<rparr> \<and>
   arrives (monitor_step_ix R amm_program_key pool_key authority_key open_orders_key target_orders_key
       coin_vault_key pc_vault_key token_srm_key market_program_key market_key
       market_coin_vault_key market_pc_vault_key vault_signer_key request_queue_key event_queue_key
       bids_key asks_key referrer_token_pc_key plan_limit place_limit cancel) amm_program_key
     (MonitorStep \<lparr>plan_order_limit = plan_limit, place_order_limit = place_limit,
         cancel_order_limit = cancel\<rparr>)
     monitor_parse_accounts
     \<lparr>mo_token_program = info_of (meta_new_readonly (rt_spl_token_id R) False),
       mo_rent = info_of (meta_new_readonly (rt_rent_id R) False),
       mo_clock = info_of (meta_new_readonly (rt_clock_id R) False),
       mo_amm = info_of (meta_new pool_key False),
       mo_authority = info_of (meta_new_readonly authority_key False),
       mo_open_orders = info_of (meta_new open_orders_key False),
       mo_target_orders = info_of (meta_new target_orders_key False),
       mo_coin_vault = info_of (meta_new coin_vault_key False),
       mo_pc_vault = info_of (meta_new pc_vault_key False),
       mo_market_program = info_of (meta_new_readonly market_program_key False),
       mo_market = info_of (meta_new market_key False),
       mo_market_coin_vault = info_of (meta_new market_coin_vault_key False),
       mo_market_pc_vault = info_of (meta_new market_pc_vault_key False),
       mo_vault_signer = info_of (meta_new_readonly vault_signer_key False),
       mo_request_queue = info_of (meta_new request_queue_key False),
       mo_event_queue = info_of (meta_new event_queue_key False),
       mo_bids = info_of (meta_new bids_key False), mo_asks = info_of (meta_new asks_key False),
       mo_srm_token = map_option (\<lambda>k. info_of (meta_new k False)) token_srm_key,
       mo_referrer = (if token_srm_key = None then None else map_option (\<lambda>k. info_of (meta_new k False)) referrer_token_pc_key)\<rparr> \<and>
   arrives (admin_cancel_orders_ix R amm_program_key pool_key authority_key open_orders_key
       target_orders_key coin_vault_key pc_vault_key cancel_owner_key config_key market_program_key
       market_key market_coin_vault_key market_pc_vault_key vault_signer_key event_queue_key
       bids_key asks_key token_srm_key referrer_token_pc_key cancel) amm_program_key
     (AdminCancelOrders \<lparr>cancel_limit = cancel\<rparr>)
     admin_cancel_parse_accounts
     \<lparr>ac_token_program = info_of (meta_new_readonly (rt_spl_token_id R) False),
       ac_amm = info_of (meta_new_readonly pool_key False),
       ac_authority = info_of (meta_new_readonly authority_key False),
       ac_open_orders = info_of (meta_new open_orders_key False),
       ac_target_orders = info_of (meta_new target_orders_key False),
       ac_coin_vault = info_of (meta_new coin_vault_key False),
       ac_pc_vault = info_of (meta_new pc_vault_key False),
       ac_owner = info_of (meta_new_readonly cancel_owner_key True),
       ac_config = info_of (meta_new config_key False),
       ac_market_program = info_of (meta_new_readonly market_program_key False),
       ac_market = info_of (meta_new market_key False),
       ac_market_coin_vault = info_of (meta_new market_coin_vault_key False),
       ac_market_pc_vault = info_of (meta_new market_pc_vault_key False),
       ac_vault_signer = info_of (meta_new_readonly vault_signer_key False),
       ac_event_queue = info_of (meta_new event_queue_key False),
       ac_bids = info_of (meta_new bids_key False), ac_asks = info_of (meta_new asks_key False),
       ac_srm_token = map_option (\<lambda>k. info_of (meta_new k False)) token_srm_key,
       ac_referrer = (if token_srm_key = None then None else map_option (\<lambda>k. info_of (meta_new k False)) referrer_token_pc_key)\<rparr> \<and>
   arrives (withdrawpnl_ix R amm_program_key pool_key config_key authority_key open_orders_key
       coin_vault_key pc_vault_key user_token_coin_key user_token_pc_key user_owner_key
       target_orders_key market_program_key market_key event_queue_key market_coin_vault_key
       market_pc_vault_key vault_signer_key) amm_program_key
     WithdrawPnl
     withdrawpnl_parse_accounts
     \<lparr>pn_token_program = info_of (meta_new_readonly (rt_spl_token_id R) False),
       pn_amm = info_of (meta_new pool_key False),
       pn_config = info_of (meta_new_readonly config_key False),
       pn_authority = info_of (meta_new_readonly authority_key False),
       pn_open_orders = info_of (meta_new open_orders_key False),
       pn_coin_vault = info_of (meta_new coin_vault_key False),
       pn_pc_vault = info_of (meta_new pc_vault_key False),
       pn_user_coin = info_of (meta_new user_token_coin_key False),
       pn_user_pc = info_of (meta_new user_token_pc_key False),
       pn_owner = info_of (meta_new_readonly user_owner_key True),
       pn_target_orders = info_of (meta_new target_orders_key False),
       pn_market_program = info_of (meta_new_readonly market_program_key False),
       pn_market = info_of (meta_new market_key False),
       pn_event_queue = info_of (meta_new_readonly event_queue_key False), pn_referrer = None\<rparr> \<and>
   arrives (migrate_to_openbook_ix R amm_program_key pool_key authority_key open_orders_key
       coin_vault_key pc_vault_key target_orders_key market_program_key market_key bids_key
       asks_key event_queue_key market_coin_vault_key market_pc_vault_key vault_signer_key
       new_amm_open_orders_key new_market_program_key new_market_key admin_key) amm_program_key
     MigrateToOpenBook
     migrate_parse_accounts
     \<lparr>mg_token_program = info_of (meta_new_readonly (rt_spl_token_id R) False),
       mg_system_program = info_of (meta_new_readonly (rt_system_program_id R) False),
       mg_rent = info_of (meta_new_readonly (rt_rent_id R) False),
       mg_amm = info_of (meta_new pool_key False),
       mg_authority = info_of (meta_new_readonly authority_key False),
       mg_open_orders = info_of (meta_new open_orders_key False),
       mg_coin_vault = info_of (meta_new coin_vault_key False),
       mg_pc_vault = info_of (meta_new pc_vault_key False),
       mg_target_orders = info_of (meta_new target_orders_key False),
       mg_market_program = info_of (meta_new_readonly market_program_key False),
       mg_market = info_of (meta_new market_key False),
       mg_bids = info_of (meta_new bids_key False), mg_asks = info_of (meta_new asks_key False),
       mg_event_queue = info_of (meta_new event_queue_key False),
       mg_market_coin_vault = info_of (meta_new market_coin_vault_key False),
       mg_market_pc_vault = info_of (meta_new market_pc_vault_key False),
       mg_vault_signer = info_of (meta_new_readonly vault_signer_key False),
       mg_new_open_orders = info_of (meta_new new_amm_open_orders_key False),
       mg_new_market_program = info_of (meta_new_readonly new_market_program_key False),
       mg_new_market = info_of (meta_new_readonly new_market_key False),
       mg_admin = info_of (meta_new admin_key True)\<rparr>"
  by (intro conjI initialize2_arrives monitor_step_arrives admin_cancel_orders_arrives withdrawpnl_arrives
      migrate_to_openbook_arrives)


section \<open>What a client can rely on\<close>

text \<open>After calls to the market alone, a run makes exactly these calls.\<close>

definition only_moves :: "world \<Rightarrow> world \<Rightarrow> cpi_data list \<Rightarrow> bool" where
  "only_moves w w' ixs \<longleftrightarrow>
     (\<exists>pre post. cpis w' = cpis w @ pre @ post \<and> list_all market_call pre \<and> map cpi_ix post = ixs)"

lemma only_movesI:
  assumes "cpis w' = cpis w @ pre @ post" and "\<forall>c\<in>set pre. market_call c"
  shows "only_moves w w' (map cpi_ix post)"
  using assms by (auto simp: only_moves_def list_all_iff)

lemma arrived_dispatch:
  assumes "process R amm_program (infos (ix_accounts ix)) (ix_data ix) w = Done w'"
    and "arrives built amm_program i parse A" and "built = Done ix"
  shows "dispatch i R amm_program (infos (ix_accounts ix)) w = Done w'"
    and "parse (infos (ix_accounts ix)) = Done A"
  using assms by (auto simp: arrives_def process_def)

text \<open>Each handler on accounts that its parser accepts: what the client's limits come to.\<close>

lemma deposit_moves:
  assumes "process_deposit R pid accounts deposit w = Done w'"
    and "deposit_parse_accounts accounts = Done A" and "amm_load w (dp_amm A) = Done amm"
  shows "\<exists>c p l. c \<le> max_coin_amount deposit \<and> p \<le> max_pc_amount deposit \<and>
    \<not> below_min (if base_side deposit = 0 then p else c) (other_amount_min deposit) \<and>
    only_moves w w'
      [SplTransfer (ai_key (dp_token_program A)) (ai_key (dp_source_coin A)) (ai_key (dp_coin_vault A))
         (ai_key (dp_source_owner A)) c,
       SplTransfer (ai_key (dp_token_program A)) (ai_key (dp_source_pc A)) (ai_key (dp_pc_vault A))
         (ai_key (dp_source_owner A)) p,
       SplMintTo (ai_key (dp_token_program A)) (ai_key (dp_lp_mint A)) (ai_key (dp_dest_lp A))
         (ai_key (dp_authority A)) l]"
proof -
  have l: "amm_load w (accounts ! 1) = Done amm"
    using assms(3) deposit_parse_amm [OF assms(2)] by simp
  obtain r c p l where q: "deposit_quote deposit (lp_amount amm) (pr_total_pc (r :: pnl_result)) (pr_total_coin r) =
      Done (c, p, l)"
    and nz: "c \<noteq> 0" "p \<noteq> 0"
    and calls: "cpis w' = cpis w @
      [user_transfer (dp_token_program A) (dp_source_coin A) (dp_coin_vault A) (dp_source_owner A) c,
       user_transfer (dp_token_program A) (dp_source_pc A) (dp_pc_vault A) (dp_source_owner A) p,
       pool_mint (dp_token_program A) (dp_lp_mint A) (dp_dest_lp A) (dp_authority A)
         (as_u8 (amm_nonce amm)) l]"
    using process_deposit_effects [OF assms(1) l] unfolding assms(2) outcome.inject
    by blast
  note moves = only_movesI [of w' w "[]", simplified, OF calls]
  show ?thesis
    by (intro exI conjI, rule deposit_quote_facts(3) [OF q nz], rule deposit_quote_facts(4) [OF q nz],
        rule deposit_quote_min [OF q], use moves in \<open>simp add: user_transfer_def pool_mint_def\<close>)
qed

lemma withdraw_moves:
  assumes "process_withdraw R pid accounts withdraw w = Done w'"
    and "withdraw_parse_accounts accounts = Done A" and "amm_load w (wd_amm A) = Done amm"
  shows "\<exists>c p. \<not> below_both_min (min_coin_amount withdraw) (min_pc_amount withdraw) c p \<and>
    only_moves w w'
      [SplTransfer (ai_key (wd_token_program A)) (ai_key (wd_coin_vault A)) (ai_key (wd_dest_coin A))
         (ai_key (wd_authority A)) c,
       SplTransfer (ai_key (wd_token_program A)) (ai_key (wd_pc_vault A)) (ai_key (wd_dest_pc A))
         (ai_key (wd_authority A)) p,
       SplBurn (ai_key (wd_token_program A)) (ai_key (wd_source_lp A)) (ai_key (wd_lp_mint A))
         (ai_key (wd_source_owner A)) (withdraw_amount withdraw)]"
proof -
  have l: "amm_load w (accounts ! 1) = Done amm"
    using assms(3) withdraw_parse_amm [OF assms(2)] by simp
  obtain c p pre where min: "\<not> below_both_min (min_coin_amount withdraw) (min_pc_amount withdraw) c p"
    and pre: "\<forall>c\<in>set pre. market_call c"
    and calls: "cpis w' = cpis w @ pre @
      [pool_transfer (wd_token_program A) (wd_coin_vault A) (wd_dest_coin A) (wd_authority A)
         (as_u8 (amm_nonce amm)) c,
       pool_transfer (wd_token_program A) (wd_pc_vault A) (wd_dest_pc A) (wd_authority A)
         (as_u8 (amm_nonce amm)) p,
       user_burn (wd_token_program A) (wd_source_lp A) (wd_lp_mint A) (wd_source_owner A)
         (withdraw_amount withdraw)]"
    using process_withdraw_effects [OF assms(1) l] unfolding assms(2) outcome.inject
    by blast
  show ?thesis
    by (intro exI conjI, rule min,
        use only_movesI [OF calls pre] in \<open>simp add: pool_transfer_def user_burn_def\<close>)
qed

lemma swap_moves:
  assumes "swap_result A amm enable t d i out fee w w'"
  shows "only_moves w w'
    [SplTransfer (ai_key (sw_token_program A)) (ai_key (sw_user_source A))
       (ai_key (reserve_in d (sw_pc_vault A) (sw_coin_vault A))) (ai_key (sw_user_owner A)) i,
     SplTransfer (ai_key (sw_token_program A)) (ai_key (reserve_out d (sw_pc_vault A) (sw_coin_vault A)))
       (ai_key (sw_user_destination A)) (ai_key (sw_authority A)) out]"
proof -
  obtain pre where "cpis w' = cpis w @ pre @ swap_calls A amm d i out" and "\<forall>c\<in>set pre. market_call c"
    using assms unfolding swap_result_def list_all_iff by blast
  from only_movesI [OF this] show ?thesis
    by (simp add: swap_calls_def user_transfer_def pool_transfer_def)
qed

lemma swap_base_in_moves:
  assumes "process_swap_base_in R pid accounts swap w = Done w'"
    and "swap_parse_accounts accounts = Done A" and "amm_load w (sw_amm A) = Done amm"
    and "swap_fee_numerator (amm_fees amm) \<le> swap_fee_denominator (amm_fees amm)"
  shows "\<exists>d out. minimum_amount_out swap \<le> out \<and> only_moves w w'
    [SplTransfer (ai_key (sw_token_program A)) (ai_key (sw_user_source A))
       (ai_key (reserve_in d (sw_pc_vault A) (sw_coin_vault A))) (ai_key (sw_user_owner A)) (amount_in swap),
     SplTransfer (ai_key (sw_token_program A)) (ai_key (reserve_out d (sw_pc_vault A) (sw_coin_vault A)))
       (ai_key (sw_user_destination A)) (ai_key (sw_authority A)) out]"
proof -
  have "amm_load w (accounts ! 1) = Done amm"
    using assms(3) swap_parse_amm [OF assms(2)] by simp
  from process_swap_base_in_effects [OF assms(1) this assms(4)] show ?thesis
    using assms(2) swap_moves by fastforce
qed

lemma swap_base_out_moves:
  assumes "process_swap_base_out R pid accounts swap w = Done w'"
    and "swap_parse_accounts accounts = Done A" and "amm_load w (sw_amm A) = Done amm"
  shows "\<exists>d i. i \<le> max_amount_in swap \<and> only_moves w w'
    [SplTransfer (ai_key (sw_token_program A)) (ai_key (sw_user_source A))
       (ai_key (reserve_in d (sw_pc_vault A) (sw_coin_vault A))) (ai_key (sw_user_owner A)) i,
     SplTransfer (ai_key (sw_token_program A)) (ai_key (reserve_out d (sw_pc_vault A) (sw_coin_vault A)))
       (ai_key (sw_user_destination A)) (ai_key (sw_authority A)) (amount_out swap)]"
proof -
  have "amm_load w (accounts ! 1) = Done amm"
    using assms(3) swap_parse_amm [OF assms(2)] by simp
  from process_swap_base_out_effects [OF assms(1) this] show ?thesis
    using assms(2) swap_moves by fastforce
qed

lemma reserve_ai_key:
  "ai_key (reserve_in d a b) = reserve_in d (ai_key a) (ai_key b)"
  "ai_key (reserve_out d a b) = reserve_out d (ai_key a) (ai_key b)"
  by (cases d; simp)+

text \<open>A single lower bound of a withdrawal, which is lost on the way, binds nothing anyway.\<close>

lemma wire_withdraw_limits:
  "withdraw_amount (wire_withdraw x) = withdraw_amount x"
  "below_both_min (min_coin_amount (wire_withdraw x)) (min_pc_amount (wire_withdraw x)) =
     below_both_min (min_coin_amount x) (min_pc_amount x)"
  by (auto simp: wire_withdraw_def below_both_min_def fun_eq_iff split: option.split)

lemmas account_keys = info_of_def meta_new_def meta_new_readonly_def reserve_ai_key wire_withdraw_limits

lemma deposit_protected:
  assumes "process R amm_program_key (infos (ix_accounts ix)) (ix_data ix) w = Done w'"
    and "amm_load w (info_of (meta_new pool_key False)) = Done amm"
    and "deposit_ix R amm_program_key pool_key authority_key open_orders_key target_orders_key
       lp_mint_key coin_vault_key pc_vault_key market_key event_queue_key user_token_coin_key
       user_token_pc_key user_token_lp_key user_owner_key max_coin max_pc side other_min = Done ix"
  shows "\<exists>c p l. c \<le> max_coin \<and> p \<le> max_pc \<and> \<not> below_min (if side = 0 then p else c) other_min \<and>
        only_moves w w'
          [SplTransfer (rt_spl_token_id R) user_token_coin_key coin_vault_key user_owner_key c,
           SplTransfer (rt_spl_token_id R) user_token_pc_key pc_vault_key user_owner_key p,
           SplMintTo (rt_spl_token_id R) lp_mint_key user_token_lp_key authority_key l]"
proof -
  note run = arrived_dispatch [OF assms(1) deposit_arrives assms(3)]
  show ?thesis
    using deposit_moves [OF run(1) [unfolded dispatch.simps] run(2)] assms(2,3)
    by (simp add: account_keys)
qed

lemma withdraw_protected:
  assumes "process R amm_program_key (infos (ix_accounts ix)) (ix_data ix) w = Done w'"
    and "amm_load w (info_of (meta_new pool_key False)) = Done amm"
    and "withdraw_ix R amm_program_key pool_key authority_key open_orders_key target_orders_key
       lp_mint_key coin_vault_key pc_vault_key market_program_key market_key market_coin_vault_key
       market_pc_vault_key vault_signer_key user_token_lp_key user_token_coin_key user_token_pc_key
       user_owner_key event_queue_key bids_key asks_key referrer_pc_account_key amount min_coin
       min_pc = Done ix"
  shows "\<exists>c p. \<not> below_both_min min_coin min_pc c p \<and>
        only_moves w w'
          [SplTransfer (rt_spl_token_id R) coin_vault_key user_token_coin_key authority_key c,
           SplTransfer (rt_spl_token_id R) pc_vault_key user_token_pc_key authority_key p,
           SplBurn (rt_spl_token_id R) user_token_lp_key lp_mint_key user_owner_key amount]"
proof -
  note run = arrived_dispatch [OF assms(1) withdraw_arrives assms(3)]
  show ?thesis
    using withdraw_moves [OF run(1) [unfolded dispatch.simps] run(2)] assms(2,3)
    by (simp add: account_keys)
qed

lemma swap_base_in_protected:
  assumes "process R amm_program_key (infos (ix_accounts ix)) (ix_data ix) w = Done w'"
    and "amm_load w (info_of (meta_new pool_key False)) = Done amm"
    and "swap_fee_numerator (amm_fees amm) \<le> swap_fee_denominator (amm_fees amm)"
    and "swap_base_in_ix R amm_program_key pool_key authority_key open_orders_key coin_vault_key
       pc_vault_key market_program_key market_key bids_key asks_key event_queue_key
       market_coin_vault_key market_pc_vault_key vault_signer_key user_token_source_key
       user_token_destination_key user_source_owner_key a_in min_out = Done ix"
  shows "\<exists>d out. min_out \<le> out \<and> only_moves w w'
          [SplTransfer (rt_spl_token_id R) user_token_source_key (reserve_in d pc_vault_key coin_vault_key)
             user_source_owner_key a_in,
           SplTransfer (rt_spl_token_id R) (reserve_out d pc_vault_key coin_vault_key) user_token_destination_key
             authority_key out]"
proof -
  note run = arrived_dispatch [OF assms(1) swap_base_in_arrives assms(4)]
  show ?thesis
    using swap_base_in_moves [OF run(1) [unfolded dispatch.simps] run(2)] assms(2,3)
    by (simp add: account_keys)
qed

lemma swap_base_out_protected:
  assumes "process R amm_program_key (infos (ix_accounts ix)) (ix_data ix) w = Done w'"
    and "amm_load w (info_of (meta_new pool_key False)) = Done amm"
    and "swap_base_out_ix R amm_program_key pool_key authority_key open_orders_key coin_vault_key
       pc_vault_key market_program_key market_key bids_key asks_key event_queue_key
       market_coin_vault_key market_pc_vault_key vault_signer_key user_token_source_key
       user_token_destination_key user_source_owner_key max_in a_out = Done ix"
  shows "\<exists>d i. i \<le> max_in \<and> only_moves w w'
          [SplTransfer (rt_spl_token_id R) user_token_source_key (reserve_in d pc_vault_key coin_vault_key)
             user_source_owner_key i,
           SplTransfer (rt_spl_token_id R) (reserve_out d pc_vault_key coin_vault_key) user_token_destination_key
             authority_key a_out]"
proof -
  note run = arrived_dispatch [OF assms(1) swap_base_out_arrives assms(3)]
  show ?thesis
    using swap_base_out_moves [OF run(1) [unfolded dispatch.simps] run(2)] assms(2,3)
    by (simp add: account_keys)
qed

text \<open>
  C9: a client that builds a trade keeps its limits, whatever the pool has become when the trade
  runs. If the program runs it, then after calls to the market alone the only calls are these:
  a deposit takes from the client's accounts at most the two maxima and no less than the given
  minimum; a withdrawal burns the given shares and pays no less than the two minima, when both
  are given; a swap takes the given input and pays at least the given minimum, or takes at most
  the given maximum and pays the given output. All of it goes between the accounts that the
  client named.
\<close>

theorem client_trades_protected:
  assumes "process R amm_program_key (infos (ix_accounts ix)) (ix_data ix) w = Done w'"
    and "amm_load w (info_of (meta_new pool_key False)) = Done amm"
    and "swap_fee_numerator (amm_fees amm) \<le> swap_fee_denominator (amm_fees amm)"
  shows "(deposit_ix R amm_program_key pool_key authority_key open_orders_key target_orders_key
       lp_mint_key coin_vault_key pc_vault_key market_key event_queue_key user_token_coin_key
       user_token_pc_key user_token_lp_key user_owner_key max_coin max_pc side other_min = Done ix \<longrightarrow>
      (\<exists>c p l. c \<le> max_coin \<and> p \<le> max_pc \<and> \<not> below_min (if side = 0 then p else c) other_min \<and>
        only_moves w w'
          [SplTransfer (rt_spl_token_id R) user_token_coin_key coin_vault_key user_owner_key c,
           SplTransfer (rt_spl_token_id R) user_token_pc_key pc_vault_key user_owner_key p,
           SplMintTo (rt_spl_token_id R) lp_mint_key user_token_lp_key authority_key l])) \<and>
    (withdraw_ix R amm_program_key pool_key authority_key open_orders_key target_orders_key
       lp_mint_key coin_vault_key pc_vault_key market_program_key market_key market_coin_vault_key
       market_pc_vault_key vault_signer_key user_token_lp_key user_token_coin_key user_token_pc_key
       user_owner_key event_queue_key bids_key asks_key referrer_pc_account_key amount min_coin
       min_pc = Done ix \<longrightarrow>
      (\<exists>c p. \<not> below_both_min min_coin min_pc c p \<and>
        only_moves w w'
          [SplTransfer (rt_spl_token_id R) coin_vault_key user_token_coin_key authority_key c,
           SplTransfer (rt_spl_token_id R) pc_vault_key user_token_pc_key authority_key p,
           SplBurn (rt_spl_token_id R) user_token_lp_key lp_mint_key user_owner_key amount])) \<and>
    (swap_base_in_ix R amm_program_key pool_key authority_key open_orders_key coin_vault_key
       pc_vault_key market_program_key market_key bids_key asks_key event_queue_key
       market_coin_vault_key market_pc_vault_key vault_signer_key user_token_source_key
       user_token_destination_key user_source_owner_key a_in min_out = Done ix \<longrightarrow>
      (\<exists>d out. min_out \<le> out \<and> only_moves w w'
          [SplTransfer (rt_spl_token_id R) user_token_source_key (reserve_in d pc_vault_key coin_vault_key)
             user_source_owner_key a_in,
           SplTransfer (rt_spl_token_id R) (reserve_out d pc_vault_key coin_vault_key) user_token_destination_key
             authority_key out])) \<and>
    (swap_base_out_ix R amm_program_key pool_key authority_key open_orders_key coin_vault_key
       pc_vault_key market_program_key market_key bids_key asks_key event_queue_key
       market_coin_vault_key market_pc_vault_key vault_signer_key user_token_source_key
       user_token_destination_key user_source_owner_key max_in a_out = Done ix \<longrightarrow>
      (\<exists>d i. i \<le> max_in \<and> only_moves w w'
          [SplTransfer (rt_spl_token_id R) user_token_source_key (reserve_in d pc_vault_key coin_vault_key)
             user_source_owner_key i,
           SplTransfer (rt_spl_token_id R) (reserve_out d pc_vault_key coin_vault_key) user_token_destination_key
             authority_key a_out]))"
  by (intro conjI impI deposit_protected [OF assms(1,2)] withdraw_protected [OF assms(1,2)]
      swap_base_in_protected [OF assms] swap_base_out_protected [OF assms(1,2)])

text \<open>The sample accounts as a client names them.\<close>

lemma sample_named:
  assumes "ai_key a = k"
  shows "acc_of sample_world a = sample_ledger k"
    and "k = 100 \<Longrightarrow> amm_load sample_world a = Done sample_amm"
    and "k = 100 \<Longrightarrow> amm_load_mut_checked sample_world a 7 = Done sample_amm"
    and "unpack_token_account sample_runtime sample_world a tp =
      unpack_token_account sample_runtime sample_world (sample_info k) tp"
proof -
  show acc: "acc_of sample_world a = sample_ledger k"
    using assms by (simp add: acc_of_def sample_world_def)
  show "unpack_token_account sample_runtime sample_world a tp =
      unpack_token_account sample_runtime sample_world (sample_info k) tp"
    by (simp add: unpack_token_account_def acc assms)
  assume "k = 100"
  then show load: "amm_load sample_world a = Done sample_amm"
    using sample_amm_load assms by (simp add: amm_load_def acc)
  show "amm_load_mut_checked sample_world a 7 = Done sample_amm"
    using load sample_load_checked(1) assms \<open>k = 100\<close> by (simp add: amm_load_mut_checked_Done acc)
qed

lemmas sample_named_simps = sample_named [of "\<lparr>ai_key = k, is_signer = s, is_writable = v\<rparr>" k for k s v, simplified]

definition sample_swap_ix :: "instruction outcome" where
  "sample_swap_ix = swap_base_in_ix sample_runtime 7 100 50 101 104 105 112 106 120 121 122 123 124 125
     107 108 110 400 1000"

definition sample_named_accounts :: swap_accounts where
  "sample_named_accounts = \<lparr>sw_token_program = info_of (meta_new_readonly 1 False),
     sw_amm = info_of (meta_new 100 False), sw_authority = info_of (meta_new_readonly 50 False),
     sw_open_orders = info_of (meta_new 101 False), sw_coin_vault = info_of (meta_new 104 False),
     sw_pc_vault = info_of (meta_new 105 False), sw_market_program = info_of (meta_new_readonly 112 False),
     sw_market = info_of (meta_new 106 False), sw_bids = info_of (meta_new 120 False),
     sw_asks = info_of (meta_new 121 False), sw_event_queue = info_of (meta_new 122 False),
     sw_market_coin_vault = info_of (meta_new 123 False),
     sw_market_pc_vault = info_of (meta_new 124 False),
     sw_vault_signer = info_of (meta_new_readonly 125 False),
     sw_user_source = info_of (meta_new 107 False), sw_user_destination = info_of (meta_new 108 False),
     sw_user_owner = info_of (meta_new_readonly 110 True)\<rparr>"

lemma sample_client_run:
  "\<exists>ix w'. sample_swap_ix = Done ix \<and>
     process sample_runtime 7 (infos (ix_accounts ix)) (ix_data ix) sample_world = Done w'"
proof -
  obtain ix where built: "sample_swap_ix = Done ix"
    and i: "unpack (ix_data ix) = Done (SwapBaseIn \<lparr>amount_in = 400, minimum_amount_out = 1000\<rparr>)"
    and A: "swap_parse_accounts (infos (ix_accounts ix)) = Done sample_named_accounts"
    using swap_base_in_arrives [of sample_runtime 7 100 50 101 104 105 112 106 120 121 122 123 124 125
      107 108 110 400 1000]
    by (auto simp: arrives_def sample_swap_ix_def sample_named_accounts_def)
  have "\<exists>w'. process_swap_base_in sample_runtime 7 (infos (ix_accounts ix))
      \<lparr>amount_in = 400, minimum_amount_out = 1000\<rparr> sample_world = Done w'"
    unfolding process_swap_base_in_def A
    by (simp add: sample_named_accounts_def sample_swap_simps sample_swap_in_quote
        swap_in_coin_to_pc_def account_keys sample_named_simps)
  then show ?thesis
    using built i by (auto simp: process_Done)
qed

theorem client_trades_protected_witness:
  "\<exists>ix w' d out. sample_swap_ix = Done ix \<and>
     process sample_runtime 7 (infos (ix_accounts ix)) (ix_data ix) sample_world = Done w' \<and>
     1000 \<le> out \<and> only_moves sample_world w'
       [SplTransfer 1 107 (reserve_in d 105 104) 110 400, SplTransfer 1 (reserve_out d 105 104) 108 50 out]"
proof -
  obtain ix w' where built: "sample_swap_ix = Done ix"
    and run: "process sample_runtime 7 (infos (ix_accounts ix)) (ix_data ix) sample_world = Done w'"
    using sample_client_run by blast
  have load: "amm_load sample_world (info_of (meta_new 100 False)) = Done sample_amm"
    by (simp add: account_keys sample_named_simps)
  have "swap_fee_numerator (amm_fees sample_amm) \<le> swap_fee_denominator (amm_fees sample_amm)"
    by (simp add: sample_fees_def)
  from client_trades_protected [OF run load this, THEN conjunct2, THEN conjunct2, THEN conjunct1,
      rule_format, OF built [unfolded sample_swap_ix_def]]
  show ?thesis
    using built run by auto
qed

end
