(* ===== verification/Vaults.thy ===== *)
theory Vaults
  imports Dispatch
begin

text \<open>
  The abstract pool of theory \<open>Pool\<close> on the ledger. Under the law of the token program, that a
  transfer moves exactly its amount and nothing else moves tokens, the two vaults of a pool that
  is not on the order book hold exactly the pool's tokens and the profit that it owes its owner,
  before and after every trade. The locale \<open>vault_handler\<close> extends the contract of theory
  \<open>Trades\<close> with what a handler must keep to for this.
\<close>

section \<open>Balances and the token program\<close>

text \<open>
  The calls whose effect on the account \<open>v\<close> is known: transfers, mints to another account, burns
  from another account.
\<close>

definition token_call :: "pubkey \<Rightarrow> cpi \<Rightarrow> bool" where
  "token_call v c =
     (case cpi_ix c of
        SplTransfer _ _ _ _ _ \<Rightarrow> True
      | SplMintTo _ _ dst _ _ \<Rightarrow> dst \<noteq> v
      | SplBurn _ acc _ _ _ \<Rightarrow> acc \<noteq> v
      | _ \<Rightarrow> False)"

definition token_law :: "runtime \<Rightarrow> bool" where
  "token_law R \<longleftrightarrow>
     (\<forall>c l l' v b. rt_invoke R c l = Done l' \<longrightarrow> token_call v c \<longrightarrow> balance R l v = Some b \<longrightarrow>
        balance R l' v = Some (b + token_flow v c))"

lemma token_call_simps [simp]:
  "token_call v (user_transfer tp src dst own n)"
  "token_call v (pool_transfer tp src dst auth nonce n)"
  "token_call v (pool_mint tp m dst auth nonce n) \<longleftrightarrow> ai_key dst \<noteq> v"
  "token_call v (user_burn tp acc m own n) \<longleftrightarrow> ai_key acc \<noteq> v"
  by (simp_all add: token_call_def user_transfer_def pool_transfer_def pool_mint_def user_burn_def)

lemma calls_balance:
  assumes "calls R w w'" and "token_law R" and "balance R (ledger w) v = Some b"
  shows "\<exists>new. cpis w' = cpis w @ new \<and>
    (list_all (token_call v) new \<longrightarrow> balance R (ledger w') v = Some (b + net (token_flow v) new))"
  using assms
proof (induction rule: calls.induct)
  case (calls_none w)
  then show ?case by simp
next
  case (calls_more w w1 ix accts seeds w2)
  let ?c = "\<lparr>cpi_ix = ix, cpi_accounts = accts, cpi_seeds = seeds\<rparr>"
  obtain new where new: "cpis w1 = cpis w @ new"
    and b: "list_all (token_call v) new \<Longrightarrow> balance R (ledger w1) v = Some (b + net (token_flow v) new)"
    using calls_more by blast
  have c: "cpis w2 = cpis w1 @ [?c]" and l: "rt_invoke R ?c (ledger w1) = Done (ledger w2)"
    using calls_more.hyps(2) by (auto simp: invoke_signed_def Let_def and_then_Done)
  have "balance R (ledger w2) v = Some (b + net (token_flow v) (new @ [?c]))"
    if "list_all (token_call v) (new @ [?c])"
    using that b l calls_more.prems(1) unfolding token_law_def by simp
  then show ?case using new c by (intro exI [of _ "new @ [?c]"]) simp
qed

section \<open>Handlers that call and then store\<close>

text \<open>A run that calls other programs and then writes to the accounts \<open>ks\<close> only.\<close>

definition ends :: "runtime \<Rightarrow> pubkey set \<Rightarrow> world \<Rightarrow> world \<Rightarrow> bool" where
  "ends R ks w w' \<longleftrightarrow>
     (\<exists>w1. calls R w w1 \<and> cpis w' = cpis w1 \<and> (\<forall>k. k \<notin> ks \<longrightarrow> ledger w' k = ledger w1 k))"

lemma ends_amm_store: "calls R w w1 \<Longrightarrow> ends R {ai_key ia} w (amm_store ia a w1)"
  by (auto simp: ends_def amm_store_def store_def)

lemma ends_stores:
  "calls R w w1 \<Longrightarrow> ends R {ai_key ia, ai_key it} w (amm_store ia a (target_orders_store it t w1))"
  by (auto simp: ends_def amm_store_def target_orders_store_def store_def)

lemma ends_balance:
  assumes "ends R ks w w'" and "token_law R" and "balance R (ledger w) v = Some b" and "v \<notin> ks"
    and "cpis w' = cpis w @ new" and "list_all (token_call v) new"
  shows "balance R (ledger w') v = Some (b + net (token_flow v) new)"
proof -
  obtain w1 where w1: "calls R w w1" "cpis w' = cpis w1" "ledger w' v = ledger w1 v"
    using assms(1,4) by (auto simp: ends_def)
  then have "balance R (ledger w1) v = Some (b + net (token_flow v) new)"
    using calls_balance [OF w1(1) assms(2,3)] assms(5,6) by auto
  moreover have "balance R (ledger w') v = balance R (ledger w1) v"
    by (simp add: balance_def w1(3))
  ultimately show ?thesis by simp
qed

lemma deposit_ends:
  assumes "process_deposit R pid accounts deposit w = Done w'"
  shows "\<exists>A. deposit_parse_accounts accounts = Done A \<and>
    ends R {ai_key (dp_amm A), ai_key (dp_target_orders A)} w w'"
  using assms
  by (auto simp: process_deposit_def and_then_Done Let_def split: if_splits
      intro!: ends_stores dest!: deposit_only_calls)

lemma withdraw_ends:
  assumes "process_withdraw R pid accounts withdraw w = Done w'"
  shows "\<exists>A. withdraw_parse_accounts accounts = Done A \<and>
    ends R {ai_key (wd_amm A), ai_key (wd_target_orders A)} w w'"
  using assms
  by (auto simp: process_withdraw_def and_then_Done Let_def split: if_splits
      intro!: ends_stores dest!: withdraw_only_calls withdraw_totals_only_calls intro: calls_trans)

lemma swap_ends:
  "process_swap_base_in R pid accounts swap w = Done w' \<Longrightarrow>
     \<exists>A. swap_parse_accounts accounts = Done A \<and> ends R {ai_key (sw_amm A)} w w'"
  "process_swap_base_out R pid accounts swap' w = Done w' \<Longrightarrow>
     \<exists>A. swap_parse_accounts accounts = Done A \<and> ends R {ai_key (sw_amm A)} w w'"
  by (auto simp: process_swap_base_in_def process_swap_base_out_def swap_finish_def and_then_Done Let_def
      split: if_splits swap_direction.splits intro!: ends_amm_store dest!: swap_leg_only_calls)
     (metis swap_direction.exhaust)+

section \<open>What the vaults hold\<close>

text \<open>The vaults of the pool hold its tokens and, on top, what \<open>sd\<close> says is owed.\<close>

definition holds :: "runtime \<Rightarrow> ledger \<Rightarrow> amm_info \<Rightarrow> state_data \<Rightarrow> pool \<Rightarrow> bool" where
  "holds R l a sd s \<longleftrightarrow>
     balance R l (amm_pc_vault a) = Some (pool_pc s + uint (need_take_pnl_pc sd)) \<and>
     balance R l (amm_coin_vault a) = Some (pool_coin s + uint (need_take_pnl_coin sd))"

text \<open>
  A run moved the vaults as the abstract pool moves by the step that the instruction asks for:
  from what they hold above the profit owed before, less what is set aside, to what they hold
  above the profit owed after.
\<close>

definition settles_step :: "runtime \<Rightarrow> amm_instruction \<Rightarrow> account_info \<Rightarrow> amm_info \<Rightarrow> world \<Rightarrow> world \<Rightarrow> bool" where
  "settles_step R i info a w w' \<longleftrightarrow>
     (\<exists>a' s0 s s'. holds R (ledger w) a (amm_state_data a) s0 \<and> pool_lp s0 = uint (lp_amount a) \<and>
        set_aside i a a' s0 s \<and> trade_step (amm_fees a) i s s' \<and> pool_moved info a a' w w' s s' \<and>
        holds R (ledger w') a (amm_state_data a') s')"

text \<open>A run that moves no token of the pool's vaults except by token calls.\<close>

definition only_tokens :: "runtime \<Rightarrow> amm_info \<Rightarrow> world \<Rightarrow> world \<Rightarrow> bool" where
  "only_tokens R a w w' \<longleftrightarrow>
     (\<exists>ks new. ends R ks w w' \<and> cpis w' = cpis w @ new \<and>
        (\<forall>v \<in> {amm_pc_vault a, amm_coin_vault a}. v \<notin> ks \<and> list_all (token_call v) new))"

lemma only_tokensI:
  assumes "ends R ks w w'" and "cpis w' = cpis w @ new"
    and "\<And>v. v = amm_pc_vault a \<or> v = amm_coin_vault a \<Longrightarrow> v \<notin> ks \<and> list_all (token_call v) new"
  shows "only_tokens R a w w'"
  unfolding only_tokens_def using assms by blast

text \<open>What such a handler must keep to on a pool off the order book.\<close>

locale vault_handler = pool_handler +
  assumes run_ends: "run R pid accounts ins w = Done w' \<Longrightarrow> amm_load w (accounts ! 1) = Done amm \<Longrightarrow>
    swap_fee_numerator (amm_fees amm) \<le> swap_fee_denominator (amm_fees amm) \<Longrightarrow>
    off_market amm \<Longrightarrow> distinct (map ai_key accounts) \<Longrightarrow> only_tokens R amm w w'"
begin

lemma run_settles:
  assumes law: "token_law R" and run: "run R pid accounts ins w = Done w'"
    and load: "amm_load w (accounts ! 1) = Done amm" and off: "off_market amm"
    and fees: "swap_fee_numerator (amm_fees amm) \<le> swap_fee_denominator (amm_fees amm)"
    and dist: "distinct (map ai_key accounts)"
  shows "settles_step R (label ins) (accounts ! 1) amm w w'"
proof -
  obtain wq a' s0 s s' where o: "owns R pid w wq amm s0" and a: "set_aside (label ins) amm a' s0 s"
    and st: "trade_step (amm_fees amm) (label ins) s s'" and m: "pool_moved (accounts ! 1) amm a' w w' s s'"
    using run_refines [OF run load fees dist] unfolding refines_step_def by blast
  have before: "holds R (ledger w) amm (amm_state_data amm) s0" "pool_lp s0 = uint (lp_amount amm)"
    using o off by (auto simp: owns_def holds_def)
  obtain ks new where e: "ends R ks w w'" "cpis w' = cpis w @ new"
    and v: "\<And>v. v \<in> {amm_pc_vault amm, amm_coin_vault amm} \<Longrightarrow> v \<notin> ks \<and> list_all (token_call v) new"
    using run_ends [OF run load fees off dist] unfolding only_tokens_def by blast
  have flow: "pool_pc s' - pool_pc s = net (token_flow (amm_pc_vault amm)) new"
    "pool_coin s' - pool_coin s = net (token_flow (amm_coin_vault amm)) new"
    using m e(2) by (auto simp: pool_moved_def)
  have "holds R (ledger w') amm (amm_state_data a') s'"
    using ends_balance [OF e(1) law _ _ e(2)] v before(1) flow a
    unfolding holds_def set_aside_def by fastforce
  then show ?thesis
    unfolding settles_step_def using before a st m by blast
qed

end

text \<open>The keys of a trade's accounts that matter to the vaults.\<close>

lemma deposit_vault_keys:
  assumes "deposit_parse_accounts accounts = Done A" and "distinct (map ai_key accounts)"
  shows "distinct (map ai_key [dp_amm A, dp_target_orders A, dp_coin_vault A, dp_pc_vault A,
    dp_source_coin A, dp_source_pc A, dp_dest_lp A])"
  using assms by (auto simp: deposit_parse_accounts_def key_neq split: if_splits)

lemma withdraw_vault_keys:
  assumes "withdraw_parse_accounts accounts = Done A" and "distinct (map ai_key accounts)"
  shows "distinct (map ai_key [wd_amm A, wd_target_orders A, wd_coin_vault A, wd_pc_vault A,
    wd_dest_coin A, wd_dest_pc A, wd_source_lp A])"
  using assms by (auto simp: withdraw_parse_accounts_def Let_def key_neq split: if_splits)

lemma swap_vault_keys:
  assumes "swap_parse_accounts accounts = Done A" and "distinct (map ai_key accounts)"
  shows "distinct (map ai_key [sw_amm A, sw_coin_vault A, sw_pc_vault A, sw_user_source A,
    sw_user_destination A])"
  using assms by (auto simp: swap_parse_accounts_def Let_def key_neq split: if_splits)

section \<open>The four trades\<close>

interpretation deposit_vaults: vault_handler process_deposit Deposit
proof unfold_locales
  fix R pid accounts w w' amm0 and deposit :: deposit_instruction
  assume run: "process_deposit R pid accounts deposit w = Done w'"
    and load: "amm_load w (accounts ! 1) = Done amm0" and dist: "distinct (map ai_key accounts)"
  obtain A s c p l where A: "deposit_parse_accounts accounts = Done A"
    and s: "deposit_check R pid A amm0 deposit w = Done s"
    and calls: "cpis w' = cpis w @
      [user_transfer (dp_token_program A) (dp_source_coin A) (dp_coin_vault A) (dp_source_owner A) c,
       user_transfer (dp_token_program A) (dp_source_pc A) (dp_pc_vault A) (dp_source_owner A) p,
       pool_mint (dp_token_program A) (dp_lp_mint A) (dp_dest_lp A) (dp_authority A)
         (as_u8 (amm_nonce amm0)) l]"
    using process_deposit_effects [OF run load] by blast
  have "ends R {ai_key (dp_amm A), ai_key (dp_target_orders A)} w w'"
    using deposit_ends [OF run] A by simp
  then show "only_tokens R amm0 w w'"
    by (rule only_tokensI [OF _ calls]) (use deposit_vault_keys [OF A dist] deposit_check_keys [OF s] in auto)
qed

interpretation withdraw_vaults: vault_handler process_withdraw Withdraw
proof unfold_locales
  fix R pid accounts w w' amm0 and withdraw :: withdraw_instruction
  assume run: "process_withdraw R pid accounts withdraw w = Done w'"
    and load: "amm_load w (accounts ! 1) = Done amm0" and off: "off_market amm0"
    and dist: "distinct (map ai_key accounts)"
  let ?n = "withdraw_amount withdraw"
  obtain A s c p pre where A: "withdraw_parse_accounts accounts = Done A"
    and s: "withdraw_check R pid A amm0 withdraw w = Done s"
    and calls0: "cpis w' = cpis w @ pre @
      [pool_transfer (wd_token_program A) (wd_coin_vault A) (wd_dest_coin A) (wd_authority A)
         (as_u8 (amm_nonce amm0)) c,
       pool_transfer (wd_token_program A) (wd_pc_vault A) (wd_dest_pc A) (wd_authority A)
         (as_u8 (amm_nonce amm0)) p,
       user_burn (wd_token_program A) (wd_source_lp A) (wd_lp_mint A) (wd_source_owner A) ?n]"
    and pre: "\<not> ws_orderbook s \<longrightarrow> pre = []"
    using process_withdraw_effects [OF run load] by blast
  have "pre = []" using pre withdraw_check_owns(3) [OF s] off by simp
  note calls = calls0 [unfolded this append_Nil]
  have "ends R {ai_key (wd_amm A), ai_key (wd_target_orders A)} w w'"
    using withdraw_ends [OF run] A by simp
  then show "only_tokens R amm0 w w'"
    by (rule only_tokensI [OF _ calls]) (use withdraw_vault_keys [OF A dist] withdraw_check_keys [OF s] in auto)
qed

text \<open>Either swap, over the amounts that moved.\<close>

lemma swap_only_transfers:
  assumes A: "swap_parse_accounts accounts = Done A" and dist: "distinct (map ai_key accounts)"
    and ends: "ends R {ai_key (sw_amm A)} w w'" and T: "swap_check R pid A amm0 w = Done T"
    and res: "swap_result A amm False t d i out fee w w'"
  shows "only_tokens R amm0 w w'"
proof -
  have calls: "cpis w' = cpis w @ swap_calls A amm d i out"
    using res by (auto simp: swap_result_def)
  show ?thesis
    by (rule only_tokensI [OF ends calls])
       (use swap_vault_keys [OF A dist] swap_check_keys [OF T] in \<open>cases d; auto simp: swap_calls_def\<close>)
qed

interpretation swap_in_vaults: vault_handler process_swap_base_in SwapBaseIn
proof unfold_locales
  fix R pid accounts w w' amm0 and swap :: swap_instruction_base_in
  assume run: "process_swap_base_in R pid accounts swap w = Done w'"
    and load: "amm_load w (accounts ! 1) = Done amm0" and off: "off_market amm0"
    and fees: "swap_fee_numerator (amm_fees amm0) \<le> swap_fee_denominator (amm_fees amm0)"
    and dist: "distinct (map ai_key accounts)"
  obtain A T t d fee out amm status where
    A: "swap_parse_accounts accounts = Done A" and T: "swap_check R pid A amm0 w = Done T"
    and status: "status_from_u64 (amm_status amm0) = Done status"
    and res: "swap_result A amm (orderbook_permission status) t d (amount_in swap) out fee w w'"
    using process_swap_base_in_effects [OF run load fees] by blast
  then show "only_tokens R amm0 w w'"
    using swap_only_transfers [OF A dist _ T] off_market_status [OF off status] swap_ends(1) [OF run] by simp
qed

interpretation swap_out_vaults: vault_handler process_swap_base_out SwapBaseOut
proof unfold_locales
  fix R pid accounts w w' amm0 and swap :: swap_instruction_base_out
  assume run: "process_swap_base_out R pid accounts swap w = Done w'"
    and load: "amm_load w (accounts ! 1) = Done amm0" and off: "off_market amm0"
    and dist: "distinct (map ai_key accounts)"
  obtain A T t d fee input amm status where
    A: "swap_parse_accounts accounts = Done A" and T: "swap_check R pid A amm0 w = Done T"
    and status: "status_from_u64 (amm_status amm0) = Done status"
    and res: "swap_result A amm (orderbook_permission status) t d input (amount_out swap) fee w w'"
    using process_swap_base_out_effects [OF run load] by blast
  then show "only_tokens R amm0 w w'"
    using swap_only_transfers [OF A dist _ T] off_market_status [OF off status] swap_ends(2) [OF run] by simp
qed

section \<open>A token program\<close>

text \<open>
  A runtime whose token program moves tokens. The data of a token account is a byte that tells its
  mint and owner, and its amount.
\<close>

definition sample_purse :: "u8 \<Rightarrow> u64 \<Rightarrow> bytes" where
  "sample_purse tag n = tag # to_le_bytes n"

definition sample_purse_unpack :: "bytes \<Rightarrow> token_account option" where
  "sample_purse_unpack bs =
     (case bs of
        [] \<Rightarrow> None
      | tag # amount \<Rightarrow>
          if length amount = 8 then
            Some (sample_token (if tag = 1 \<or> tag = 3 then 201 else 202) (if tag = 1 \<or> tag = 2 then 50 else 110)
              (from_le_bytes amount))
          else None)"

definition sample_pay :: "pubkey \<Rightarrow> u64 \<Rightarrow> ledger \<Rightarrow> ledger" where
  "sample_pay k n l = l(k := (l k)\<lparr>acc_data := sample_purse (hd (acc_data (l k))) n\<rparr>)"

definition sample_move :: "cpi \<Rightarrow> ledger \<Rightarrow> ledger outcome" where
  "sample_move c l =
     (case cpi_ix c of
        SplTransfer _ src dst _ n \<Rightarrow>
          (case (sample_purse_unpack (acc_data (l src)), sample_purse_unpack (acc_data (l dst))) of
             (Some s, Some d) \<Rightarrow>
               if acc_owner (l src) \<noteq> 1 \<or> acc_owner (l dst) \<noteq> 1 \<or> uint n > uint (ta_amount s) then Panic
               else if src = dst then Done l
               else if uint (ta_amount d) + uint n \<ge> 2 ^ 64 then Panic
               else Done (sample_pay dst (ta_amount d + n) (sample_pay src (ta_amount s - n) l))
           | _ \<Rightarrow> Panic)
      | _ \<Rightarrow> Done l)"

definition sample_token_runtime :: runtime where
  "sample_token_runtime = sample_runtime\<lparr>rt_token_unpack := sample_purse_unpack, rt_invoke := sample_move\<rparr>"

lemma sample_purse_unpack_purse:
  "sample_purse_unpack (sample_purse tag n) =
     Some (sample_token (if tag = 1 \<or> tag = 3 then 201 else 202) (if tag = 1 \<or> tag = 2 then 50 else 110) n)"
  by (simp add: sample_purse_unpack_def sample_purse_def length_to_le_bytes from_to_le_bytes)

lemma sample_pay_balance:
  "sample_purse_unpack (acc_data (l k)) \<noteq> None \<Longrightarrow>
     balance sample_token_runtime (sample_pay k n l) v =
       (if v = k \<and> acc_owner (l k) = 1 then Some (uint n) else balance sample_token_runtime l v)"
  by (auto simp: balance_def sample_pay_def sample_token_runtime_def sample_purse_unpack_purse)

lemma sample_token_law: "token_law sample_token_runtime"
  unfolding token_law_def
proof (intro allI impI)
  fix c l l' v b
  assume run: "rt_invoke sample_token_runtime c l = Done l'" and call: "token_call v c"
    and b: "balance sample_token_runtime l v = Some b"
  have m: "sample_move c l = Done l'"
    using run by (simp add: sample_token_runtime_def)
  show "balance sample_token_runtime l' v = Some (b + token_flow v c)"
  proof (cases "\<exists>tp src dst own n. cpi_ix c = SplTransfer tp src dst own n")
    case False
    then have "l' = l" "token_flow v c = 0"
      using m call by (auto simp: sample_move_def token_flow_def token_call_def split: cpi_data.splits)
    then show ?thesis using b by simp
  next
    case True
    then obtain tp src dst own n where ix: "cpi_ix c = SplTransfer tp src dst own n" by blast
    obtain s d where u: "sample_purse_unpack (acc_data (l src)) = Some s"
      "sample_purse_unpack (acc_data (l dst)) = Some d"
      using m by (auto simp: sample_move_def ix split: option.splits)
    show ?thesis
    proof (cases "src = dst")
      case True
      then show ?thesis
        using m b u by (auto simp: sample_move_def ix token_flow_def split: if_splits)
    next
      case False
      then have l': "l' = sample_pay dst (ta_amount d + n) (sample_pay src (ta_amount s - n) l)"
        and r: "uint n \<le> uint (ta_amount s)" "uint (ta_amount d) + uint n < 2 ^ 64"
        using m u by (auto simp: sample_move_def ix split: if_splits)
      have keep: "sample_pay src x l dst = l dst" for x
        using False by (simp add: sample_pay_def)
      have val: "uint (ta_amount s - n) = uint (ta_amount s) - uint n"
        "uint (ta_amount d + n) = uint (ta_amount d) + uint n"
        using r uint_add_lem [of "ta_amount d" n] by (simp_all add: uint_sub_lem)
      have "balance sample_token_runtime l k = (if acc_owner (l k) = 1 then Some (uint (ta_amount t)) else None)"
        if "sample_purse_unpack (acc_data (l k)) = Some t" for k t
        using that by (simp add: balance_def sample_token_runtime_def)
      note bal = this [OF u(1)] this [OF u(2)]
      show ?thesis
        using b bal False u val
        by (auto simp: l' sample_pay_balance keep token_flow_def ix split: if_splits)
    qed
  qed
qed

lemma sample_token_isolated: "cpi_isolated sample_token_runtime 7"
  by (auto simp: cpi_isolated_def sample_token_runtime_def sample_move_def sample_pay_def
      split: cpi_data.splits option.splits if_splits)

definition sample_vault_ledger :: ledger where
  "sample_vault_ledger = sample_ledger(
     104 := \<lparr>acc_owner = 1, acc_lamports = 1, acc_data = sample_purse 1 1000\<rparr>,
     105 := \<lparr>acc_owner = 1, acc_lamports = 1, acc_data = sample_purse 2 4000\<rparr>,
     107 := \<lparr>acc_owner = 1, acc_lamports = 1, acc_data = sample_purse 3 500\<rparr>,
     108 := \<lparr>acc_owner = 1, acc_lamports = 1, acc_data = sample_purse 4 9000\<rparr>)"

definition sample_vault_world :: world where
  "sample_vault_world = \<lparr>ledger = sample_vault_ledger, cpis = []\<rparr>"

lemma sample_vault_pool [simp]:
  "amm_load sample_vault_world (sample_info 100) = Done sample_amm"
  "amm_load_mut_checked sample_vault_world (sample_info 100) 7 = Done sample_amm"
proof -
  have acc: "acc_of sample_vault_world (sample_info 100) = acc_of sample_world (sample_info 100)"
    by (simp add: acc_of_def sample_vault_world_def sample_vault_ledger_def sample_world_def)
  show l: "amm_load sample_vault_world (sample_info 100) = Done sample_amm"
    using sample_amm_load by (simp add: amm_load_def acc)
  show "amm_load_mut_checked sample_vault_world (sample_info 100) 7 = Done sample_amm"
    using sample_load_checked(1) by (simp add: amm_load_mut_checked_Done acc l)
qed

lemma sample_vault_unpack [simp]:
  "unpack_token_account sample_token_runtime sample_vault_world (sample_info 104) 1 = Done (sample_token 201 50 1000)"
  "unpack_token_account sample_token_runtime sample_vault_world (sample_info 105) 1 = Done (sample_token 202 50 4000)"
  "unpack_token_account sample_token_runtime sample_vault_world (sample_info 107) 1 = Done (sample_token 201 110 500)"
  "unpack_token_account sample_token_runtime sample_vault_world (sample_info 108) 1 = Done (sample_token 202 110 9000)"
  by (simp_all add: unpack_token_account_Done acc_of_def sample_vault_world_def sample_vault_ledger_def
      sample_token_runtime_def sample_purse_unpack_purse)

lemma sample_token_runtime_simps [simp]:
  "rt_create_program_address sample_token_runtime s k = Some 50"
  "rt_spl_token_id sample_token_runtime = 1"
  "rt_clock sample_token_runtime = Done \<lparr>clk_epoch = 700, clk_unix_timestamp = 1000\<rparr>"
  "rt_invoke sample_token_runtime = sample_move"
  by (simp_all add: sample_token_runtime_def)

lemma sample_vault_moves:
  "\<exists>w'. swap_transfers sample_token_runtime A (sample_info 104) (sample_info 105) amm 400 1140 sample_vault_world =
     Done w'"
  if "sw_user_source A = sample_info 107" "sw_user_destination A = sample_info 108"
  using that
  by (simp add: swap_transfers_def token_transfer_def token_transfer_with_authority_def invoke_signed_def
      sample_move_def sample_vault_world_def sample_vault_ledger_def sample_pay_def sample_purse_unpack_purse)

lemma sample_vault_run:
  "\<exists>w'. process sample_token_runtime 7 sample_swap_accounts sample_trade sample_vault_world = Done w'"
proof -
  have "\<exists>w'. process_swap_base_in sample_token_runtime 7 sample_swap_accounts
      \<lparr>amount_in = 400, minimum_amount_out = 1000\<rparr> sample_vault_world = Done w'"
    using sample_vault_moves
    by (simp add: process_swap_base_in_def and_then_Done swap_parse_accounts_def sample_swap_accounts_def
        swap_check_def authority_id_def swap_status_def status_from_u64_def swap_calc_totals_def
        calc_total_without_take_pnl_no_orderbook_def checked_sub_def swap_direction_of_def swap_finish_def
        account_coin_to_pc_def checked_add_def sample_state_data_def narrow_def sample_swap_in_quote
        swap_in_coin_to_pc_def)
  then show ?thesis
    by (simp add: process_Done sample_trade_unpacked)
qed

section \<open>The program on the ledger\<close>

lemma trade_settles:
  assumes "token_law R" and "process R pid accounts input w = Done w'" and "unpack input = Done i"
    and "is_trade i" and "amm_load w (accounts ! 1) = Done a" and "off_market a"
    and "swap_fee_numerator (amm_fees a) \<le> swap_fee_denominator (amm_fees a)"
    and "distinct (map ai_key accounts)"
  shows "settles_step R i (accounts ! 1) a w w'"
proof -
  have run: "dispatch i R pid accounts w = Done w'"
    using assms(2,3) by (simp add: process_Done)
  show ?thesis
    using run assms(4)
      deposit_vaults.run_settles [OF assms(1) _ assms(5-8)]
      withdraw_vaults.run_settles [OF assms(1) _ assms(5-8)]
      swap_in_vaults.run_settles [OF assms(1) _ assms(5-8)]
      swap_out_vaults.run_settles [OF assms(1) _ assms(5-8)]
    by (cases i) auto
qed

text \<open>
  C6: the vaults back the shares. On a pool that is off the order book, a trade that the program
  runs moves the ledger as the abstract pool moves. Before it either vault holds the pool's
  tokens and, on top of them, exactly the profit that the stored pool owes; the trade sets
  aside the profit by which that grows, a swap none; what is left takes the step that the
  instruction asks for, with the program's quote for its amounts, the pool's own fees and the
  limits of the instruction; and after it either vault holds the pool's tokens and exactly the profit
  then owed. The calls mint and burn the step's shares, the stored shares are those of the
  abstract pool before and after, and a share is worth no less after the step.
  The accounts of the transaction are pairwise distinct.
\<close>

theorem trades_settle_vaults:
  assumes "token_law R" and "process R pid accounts input w = Done w'" and "unpack input = Done i"
    and "is_trade i" and "amm_load w (accounts ! 1) = Done a" and "off_market a"
    and "swap_fee_numerator (amm_fees a) \<le> swap_fee_denominator (amm_fees a)"
    and "distinct (map ai_key accounts)"
  shows "\<exists>a' s0 s s'.
    holds R (ledger w) a (amm_state_data a) s0 \<and> pool_lp s0 = uint (lp_amount a) \<and>
    set_aside i a a' s0 s \<and> trade_step (amm_fees a) i s s' \<and>
    amm_load w' (accounts ! 1) = Done a' \<and>
    holds R (ledger w') a (amm_state_data a') s' \<and> pool_lp s' = uint (lp_amount a') \<and>
    (\<exists>new. cpis w' = cpis w @ new \<and> pool_lp s' - pool_lp s = net (share_flow (amm_lp_mint a)) new) \<and>
    (live s \<longrightarrow> live s' \<and> value_kept s s')"
  using trade_settles [OF assms] trade_keeps [OF _ assms(7)]
  unfolding settles_step_def pool_moved_def by blast

lemma sample_vault_holds:
  "holds sample_token_runtime sample_vault_ledger sample_amm (amm_state_data sample_amm) s \<Longrightarrow>
     pool_pc s = 4000 \<and> pool_coin s = 1000"
  by (simp add: holds_def balance_def sample_vault_ledger_def sample_token_runtime_def
      sample_purse_unpack_purse sample_state_data_def)

theorem trades_settle_vaults_witness:
  "\<exists>w' a' s'. process sample_token_runtime 7 sample_swap_accounts sample_trade sample_vault_world = Done w' \<and>
     amm_load w' (sample_info 100) = Done a' \<and>
     trade_step sample_fees (SwapBaseIn \<lparr>amount_in = 400, minimum_amount_out = 1000\<rparr>) (pool_of 4000 1000 2000) s' \<and>
     holds sample_token_runtime (ledger w') sample_amm (amm_state_data a') s'"
proof -
  obtain w' where run: "process sample_token_runtime 7 sample_swap_accounts sample_trade sample_vault_world = Done w'"
    using sample_vault_run by blast
  have load: "amm_load sample_vault_world (sample_swap_accounts ! 1) = Done sample_amm"
    unfolding sample_trade_distinct(1) by (rule sample_vault_pool)
  have off: "off_market sample_amm" by (simp add: off_market_iff)
  obtain a' s0 s s' where h: "holds sample_token_runtime (ledger sample_vault_world) sample_amm (amm_state_data sample_amm) s0"
      "pool_lp s0 = uint (lp_amount sample_amm)"
    and a: "set_aside (SwapBaseIn \<lparr>amount_in = 400, minimum_amount_out = 1000\<rparr>) sample_amm a' s0 s"
    and st: "trade_step (amm_fees sample_amm) (SwapBaseIn \<lparr>amount_in = 400, minimum_amount_out = 1000\<rparr>) s s'"
    and e: "amm_load w' (sample_swap_accounts ! 1) = Done a'"
      "holds sample_token_runtime (ledger w') sample_amm (amm_state_data a') s'"
    using trades_settle_vaults [OF sample_token_law run sample_trade_unpacked is_trade.simps(3) [THEN eqTrueE]
      load off sample_trade_distinct(3,2)] by blast
  have "pool_pc s0 = 4000 \<and> pool_coin s0 = 1000"
    using h(1) sample_vault_holds by (simp add: sample_vault_world_def)
  then have "s = pool_of 4000 1000 2000"
    using h(2) a by (simp add: set_aside_def pool_of_def)
  then show ?thesis
    using run st e [unfolded sample_trade_distinct(1)]
    by (intro exI [of _ w'] exI [of _ a'] exI [of _ s']) simp
qed

section \<open>Swaps, one after the other\<close>

text \<open>What a swap keeps of its pool beside its tokens.\<close>

definition swap_keeps :: "amm_info \<Rightarrow> amm_info \<Rightarrow> bool" where
  "swap_keeps a b \<longleftrightarrow>
     amm_fees b = amm_fees a \<and> lp_amount b = lp_amount a \<and>
     amm_pc_vault b = amm_pc_vault a \<and> amm_coin_vault b = amm_coin_vault a \<and>
     need_take_pnl_pc (amm_state_data b) = need_take_pnl_pc (amm_state_data a) \<and>
     need_take_pnl_coin (amm_state_data b) = need_take_pnl_coin (amm_state_data a) \<and>
     (off_market a \<longrightarrow> off_market b)"

lemma swap_status_keeps:
  "swap_status R a = Done b \<Longrightarrow> swap_keeps a b"
  by (auto simp: swap_status_def swap_keeps_def and_then_Done off_market_iff split: if_splits)

lemma swap_result_keeps:
  assumes "swap_parse_accounts accounts = Done A" and "swap_status R a = Done b"
    and "swap_result A b e t d i out fee w w'"
  shows "\<exists>a'. amm_load w' (accounts ! 1) = Done a' \<and> swap_keeps a a'"
proof -
  obtain sd epoch where "amm_load w' (sw_amm A) = Done (b\<lparr>amm_state_data := sd, recent_epoch := epoch\<rparr>)"
    and "need_take_pnl_pc sd = need_take_pnl_pc (amm_state_data b)"
      "need_take_pnl_coin sd = need_take_pnl_coin (amm_state_data b)"
    using assms(3) unfolding swap_result_def by blast
  then show ?thesis
    using swap_status_keeps [OF assms(2)] swap_parse_amm [OF assms(1)]
    by (auto simp: swap_keeps_def off_market_iff)
qed

lemma swap_in_keeps:
  assumes "process_swap_base_in R pid accounts swap w = Done w'"
    and "amm_load w (accounts ! 1) = Done a"
    and "swap_fee_numerator (amm_fees a) \<le> swap_fee_denominator (amm_fees a)"
  shows "\<exists>a'. amm_load w' (accounts ! 1) = Done a' \<and> swap_keeps a a'"
  using process_swap_base_in_effects [OF assms] swap_result_keeps by blast

lemma swap_out_keeps:
  assumes "process_swap_base_out R pid accounts swap w = Done w'"
    and "amm_load w (accounts ! 1) = Done a"
  shows "\<exists>a'. amm_load w' (accounts ! 1) = Done a' \<and> swap_keeps a a'"
  using process_swap_base_out_effects [OF assms] swap_result_keeps by blast

text \<open>
  The ledgers that follow a ledger by swaps of the pool at \<open>k\<close>, whoever sends them and whatever
  clock and market the runtime then shows, and by transactions of others, which leave the pool's
  account alone and take nothing from its vaults.
\<close>

definition same_tokens :: "runtime \<Rightarrow> runtime \<Rightarrow> bool" where
  "same_tokens R R' \<longleftrightarrow> rt_spl_token_id R' = rt_spl_token_id R \<and> rt_token_unpack R' = rt_token_unpack R"

lemma same_tokens_balance: "same_tokens R R' \<Longrightarrow> balance R' = balance R"
  by (simp add: same_tokens_def balance_def fun_eq_iff)

lemma same_tokens_holds: "same_tokens R R' \<Longrightarrow> holds R' = holds R"
  by (simp add: holds_def fun_eq_iff same_tokens_balance)

definition leaves_pool :: "runtime \<Rightarrow> pubkey \<Rightarrow> pubkey \<Rightarrow> ledger \<Rightarrow> ledger \<Rightarrow> bool" where
  "leaves_pool R pid k l l' \<longleftrightarrow> l' k = l k \<and>
     (\<forall>a v b. pool_at pid l k = Some a \<longrightarrow> v \<in> {amm_pc_vault a, amm_coin_vault a} \<longrightarrow>
        balance R l v = Some b \<longrightarrow> (\<exists>b'. balance R l' v = Some b' \<and> b \<le> b'))"

inductive swapped :: "runtime \<Rightarrow> pubkey \<Rightarrow> pubkey \<Rightarrow> ledger \<Rightarrow> ledger \<Rightarrow> bool" for R pid k where
  no_swap: "swapped R pid k l l"
| one_swap: "swapped R pid k l l1 \<Longrightarrow> same_tokens R R' \<Longrightarrow> token_law R' \<Longrightarrow> cpi_isolated R' pid \<Longrightarrow>
    process R' pid accounts input \<lparr>ledger = l1, cpis = []\<rparr> = Done w \<Longrightarrow>
    unpack input = Done i \<Longrightarrow> is_swap i \<Longrightarrow> ai_key (accounts ! 1) = k \<Longrightarrow>
    distinct (map ai_key accounts) \<Longrightarrow> swapped R pid k l (ledger w)"
| by_others: "swapped R pid k l l1 \<Longrightarrow> leaves_pool R pid k l1 l2 \<Longrightarrow> swapped R pid k l l2"

text \<open>The pool at an address, off the order book, with the tokens that its vaults hold for it.\<close>

definition reserves :: "runtime \<Rightarrow> pubkey \<Rightarrow> pubkey \<Rightarrow> ledger \<Rightarrow> pool \<Rightarrow> bool" where
  "reserves R pid k l s \<longleftrightarrow>
     (\<exists>a. pool_at pid l k = Some a \<and> off_market a \<and>
        swap_fee_numerator (amm_fees a) \<le> swap_fee_denominator (amm_fees a) \<and>
        holds R l a (amm_state_data a) s \<and> pool_lp s = uint (lp_amount a))"

lemma pool_at_load:
  "pool_at pid (ledger w) (ai_key info) = Some a \<Longrightarrow> amm_load w info = Done a"
  by (auto simp: pool_at_def amm_load_def acc_of_def split: if_splits)

lemma holds_unique:
  "holds R l a sd s \<Longrightarrow> holds R l a sd' s' \<Longrightarrow> need_take_pnl_pc sd' = need_take_pnl_pc sd \<Longrightarrow>
     need_take_pnl_coin sd' = need_take_pnl_coin sd \<Longrightarrow> pool_pc s' = pool_pc s \<and> pool_coin s' = pool_coin s"
  by (auto simp: holds_def)

lemma value_kept_product:
  assumes "value_kept s s'" and "pool_lp s' = pool_lp s" and "live s"
  shows "pool_pc s * pool_coin s \<le> pool_pc s' * pool_coin s'"
proof -
  have "0 < pool_lp s * pool_lp s" using assms(3) by (simp add: live_def)
  then show ?thesis
    using assms(1,2) by (simp add: value_kept_def mult_le_cancel_right)
qed

lemma one_swap_reserves:
  assumes "reserves R pid k (ledger w) s" and "live s" and "same_tokens R R'" and "token_law R'"
    and "cpi_isolated R' pid" and run: "process R' pid accounts input w = Done w'"
    and i: "unpack input = Done i" and "is_swap i" and k: "ai_key (accounts ! 1) = k"
    and dist: "distinct (map ai_key accounts)"
  shows "\<exists>s'. reserves R pid k (ledger w') s' \<and> live s' \<and> pool_lp s' = pool_lp s \<and>
    pool_pc s * pool_coin s \<le> pool_pc s' * pool_coin s'"
proof -
  obtain a where at: "pool_at pid (ledger w) k = Some a" and off: "off_market a"
    and fees: "swap_fee_numerator (amm_fees a) \<le> swap_fee_denominator (amm_fees a)"
    and h: "holds R (ledger w) a (amm_state_data a) s" and lp: "pool_lp s = uint (lp_amount a)"
    using assms(1) unfolding reserves_def by blast
  have load: "amm_load w (accounts ! 1) = Done a"
    using pool_at_load at k by blast
  have "is_trade i" using assms(8) by (cases i) simp_all
  then obtain a' t t' s' where t: "holds R (ledger w) a (amm_state_data a) t" "pool_lp t = uint (lp_amount a)"
    and aside: "set_aside i a a' t t'" and st: "trade_step (amm_fees a) i t' s'"
    and m: "pool_moved (accounts ! 1) a a' w w' t' s'"
    and s': "holds R (ledger w') a (amm_state_data a') s'"
    using trade_settles [OF assms(4) run i _ load off fees dist] same_tokens_holds [OF assms(3)]
    unfolding settles_step_def by auto
  have a': "amm_load w' (accounts ! 1) = Done a'" "pool_lp s' = uint (lp_amount a')"
    using m unfolding pool_moved_def by blast+
  have keeps: "swap_keeps a a'"
    using run i assms(8) a'(1)
    by (cases i) (auto simp: process_Done dest!: swap_in_keeps [OF _ load fees] swap_out_keeps [OF _ load])
  have "t' = s"
    using holds_unique [OF h t(1)] t(2) lp aside assms(8) by (simp add: set_aside_def)
  then have "live s'" "value_kept s s'"
    using trade_keeps [OF st fees] assms(2) by simp_all
  moreover have "pool_lp s' = pool_lp s" using a'(2) keeps lp by (simp add: swap_keeps_def)
  moreover have "pool_at pid (ledger w') k = Some a'"
    using program.run_keeps_pool [OF assms(5) run at] pool_at_load k a'(1) by fastforce
  then have "reserves R pid k (ledger w') s'"
    using keeps off fees s' a'(2) unfolding reserves_def by (auto simp: swap_keeps_def holds_def)
  ultimately show ?thesis
    using value_kept_product assms(2) by blast
qed

lemma by_others_reserves:
  assumes "reserves R pid k l s" and "live s" and "leaves_pool R pid k l l'"
  shows "\<exists>s'. reserves R pid k l' s' \<and> live s' \<and> pool_lp s' = pool_lp s \<and>
    pool_pc s * pool_coin s \<le> pool_pc s' * pool_coin s'"
proof -
  obtain a where at: "pool_at pid l k = Some a" and off: "off_market a"
    and fees: "swap_fee_numerator (amm_fees a) \<le> swap_fee_denominator (amm_fees a)"
    and h: "holds R l a (amm_state_data a) s" and lp: "pool_lp s = uint (lp_amount a)"
    using assms(1) unfolding reserves_def by blast
  note grow = assms(3) [unfolded leaves_pool_def, THEN conjunct2, rule_format]
  obtain p c where p: "balance R l' (amm_pc_vault a) = Some p"
      "pool_pc s + uint (need_take_pnl_pc (amm_state_data a)) \<le> p"
    and c: "balance R l' (amm_coin_vault a) = Some c"
      "pool_coin s + uint (need_take_pnl_coin (amm_state_data a)) \<le> c"
    using grow [OF at _ h [unfolded holds_def, THEN conjunct1]]
      grow [OF at _ h [unfolded holds_def, THEN conjunct2]] by auto
  let ?s = "s\<lparr>pool_pc := p - uint (need_take_pnl_pc (amm_state_data a)),
    pool_coin := c - uint (need_take_pnl_coin (amm_state_data a))\<rparr>"
  have "pool_pc s \<le> pool_pc ?s" "pool_coin s \<le> pool_coin ?s"
    using p(2) c(2) by simp_all
  then have "live ?s" "pool_pc s * pool_coin s \<le> pool_pc ?s * pool_coin ?s"
    using assms(2) unfolding live_def by (auto intro!: mult_mono)
  moreover have "pool_at pid l' k = pool_at pid l k"
    using assms(3) by (simp add: pool_at_def leaves_pool_def)
  then have "reserves R pid k l' ?s"
    using at off fees p(1) c(1) lp unfolding reserves_def holds_def by auto
  ultimately show ?thesis by (intro exI [of _ ?s]) simp
qed

text \<open>
  C7: swaps never drain a pool. However many swaps are run on a pool that is off the order book, by
  whomever, in whatever order and with whatever amounts, and whatever others send to its vaults in
  between, the pool stays, its vaults still cover the profit owed, hold coin and pc above it, and
  the product of what they hold above it has not fallen.
\<close>

theorem swaps_never_drain:
  assumes "swapped R pid k l l'" and "reserves R pid k l s" and "live s"
  shows "\<exists>s'. reserves R pid k l' s' \<and> live s' \<and> pool_lp s' = pool_lp s \<and>
    pool_pc s * pool_coin s \<le> pool_pc s' * pool_coin s'"
  using assms
proof (induction rule: swapped.induct)
  case (no_swap l)
  then show ?case by blast
next
  case (one_swap l l1 R' accounts input w i)
  then obtain t where t: "reserves R pid k l1 t" "live t" "pool_lp t = pool_lp s"
    "pool_pc s * pool_coin s \<le> pool_pc t * pool_coin t"
    by blast
  have "reserves R pid k (ledger \<lparr>ledger = l1, cpis = []\<rparr>) t" using t(1) by simp
  then obtain u where u: "reserves R pid k (ledger w) u" "live u" "pool_lp u = pool_lp t"
    "pool_pc t * pool_coin t \<le> pool_pc u * pool_coin u"
    using one_swap_reserves [OF _ t(2) one_swap.hyps(2-9)] by blast
  have "pool_pc s * pool_coin s \<le> pool_pc u * pool_coin u" by (rule order_trans [OF t(4) u(4)])
  then show ?case using u(1-3) t(3) by (intro exI [of _ u]) simp
next
  case (by_others l l1 l2)
  then obtain t where t: "reserves R pid k l1 t" "live t" "pool_lp t = pool_lp s"
    "pool_pc s * pool_coin s \<le> pool_pc t * pool_coin t"
    by blast
  obtain u where u: "reserves R pid k l2 u" "live u" "pool_lp u = pool_lp t"
    "pool_pc t * pool_coin t \<le> pool_pc u * pool_coin u"
    using by_others_reserves [OF t(1,2) by_others.hyps(2)] by blast
  have "pool_pc s * pool_coin s \<le> pool_pc u * pool_coin u" by (rule order_trans [OF t(4) u(4)])
  then show ?case using u(1-3) t(3) by (intro exI [of _ u]) simp
qed

theorem swaps_never_drain_witness:
  "\<exists>l' s'. swapped sample_token_runtime 7 100 sample_vault_ledger l' \<and>
     reserves sample_token_runtime 7 100 l' s' \<and> live s' \<and> 4000 * 1000 \<le> pool_pc s' * pool_coin s'"
proof -
  let ?s = "\<lparr>pool_pc = 4000, pool_coin = 1000, pool_lp = 2000\<rparr>"
  obtain w' where run: "process sample_token_runtime 7 sample_swap_accounts sample_trade
      \<lparr>ledger = sample_vault_ledger, cpis = []\<rparr> = Done w'"
    using sample_vault_run by (auto simp: sample_vault_world_def)
  have "same_tokens sample_token_runtime sample_token_runtime"
    by (simp add: same_tokens_def)
  from one_swap [OF no_swap this sample_token_law sample_token_isolated run sample_trade_unpacked]
  have swapped: "swapped sample_token_runtime 7 100 sample_vault_ledger (ledger w')"
    by (simp add: sample_swap_accounts_def)
  have "pool_at 7 sample_vault_ledger 100 = Some sample_amm"
    using pool_at_loaded [OF sample_vault_pool(2)] by (simp add: sample_vault_world_def)
  moreover have "holds sample_token_runtime sample_vault_ledger sample_amm (amm_state_data sample_amm) ?s"
    by (simp add: holds_def balance_def sample_vault_ledger_def sample_token_runtime_def
        sample_purse_unpack_purse sample_state_data_def)
  ultimately have "reserves sample_token_runtime 7 100 sample_vault_ledger ?s"
    by (auto simp: reserves_def off_market_iff sample_fees_def)
  from swaps_never_drain [OF swapped this] show ?thesis
    using swapped by (auto simp: live_def)
qed

end
