(* ===== verification/Ray_Log.thy ===== *)
theory Ray_Log
  imports Runtime
begin

text \<open>
  The log records of \<open>program/src/log.rs\<close>. A handler encodes a record and prints it, and an
  observer decodes the printed line. The two crates that do the work are parameters: \<open>bincode\<close>
  turns a record into bytes, \<open>base64\<close> bytes into text; \<open>documented\<close> says what is documented of them.
  The handlers' models leave the printing out; the theorems here say why this is sound: neither
  the log of a record nor the report of a mismatched key can fail.
\<close>

section \<open>Records\<close>

datatype log_type = LogInit | LogDeposit | LogWithdraw | LogSwapBaseIn | LogSwapBaseOut

primrec log_into_u8 :: "log_type \<Rightarrow> u8" where
  "log_into_u8 LogInit = 0"
| "log_into_u8 LogDeposit = 1"
| "log_into_u8 LogWithdraw = 2"
| "log_into_u8 LogSwapBaseIn = 3"
| "log_into_u8 LogSwapBaseOut = 4"

definition log_from_u8 :: "u8 \<Rightarrow> log_type outcome" where
  "log_from_u8 t =
     (if t = 0 then Done LogInit
      else if t = 1 then Done LogDeposit
      else if t = 2 then Done LogWithdraw
      else if t = 3 then Done LogSwapBaseIn
      else if t = 4 then Done LogSwapBaseOut
      else Panic)"

lemma log_from_into [simp]: "log_from_u8 (log_into_u8 t) = Done t"
  by (cases t) (simp_all add: log_from_u8_def)

record init_log =
  il_log_type :: u8
  il_time :: u64
  il_pc_decimals :: u8
  il_coin_decimals :: u8
  il_pc_lot_size :: u64
  il_coin_lot_size :: u64
  il_pc_amount :: u64
  il_coin_amount :: u64
  il_market :: pubkey

record deposit_log =
  dl_log_type :: u8
  dl_max_coin :: u64
  dl_max_pc :: u64
  dl_base :: u64
  dl_pool_coin :: u64
  dl_pool_pc :: u64
  dl_pool_lp :: u64
  dl_calc_pnl_x :: u128
  dl_calc_pnl_y :: u128
  dl_deduct_coin :: u64
  dl_deduct_pc :: u64
  dl_mint_lp :: u64

record withdraw_log =
  wl_log_type :: u8
  wl_withdraw_lp :: u64
  wl_user_lp :: u64
  wl_pool_coin :: u64
  wl_pool_pc :: u64
  wl_pool_lp :: u64
  wl_calc_pnl_x :: u128
  wl_calc_pnl_y :: u128
  wl_out_coin :: u64
  wl_out_pc :: u64

record swap_base_in_log =
  sil_log_type :: u8
  sil_amount_in :: u64
  sil_minimum_out :: u64
  sil_direction :: u64
  sil_user_source :: u64
  sil_pool_coin :: u64
  sil_pool_pc :: u64
  sil_out_amount :: u64

record swap_base_out_log =
  sol_log_type :: u8
  sol_max_in :: u64
  sol_amount_out :: u64
  sol_direction :: u64
  sol_user_source :: u64
  sol_pool_coin :: u64
  sol_pool_pc :: u64
  sol_deduct_in :: u64

text \<open>The records that \<open>encode_ray_log\<close> is called with, and the tag each carries.\<close>

datatype ray_log =
    RayInit init_log
  | RayDeposit deposit_log
  | RayWithdraw withdraw_log
  | RaySwapBaseIn swap_base_in_log
  | RaySwapBaseOut swap_base_out_log

primrec log_tag :: "ray_log \<Rightarrow> u8" where
  "log_tag (RayInit l) = il_log_type l"
| "log_tag (RayDeposit l) = dl_log_type l"
| "log_tag (RayWithdraw l) = wl_log_type l"
| "log_tag (RaySwapBaseIn l) = sil_log_type l"
| "log_tag (RaySwapBaseOut l) = sol_log_type l"

primrec log_kind :: "ray_log \<Rightarrow> log_type" where
  "log_kind (RayInit l) = LogInit"
| "log_kind (RayDeposit l) = LogDeposit"
| "log_kind (RayWithdraw l) = LogWithdraw"
| "log_kind (RaySwapBaseIn l) = LogSwapBaseIn"
| "log_kind (RaySwapBaseOut l) = LogSwapBaseOut"

section \<open>Layouts\<close>

text \<open>
  The derived layouts: the fields in order, integers of fixed width in little-endian order, a
  key as its 32 bytes. Each is a packed struct like those of the program's accounts.
\<close>

definition init_log_bytes :: "init_log \<Rightarrow> bytes" where
  "init_log_bytes l =
     to_le_bytes (il_log_type l) @
     to_le_bytes (il_time l) @
     to_le_bytes (il_pc_decimals l) @
     to_le_bytes (il_coin_decimals l) @
     to_le_bytes (il_pc_lot_size l) @
     to_le_bytes (il_coin_lot_size l) @
     to_le_bytes (il_pc_amount l) @
     to_le_bytes (il_coin_amount l) @
     to_le_bytes (il_market l)"

definition get_init_log :: "bytes \<Rightarrow> init_log \<times> bytes" where
  "get_init_log b0 =
     (let
        (v1, b1) = get_le b0;
        (v2, b2) = get_le b1;
        (v3, b3) = get_le b2;
        (v4, b4) = get_le b3;
        (v5, b5) = get_le b4;
        (v6, b6) = get_le b5;
        (v7, b7) = get_le b6;
        (v8, b8) = get_le b7;
        (v9, b9) = get_le b8
      in (\<lparr>il_log_type = v1,
          il_time = v2,
          il_pc_decimals = v3,
          il_coin_decimals = v4,
          il_pc_lot_size = v5,
          il_coin_lot_size = v6,
          il_pc_amount = v7,
          il_coin_amount = v8,
          il_market = v9\<rparr>, b9))"

definition deposit_log_bytes :: "deposit_log \<Rightarrow> bytes" where
  "deposit_log_bytes l =
     to_le_bytes (dl_log_type l) @
     to_le_bytes (dl_max_coin l) @
     to_le_bytes (dl_max_pc l) @
     to_le_bytes (dl_base l) @
     to_le_bytes (dl_pool_coin l) @
     to_le_bytes (dl_pool_pc l) @
     to_le_bytes (dl_pool_lp l) @
     to_le_bytes (dl_calc_pnl_x l) @
     to_le_bytes (dl_calc_pnl_y l) @
     to_le_bytes (dl_deduct_coin l) @
     to_le_bytes (dl_deduct_pc l) @
     to_le_bytes (dl_mint_lp l)"

definition get_deposit_log :: "bytes \<Rightarrow> deposit_log \<times> bytes" where
  "get_deposit_log b0 =
     (let
        (v1, b1) = get_le b0;
        (v2, b2) = get_le b1;
        (v3, b3) = get_le b2;
        (v4, b4) = get_le b3;
        (v5, b5) = get_le b4;
        (v6, b6) = get_le b5;
        (v7, b7) = get_le b6;
        (v8, b8) = get_le b7;
        (v9, b9) = get_le b8;
        (v10, b10) = get_le b9;
        (v11, b11) = get_le b10;
        (v12, b12) = get_le b11
      in (\<lparr>dl_log_type = v1,
          dl_max_coin = v2,
          dl_max_pc = v3,
          dl_base = v4,
          dl_pool_coin = v5,
          dl_pool_pc = v6,
          dl_pool_lp = v7,
          dl_calc_pnl_x = v8,
          dl_calc_pnl_y = v9,
          dl_deduct_coin = v10,
          dl_deduct_pc = v11,
          dl_mint_lp = v12\<rparr>, b12))"

definition withdraw_log_bytes :: "withdraw_log \<Rightarrow> bytes" where
  "withdraw_log_bytes l =
     to_le_bytes (wl_log_type l) @
     to_le_bytes (wl_withdraw_lp l) @
     to_le_bytes (wl_user_lp l) @
     to_le_bytes (wl_pool_coin l) @
     to_le_bytes (wl_pool_pc l) @
     to_le_bytes (wl_pool_lp l) @
     to_le_bytes (wl_calc_pnl_x l) @
     to_le_bytes (wl_calc_pnl_y l) @
     to_le_bytes (wl_out_coin l) @
     to_le_bytes (wl_out_pc l)"

definition get_withdraw_log :: "bytes \<Rightarrow> withdraw_log \<times> bytes" where
  "get_withdraw_log b0 =
     (let
        (v1, b1) = get_le b0;
        (v2, b2) = get_le b1;
        (v3, b3) = get_le b2;
        (v4, b4) = get_le b3;
        (v5, b5) = get_le b4;
        (v6, b6) = get_le b5;
        (v7, b7) = get_le b6;
        (v8, b8) = get_le b7;
        (v9, b9) = get_le b8;
        (v10, b10) = get_le b9
      in (\<lparr>wl_log_type = v1,
          wl_withdraw_lp = v2,
          wl_user_lp = v3,
          wl_pool_coin = v4,
          wl_pool_pc = v5,
          wl_pool_lp = v6,
          wl_calc_pnl_x = v7,
          wl_calc_pnl_y = v8,
          wl_out_coin = v9,
          wl_out_pc = v10\<rparr>, b10))"

definition swap_base_in_log_bytes :: "swap_base_in_log \<Rightarrow> bytes" where
  "swap_base_in_log_bytes l =
     to_le_bytes (sil_log_type l) @
     to_le_bytes (sil_amount_in l) @
     to_le_bytes (sil_minimum_out l) @
     to_le_bytes (sil_direction l) @
     to_le_bytes (sil_user_source l) @
     to_le_bytes (sil_pool_coin l) @
     to_le_bytes (sil_pool_pc l) @
     to_le_bytes (sil_out_amount l)"

definition get_swap_base_in_log :: "bytes \<Rightarrow> swap_base_in_log \<times> bytes" where
  "get_swap_base_in_log b0 =
     (let
        (v1, b1) = get_le b0;
        (v2, b2) = get_le b1;
        (v3, b3) = get_le b2;
        (v4, b4) = get_le b3;
        (v5, b5) = get_le b4;
        (v6, b6) = get_le b5;
        (v7, b7) = get_le b6;
        (v8, b8) = get_le b7
      in (\<lparr>sil_log_type = v1,
          sil_amount_in = v2,
          sil_minimum_out = v3,
          sil_direction = v4,
          sil_user_source = v5,
          sil_pool_coin = v6,
          sil_pool_pc = v7,
          sil_out_amount = v8\<rparr>, b8))"

definition swap_base_out_log_bytes :: "swap_base_out_log \<Rightarrow> bytes" where
  "swap_base_out_log_bytes l =
     to_le_bytes (sol_log_type l) @
     to_le_bytes (sol_max_in l) @
     to_le_bytes (sol_amount_out l) @
     to_le_bytes (sol_direction l) @
     to_le_bytes (sol_user_source l) @
     to_le_bytes (sol_pool_coin l) @
     to_le_bytes (sol_pool_pc l) @
     to_le_bytes (sol_deduct_in l)"

definition get_swap_base_out_log :: "bytes \<Rightarrow> swap_base_out_log \<times> bytes" where
  "get_swap_base_out_log b0 =
     (let
        (v1, b1) = get_le b0;
        (v2, b2) = get_le b1;
        (v3, b3) = get_le b2;
        (v4, b4) = get_le b3;
        (v5, b5) = get_le b4;
        (v6, b6) = get_le b5;
        (v7, b7) = get_le b6;
        (v8, b8) = get_le b7
      in (\<lparr>sol_log_type = v1,
          sol_max_in = v2,
          sol_amount_out = v3,
          sol_direction = v4,
          sol_user_source = v5,
          sol_pool_coin = v6,
          sol_pool_pc = v7,
          sol_deduct_in = v8\<rparr>, b8))"

interpretation init_log: account_struct init_log_bytes get_init_log "\<lambda>_. True" 75
  by unfold_locales (simp_all add: init_log_bytes_def get_init_log_def length_to_le_bytes)

interpretation deposit_log: account_struct deposit_log_bytes get_deposit_log "\<lambda>_. True" 105
  by unfold_locales (simp_all add: deposit_log_bytes_def get_deposit_log_def length_to_le_bytes)

interpretation withdraw_log: account_struct withdraw_log_bytes get_withdraw_log "\<lambda>_. True" 89
  by unfold_locales (simp_all add: withdraw_log_bytes_def get_withdraw_log_def length_to_le_bytes)

interpretation swap_base_in_log: account_struct swap_base_in_log_bytes get_swap_base_in_log "\<lambda>_. True" 57
  by unfold_locales (simp_all add: swap_base_in_log_bytes_def get_swap_base_in_log_def length_to_le_bytes)

interpretation swap_base_out_log: account_struct swap_base_out_log_bytes get_swap_base_out_log "\<lambda>_. True" 57
  by unfold_locales (simp_all add: swap_base_out_log_bytes_def get_swap_base_out_log_def length_to_le_bytes)

primrec ray_log_bytes :: "ray_log \<Rightarrow> bytes" where
  "ray_log_bytes (RayInit l) = init_log_bytes l"
| "ray_log_bytes (RayDeposit l) = deposit_log_bytes l"
| "ray_log_bytes (RayWithdraw l) = withdraw_log_bytes l"
| "ray_log_bytes (RaySwapBaseIn l) = swap_base_in_log_bytes l"
| "ray_log_bytes (RaySwapBaseOut l) = swap_base_out_log_bytes l"

lemma ray_log_bytes_length: "0 < length (ray_log_bytes l) \<and> length (ray_log_bytes l) \<le> 105"
  by (cases l)
     (simp_all add: init_log.length_to_bytes deposit_log.length_to_bytes withdraw_log.length_to_bytes
       swap_base_in_log.length_to_bytes swap_base_out_log.length_to_bytes)

lemma ray_log_bytes_head: "hd (ray_log_bytes l) = log_tag l"
proof -
  have "to_le_bytes (t :: u8) = [t]" for t
    by (simp add: to_le_bytes_def)
  then show ?thesis
    by (cases l) (simp_all add: init_log_bytes_def
        deposit_log_bytes_def
        withdraw_log_bytes_def
        swap_base_in_log_bytes_def
        swap_base_out_log_bytes_def)
qed

section \<open>Encoding and decoding\<close>

record log_crates =
  lc_serialize :: "ray_log \<Rightarrow> bytes"
  lc_deserialize :: "log_type \<Rightarrow> bytes \<Rightarrow> ray_log option"
  lc_encode :: "bytes \<Rightarrow> bytes"
  lc_decode :: "bytes \<Rightarrow> bytes option"

text \<open>
  What is documented: \<open>bincode\<close> writes the layout above and reads it back, \<open>base64\<close> writes four
  characters for every three bytes begun and reads them back.
\<close>

definition documented :: "log_crates \<Rightarrow> bool" where
  "documented C \<longleftrightarrow>
     (\<forall>l. lc_serialize C l = ray_log_bytes l) \<and>
     (\<forall>l. lc_deserialize C (log_kind l) (ray_log_bytes l) = Some l) \<and>
     (\<forall>bs. length (lc_encode C bs) = 4 * ((length bs + 2) div 3)) \<and>
     (\<forall>bs. lc_decode C (lc_encode C bs) = Some bs)"

definition text_bytes :: "string \<Rightarrow> bytes" where
  "text_bytes s = map of_char s"

definition LOG_SIZE :: nat where
  "LOG_SIZE = 256"

text \<open>A formatted line is built in a buffer of \<open>LOG_SIZE\<close> bytes, and one that does not fit panics.\<close>

definition arrform :: "bytes \<Rightarrow> bytes outcome" where
  "arrform line = (if length line \<le> LOG_SIZE then Done line else Panic)"

text \<open>The line printed for a record; \<open>base64\<close> panics when its buffer is too short.\<close>

definition encode_ray_log :: "log_crates \<Rightarrow> ray_log \<Rightarrow> bytes outcome" where
  "encode_ray_log C log =
     (let bytes = lc_serialize C log; room = length bytes * 4 div 3 + 4; encoded = lc_encode C bytes in
      if length encoded > room then Panic
      else arrform (text_bytes ''ray_log: '' @ encoded))"

text \<open>The record that an observer prints.\<close>

definition decode_ray_log :: "log_crates \<Rightarrow> bytes \<Rightarrow> ray_log outcome" where
  "decode_ray_log C log =
     and_then (unwrap (lc_decode C log)) (\<lambda>bytes.
     if bytes = [] then Panic
     else
       and_then (log_from_u8 (hd bytes)) (\<lambda>t.
         unwrap (lc_deserialize C t bytes)))"

text \<open>The report of a mismatched key, and the macro that checks a key.\<close>

definition log_keys_mismatch :: "(pubkey \<Rightarrow> string) \<Rightarrow> string \<Rightarrow> pubkey \<Rightarrow> pubkey \<Rightarrow> bytes outcome" where
  "log_keys_mismatch key_string msg input expected =
     arrform (text_bytes (''ray_log: '' @ msg @ '' input:'' @ key_string input @ '', expected:'' @
       key_string expected))"

definition check_assert_eq ::
  "(pubkey \<Rightarrow> string) \<Rightarrow> pubkey \<Rightarrow> pubkey \<Rightarrow> string \<Rightarrow> amm_error \<Rightarrow> unit outcome" where
  "check_assert_eq key_string input expected msg e =
     (if input \<noteq> expected then
        and_then (log_keys_mismatch key_string (msg @ '' mismatch:'') input expected) (\<lambda>_. err e)
      else Done ())"

text \<open>
  Keys print in at most 44 characters. The longest name that the program checks has 28, so that
  the macro is the plain comparison that the handlers' models make.
\<close>

lemma check_assert_eq_plain:
  assumes "\<And>k. length (key_string k) \<le> 44" and "length msg \<le> 28"
  shows "check_assert_eq key_string input expected msg e =
    (if input \<noteq> expected then err e else Done ())"
proof -
  have "length (key_string input) + length (key_string expected) \<le> 88"
    using add_mono [OF assms(1) [of input] assms(1) [of expected]] by simp
  then show ?thesis
    using assms(2) by (simp add: check_assert_eq_def log_keys_mismatch_def arrform_def text_bytes_def LOG_SIZE_def)
qed

lemma base64_room: "4 * ((n + 2) div 3) \<le> n * 4 div 3 + (4 :: nat)"
  by presburger

lemma encode_ray_log_fits:
  assumes "documented C"
  shows "encode_ray_log C l = Done (text_bytes ''ray_log: '' @ lc_encode C (ray_log_bytes l))"
proof -
  have "(length (ray_log_bytes l) + 2) div 3 \<le> 35"
    using ray_log_bytes_length [of l] by linarith
  then show ?thesis
    using assms base64_room [of "length (ray_log_bytes l)"]
    by (simp add: encode_ray_log_def documented_def arrform_def text_bytes_def LOG_SIZE_def)
qed

text \<open>
  C26: logging cannot make an instruction fail, and what is printed can be read. For any record that
  carries the tag of its kind, as those that the handlers build do, both buffers are long enough,
  the line is at most 149 bytes long, and decoding what follows its prefix gives the record back.
\<close>

theorem logs_read_back:
  assumes "documented C" and "log_tag l = log_into_u8 (log_kind l)"
  shows "\<exists>line. encode_ray_log C l = Done line \<and> length line \<le> 149 \<and>
    decode_ray_log C (drop 9 line) = Done l"
proof -
  let ?line = "text_bytes ''ray_log: '' @ lc_encode C (ray_log_bytes l)"
  have "length ?line \<le> 149"
    using assms(1) ray_log_bytes_length [of l] by (auto simp: documented_def text_bytes_def)
  moreover have "decode_ray_log C (drop 9 ?line) = Done l"
    using assms ray_log_bytes_head [of l] ray_log_bytes_length [of l]
    by (simp add: decode_ray_log_def documented_def text_bytes_def)
  ultimately show ?thesis
    using encode_ray_log_fits [OF assms(1)] by blast
qed

text \<open>The two crates by their definitions: the layouts, and the Base 64 encoding with padding.\<close>

definition sample_alphabet :: bytes where
  "sample_alphabet = text_bytes ''ABCDEFGHIJKLMNOPQRSTUVWXYZabcdefghijklmnopqrstuvwxyz0123456789+/''"

definition sample_digit :: "nat \<Rightarrow> u8" where
  "sample_digit n = sample_alphabet ! n"

definition sample_value :: "u8 \<Rightarrow> nat option" where
  "sample_value c = map_of (zip sample_alphabet [0..<64]) c"

fun sample_base64 :: "bytes \<Rightarrow> bytes" where
  "sample_base64 [] = []"
| "sample_base64 [a] =
     [sample_digit (unat a div 4), sample_digit (unat a mod 4 * 16), 61, 61]"
| "sample_base64 [a, b] =
     [sample_digit (unat a div 4), sample_digit (unat a mod 4 * 16 + unat b div 16),
      sample_digit (unat b mod 16 * 4), 61]"
| "sample_base64 (a # b # c # bs) =
     sample_digit (unat a div 4) # sample_digit (unat a mod 4 * 16 + unat b div 16) #
     sample_digit (unat b mod 16 * 4 + unat c div 64) # sample_digit (unat c mod 64) # sample_base64 bs"

fun sample_unbase64 :: "bytes \<Rightarrow> bytes option" where
  "sample_unbase64 [] = Some []"
| "sample_unbase64 (p # q # r # s # cs) =
     (case (sample_value p, sample_value q, sample_value r, sample_value s) of
        (Some i, Some j, Some k, Some l) \<Rightarrow>
          map_option (\<lambda>bs. of_nat (i * 4 + j div 16) # of_nat (j mod 16 * 16 + k div 4) #
            of_nat (k mod 4 * 64 + l) # bs) (sample_unbase64 cs)
      | (Some i, Some j, Some k, None) \<Rightarrow> Some [of_nat (i * 4 + j div 16), of_nat (j mod 16 * 16 + k div 4)]
      | (Some i, Some j, None, None) \<Rightarrow> Some [of_nat (i * 4 + j div 16)]
      | _ \<Rightarrow> None)"
| "sample_unbase64 _ = None"

lemma sample_alphabet_ok: "length sample_alphabet = 64" "distinct sample_alphabet" "61 \<notin> set sample_alphabet"
  by code_simp+

lemma sample_value_digit: "n < 64 \<Longrightarrow> sample_value (sample_digit n) = Some n"
  using sample_alphabet_ok(1,2)
  by (simp add: sample_value_def sample_digit_def map_of_zip_nth)

lemma sample_value_pad: "sample_value 61 = None"
  using sample_alphabet_ok(1,3) by (simp add: sample_value_def map_of_zip_is_None)

lemma sample_byte: "unat (a :: u8) < 256"
  using unsigned_less [of a] by simp

lemma sample_byte_parts:
  "unat (a :: u8) div 4 < 64" "unat a mod 4 * 16 < 64" "unat a mod 4 * 16 + unat (b :: u8) div 16 < 64"
  "unat b mod 16 * 4 < 64" "unat b mod 16 * 4 + unat (c :: u8) div 64 < 64" "unat c mod 64 < 64"
  using sample_byte [of a] sample_byte [of b] sample_byte [of c] by linarith+

lemma sample_byte_top:
  "unat (a :: u8) div 16 div 16 = 0" "unat a div 16 mod 16 = unat a div 16"
  "unat a div 64 div 4 = 0" "unat a div 64 mod 4 = unat a div 64"
  using sample_byte [of a] by (simp_all add: div_mult2_eq [symmetric])

lemma sample_unbase64_base64: "sample_unbase64 (sample_base64 bs) = Some bs"
  by (induction bs rule: sample_base64.induct)
     (simp_all add: sample_value_digit sample_value_pad sample_byte_parts sample_byte_top
       del: of_nat_add of_nat_mult)

lemma three_more: "(Suc (Suc (Suc n)) + 2) div 3 = Suc ((n + 2) div 3)"
  by presburger

lemma length_sample_base64: "length (sample_base64 bs) = 4 * ((length bs + 2) div 3)"
  by (induction bs rule: sample_base64.induct) (simp_all add: three_more [simplified])

definition sample_crates :: log_crates where
  "sample_crates = \<lparr>
     lc_serialize = ray_log_bytes,
     lc_deserialize = (\<lambda>t bs. case t of
         LogInit \<Rightarrow> Some (RayInit (fst (get_init_log bs)))
       | LogDeposit \<Rightarrow> Some (RayDeposit (fst (get_deposit_log bs)))
       | LogWithdraw \<Rightarrow> Some (RayWithdraw (fst (get_withdraw_log bs)))
       | LogSwapBaseIn \<Rightarrow> Some (RaySwapBaseIn (fst (get_swap_base_in_log bs)))
       | LogSwapBaseOut \<Rightarrow> Some (RaySwapBaseOut (fst (get_swap_base_out_log bs)))),
     lc_encode = sample_base64,
     lc_decode = sample_unbase64\<rparr>"

lemmas log_struct_reads = init_log.get_to_bytes [of _ "[]"] deposit_log.get_to_bytes [of _ "[]"]
  withdraw_log.get_to_bytes [of _ "[]"] swap_base_in_log.get_to_bytes [of _ "[]"]
  swap_base_out_log.get_to_bytes [of _ "[]"]

lemma documented_sample_crates: "documented sample_crates"
proof -
  have "lc_deserialize sample_crates (log_kind l) (ray_log_bytes l) = Some l" for l
    using log_struct_reads by (cases l) (simp_all add: sample_crates_def)
  then show ?thesis
    by (simp add: documented_def length_sample_base64 sample_unbase64_base64)
       (simp add: sample_crates_def length_sample_base64 sample_unbase64_base64)
qed

definition sample_log :: ray_log where
  "sample_log = RaySwapBaseIn \<lparr>sil_log_type = 3, sil_amount_in = 400, sil_minimum_out = 1000,
     sil_direction = 2, sil_user_source = 500, sil_pool_coin = 1000, sil_pool_pc = 4000,
     sil_out_amount = 1140\<rparr>"

theorem logs_read_back_witness:
  "\<exists>line. encode_ray_log sample_crates sample_log = Done line \<and>
     decode_ray_log sample_crates (drop 9 line) = Done sample_log"
  using logs_read_back [OF documented_sample_crates, of sample_log] by (auto simp: sample_log_def)

end
