(* ===== verification/Spec2Isabelle.thy ===== *)
theory Spec2Isabelle
  imports Client Vaults Ray_Log
begin

text \<open>
  A model of the Raydium AMM program for Solana (\<open>program/src\<close>), as of the repository's commit.

  \<^bold>\<open>The program.\<close> A pool holds two tokens, coin and pc, in two vaults, and a mint of shares. Users
  deposit and withdraw liquidity and swap one token for the other at a constant product; keepers
  move the pool's idle liquidity to the order book of a market program in small steps; the
  administrator sets parameters, cancels orders, migrates a pool to another market and takes the
  profit set aside. Every instruction arrives as bytes with a list of accounts.
  \<open>Processor::process\<close> unpacks the bytes (\<open>instruction.rs\<close>) and runs one handler
  (\<open>processor.rs\<close>). A handler loads the pool, its target orders and the config from their accounts
  (\<open>state.rs\<close>), checks every account, computes with \<open>math.rs\<close>, calls the token, market and system
  programs (\<open>invokers.rs\<close>) and writes the structs back.

  \<^bold>\<open>State and effects.\<close> A \<open>world\<close> is the ledger, a map from keys to accounts with owner, balance and
  data bytes, together with the list of the calls made so far, each with its data, accounts and
  signer seeds. A handler is a function from a runtime, the program's id, the accounts, the
  unpacked arguments and a world to an \<open>outcome\<close> of a world: \<open>Done\<close>, \<open>Fail\<close> with the program's
  error, or \<open>Panic\<close> for every \<open>unwrap\<close> of nothing, overflow, failed assertion and index out of
  range. Structs are records with the source's fields, enumerations are datatypes with their
  \<open>u64\<close> codes, integers are words of their width. Structs are stored in their packed
  little-endian layout, so that a load after a store is a theorem and a wrong owner, size or
  status fails as in the code.

  \<^bold>\<open>What is not code of the repository\<close> is a field of the record \<open>runtime\<close> (theory \<open>Runtime\<close>), a
  parameter of every handler: derived addresses, the token crate's \<open>unpack\<close>, the market crate's
  loads, slabs and event queue, clock and rent, the integer square roots of the big-integer crate,
  the text form of keys, and what a call does to the ledger. Where a theorem needs a law of it, the
  law is a hypothesis with a name: \<open>sqrt_spec\<close> (the roots are exact), \<open>cpi_isolated\<close> (a call to
  another program does not write this program's accounts), \<open>token_law\<close> (a transfer moves its
  amount and mints and burns touch no other account), \<open>documented\<close> (the crates that write and read
  the log). Theory \<open>Samples\<close> has a runtime, a pool and a ledger on which the witnesses run.

  \<^bold>\<open>Theories, in the order they build on one another.\<close>
  \<^item> \<open>Prelude\<close>: words, checked and saturating arithmetic, outcomes, bytes of integers.
  \<^item> \<open>Amm_Error\<close> (\<open>error.rs\<close>): the errors, their numbers and messages.
  \<^item> \<open>Amm_Types\<close> (\<open>state.rs\<close>): statuses, states, parameters, permissions, structs.
  \<^item> \<open>Calc\<close>, \<open>Quotes\<close> (\<open>math.rs\<close>): the calculator, exchange rates, ceiling division, and what the
    quotes promise.
  \<^item> \<open>Instruction\<close> (\<open>instruction.rs\<close>): \<open>unpack\<close> and \<open>pack\<close> of all instructions.
  \<^item> \<open>Amm_State\<close> (\<open>state.rs\<close>): initialisation, client order ids, packed layouts.
  \<^item> \<open>Runtime\<close> (\<open>invokers.rs\<close>, the loads of \<open>state.rs\<close>), \<open>Samples\<close>.
  \<^item> \<open>Market\<close>: the pool's orders and totals on the market, batches of order ids.
  \<^item> \<open>Pnl\<close> (\<open>calc_take_pnl\<close>), \<open>Deposit\<close>, \<open>Withdraw\<close> (also \<open>process_withdrawpnl\<close>), \<open>Swap\<close> (both
    directions of both handlers, and their settlements), \<open>Pool\<close> (the abstract pool, its steps and
    what they keep).
  \<^item> \<open>Admin\<close> (\<open>process_set_params\<close>, config, SRM, \<open>process_admin_cancel_orders\<close>), \<open>Initialize\<close>
    (\<open>process_initialize2\<close> and the accounts it creates), \<open>Migrate\<close>.
  \<^item> \<open>Plan\<close>, \<open>Place\<close>, \<open>Monitor\<close>: \<open>process_monitor_step\<close> with its six states.
  \<^item> \<open>Simulate\<close>: \<open>process_simulate_info\<close>, the read-only instructions.
  \<^item> \<open>Persist\<close>: what every handler keeps of every pool.
  \<^item> \<open>Trades\<close>: what a pool owns in its vaults and on the market, and how each of the four trades
    moves it by a step of the abstract pool.
  \<^item> \<open>Dispatch\<close> (\<open>Processor::process\<close>, \<open>entrypoint.rs\<close>): what holds of the whole program.
  \<^item> \<open>Vaults\<close>: trades on the ledger, under the law of the token program.
  \<^item> \<open>Client\<close> (\<open>instruction.rs\<close>): the functions that build instructions, and what a client that
    uses them can rely on.
  \<^item> \<open>Ray_Log\<close> (\<open>log.rs\<close>): the log records, their encoding and decoding.

  A handler is split where the code has a block of its own: \<open>*_parse_accounts\<close> takes the accounts
  by position, \<open>*_check\<close> is the run of guards in the code's order, \<open>*_quote\<close> the amounts,
  \<open>*_transfers\<close> the calls, and the handler composes them. Early returns are branches.

  \<^bold>\<open>Interfaces.\<close> Each is a locale, interpreted on the definitions that provide it.
  \<^item> \<open>codec\<close>, \<open>codec_seq\<close>: a writer and a parser of bytes that invert each other; the integers of
    \<open>Instruction\<close>.
  \<^item> \<open>account_struct\<close>: a packed struct with its size; the three structs of accounts and the five
    log records.
  \<^item> \<open>ceil_division\<close>: the rounding of both implementations of \<open>CheckedCeilDiv\<close>.
  \<^item> \<open>constant_product\<close>: the two quoting functions over the reserve that takes and the reserve that
    pays; both directions.
  \<^item> \<open>order_batches\<close>: order ids in arrays of eight; one side and both sides of the book.
  \<^item> \<open>swap_leg\<close>: the transfers and statistics of one direction of one swap handler; all four.
  \<^item> \<open>pool_handler\<close>: a handler that takes what a pool owns through the step its instruction asks for;
    the four trades.
  \<^item> \<open>vault_handler\<close>, which extends it: a handler that moves tokens of the vaults by token calls only,
    so that on the ledger they move as the abstract pool; the four trades.
  \<^item> \<open>privileged\<close>: a handler that needs a named signer; the seven of administration.
  \<^item> \<open>monitor_phase\<close>: what a state of the monitor may change and where it goes; the six states.
  \<^item> \<open>pool_safe\<close>: what a handler keeps of every pool; all handlers, and the program.

  \<^bold>\<open>What is shown.\<close> Of each handler, its effect when it succeeds: who signed, which calls were made
  in which order with which amounts, and what is stored, field by field. Of the trades, that they
  refine the abstract pool, whose value per share never falls; of the quotes, their exact bounds,
  rounding and adjunction, and where they panic. Of the profit, that it is moved and not created
  and goes only to those entitled. Of the monitor, the state machine it implements, the invariant
  of its plan, that planning ends, and that what is placed is what was planned. Of the program,
  that privileged instructions need their signer, that a trade takes what the pool really owns, less
  the profit it sets aside, through the step that the instruction asks for at the pool's own fees,
  and moves the vaults on the ledger like it, so that swaps never drain them, and that a pool once
  created keeps its identity and its ranges over any sequence of transactions of anybody. Of the bytes, round trips in both directions, and that what clients build is what the
  handlers read. Of a client's trade, that its limits hold at whatever time it runs.

  \<^bold>\<open>Bounds and loops.\<close> There is no fuel in the model of the code: its loops run over lists (order
  ids, events, orders to plan) or count to a limit that the instruction carries, and are recursion
  on that list or number. Only the square root of \<open>Samples\<close> iterates a fixed number of times, one
  for each bit of its result. \<open>MAX_ORDER_LIMIT\<close>, array lengths and sizes are those of the source.

  \<^bold>\<open>Not modelled.\<close> Printing: \<open>msg!\<close> and the calls of \<open>encode_ray_log\<close> and \<open>check_assert_eq\<close>'s report
  are left out of the handlers; \<open>Ray_Log\<close> shows that they cannot fail, and every other formatted
  line of the source is shorter than its buffer of 256 bytes. The JSON form of a simulation's
  result. Borrow failures of an account that is passed twice, where the theorem needs it distinct
  accounts are a hypothesis. The runtime's own rules (a transaction that fails changes nothing,
  balances are kept, only an owner writes an account) appear as far as a theorem states them. The
  big integers of the source are words whose operations are checked like the source's; where
  their macro would panic on overflow, so does the model. The crate root, the ids of the test
  networks, \<open>impl Default\<close> under \<open>cfg(test)\<close> and the tests.
\<close>

end
